(* ===== verification/Prelude.thy ===== *)
theory Prelude
  imports Main "HOL-Library.Word" "HOL-Library.Monad_Syntax" "HOL-Library.Multiset"
    "HOL-Library.Sublist"
begin

text \<open>
  Shared vocabulary of the development: the types of Rust values as the components use them, the
  pieces of the Rust standard library on slices, strings and numbers that the sources call, and
  the generic facts about lists and options that the component proofs rest on.

  A computation that may panic has type \<open>'a may_panic\<close>: \<open>Some\<close> is a normal return and \<open>None\<close> is
  a panic, so that \<open>do\<close>-notation sequences it the way Rust evaluates it. A Rust \<open>Result<T, E>\<close>
  is the sum \<open>E + T\<close>, with \<open>Inl\<close> for \<open>Err\<close> and \<open>Inr\<close> for \<open>Ok\<close>. A byte is an \<open>8 word\<close>; a byte
  slice, and the UTF-8 contents of a \<open>&str\<close>, is a list of them.
\<close>

unbundle bit_operations_syntax

named_theorems rust_std \<open>equations of the modelled standard library\<close>
named_theorems panic_free \<open>conditions under which an operation returns normally\<close>

type_synonym byte = "8 word"
type_synonym bytes = "byte list"
type_synonym 'a may_panic = "'a option"

abbreviation panic :: "'a may_panic" where
  "panic \<equiv> None"

abbreviation Ok :: "'a \<Rightarrow> 'e + 'a" where
  "Ok \<equiv> Inr"

abbreviation Err :: "'e \<Rightarrow> 'e + 'a" where
  "Err \<equiv> Inl"

text \<open>\<open>b\"...\"\<close>: the bytes of an ASCII literal.\<close>

definition ascii :: "string \<Rightarrow> bytes" where
  "ascii s = map of_char s"

subsection \<open>Slices and indices\<close>

text \<open>\<open>xs[i]\<close>, \<open>&xs[..i]\<close> and \<open>&xs[i..]\<close> panic out of range.\<close>

definition index_at :: "'a list \<Rightarrow> nat \<Rightarrow> 'a may_panic" where
  "index_at xs i = (if i < length xs then Some (xs ! i) else panic)"

definition slice_to :: "'a list \<Rightarrow> nat \<Rightarrow> 'a list may_panic" where
  "slice_to xs i = (if i \<le> length xs then Some (take i xs) else panic)"

definition slice_from :: "'a list \<Rightarrow> nat \<Rightarrow> 'a list may_panic" where
  "slice_from xs i = (if i \<le> length xs then Some (drop i xs) else panic)"

text \<open>\<open>slice::first\<close> and \<open>slice::last\<close>.\<close>

definition slice_first :: "'a list \<Rightarrow> 'a option" where
  "slice_first xs = (case xs of [] \<Rightarrow> None | x # _ \<Rightarrow> Some x)"

definition slice_last :: "'a list \<Rightarrow> 'a option" where
  "slice_last xs = (if xs = [] then None else Some (last xs))"

text \<open>\<open>Iterator::position\<close> and \<open>Iterator::rposition\<close>.\<close>

fun position :: "('a \<Rightarrow> bool) \<Rightarrow> 'a list \<Rightarrow> nat option" where
  "position P [] = None"
| "position P (x # xs) = (if P x then Some 0 else map_option Suc (position P xs))"

definition rposition :: "('a \<Rightarrow> bool) \<Rightarrow> 'a list \<Rightarrow> nat option" where
  "rposition P xs = map_option (\<lambda>i. length xs - Suc i) (position P (rev xs))"

lemma index_at_simps [simp, rust_std]:
  "i < length xs \<Longrightarrow> index_at xs i = Some (xs ! i)"
  "length xs \<le> i \<Longrightarrow> index_at xs i = None"
  by (simp_all add: index_at_def)

lemma slice_simps [simp, rust_std]:
  "i \<le> length xs \<Longrightarrow> slice_to xs i = Some (take i xs)"
  "i \<le> length xs \<Longrightarrow> slice_from xs i = Some (drop i xs)"
  "length xs < i \<Longrightarrow> slice_to xs i = None"
  "length xs < i \<Longrightarrow> slice_from xs i = None"
  by (simp_all add: slice_to_def slice_from_def)

lemma slice_last_simps [simp, rust_std]:
  "slice_last [] = None" "slice_last (xs @ [x]) = Some x"
  "xs \<noteq> [] \<Longrightarrow> slice_last xs = Some (last xs)"
  by (simp_all add: slice_last_def)

lemma slice_last_eq_Some: "slice_last xs = Some x \<longleftrightarrow> (\<exists>ys. xs = ys @ [x])"
  by (auto simp: slice_last_def) (metis append_butlast_last_id)

lemma slice_first_simps [simp, rust_std]:
  "slice_first [] = None" "slice_first (x # xs) = Some x"
  by (simp_all add: slice_first_def)

lemma slice_first_eq_Some: "slice_first xs = Some x \<longleftrightarrow> (\<exists>ys. xs = x # ys)"
  by (cases xs) auto

lemma position_None_iff [simp]: "position P xs = None \<longleftrightarrow> (\<forall>x \<in> set xs. \<not> P x)"
  by (induction xs) auto

lemma position_split [simp]:
  "P x \<Longrightarrow> \<forall>y \<in> set ys. \<not> P y \<Longrightarrow> position P (ys @ x # zs) = Some (length ys)"
  by (induction ys) auto

lemma position_SomeD:
  "position P xs = Some i \<Longrightarrow>
     \<exists>ys x zs. xs = ys @ x # zs \<and> length ys = i \<and> P x \<and> (\<forall>y \<in> set ys. \<not> P y)"
proof (induction xs arbitrary: i)
  case (Cons a xs)
  show ?case
  proof (cases "P a")
    case True
    with Cons.prems show ?thesis by force
  next
    case False
    with Cons.prems obtain j where "position P xs = Some j" "i = Suc j" by auto
    with Cons.IH obtain ys x zs where "xs = ys @ x # zs" "length ys = j" "P x"
      "\<forall>y \<in> set ys. \<not> P y"
      by blast
    with False \<open>i = Suc j\<close> have "a # xs = (a # ys) @ x # zs \<and> length (a # ys) = i \<and> P x \<and>
        (\<forall>y \<in> set (a # ys). \<not> P y)"
      by simp
    then show ?thesis by blast
  qed
qed simp

text \<open>Where a position is found the list splits there; every use of \<open>position\<close> rests on this.\<close>

lemma position_Some_iff:
  "position P xs = Some i \<longleftrightarrow>
     (\<exists>ys x zs. xs = ys @ x # zs \<and> length ys = i \<and> P x \<and> (\<forall>y \<in> set ys. \<not> P y))"
  by (rule iffI, erule position_SomeD) auto

lemma position_Some_less: "position P xs = Some i \<Longrightarrow> i < length xs"
  by (auto simp: position_Some_iff)

lemma rposition_None_iff [simp]: "rposition P xs = None \<longleftrightarrow> (\<forall>x \<in> set xs. \<not> P x)"
  by (simp add: rposition_def)

lemma rposition_split [simp]:
  "P x \<Longrightarrow> \<forall>y \<in> set zs. \<not> P y \<Longrightarrow> rposition P (ys @ x # zs) = Some (length ys)"
  by (simp add: rposition_def)

lemma rposition_Some_iff:
  "rposition P xs = Some i \<longleftrightarrow>
     (\<exists>ys x zs. xs = ys @ x # zs \<and> length ys = i \<and> P x \<and> (\<forall>y \<in> set zs. \<not> P y))"
proof
  assume "rposition P xs = Some i"
  then obtain j where j: "position P (rev xs) = Some j" "i = length xs - Suc j"
    by (auto simp: rposition_def)
  then obtain us x vs where s: "rev xs = us @ x # vs" "length us = j" "P x" "\<forall>y \<in> set us. \<not> P y"
    by (auto simp: position_Some_iff)
  then have "xs = rev vs @ x # rev us" by (simp add: rev_swap)
  moreover from this s j have "length (rev vs) = i" by simp
  ultimately show "\<exists>ys x zs. xs = ys @ x # zs \<and> length ys = i \<and> P x \<and> (\<forall>y \<in> set zs. \<not> P y)"
    using s by (metis set_rev)
qed auto

lemma position_eq_simps [simp]:
  "x \<notin> set ys \<Longrightarrow> position (\<lambda>b. b = x) (ys @ x # zs) = Some (length ys)"
  "x \<notin> set zs \<Longrightarrow> rposition (\<lambda>b. b = x) (ys @ x # zs) = Some (length ys)"
  "x \<notin> set ys \<Longrightarrow> position (\<lambda>b. b = x) ys = None"
  "x \<notin> set ys \<Longrightarrow> rposition (\<lambda>b. b = x) ys = None"
  by (auto intro!: position_split rposition_split)

lemma split_at_first:
  assumes "x \<in> set xs" "P x"
  obtains ys y zs where "xs = ys @ y # zs" "P y" "\<forall>z \<in> set ys. \<not> P z"
    "position P xs = Some (length ys)"
  using assms split_list_first_prop [of xs P] by (metis position_split)

subsection \<open>Strings\<close>

text \<open>\<open>[String]::join\<close>.\<close>

fun join_with :: "'a list \<Rightarrow> 'a list list \<Rightarrow> 'a list" where
  "join_with sep [] = []"
| "join_with sep [s] = s"
| "join_with sep (s # t # ss) = s @ sep @ join_with sep (t # ss)"

text \<open>The pieces of a list between the occurrences of a separator.\<close>

fun split_on :: "'a \<Rightarrow> 'a list \<Rightarrow> 'a list list" where
  "split_on x [] = [[]]"
| "split_on x (y # ys) =
     (if y = x then [] # split_on x ys
      else (case split_on x ys of [] \<Rightarrow> [[y]] | l # ls \<Rightarrow> (y # l) # ls))"

lemma split_on_not_Nil [simp]: "split_on x ys \<noteq> []"
  by (induction ys) (auto split: list.split)

lemma split_on_none [simp]: "x \<notin> set ys \<Longrightarrow> split_on x ys = [ys]"
  by (induction ys) auto

lemma split_on_append [simp]: "split_on x (ys @ x # zs) = split_on x ys @ split_on x zs"
  by (induction ys) (auto split: list.split)

lemma split_on_no_sep: "l \<in> set (split_on x ys) \<Longrightarrow> x \<notin> set l"
  by (induction ys arbitrary: l) (auto split: if_splits list.splits)

lemma split_on_subset: "l \<in> set (split_on x ys) \<Longrightarrow> set l \<subseteq> set ys"
proof (induction ys arbitrary: l)
  case (Cons y ys)
  then show ?case
    by (cases "split_on x ys") (auto split: if_splits dest: Cons.IH, blast+)
qed simp

lemma join_split_on: "join_with [x] (split_on x ys) = ys"
proof (induction ys)
  case (Cons y ys)
  then obtain l ls where "split_on x ys = l # ls" by (cases "split_on x ys") auto
  with Cons show ?case by (cases ls) auto
qed simp

lemma split_on_eq_single: "split_on x ys = [l] \<longleftrightarrow> x \<notin> set ys \<and> l = ys"
  by (metis in_set_conv_decomp join_split_on join_with.simps(2) split_on_append split_on_none
      append_eq_Cons_conv append_is_Nil_conv split_on_not_Nil)

lemma last_split_on_Nil: "last (split_on x ys) = [] \<longleftrightarrow> ys = [] \<or> last ys = x"
proof (cases "x \<in> set ys")
  case True
  then obtain us vs where "ys = us @ x # vs" "x \<notin> set vs" by (meson split_list_last)
  then show ?thesis by auto
next
  case False
  then show ?thesis by (cases ys rule: rev_cases) auto
qed

text \<open>\<open>Display\<close> of an unsigned integer: its decimal digits.\<close>

fun decimal :: "nat \<Rightarrow> string" where
  "decimal n = (if n < 10 then [char_of (48 + n)] else decimal (n div 10) @ [char_of (48 + n mod 10)])"

declare decimal.simps [simp del]

text \<open>A text without line breaks.\<close>

definition single_line :: "string \<Rightarrow> bool" where
  "single_line s \<longleftrightarrow> CHR 10 \<notin> set s"

lemma single_line_append [simp]: "single_line (s @ t) \<longleftrightarrow> single_line s \<and> single_line t"
  by (auto simp: single_line_def)

lemma single_line_Nil [simp]: "single_line []"
  by (simp add: single_line_def)

lemma single_line_Cons [simp]: "single_line (c # s) \<longleftrightarrow> c \<noteq> CHR 10 \<and> single_line s"
  by (auto simp: single_line_def)

lemma single_line_join:
  "single_line sep \<Longrightarrow> \<forall>s \<in> set ss. single_line s \<Longrightarrow> single_line (join_with sep ss)"
  by (induction sep ss rule: join_with.induct) auto

lemma decimal_not_newline: "c \<in> set (decimal n) \<Longrightarrow> c \<noteq> CHR 10"
proof (induction n rule: decimal.induct)
  case (1 n)
  have digit: "d < 10 \<Longrightarrow> char_of (48 + d) \<noteq> CHR 10" for d :: nat
  proof
    assume "d < 10" "char_of (48 + d) = CHR 10"
    then have "of_char (char_of (48 + d) :: char) = (10 :: nat)" by simp
    then show False using \<open>d < 10\<close> by (simp add: of_char_of)
  qed
  show ?case
  proof (cases "n < 10")
    case True
    then show ?thesis using "1.prems" digit [of n] by (simp add: decimal.simps [of n])
  next
    case False
    then show ?thesis using "1.prems" "1.IH" digit [of "n mod 10"]
      by (auto simp: decimal.simps [of n])
  qed
qed

lemma set_join_with: "set (join_with sep ss) \<subseteq> set sep \<union> \<Union> (set ` set ss)"
  by (induction sep ss rule: join_with.induct) auto

text \<open>\<open>u8::is_ascii_uppercase\<close>, \<open>u8::is_ascii_alphanumeric\<close>, \<open>u8::to_ascii_lowercase\<close> and
  \<open>u8::eq_ignore_ascii_case\<close>.\<close>

definition is_ascii_digit :: "byte \<Rightarrow> bool" where
  "is_ascii_digit b \<longleftrightarrow> 0x30 \<le> b \<and> b \<le> 0x39"

definition is_ascii_uppercase :: "byte \<Rightarrow> bool" where
  "is_ascii_uppercase b \<longleftrightarrow> 0x41 \<le> b \<and> b \<le> 0x5A"

definition is_ascii_lowercase :: "byte \<Rightarrow> bool" where
  "is_ascii_lowercase b \<longleftrightarrow> 0x61 \<le> b \<and> b \<le> 0x7A"

definition is_ascii_alphanumeric :: "byte \<Rightarrow> bool" where
  "is_ascii_alphanumeric b \<longleftrightarrow> is_ascii_digit b \<or> is_ascii_uppercase b \<or> is_ascii_lowercase b"

definition to_ascii_lowercase :: "byte \<Rightarrow> byte" where
  "to_ascii_lowercase b = (if is_ascii_uppercase b then b + 32 else b)"

definition eq_ignore_ascii_case :: "byte \<Rightarrow> byte \<Rightarrow> bool" where
  "eq_ignore_ascii_case a b \<longleftrightarrow> to_ascii_lowercase a = to_ascii_lowercase b"

definition lower :: "bytes \<Rightarrow> bytes" where
  "lower bs = map to_ascii_lowercase bs"

lemma lower_simps [simp]:
  "lower [] = []" "lower (b # bs) = to_ascii_lowercase b # lower bs"
  "lower (as @ bs) = lower as @ lower bs" "length (lower bs) = length bs"
  "lower (take n bs) = take n (lower bs)" "lower (drop n bs) = drop n (lower bs)"
  by (simp_all add: lower_def take_map drop_map)

text \<open>Facts about single bytes are decided by going through all 256 of them.\<close>

lemma byte_cases: "(\<And>n. n < 256 \<Longrightarrow> P (word_of_nat n :: byte)) \<Longrightarrow> P b"
proof -
  assume "\<And>n. n < 256 \<Longrightarrow> P (word_of_nat n :: byte)"
  moreover have "unat b < 256" using unsigned_less [of b] by simp
  ultimately have "P (word_of_nat (unat b))" by blast
  then show ?thesis by simp
qed

definition all_bytes :: "(byte \<Rightarrow> bool) \<Rightarrow> bool" where
  "all_bytes P \<longleftrightarrow> list_all (\<lambda>n. P (word_of_nat n)) [0..<256]"

lemma all_bytesD: "all_bytes P \<Longrightarrow> P b"
  by (rule byte_cases) (simp add: all_bytes_def list_all_iff)

lemma to_ascii_lowercase_idem [simp]:
  "to_ascii_lowercase (to_ascii_lowercase b) = to_ascii_lowercase b"
  unfolding to_ascii_lowercase_def is_ascii_uppercase_def by unat_arith

lemma to_ascii_lowercase_period [simp]: "to_ascii_lowercase b = 0x2E \<longleftrightarrow> b = 0x2E"
  unfolding to_ascii_lowercase_def is_ascii_uppercase_def by unat_arith

lemma lower_lower [simp]: "lower (lower bs) = lower bs"
  by (simp add: lower_def)

subsection \<open>Sequencing\<close>

text \<open>\<open>?\<close> on a \<open>Result\<close> inside a computation that may panic.\<close>

definition try_ok :: "('e + 'a) may_panic \<Rightarrow> ('a \<Rightarrow> ('e + 'b) may_panic) \<Rightarrow> ('e + 'b) may_panic" where
  "try_ok m f = (case m of None \<Rightarrow> panic | Some (Inl e) \<Rightarrow> Some (Err e) | Some (Inr a) \<Rightarrow> f a)"

lemma try_ok_simps [simp, rust_std]:
  "try_ok None f = None" "try_ok (Some (Inl e)) f = Some (Inl e)" "try_ok (Some (Inr a)) f = f a"
  by (simp_all add: try_ok_def)

lemma try_ok_Ok_iff:
  "try_ok m f = Some (Inr b) \<longleftrightarrow> (\<exists>a. m = Some (Inr a) \<and> f a = Some (Inr b))"
  by (auto simp: try_ok_def split: option.splits sum.splits)

lemma try_ok_None_iff:
  "try_ok m f = None \<longleftrightarrow> m = None \<or> (\<exists>a. m = Some (Inr a) \<and> f a = None)"
  by (auto simp: try_ok_def split: option.splits sum.splits)

text \<open>\<open>for x in xs { f(x)?; } Ok(())\<close>.\<close>

fun for_each :: "('a \<Rightarrow> ('e + unit) may_panic) \<Rightarrow> 'a list \<Rightarrow> ('e + unit) may_panic" where
  "for_each f [] = Some (Ok ())"
| "for_each f (x # xs) = try_ok (f x) (\<lambda>_. for_each f xs)"

lemma for_each_Ok_iff:
  "for_each f xs = Some (Inr ()) \<longleftrightarrow> (\<forall>x \<in> set xs. f x = Some (Inr ()))"
  by (induction xs) (auto simp: try_ok_Ok_iff)

lemma for_each_total:
  "\<forall>x \<in> set xs. f x \<noteq> None \<Longrightarrow> for_each f xs \<noteq> None"
  by (induction xs) (auto simp: try_ok_None_iff)

lemma for_each_Err:
  "for_each f xs = Some (Inl e) \<Longrightarrow> \<exists>x \<in> set xs. f x = Some (Inl e)"
  by (induction xs) (auto simp: try_ok_def split: option.splits sum.splits)

lemma for_each_cong [fundef_cong]:
  "xs = ys \<Longrightarrow> (\<And>x. x \<in> set ys \<Longrightarrow> f x = g x) \<Longrightarrow> for_each f xs = for_each g ys"
  by (induction xs arbitrary: ys) auto

end
