(* ===== verification/Certificates.thy ===== *)
theory Certificates
  imports Prelude
begin

text \<open>
  The certificate as the crate sees it, and \<^verbatim>\<open>certificate.rs\<close>.

  Parsing is done by the third-party crate x509-parser. A value of type \<open>certificate\<close> holds what
  that crate's accessors return for one parsed certificate: each field is the result of one
  accessor the sources call, a fallible accessor's field being a \<open>Result\<close>. Nothing is assumed
  about how these results depend on the DER bytes, so a theorem about all certificates holds
  whatever the parser returns. \<open>get_extension_unique\<close> is asked for three OIDs only, which gives
  three fields. Equality of certificates, names and keys is structural, as x509-parser derives it.
\<close>

subsection \<open>Data of x509-parser\<close>

text \<open>The arcs of an object identifier; \<open>int\<close> because numerals of that type compute in binary.\<close>

type_synonym oid = "int list"

text \<open>An \<open>X509Error\<close>, by its \<open>Display\<close> text.\<close>

datatype x509_error = X509Error (x509_error_display: string)

datatype nom_err = NomError x509_error | NomFailure x509_error | NomIncomplete

record x509_name =
  name_raw :: bytes                     \<comment> \<open>\<open>as_raw()\<close>\<close>
  name_display :: string                \<comment> \<open>\<open>Display\<close>\<close>
  name_common_names :: "bytes option list" \<comment> \<open>\<open>iter_common_name()\<close>, each with \<open>as_str().ok()\<close>\<close>

datatype X509Version = V1 | V2 | V3 | X509Version nat

datatype GeneralName =
    OtherName oid bytes
  | RFC822Name bytes
  | DNSName bytes
  | X400Address bytes
  | DirectoryName x509_name
  | EDIPartyName bytes
  | URI bytes
  | IPAddress bytes
  | RegisteredID oid
  | Invalid nat bytes

record GeneralSubtree =
  base :: GeneralName

record BasicConstraints =
  ca :: bool
  path_len_constraint :: "32 word option"

record NameConstraints =
  permitted_subtrees :: "GeneralSubtree list option"
  excluded_subtrees :: "GeneralSubtree list option"

record ExtendedKeyUsage =
  eku_any :: bool
  eku_server_auth :: bool
  eku_client_auth :: bool
  eku_code_signing :: bool
  eku_email_protection :: bool
  eku_time_stamping :: bool
  eku_ocsp_signing :: bool
  eku_other :: "oid list"

text \<open>The two variants of \<open>ParsedExtension\<close> the crate inspects, and all the others.\<close>

datatype ParsedExtension =
    SubjectKeyIdentifier bytes
  | AuthorityKeyIdentifier "bytes option"
  | UninspectedExtension

record X509Extension =
  ext_oid :: oid
  ext_critical :: bool
  ext_value :: bytes
  ext_parsed :: ParsedExtension

text \<open>An ASN.1 \<open>Any\<close>: its bytes, \<open>as_oid().ok()\<close>, and the hash algorithm of
  \<open>RsaSsaPssParams::try_from\<close> where that succeeds.\<close>

record asn1_any =
  any_raw :: bytes
  any_as_oid :: "oid option"
  any_pss_hash_algorithm_oid :: "oid option"

record AlgorithmIdentifier =
  alg_algorithm :: oid
  alg_parameters :: "asn1_any option"

record SubjectPublicKeyInfo =
  spki_algorithm :: AlgorithmIdentifier
  spki_subject_public_key :: bytes
  spki_raw :: bytes

record certificate =
  tbs_raw :: bytes                      \<comment> \<open>\<open>tbs_certificate.as_ref()\<close>\<close>
  tbs_version :: X509Version
  tbs_subject :: x509_name
  tbs_issuer :: x509_name
  tbs_not_before :: int                 \<comment> \<open>\<open>validity().not_before.timestamp()\<close>\<close>
  tbs_not_after :: int
  tbs_subject_pki :: SubjectPublicKeyInfo
  tbs_extensions :: "X509Extension list"
  cert_signature_algorithm :: AlgorithmIdentifier
  cert_signature_value :: bytes
  ext_subject_key_identifier :: "x509_error + X509Extension option"
  ext_authority_key_identifier :: "x509_error + X509Extension option"
  ext_extended_key_usage :: "x509_error + X509Extension option"
  tbs_basic_constraints :: "x509_error + BasicConstraints option"
  tbs_name_constraints :: "x509_error + NameConstraints option"
  tbs_subject_alternative_name :: "x509_error + GeneralName list option"
  tbs_extended_key_usage :: "x509_error + ExtendedKeyUsage option"
  cert_debug :: string                  \<comment> \<open>\<open>{:?}\<close>\<close>
  version_display :: string             \<comment> \<open>\<open>Display\<close> of the version\<close>
  raw_serial_as_string :: string
  not_before_display :: string
  not_after_display :: string

text \<open>
  Text the ASN.1 crates produce for an OID: the registered short name, if any
  (\<open>oid2sn\<close>), \<open>to_id_string\<close> and \<open>Display\<close>.
\<close>

record asn1_library =
  lib_oid2sn :: "oid \<Rightarrow> string option"
  lib_to_id_string :: "oid \<Rightarrow> string"
  lib_oid_to_string :: "oid \<Rightarrow> string"

subsection \<open>The extension trait\<close>

definition parse ::
  "(bytes \<Rightarrow> nom_err + bytes \<times> certificate) \<Rightarrow> x509_error \<Rightarrow> bytes \<Rightarrow> x509_error + certificate" where
  "parse from_der invalid_certificate der =
     (case from_der der of
        Inr (_, certificate) \<Rightarrow> Ok certificate
      | Inl err \<Rightarrow> Err (case err of
            NomError e \<Rightarrow> e
          | NomFailure e \<Rightarrow> e
          | NomIncomplete \<Rightarrow> invalid_certificate))"

definition subject_key_identifier :: "certificate \<Rightarrow> bytes option" where
  "subject_key_identifier c =
     (case ext_subject_key_identifier c of
        Inl _ \<Rightarrow> None
      | Inr None \<Rightarrow> None
      | Inr (Some ext) \<Rightarrow>
          (case ext_parsed ext of SubjectKeyIdentifier key_id \<Rightarrow> Some key_id | _ \<Rightarrow> None))"

definition authority_key_identifier :: "certificate \<Rightarrow> bytes option" where
  "authority_key_identifier c =
     (case ext_authority_key_identifier c of
        Inl _ \<Rightarrow> None
      | Inr None \<Rightarrow> None
      | Inr (Some ext) \<Rightarrow>
          (case ext_parsed ext of AuthorityKeyIdentifier key_id \<Rightarrow> key_id | _ \<Rightarrow> None))"

definition subject_key :: "certificate \<Rightarrow> bytes" where
  "subject_key c = name_raw (tbs_subject c)"

definition issuer_key :: "certificate \<Rightarrow> bytes" where
  "issuer_key c = name_raw (tbs_issuer c)"

definition subject_alternative_names :: "certificate \<Rightarrow> GeneralName list" where
  "subject_alternative_names c =
     (case tbs_subject_alternative_name c of
        Inl _ \<Rightarrow> []
      | Inr None \<Rightarrow> []
      | Inr (Some names) \<Rightarrow> names)"

definition has_same_identity_as :: "certificate \<Rightarrow> certificate \<Rightarrow> bool" where
  "has_same_identity_as c d \<longleftrightarrow>
     tbs_subject c = tbs_subject d \<and>
     tbs_subject_pki c = tbs_subject_pki d \<and>
     subject_alternative_names c = subject_alternative_names d"

subsection \<open>Rendering\<close>

definition algorithm_name :: "asn1_library \<Rightarrow> oid \<Rightarrow> string" where
  "algorithm_name lib oid =
     (case lib_oid2sn lib oid of Some name \<Rightarrow> name | None \<Rightarrow> lib_to_id_string lib oid)"

definition format_extensions :: "asn1_library \<Rightarrow> certificate \<Rightarrow> string" where
  "format_extensions lib c =
     (let rendered = map (\<lambda>ext. let name = algorithm_name lib (ext_oid ext)
                                in if ext_critical ext then name @ '' (critical)'' else name)
                       (tbs_extensions c)
      in ''['' @ join_with '', '' rendered @ '']'')"

text \<open>\<open>str::to_lowercase\<close> on the version's name, which is ASCII.\<close>

definition char_to_lowercase :: "char \<Rightarrow> char" where
  "char_to_lowercase c =
     (let n = (of_char c :: nat) in if 65 \<le> n \<and> n \<le> 90 then char_of (n + 32) else c)"

definition format_certificate :: "asn1_library \<Rightarrow> certificate \<Rightarrow> string" where
  "format_certificate lib c =
     ''Certificate(version: '' @ map char_to_lowercase (version_display c) @
     '', serialNumber: '' @ raw_serial_as_string c @
     '', issuer: '' @ name_display (tbs_issuer c) @
     '', subject: '' @ name_display (tbs_subject c) @
     '', notValidBefore: '' @ not_before_display c @
     '', notValidAfter: '' @ not_after_display c @
     '', publicKey: '' @ algorithm_name lib (alg_algorithm (spki_algorithm (tbs_subject_pki c))) @
     '', signature: '' @ algorithm_name lib (alg_algorithm (cert_signature_algorithm c)) @
     '', extensions: '' @ format_extensions lib c @ '')''"

subsection \<open>Identity is an equivalence\<close>

lemma has_same_identity_as_refl [simp, intro]: "has_same_identity_as c c"
  by (simp add: has_same_identity_as_def)

lemma has_same_identity_as_sym: "has_same_identity_as c d \<Longrightarrow> has_same_identity_as d c"
  by (simp add: has_same_identity_as_def)

lemma has_same_identity_as_trans [trans]:
  "has_same_identity_as c d \<Longrightarrow> has_same_identity_as d e \<Longrightarrow> has_same_identity_as c e"
  by (simp add: has_same_identity_as_def)

lemma has_same_identity_as_equiv: "equivp has_same_identity_as"
  by (rule equivpI)
    (auto intro!: reflpI sympI transpI intro: has_same_identity_as_sym has_same_identity_as_trans)

subsection \<open>Summaries are one line\<close>

text \<open>The text x509-parser and the ASN.1 crates hand over for this certificate has no line break.\<close>

definition library_single_line :: "asn1_library \<Rightarrow> bool" where
  "library_single_line lib \<longleftrightarrow>
     (\<forall>oid. single_line (lib_to_id_string lib oid)) \<and>
     (\<forall>oid name. lib_oid2sn lib oid = Some name \<longrightarrow> single_line name)"

definition text_single_line :: "certificate \<Rightarrow> bool" where
  "text_single_line c \<longleftrightarrow>
     single_line (version_display c) \<and> single_line (raw_serial_as_string c) \<and>
     single_line (name_display (tbs_issuer c)) \<and> single_line (name_display (tbs_subject c)) \<and>
     single_line (not_before_display c) \<and> single_line (not_after_display c)"

lemma char_to_lowercase_newline: "char_to_lowercase c = CHR 10 \<longleftrightarrow> c = CHR 10"
proof (cases "65 \<le> (of_char c :: nat) \<and> (of_char c :: nat) \<le> 90")
  case True
  have "char_to_lowercase c \<noteq> CHR 10"
  proof
    assume "char_to_lowercase c = CHR 10"
    then have "of_char (char_of (of_char c + 32 :: nat) :: char) = (10 :: nat)"
      using True by (simp add: char_to_lowercase_def)
    then show False using True by (simp add: of_char_of)
  qed
  moreover have "c \<noteq> CHR 10" using True by auto
  ultimately show ?thesis by simp
next
  case False
  then show ?thesis by (auto simp: char_to_lowercase_def Let_def)
qed

lemma single_line_lowercase [simp]:
  "single_line (map char_to_lowercase s) \<longleftrightarrow> single_line s"
  by (induction s) (auto simp: char_to_lowercase_newline)

lemma single_line_algorithm_name:
  "library_single_line lib \<Longrightarrow> single_line (algorithm_name lib oid)"
  by (auto simp: library_single_line_def algorithm_name_def split: option.split)

lemma single_line_format_extensions:
  "library_single_line lib \<Longrightarrow> single_line (format_extensions lib c)"
  by (auto simp: format_extensions_def Let_def single_line_algorithm_name intro!: single_line_join)

lemma single_line_format_certificate:
  "library_single_line lib \<Longrightarrow> text_single_line c \<Longrightarrow> single_line (format_certificate lib c)"
  by (simp add: format_certificate_def text_single_line_def single_line_format_extensions
      single_line_algorithm_name)

subsection \<open>A concrete certificate\<close>

text \<open>
  A version 3 certificate with no extensions, named by a label and issued by another; the concrete
  instances of the theorems are built from it by record update.
\<close>

definition sample_name :: "string \<Rightarrow> x509_name" where
  "sample_name label =
     \<lparr>name_raw = ascii label, name_display = ''CN='' @ label, name_common_names = [Some (ascii label)]\<rparr>"

definition sample_algorithm :: AlgorithmIdentifier where
  "sample_algorithm = \<lparr>alg_algorithm = [1, 3, 101, 112], alg_parameters = None\<rparr>"

definition sample_certificate :: "string \<Rightarrow> string \<Rightarrow> certificate" where
  "sample_certificate subject issuer =
     \<lparr>tbs_raw = ascii subject, tbs_version = V3,
      tbs_subject = sample_name subject, tbs_issuer = sample_name issuer,
      tbs_not_before = 100, tbs_not_after = 200,
      tbs_subject_pki = \<lparr>spki_algorithm = sample_algorithm,
        spki_subject_public_key = ascii subject, spki_raw = ascii subject\<rparr>,
      tbs_extensions = [], cert_signature_algorithm = sample_algorithm,
      cert_signature_value = ascii issuer,
      ext_subject_key_identifier = Ok None, ext_authority_key_identifier = Ok None,
      ext_extended_key_usage = Ok None, tbs_basic_constraints = Ok None,
      tbs_name_constraints = Ok None, tbs_subject_alternative_name = Ok None,
      tbs_extended_key_usage = Ok None,
      cert_debug = ''certificate'', version_display = ''V3'', raw_serial_as_string = ''01'',
      not_before_display = ''100'', not_after_display = ''200''\<rparr>"

definition sample_ca :: "string \<Rightarrow> string \<Rightarrow> certificate" where
  "sample_ca subject issuer =
     (sample_certificate subject issuer)
       \<lparr>tbs_basic_constraints := Ok (Some \<lparr>ca = True, path_len_constraint = Some 1\<rparr>)\<rparr>"

end
