(* ===== verification/Store.thy ===== *)
theory Store
  imports Certificates "HOL-Library.Finite_Map"
begin

text \<open>
  \<^verbatim>\<open>store.rs\<close>: certificates keyed by the raw DER of their subject. The hash map is a finite map; it
  is only ever looked up, never iterated, so no order of its keys is modelled.
\<close>

record CertificateStore =
  by_subject :: "(bytes, certificate list) fmap"

definition CertificateStore_new :: CertificateStore where
  "CertificateStore_new = \<lparr>by_subject = fmempty\<rparr>"

definition CertificateStore_default :: CertificateStore where
  "CertificateStore_default = CertificateStore_new"

text \<open>\<open>entry(key).or_default().push(certificate)\<close>\<close>

definition store_append :: "CertificateStore \<Rightarrow> certificate \<Rightarrow> CertificateStore" where
  "store_append store certificate =
     (let key = subject_key certificate;
          present = (case fmlookup (by_subject store) key of None \<Rightarrow> [] | Some cs \<Rightarrow> cs)
      in store\<lparr>by_subject := fmupd key (present @ [certificate]) (by_subject store)\<rparr>)"

fun store_extend :: "CertificateStore \<Rightarrow> certificate list \<Rightarrow> CertificateStore" where
  "store_extend store [] = store"
| "store_extend store (cert # certificates) = store_extend (store_append store cert) certificates"

definition store_from_iter :: "certificate list \<Rightarrow> CertificateStore" where
  "store_from_iter certificates = store_extend CertificateStore_new certificates"

definition find_by_subject :: "CertificateStore \<Rightarrow> bytes \<Rightarrow> certificate list" where
  "find_by_subject store key =
     (case fmlookup (by_subject store) key of None \<Rightarrow> [] | Some cs \<Rightarrow> cs)"

subsection \<open>The interface of a store\<close>

locale subject_store =
  fixes new :: "'s"
    and append :: "'s \<Rightarrow> 'c \<Rightarrow> 's"
    and find :: "'s \<Rightarrow> 'k \<Rightarrow> 'c list"
    and key :: "'c \<Rightarrow> 'k"
  assumes find_new: "find new k = []"
    and find_append: "find (append s c) k = find s k @ (if key c = k then [c] else [])"
begin

text \<open>Whatever is appended, a lookup returns the certificates of that key in insertion order.\<close>

lemma find_foldl: "find (foldl append s cs) k = find s k @ filter (\<lambda>c. key c = k) cs"
  by (induction cs arbitrary: s) (auto simp: find_append)

lemma find_foldl_new: "find (foldl append new cs) k = filter (\<lambda>c. key c = k) cs"
  by (simp add: find_foldl find_new)

lemma find_keyed_append:
  "(\<forall>k. \<forall>c \<in> set (find s k). key c = k) \<Longrightarrow> (\<forall>k. \<forall>c \<in> set (find (append s d) k). key c = k)"
  by (auto simp: find_append split: if_splits)

end

lemma find_by_subject_new [simp]: "find_by_subject CertificateStore_new k = []"
  by (simp add: find_by_subject_def CertificateStore_new_def)

lemma find_by_subject_append:
  "find_by_subject (store_append s c) k =
     find_by_subject s k @ (if subject_key c = k then [c] else [])"
  by (auto simp: find_by_subject_def store_append_def Let_def split: option.split)

interpretation cert_store: subject_store CertificateStore_new store_append find_by_subject subject_key
  by unfold_locales (simp_all add: find_by_subject_append)

lemma store_extend_foldl: "store_extend s cs = foldl store_append s cs"
  by (induction cs arbitrary: s) simp_all

text \<open>Every certificate is filed under its own subject.\<close>

definition store_ok :: "CertificateStore \<Rightarrow> bool" where
  "store_ok s \<longleftrightarrow> (\<forall>k. \<forall>c \<in> set (find_by_subject s k). subject_key c = k)"

lemma store_ok_new [simp]: "store_ok CertificateStore_new"
  by (simp add: store_ok_def)

lemma store_ok_append: "store_ok s \<Longrightarrow> store_ok (store_append s c)"
  unfolding store_ok_def by (rule cert_store.find_keyed_append)

lemma find_by_subject_from_iter:
  "find_by_subject (store_from_iter cs) k = filter (\<lambda>c. subject_key c = k) cs"
  by (simp add: store_from_iter_def store_extend_foldl cert_store.find_foldl_new)

lemma store_ok_from_iter [simp]: "store_ok (store_from_iter cs)"
  by (simp add: store_ok_def find_by_subject_from_iter)

lemma store_okD: "store_ok s \<Longrightarrow> c \<in> set (find_by_subject s k) \<Longrightarrow> subject_key c = k"
  by (simp add: store_ok_def)

text \<open>All certificates of a store, as a finite set.\<close>

definition store_certificates :: "CertificateStore \<Rightarrow> certificate set" where
  "store_certificates s = \<Union> (set ` fmran' (by_subject s))"

lemma finite_store_certificates [simp, intro]: "finite (store_certificates s)"
  by (auto simp: store_certificates_def fmran'_alt_def)

lemma find_by_subject_subset: "set (find_by_subject s k) \<subseteq> store_certificates s"
  by (cases "fmlookup (by_subject s) k")
    (auto simp: find_by_subject_def store_certificates_def intro!: bexI fmran'I)

text \<open>
  A lookup in a store built from a sequence of certificates returns exactly the certificates
  with that subject, duplicates included, in the order they were added.
\<close>

theorem store_lookup_after_build:
  "find_by_subject (store_from_iter cs) k = filter (\<lambda>c. subject_key c = k) cs"
  by (rule find_by_subject_from_iter)

end
