(* ===== verification/Chains.thy ===== *)
theory Chains
  imports Certificates
begin

text \<open>
  \<^verbatim>\<open>unverified_chain.rs\<close> and \<^verbatim>\<open>validated_chain.rs\<close>: leaf-first certificate chains. Both constructors
  assert that the list is not empty; the fields are private, so every chain a caller holds is
  non-empty, which is the invariant \<open>chain_ok\<close>.
\<close>

record UnverifiedCertificateChain =
  uc_certificates :: "certificate list"

definition UnverifiedCertificateChain_new ::
  "certificate list \<Rightarrow> UnverifiedCertificateChain may_panic" where
  "UnverifiedCertificateChain_new certificates =
     (if certificates = [] then panic else Some \<lparr>uc_certificates = certificates\<rparr>)"

definition chain_leaf :: "UnverifiedCertificateChain \<Rightarrow> certificate may_panic" where
  "chain_leaf ch = index_at (uc_certificates ch) 0"

definition chain_iter :: "UnverifiedCertificateChain \<Rightarrow> certificate list" where
  "chain_iter ch = uc_certificates ch"

definition chain_len :: "UnverifiedCertificateChain \<Rightarrow> nat" where
  "chain_len ch = length (uc_certificates ch)"

definition chain_is_empty :: "UnverifiedCertificateChain \<Rightarrow> bool" where
  "chain_is_empty ch = False"

definition chain_index :: "UnverifiedCertificateChain \<Rightarrow> nat \<Rightarrow> certificate may_panic" where
  "chain_index ch i = index_at (uc_certificates ch) i"

record ValidatedCertificateChain =
  vc_certificates :: "certificate list"

definition ValidatedCertificateChain_new_unchecked ::
  "certificate list \<Rightarrow> ValidatedCertificateChain may_panic" where
  "ValidatedCertificateChain_new_unchecked certificates =
     (if certificates = [] then panic else Some \<lparr>vc_certificates = certificates\<rparr>)"

definition validated_leaf :: "ValidatedCertificateChain \<Rightarrow> certificate may_panic" where
  "validated_leaf ch = index_at (vc_certificates ch) 0"

definition validated_root :: "ValidatedCertificateChain \<Rightarrow> certificate may_panic" where
  "validated_root ch = slice_last (vc_certificates ch)"

definition validated_iter :: "ValidatedCertificateChain \<Rightarrow> certificate list" where
  "validated_iter ch = vc_certificates ch"

definition chain_ok :: "UnverifiedCertificateChain \<Rightarrow> bool" where
  "chain_ok ch \<longleftrightarrow> uc_certificates ch \<noteq> []"

lemma UnverifiedCertificateChain_new_simp [simp]:
  "cs \<noteq> [] \<Longrightarrow> UnverifiedCertificateChain_new cs = Some \<lparr>uc_certificates = cs\<rparr>"
  by (simp add: UnverifiedCertificateChain_new_def)

lemma ValidatedCertificateChain_new_unchecked_simp [simp]:
  "cs \<noteq> [] \<Longrightarrow> ValidatedCertificateChain_new_unchecked cs = Some \<lparr>vc_certificates = cs\<rparr>"
  by (simp add: ValidatedCertificateChain_new_unchecked_def)

lemma chain_ok_make [simp]: "chain_ok \<lparr>uc_certificates = cs\<rparr> \<longleftrightarrow> cs \<noteq> []"
  by (simp add: chain_ok_def)

lemma chain_new_Some_iff:
  "UnverifiedCertificateChain_new cs = Some ch \<longleftrightarrow> cs \<noteq> [] \<and> uc_certificates ch = cs"
  by (auto simp: UnverifiedCertificateChain_new_def)

lemma chain_leaf_ok [simp]: "chain_ok ch \<Longrightarrow> chain_leaf ch = Some (hd (uc_certificates ch))"
  by (simp add: chain_ok_def chain_leaf_def hd_conv_nth)

lemma chain_index_ok [simp]:
  "i < chain_len ch \<Longrightarrow> chain_index ch i = Some (uc_certificates ch ! i)"
  by (simp add: chain_index_def chain_len_def)

lemma chain_len_pos: "chain_ok ch \<Longrightarrow> 0 < chain_len ch"
  by (simp add: chain_ok_def chain_len_def)

text \<open>
  A chain that construction accepts is non-empty, its leaf is the first certificate handed
  in, indexing succeeds exactly below its length, and iteration gives back the certificates;
  construction panics exactly on the empty list.
\<close>

theorem unverified_chain_construction:
  "UnverifiedCertificateChain_new cs = (if cs = [] then None else Some \<lparr>uc_certificates = cs\<rparr>) \<and>
   (case UnverifiedCertificateChain_new cs of
      None \<Rightarrow> cs = []
    | Some ch \<Rightarrow> chain_ok ch \<and> chain_iter ch = cs \<and> chain_leaf ch = Some (hd cs) \<and>
        chain_is_empty ch = (chain_len ch = 0) \<and>
        (\<forall>i. (chain_index ch i = None) = (chain_len ch \<le> i)))"
  by (auto simp: UnverifiedCertificateChain_new_def chain_iter_def chain_is_empty_def chain_len_def
      chain_index_def index_at_def)

end
