(* ===== verification/Policies.thy ===== *)
theory Policies
  imports Chains
begin

text \<open>
  \<^verbatim>\<open>policy.rs\<close>, \<^verbatim>\<open>policy_builder.rs\<close>, \<^verbatim>\<open>all_of_policies.rs\<close>, \<^verbatim>\<open>one_of_policies.rs\<close> and
  \<^verbatim>\<open>any_policy.rs\<close>. A value of the trait \<open>ValidationPolicy\<close> is the record of its two methods. The
  generic wrappers become operations on such records, and the two composition macros become
  recursion over the items the macro is given.
\<close>

datatype PolicyFailureReason = PolicyFailureReason (reason_text: string)

type_synonym PolicyEvaluationResult = "PolicyFailureReason + unit"

definition PolicyFailureReason_new :: "string \<Rightarrow> PolicyFailureReason" where
  "PolicyFailureReason_new reason = PolicyFailureReason reason"

definition PolicyFailureReason_fmt :: "PolicyFailureReason \<Rightarrow> string" where
  "PolicyFailureReason_fmt reason = reason_text reason"

definition failure :: "string \<Rightarrow> PolicyEvaluationResult" where
  "failure reason = Err (PolicyFailureReason_new reason)"

record ValidationPolicy =
  verifying_critical_extensions :: "oid list"
  chain_meets_policy_requirements ::
    "UnverifiedCertificateChain \<Rightarrow> PolicyEvaluationResult may_panic"

lemma failure_not_Ok [simp]: "failure s \<noteq> Inr u" "Inr u \<noteq> failure s"
  by (simp_all add: failure_def)

lemma failure_is_Err: "failure s = Inl (PolicyFailureReason s)"
  by (simp add: failure_def PolicyFailureReason_new_def)

subsection \<open>Combinators\<close>

definition Tuple2 :: "ValidationPolicy \<Rightarrow> ValidationPolicy \<Rightarrow> ValidationPolicy" where
  "Tuple2 first second =
     \<lparr>verifying_critical_extensions =
        verifying_critical_extensions first @ verifying_critical_extensions second,
      chain_meets_policy_requirements = (\<lambda>chain.
        try_ok (chain_meets_policy_requirements first chain)
          (\<lambda>_. chain_meets_policy_requirements second chain))\<rparr>"

datatype Either = First ValidationPolicy | Second ValidationPolicy

definition Either_policy :: "Either \<Rightarrow> ValidationPolicy" where
  "Either_policy self =
     \<lparr>verifying_critical_extensions =
        (case self of First a \<Rightarrow> verifying_critical_extensions a
                    | Second b \<Rightarrow> verifying_critical_extensions b),
      chain_meets_policy_requirements = (\<lambda>chain.
        case self of First a \<Rightarrow> chain_meets_policy_requirements a chain
                   | Second b \<Rightarrow> chain_meets_policy_requirements b chain)\<rparr>"

definition WrappedOptional :: "ValidationPolicy option \<Rightarrow> ValidationPolicy" where
  "WrappedOptional wrapped =
     \<lparr>verifying_critical_extensions =
        (case wrapped of Some p \<Rightarrow> verifying_critical_extensions p | None \<Rightarrow> []),
      chain_meets_policy_requirements = (\<lambda>chain.
        case wrapped of Some p \<Rightarrow> chain_meets_policy_requirements p chain
                      | None \<Rightarrow> Some (Ok ()))\<rparr>"

definition OneOfTuple2 :: "ValidationPolicy \<Rightarrow> ValidationPolicy \<Rightarrow> ValidationPolicy" where
  "OneOfTuple2 first second =
     \<lparr>verifying_critical_extensions =
        filter (\<lambda>oid. oid \<in> set (verifying_critical_extensions second))
          (verifying_critical_extensions first),
      chain_meets_policy_requirements = (\<lambda>chain. do {
        r1 \<leftarrow> chain_meets_policy_requirements first chain;
        case r1 of
          Inr () \<Rightarrow> Some (Ok ())
        | Inl first_reason \<Rightarrow> do {
            r2 \<leftarrow> chain_meets_policy_requirements second chain;
            case r2 of
              Inr () \<Rightarrow> Some (Ok ())
            | Inl second_reason \<Rightarrow>
                Some (failure (PolicyFailureReason_fmt first_reason @ '' and '' @
                               PolicyFailureReason_fmt second_reason)) } })\<rparr>"

definition OneOfWrappedOptional :: "ValidationPolicy option \<Rightarrow> ValidationPolicy" where
  "OneOfWrappedOptional wrapped =
     \<lparr>verifying_critical_extensions =
        (case wrapped of Some p \<Rightarrow> verifying_critical_extensions p | None \<Rightarrow> []),
      chain_meets_policy_requirements = (\<lambda>chain.
        case wrapped of Some p \<Rightarrow> chain_meets_policy_requirements p chain
                      | None \<Rightarrow> Some (failure ''alternative is disabled''))\<rparr>"

definition AllOfPolicies :: "ValidationPolicy \<Rightarrow> ValidationPolicy" where
  "AllOfPolicies policy =
     \<lparr>verifying_critical_extensions = verifying_critical_extensions policy,
      chain_meets_policy_requirements = (\<lambda>chain. chain_meets_policy_requirements policy chain)\<rparr>"

definition OneOfPolicies :: "ValidationPolicy \<Rightarrow> ValidationPolicy" where
  "OneOfPolicies policy =
     \<lparr>verifying_critical_extensions = verifying_critical_extensions policy,
      chain_meets_policy_requirements = (\<lambda>chain. chain_meets_policy_requirements policy chain)\<rparr>"

definition AnyPolicy :: "ValidationPolicy \<Rightarrow> ValidationPolicy" where
  "AnyPolicy policy =
     \<lparr>verifying_critical_extensions = verifying_critical_extensions policy,
      chain_meets_policy_requirements = (\<lambda>chain. chain_meets_policy_requirements policy chain)\<rparr>"

text \<open>
  One item of a \<open>policy!\<close> or \<open>one_of!\<close> block, with its condition already evaluated.
\<close>

datatype policy_item =
    PlainItem ValidationPolicy
  | IfElseItem bool ValidationPolicy ValidationPolicy
  | IfItem bool ValidationPolicy

definition policy_single :: "policy_item \<Rightarrow> ValidationPolicy" where
  "policy_single item =
     (case item of
        IfElseItem cond then_ else_ \<Rightarrow> Either_policy (if cond then First then_ else Second else_)
      | IfItem cond body \<Rightarrow> WrappedOptional (if cond then Some body else None)
      | PlainItem only \<Rightarrow> only)"

fun policy_macro :: "policy_item \<Rightarrow> policy_item list \<Rightarrow> ValidationPolicy" where
  "policy_macro item [] = policy_single item"
| "policy_macro item (next # rest) = Tuple2 (policy_single item) (policy_macro next rest)"

definition one_of_single :: "policy_item \<Rightarrow> ValidationPolicy" where
  "one_of_single item =
     (case item of
        IfElseItem cond then_ else_ \<Rightarrow> Either_policy (if cond then First then_ else Second else_)
      | IfItem cond body \<Rightarrow> OneOfWrappedOptional (if cond then Some body else None)
      | PlainItem only \<Rightarrow> only)"

fun one_of_macro :: "policy_item \<Rightarrow> policy_item list \<Rightarrow> ValidationPolicy" where
  "one_of_macro item [] = one_of_single item"
| "one_of_macro item (next # rest) = OneOfTuple2 (one_of_single item) (one_of_macro next rest)"

subsection \<open>Acceptance and the policy contract\<close>

definition accepts :: "ValidationPolicy \<Rightarrow> UnverifiedCertificateChain \<Rightarrow> bool" where
  "accepts p ch \<longleftrightarrow> chain_meets_policy_requirements p ch = Some (Ok ())"

definition handles :: "ValidationPolicy \<Rightarrow> oid \<Rightarrow> bool" where
  "handles p oid \<longleftrightarrow> oid \<in> set (verifying_critical_extensions p)"

text \<open>A policy that returns a verdict on every chain it can be handed.\<close>

definition policy_total :: "ValidationPolicy \<Rightarrow> bool" where
  "policy_total p \<longleftrightarrow> (\<forall>ch. chain_ok ch \<longrightarrow> chain_meets_policy_requirements p ch \<noteq> None)"

named_theorems policy_defs \<open>definitions of the policy combinators\<close>

lemmas combinator_defs [policy_defs] =
  Tuple2_def Either_policy_def WrappedOptional_def OneOfTuple2_def OneOfWrappedOptional_def
  AllOfPolicies_def OneOfPolicies_def AnyPolicy_def

lemma sum_unit_cases: obtains "(r :: 'e + unit) = Inr ()" | e where "r = Inl e"
  by (cases r) auto

lemma accepts_Tuple2 [simp]: "accepts (Tuple2 p q) ch \<longleftrightarrow> accepts p ch \<and> accepts q ch"
  by (simp add: accepts_def Tuple2_def try_ok_Ok_iff)

lemma accepts_OneOfTuple2:
  "accepts (OneOfTuple2 p q) ch \<longleftrightarrow>
     accepts p ch \<or> (accepts q ch \<and> chain_meets_policy_requirements p ch \<noteq> None)"
  by (auto simp: accepts_def OneOfTuple2_def split: option.splits sum.splits unit.splits
      Option.bind_splits)

lemma accepts_Either [simp]:
  "accepts (Either_policy (First p)) ch \<longleftrightarrow> accepts p ch"
  "accepts (Either_policy (Second p)) ch \<longleftrightarrow> accepts p ch"
  by (simp_all add: accepts_def Either_policy_def)

lemma accepts_WrappedOptional [simp]:
  "accepts (WrappedOptional None) ch" "accepts (WrappedOptional (Some p)) ch \<longleftrightarrow> accepts p ch"
  by (simp_all add: accepts_def WrappedOptional_def)

lemma accepts_OneOfWrappedOptional [simp]:
  "\<not> accepts (OneOfWrappedOptional None) ch"
  "accepts (OneOfWrappedOptional (Some p)) ch \<longleftrightarrow> accepts p ch"
  by (simp_all add: accepts_def OneOfWrappedOptional_def)

lemma wrapper_identity [simp]:
  "AllOfPolicies p = p" "OneOfPolicies p = p" "AnyPolicy p = p"
  by (simp_all add: policy_defs)

lemma handles_simps [simp]:
  "handles (Tuple2 p q) oid \<longleftrightarrow> handles p oid \<or> handles q oid"
  "handles (OneOfTuple2 p q) oid \<longleftrightarrow> handles p oid \<and> handles q oid"
  "handles (Either_policy (First p)) oid \<longleftrightarrow> handles p oid"
  "handles (Either_policy (Second p)) oid \<longleftrightarrow> handles p oid"
  "handles (WrappedOptional (Some p)) oid \<longleftrightarrow> handles p oid"
  "handles (OneOfWrappedOptional (Some p)) oid \<longleftrightarrow> handles p oid"
  "\<not> handles (WrappedOptional None) oid" "\<not> handles (OneOfWrappedOptional None) oid"
  by (auto simp: handles_def policy_defs)

lemma policy_total_Tuple2 [panic_free]:
  "policy_total p \<Longrightarrow> policy_total q \<Longrightarrow> policy_total (Tuple2 p q)"
  by (auto simp: policy_total_def Tuple2_def try_ok_def split: option.splits sum.splits)

lemma policy_total_OneOfTuple2 [panic_free]:
  "policy_total p \<Longrightarrow> policy_total q \<Longrightarrow> policy_total (OneOfTuple2 p q)"
  by (auto simp: policy_total_def OneOfTuple2_def split: option.splits sum.splits unit.splits
      Option.bind_splits)

lemma policy_total_Either [panic_free]:
  "policy_total p \<Longrightarrow> policy_total (Either_policy (First p))"
  "policy_total p \<Longrightarrow> policy_total (Either_policy (Second p))"
  by (simp_all add: policy_total_def Either_policy_def)

lemma policy_total_optional [panic_free]:
  "policy_total (WrappedOptional None)" "policy_total (OneOfWrappedOptional None)"
  "policy_total p \<Longrightarrow> policy_total (WrappedOptional (Some p))"
  "policy_total p \<Longrightarrow> policy_total (OneOfWrappedOptional (Some p))"
  by (simp_all add: policy_total_def WrappedOptional_def OneOfWrappedOptional_def)

subsection \<open>The contract of a policy as an interface\<close>

text \<open>
  What a client of a policy relies on: it returns a verdict on every chain, and the verdict is
  \<open>Ok\<close> exactly on the certificate lists that satisfy \<open>spec\<close>.
\<close>

locale policy_contract =
  fixes policy :: ValidationPolicy
    and spec :: "certificate list \<Rightarrow> bool"
  assumes returns: "cs \<noteq> [] \<Longrightarrow> chain_meets_policy_requirements policy \<lparr>uc_certificates = cs\<rparr> \<noteq> None"
    and verdict: "cs \<noteq> [] \<Longrightarrow> accepts policy \<lparr>uc_certificates = cs\<rparr> \<longleftrightarrow> spec cs"
begin

lemma total: "policy_total policy"
  unfolding policy_total_def using returns
  by (metis (full_types) UnverifiedCertificateChain.cases chain_ok_make)

lemma reject:
  assumes "cs \<noteq> []" "\<not> spec cs"
  shows "\<exists>reason. chain_meets_policy_requirements policy \<lparr>uc_certificates = cs\<rparr> = Some (Err reason)"
proof -
  obtain r where r: "chain_meets_policy_requirements policy \<lparr>uc_certificates = cs\<rparr> = Some r"
    using returns [OF assms(1)] by blast
  then show ?thesis using verdict [OF assms(1)] assms(2)
    by (cases r rule: sum_unit_cases) (auto simp: accepts_def)
qed

end

locale policy_contract_pair = fst: policy_contract p P + snd: policy_contract q Q
  for p P q Q
begin

lemma both: "policy_contract (Tuple2 p q) (\<lambda>cs. P cs \<and> Q cs)"
proof
  fix cs :: "certificate list"
  assume cs: "cs \<noteq> []"
  show "chain_meets_policy_requirements (Tuple2 p q) \<lparr>uc_certificates = cs\<rparr> \<noteq> None"
    using policy_total_Tuple2 [OF fst.total snd.total] cs by (simp add: policy_total_def)
  show "accepts (Tuple2 p q) \<lparr>uc_certificates = cs\<rparr> \<longleftrightarrow> P cs \<and> Q cs"
    using fst.verdict [OF cs] snd.verdict [OF cs] by simp
qed

lemma either: "policy_contract (OneOfTuple2 p q) (\<lambda>cs. P cs \<or> Q cs)"
proof
  fix cs :: "certificate list"
  assume cs: "cs \<noteq> []"
  show "chain_meets_policy_requirements (OneOfTuple2 p q) \<lparr>uc_certificates = cs\<rparr> \<noteq> None"
    using policy_total_OneOfTuple2 [OF fst.total snd.total] cs by (simp add: policy_total_def)
  show "accepts (OneOfTuple2 p q) \<lparr>uc_certificates = cs\<rparr> \<longleftrightarrow> P cs \<or> Q cs"
    using fst.verdict [OF cs] snd.verdict [OF cs] fst.returns [OF cs]
    by (simp add: accepts_OneOfTuple2)
qed

end

subsection \<open>The composition macros\<close>

fun item_accepts :: "bool \<Rightarrow> policy_item \<Rightarrow> UnverifiedCertificateChain \<Rightarrow> bool" where
  "item_accepts disabled (PlainItem p) ch = accepts p ch"
| "item_accepts disabled (IfElseItem c p q) ch = (if c then accepts p ch else accepts q ch)"
| "item_accepts disabled (IfItem c p) ch = (if c then accepts p ch else disabled)"

fun item_total :: "policy_item \<Rightarrow> bool" where
  "item_total (PlainItem p) = policy_total p"
| "item_total (IfElseItem c p q) = (policy_total p \<and> policy_total q)"
| "item_total (IfItem c p) = policy_total p"

lemma accepts_policy_single: "accepts (policy_single i) ch = item_accepts True i ch"
  by (cases i) (simp_all add: policy_single_def)

lemma accepts_one_of_single: "accepts (one_of_single i) ch = item_accepts False i ch"
  by (cases i) (simp_all add: one_of_single_def)

lemma one_of_single_total: "item_total i \<Longrightarrow> policy_total (one_of_single i)"
  by (cases i) (auto simp: one_of_single_def intro: panic_free)

lemma one_of_macro_total:
  "\<forall>j \<in> set (i # is). item_total j \<Longrightarrow> policy_total (one_of_macro i is)"
  by (induction "is" arbitrary: i) (auto intro!: policy_total_OneOfTuple2 one_of_single_total)

lemma accepts_one_of_macro:
  assumes "\<forall>j \<in> set (i # is). item_total j" and "chain_ok ch"
  shows "accepts (one_of_macro i is) ch \<longleftrightarrow> (\<exists>j \<in> set (i # is). item_accepts False j ch)"
  using assms
proof (induction "is" arbitrary: i)
  case Nil
  then show ?case by (simp add: accepts_one_of_single)
next
  case (Cons k ks)
  then have "policy_total (one_of_single i)" by (simp add: one_of_single_total)
  with Cons show ?case
    by (auto simp: accepts_OneOfTuple2 accepts_one_of_single policy_total_def)
qed

lemma handles_one_of_macro:
  "handles (one_of_macro i is) oid \<longleftrightarrow> (\<forall>j \<in> set (i # is). handles (one_of_single j) oid)"
  by (induction "is" arbitrary: i) auto

text \<open>
  C33. A \<open>policy!\<close> block accepts a chain exactly when each of its items does, where an item whose
  \<open>if\<close> is not taken counts as accepting.
\<close>

theorem policy_macro_accepts:
  "accepts (policy_macro i is) ch \<longleftrightarrow> list_all (\<lambda>j. item_accepts True j ch) (i # is)"
  by (induction "is" arbitrary: i) (auto simp: accepts_policy_single)

text \<open>
  C34. A \<open>one_of!\<close> block whose policies all return a verdict accepts a chain exactly when one of
  its alternatives does, an alternative whose \<open>if\<close> is not taken counting as rejecting; and it
  claims a critical extension only if each alternative claims it.
\<close>

theorem one_of_macro_accepts:
  assumes "\<forall>j \<in> set (i # is). item_total j" and "chain_ok ch"
  shows "(accepts (one_of_macro i is) ch \<longleftrightarrow> (\<exists>j \<in> set (i # is). item_accepts False j ch)) \<and>
    (handles (one_of_macro i is) oid \<longleftrightarrow> (\<forall>j \<in> set (i # is). handles (one_of_single j) oid))"
  using accepts_one_of_macro [OF assms] handles_one_of_macro by blast

theorem one_of_macro_accepts_witness:
  "accepts (one_of_macro (IfItem False (WrappedOptional None)) [PlainItem (WrappedOptional None)])
     \<lparr>uc_certificates = [sample_certificate ''leaf'' ''root'']\<rparr>"
proof -
  have "\<forall>j \<in> set [IfItem False (WrappedOptional None), PlainItem (WrappedOptional None)]. item_total j"
    by (simp add: panic_free)
  moreover have "chain_ok \<lparr>uc_certificates = [sample_certificate ''leaf'' ''root'']\<rparr>" by simp
  ultimately show ?thesis
    using one_of_macro_accepts [of "IfItem False (WrappedOptional None)" "[PlainItem (WrappedOptional None)]"
        "\<lparr>uc_certificates = [sample_certificate ''leaf'' ''root'']\<rparr>"]
    by simp
qed

text \<open>
  When two alternatives both reject, the reported reason is the two reasons joined by
  \<open>and\<close>, first alternative first.
\<close>

theorem one_of_joins_reasons:
  assumes "chain_meets_policy_requirements p ch = Some (Err r)"
    and "chain_meets_policy_requirements q ch = Some (Err s)"
  shows "chain_meets_policy_requirements (OneOfTuple2 p q) ch =
           Some (Err (PolicyFailureReason (reason_text r @ '' and '' @ reason_text s)))"
  using assms by (simp add: OneOfTuple2_def failure_is_Err PolicyFailureReason_fmt_def)

theorem one_of_joins_reasons_witness:
  "chain_meets_policy_requirements (OneOfTuple2 (OneOfWrappedOptional None) (OneOfWrappedOptional None))
     \<lparr>uc_certificates = [sample_certificate ''leaf'' ''root'']\<rparr> =
   Some (Err (PolicyFailureReason (''alternative is disabled'' @ '' and '' @ ''alternative is disabled'')))"
  using one_of_joins_reasons [of "OneOfWrappedOptional None"
      "\<lparr>uc_certificates = [sample_certificate ''leaf'' ''root'']\<rparr>" "PolicyFailureReason ''alternative is disabled''"
      "OneOfWrappedOptional None" "PolicyFailureReason ''alternative is disabled''"]
  by (simp add: OneOfWrappedOptional_def failure_is_Err)

end
