(* ===== verification/Crypto.thy ===== *)
theory Crypto
  imports Certificates
begin

text \<open>
  \<^verbatim>\<open>crypto/mod.rs\<close>, \<^verbatim>\<open>crypto/backend.rs\<close>, \<^verbatim>\<open>crypto/aws_lc.rs\<close>, \<^verbatim>\<open>crypto/ring.rs\<close>,
  \<^verbatim>\<open>crypto/rust_crypto.rs\<close> and the fuzzing provider: which primitive checks a signature, and on which
  bytes. The primitives themselves are third-party code. They are the fields of the records
  \<open>signature_crate\<close> and \<open>rust_crypto_crates\<close>, about which nothing is assumed.
\<close>

datatype CryptoError = InvalidKey string | VerificationFailed

type_synonym signature_verifier =
  "AlgorithmIdentifier \<Rightarrow> SubjectPublicKeyInfo \<Rightarrow> bytes \<Rightarrow> bytes \<Rightarrow> (CryptoError + unit) may_panic"

subsection \<open>Algorithm selection\<close>

text \<open>Constants of \<open>oid_registry\<close>.\<close>

definition OID_PKCS1_SHA1WITHRSA :: oid where "OID_PKCS1_SHA1WITHRSA = [1, 2, 840, 113549, 1, 1, 5]"

definition OID_SHA1_WITH_RSA :: oid where "OID_SHA1_WITH_RSA = [1, 3, 14, 3, 2, 29]"

definition OID_PKCS1_SHA256WITHRSA :: oid where "OID_PKCS1_SHA256WITHRSA = [1, 2, 840, 113549, 1, 1, 11]"

definition OID_PKCS1_SHA384WITHRSA :: oid where "OID_PKCS1_SHA384WITHRSA = [1, 2, 840, 113549, 1, 1, 12]"

definition OID_PKCS1_SHA512WITHRSA :: oid where "OID_PKCS1_SHA512WITHRSA = [1, 2, 840, 113549, 1, 1, 13]"

definition OID_PKCS1_RSASSAPSS :: oid where "OID_PKCS1_RSASSAPSS = [1, 2, 840, 113549, 1, 1, 10]"

definition OID_SIG_ECDSA_WITH_SHA256 :: oid where "OID_SIG_ECDSA_WITH_SHA256 = [1, 2, 840, 10045, 4, 3, 2]"

definition OID_SIG_ECDSA_WITH_SHA384 :: oid where "OID_SIG_ECDSA_WITH_SHA384 = [1, 2, 840, 10045, 4, 3, 3]"

definition OID_SIG_ECDSA_WITH_SHA512 :: oid where "OID_SIG_ECDSA_WITH_SHA512 = [1, 2, 840, 10045, 4, 3, 4]"

definition OID_SIG_ED25519 :: oid where "OID_SIG_ED25519 = [1, 3, 101, 112]"

definition OID_EC_P256 :: oid where "OID_EC_P256 = [1, 2, 840, 10045, 3, 1, 7]"

definition OID_NIST_EC_P384 :: oid where "OID_NIST_EC_P384 = [1, 3, 132, 0, 34]"

definition OID_NIST_HASH_SHA256 :: oid where "OID_NIST_HASH_SHA256 = [2, 16, 840, 1, 101, 3, 4, 2, 1]"

definition OID_NIST_HASH_SHA384 :: oid where "OID_NIST_HASH_SHA384 = [2, 16, 840, 1, 101, 3, 4, 2, 2]"

definition OID_NIST_HASH_SHA512 :: oid where "OID_NIST_HASH_SHA512 = [2, 16, 840, 1, 101, 3, 4, 2, 3]"

lemmas oid_defs =
  OID_PKCS1_SHA1WITHRSA_def OID_SHA1_WITH_RSA_def OID_PKCS1_SHA256WITHRSA_def
  OID_PKCS1_SHA384WITHRSA_def OID_PKCS1_SHA512WITHRSA_def OID_PKCS1_RSASSAPSS_def
  OID_SIG_ECDSA_WITH_SHA256_def OID_SIG_ECDSA_WITH_SHA384_def OID_SIG_ECDSA_WITH_SHA512_def
  OID_SIG_ED25519_def OID_EC_P256_def OID_NIST_EC_P384_def OID_NIST_HASH_SHA256_def
  OID_NIST_HASH_SHA384_def OID_NIST_HASH_SHA512_def

datatype VerificationAlgorithm =
    RsaPkcs1Sha1
  | RsaPkcs1Sha256
  | RsaPkcs1Sha384
  | RsaPkcs1Sha512
  | RsaPssSha256
  | RsaPssSha384
  | RsaPssSha512
  | EcdsaP256Sha256
  | EcdsaP256Sha384
  | EcdsaP256Sha512
  | EcdsaP384Sha256
  | EcdsaP384Sha384
  | EcdsaP384Sha512
  | Ed25519

definition rsa_pss_digest_bits :: "asn1_any option \<Rightarrow> int option" where
  "rsa_pss_digest_bits params = do {
     params \<leftarrow> params;
     hash_algorithm \<leftarrow> any_pss_hash_algorithm_oid params;
     if hash_algorithm = OID_NIST_HASH_SHA256 then Some 256
     else if hash_algorithm = OID_NIST_HASH_SHA384 then Some 384
     else if hash_algorithm = OID_NIST_HASH_SHA512 then Some 512
     else None }"

definition rsa_pss_algorithm :: "asn1_any option \<Rightarrow> VerificationAlgorithm option" where
  "rsa_pss_algorithm params = do {
     bits \<leftarrow> rsa_pss_digest_bits params;
     if bits = 256 then Some RsaPssSha256
     else if bits = 384 then Some RsaPssSha384
     else if bits = 512 then Some RsaPssSha512
     else None }"

definition ecdsa_algorithm :: "AlgorithmIdentifier \<Rightarrow> int \<Rightarrow> VerificationAlgorithm option" where
  "ecdsa_algorithm public_key_algorithm sha_len = do {
     parameters \<leftarrow> alg_parameters public_key_algorithm;
     curve_oid \<leftarrow> any_as_oid parameters;
     if curve_oid = OID_EC_P256 then
       (if sha_len = 256 then Some EcdsaP256Sha256
        else if sha_len = 384 then Some EcdsaP256Sha384
        else if sha_len = 512 then Some EcdsaP256Sha512
        else None)
     else if curve_oid = OID_NIST_EC_P384 then
       (if sha_len = 256 then Some EcdsaP384Sha256
        else if sha_len = 384 then Some EcdsaP384Sha384
        else if sha_len = 512 then Some EcdsaP384Sha512
        else None)
     else None }"

definition verification_algorithm ::
  "AlgorithmIdentifier \<Rightarrow> SubjectPublicKeyInfo \<Rightarrow> VerificationAlgorithm option" where
  "verification_algorithm signature_algorithm public_key =
     (let oid = alg_algorithm signature_algorithm
      in if oid = OID_PKCS1_SHA1WITHRSA \<or> oid = OID_SHA1_WITH_RSA then Some RsaPkcs1Sha1
         else if oid = OID_PKCS1_SHA256WITHRSA then Some RsaPkcs1Sha256
         else if oid = OID_PKCS1_SHA384WITHRSA then Some RsaPkcs1Sha384
         else if oid = OID_PKCS1_SHA512WITHRSA then Some RsaPkcs1Sha512
         else if oid = OID_PKCS1_RSASSAPSS then rsa_pss_algorithm (alg_parameters signature_algorithm)
         else if oid = OID_SIG_ECDSA_WITH_SHA256 then ecdsa_algorithm (spki_algorithm public_key) 256
         else if oid = OID_SIG_ECDSA_WITH_SHA384 then ecdsa_algorithm (spki_algorithm public_key) 384
         else if oid = OID_SIG_ECDSA_WITH_SHA512 then ecdsa_algorithm (spki_algorithm public_key) 512
         else if oid = OID_SIG_ED25519 then Some Ed25519
         else None)"

subsection \<open>The ring-shaped backends\<close>

text \<open>The verification algorithms the crates ring and aws-lc-rs export, as far as they are named.\<close>

datatype crate_algorithm =
    RSA_PKCS1_1024_8192_SHA1_FOR_LEGACY_USE_ONLY
  | RSA_PKCS1_2048_8192_SHA256
  | RSA_PKCS1_2048_8192_SHA384
  | RSA_PKCS1_2048_8192_SHA512
  | RSA_PSS_2048_8192_SHA256
  | RSA_PSS_2048_8192_SHA384
  | RSA_PSS_2048_8192_SHA512
  | ED25519
  | ECDSA_P256_SHA256_ASN1
  | ECDSA_P256_SHA384_ASN1
  | ECDSA_P256_SHA512_ASN1
  | ECDSA_P384_SHA256_ASN1
  | ECDSA_P384_SHA384_ASN1
  | ECDSA_P384_SHA512_ASN1

text \<open>\<open>UnparsedPublicKey::new(algorithm, key).verify(message, signature).is_ok()\<close>.\<close>

record signature_crate =
  unparsed_public_key_verify :: "crate_algorithm \<Rightarrow> bytes \<Rightarrow> bytes \<Rightarrow> bytes \<Rightarrow> bool"

definition ecdsa_p256 :: "int \<Rightarrow> VerificationAlgorithm may_panic" where
  "ecdsa_p256 sha_len =
     (if sha_len = 256 then Some EcdsaP256Sha256
      else if sha_len = 384 then Some EcdsaP256Sha384
      else if sha_len = 512 then Some EcdsaP256Sha512
      else panic)"

definition ecdsa_p384 :: "int \<Rightarrow> VerificationAlgorithm may_panic" where
  "ecdsa_p384 sha_len =
     (if sha_len = 256 then Some EcdsaP384Sha256
      else if sha_len = 384 then Some EcdsaP384Sha384
      else if sha_len = 512 then Some EcdsaP384Sha512
      else panic)"

text \<open>
  The guarded arms the macro generates from one of its groups: the first whose digest names the
  algorithm; \<open>Some None\<close> when no guard holds.
\<close>

fun ecdsa_arms ::
  "(int \<Rightarrow> VerificationAlgorithm may_panic) \<Rightarrow> VerificationAlgorithm \<Rightarrow> (int \<times> crate_algorithm) list \<Rightarrow>
   crate_algorithm option may_panic" where
  "ecdsa_arms curve algorithm [] = Some None"
| "ecdsa_arms curve algorithm ((sha, alg) # arms) = do {
     named \<leftarrow> curve sha;
     if algorithm = named then Some (Some alg) else ecdsa_arms curve algorithm arms }"

definition backend_algorithm ::
  "(int \<times> crate_algorithm) list \<Rightarrow> (int \<times> crate_algorithm) list \<Rightarrow> VerificationAlgorithm \<Rightarrow>
   crate_algorithm option may_panic" where
  "backend_algorithm p256 p384 algorithm =
     (case algorithm of
        RsaPkcs1Sha1 \<Rightarrow> Some (Some RSA_PKCS1_1024_8192_SHA1_FOR_LEGACY_USE_ONLY)
      | RsaPkcs1Sha256 \<Rightarrow> Some (Some RSA_PKCS1_2048_8192_SHA256)
      | RsaPkcs1Sha384 \<Rightarrow> Some (Some RSA_PKCS1_2048_8192_SHA384)
      | RsaPkcs1Sha512 \<Rightarrow> Some (Some RSA_PKCS1_2048_8192_SHA512)
      | RsaPssSha256 \<Rightarrow> Some (Some RSA_PSS_2048_8192_SHA256)
      | RsaPssSha384 \<Rightarrow> Some (Some RSA_PSS_2048_8192_SHA384)
      | RsaPssSha512 \<Rightarrow> Some (Some RSA_PSS_2048_8192_SHA512)
      | Ed25519 \<Rightarrow> Some (Some ED25519)
      | _ \<Rightarrow> do {
          hit \<leftarrow> ecdsa_arms ecdsa_p256 algorithm p256;
          case hit of Some alg \<Rightarrow> Some (Some alg) | None \<Rightarrow> ecdsa_arms ecdsa_p384 algorithm p384 })"

definition unsupported_algorithm :: "asn1_library \<Rightarrow> AlgorithmIdentifier \<Rightarrow> CryptoError" where
  "unsupported_algorithm lib algorithm =
     InvalidKey (''unsupported algorithm: '' @ lib_oid_to_string lib (alg_algorithm algorithm))"

definition backend_verify_signature ::
  "(int \<times> crate_algorithm) list \<Rightarrow> (int \<times> crate_algorithm) list \<Rightarrow> signature_crate \<Rightarrow> asn1_library \<Rightarrow>
   signature_verifier" where
  "backend_verify_signature p256 p384 krate lib algorithm public_key message signature = do {
     selected \<leftarrow>
       (case verification_algorithm algorithm public_key of
          None \<Rightarrow> Some None
        | Some v \<Rightarrow> backend_algorithm p256 p384 v);
     case selected of
       None \<Rightarrow> Some (Err (unsupported_algorithm lib algorithm))
     | Some alg \<Rightarrow>
         if unparsed_public_key_verify krate alg (spki_subject_public_key public_key) message signature
         then Some (Ok ())
         else Some (Err VerificationFailed) }"

definition aws_lc_p256 :: "(int \<times> crate_algorithm) list" where
  "aws_lc_p256 =
     [(256, ECDSA_P256_SHA256_ASN1), (384, ECDSA_P256_SHA384_ASN1), (512, ECDSA_P256_SHA512_ASN1)]"

definition aws_lc_p384 :: "(int \<times> crate_algorithm) list" where
  "aws_lc_p384 =
     [(256, ECDSA_P384_SHA256_ASN1), (384, ECDSA_P384_SHA384_ASN1), (512, ECDSA_P384_SHA512_ASN1)]"

definition AwsLc :: "signature_crate \<Rightarrow> asn1_library \<Rightarrow> signature_verifier" where
  "AwsLc = backend_verify_signature aws_lc_p256 aws_lc_p384"

definition ring_p256 :: "(int \<times> crate_algorithm) list" where
  "ring_p256 = [(256, ECDSA_P256_SHA256_ASN1), (384, ECDSA_P256_SHA384_ASN1)]"

definition ring_p384 :: "(int \<times> crate_algorithm) list" where
  "ring_p384 = [(256, ECDSA_P384_SHA256_ASN1), (384, ECDSA_P384_SHA384_ASN1)]"

definition Ring :: "signature_crate \<Rightarrow> asn1_library \<Rightarrow> signature_verifier" where
  "Ring = backend_verify_signature ring_p256 ring_p384"

subsection \<open>The RustCrypto backend\<close>

datatype digest = Sha1 | Sha256 | Sha384 | Sha512

text \<open>A decoded RSA key: the size of its modulus in bytes, and what identifies it.\<close>

record rsa_public_key_value =
  rsa_size :: nat
  rsa_der :: bytes

text \<open>
  The RustCrypto crates: key and signature decoding (\<open>Inl\<close> carries the error's text) and the
  verification functions, each telling whether it returned \<open>Ok\<close>.
\<close>

record rust_crypto_crates =
  rsa_from_public_key_der :: "bytes \<Rightarrow> string + rsa_public_key_value"
  pkcs1v15_signature :: "bytes \<Rightarrow> bytes option"
  pkcs1v15_verify :: "digest \<Rightarrow> rsa_public_key_value \<Rightarrow> bytes \<Rightarrow> bytes \<Rightarrow> bool"
  pss_signature :: "bytes \<Rightarrow> bytes option"
  pss_verify :: "digest \<Rightarrow> rsa_public_key_value \<Rightarrow> bytes \<Rightarrow> bytes \<Rightarrow> bool"
  digest_of :: "digest \<Rightarrow> bytes \<Rightarrow> bytes"
  p256_from_sec1_bytes :: "bytes \<Rightarrow> string + bytes"
  p256_signature_from_der :: "bytes \<Rightarrow> bytes option"
  p256_verify :: "bytes \<Rightarrow> bytes \<Rightarrow> bytes \<Rightarrow> bool"
  p256_verify_prehash :: "bytes \<Rightarrow> bytes \<Rightarrow> bytes \<Rightarrow> bool"
  p384_from_sec1_bytes :: "bytes \<Rightarrow> string + bytes"
  p384_signature_from_der :: "bytes \<Rightarrow> bytes option"
  p384_verify :: "bytes \<Rightarrow> bytes \<Rightarrow> bytes \<Rightarrow> bool"
  p384_verify_prehash :: "bytes \<Rightarrow> bytes \<Rightarrow> bytes \<Rightarrow> bool"
  ed25519_key_try_from :: "bytes \<Rightarrow> string + bytes"
  ed25519_signature_from_slice :: "bytes \<Rightarrow> bytes option"
  ed25519_verify :: "bytes \<Rightarrow> bytes \<Rightarrow> bytes \<Rightarrow> bool"

definition MIN_RSA_MODULUS_BYTES :: nat where "MIN_RSA_MODULUS_BYTES = 2048 div 8"

definition MAX_RSA_MODULUS_BYTES :: nat where "MAX_RSA_MODULUS_BYTES = 8192 div 8"

definition rsa_public_key :: "rust_crypto_crates \<Rightarrow> bytes \<Rightarrow> CryptoError + rsa_public_key_value" where
  "rsa_public_key rc spki_der =
     (case rsa_from_public_key_der rc spki_der of
        Inl e \<Rightarrow> Err (InvalidKey e)
      | Inr key \<Rightarrow>
          let modulus_bytes = rsa_size key
          in if \<not> (MIN_RSA_MODULUS_BYTES \<le> modulus_bytes \<and> modulus_bytes \<le> MAX_RSA_MODULUS_BYTES)
             then Err (InvalidKey (''RSA modulus of '' @ decimal (modulus_bytes * 8) @
                    '' bits is outside the supported range of '' @ decimal (MIN_RSA_MODULUS_BYTES * 8) @
                    ''-'' @ decimal (MAX_RSA_MODULUS_BYTES * 8) @ '' bits''))
             else Ok key)"

definition verify_rsa_pkcs1 ::
  "rust_crypto_crates \<Rightarrow> digest \<Rightarrow> bytes \<Rightarrow> bytes \<Rightarrow> bytes \<Rightarrow> CryptoError + unit" where
  "verify_rsa_pkcs1 rc d spki_der signature message =
     (case rsa_public_key rc spki_der of
        Inl e \<Rightarrow> Err e
      | Inr verifying_key \<Rightarrow>
          (case pkcs1v15_signature rc signature of
             None \<Rightarrow> Err VerificationFailed
           | Some s \<Rightarrow>
               if pkcs1v15_verify rc d verifying_key message s then Ok () else Err VerificationFailed))"

definition verify_rsa_pss ::
  "rust_crypto_crates \<Rightarrow> digest \<Rightarrow> bytes \<Rightarrow> bytes \<Rightarrow> bytes \<Rightarrow> CryptoError + unit" where
  "verify_rsa_pss rc d spki_der signature message =
     (case rsa_public_key rc spki_der of
        Inl e \<Rightarrow> Err e
      | Inr verifying_key \<Rightarrow>
          (case pss_signature rc signature of
             None \<Rightarrow> Err VerificationFailed
           | Some s \<Rightarrow>
               if pss_verify rc d verifying_key message s then Ok () else Err VerificationFailed))"

definition verify_ecdsa_p256_sha256 ::
  "rust_crypto_crates \<Rightarrow> bytes \<Rightarrow> bytes \<Rightarrow> bytes \<Rightarrow> CryptoError + unit" where
  "verify_ecdsa_p256_sha256 rc key_bytes signature message =
     (case p256_from_sec1_bytes rc key_bytes of
        Inl e \<Rightarrow> Err (InvalidKey e)
      | Inr verifying_key \<Rightarrow>
          (case p256_signature_from_der rc signature of
             None \<Rightarrow> Err VerificationFailed
           | Some s \<Rightarrow>
               if p256_verify rc verifying_key message s then Ok () else Err VerificationFailed))"

definition verify_ecdsa_p256_sha384 ::
  "rust_crypto_crates \<Rightarrow> bytes \<Rightarrow> bytes \<Rightarrow> bytes \<Rightarrow> CryptoError + unit" where
  "verify_ecdsa_p256_sha384 rc key_bytes signature message =
     (case p256_from_sec1_bytes rc key_bytes of
        Inl e \<Rightarrow> Err (InvalidKey e)
      | Inr verifying_key \<Rightarrow>
          (case p256_signature_from_der rc signature of
             None \<Rightarrow> Err VerificationFailed
           | Some s \<Rightarrow>
               if p256_verify_prehash rc verifying_key (digest_of rc Sha384 message) s then Ok ()
               else Err VerificationFailed))"

definition verify_ecdsa_p384_sha256 ::
  "rust_crypto_crates \<Rightarrow> bytes \<Rightarrow> bytes \<Rightarrow> bytes \<Rightarrow> CryptoError + unit" where
  "verify_ecdsa_p384_sha256 rc key_bytes signature message =
     (case p384_from_sec1_bytes rc key_bytes of
        Inl e \<Rightarrow> Err (InvalidKey e)
      | Inr verifying_key \<Rightarrow>
          (case p384_signature_from_der rc signature of
             None \<Rightarrow> Err VerificationFailed
           | Some s \<Rightarrow>
               if p384_verify_prehash rc verifying_key (digest_of rc Sha256 message) s then Ok ()
               else Err VerificationFailed))"

definition verify_ecdsa_p384_sha384 ::
  "rust_crypto_crates \<Rightarrow> bytes \<Rightarrow> bytes \<Rightarrow> bytes \<Rightarrow> CryptoError + unit" where
  "verify_ecdsa_p384_sha384 rc key_bytes signature message =
     (case p384_from_sec1_bytes rc key_bytes of
        Inl e \<Rightarrow> Err (InvalidKey e)
      | Inr verifying_key \<Rightarrow>
          (case p384_signature_from_der rc signature of
             None \<Rightarrow> Err VerificationFailed
           | Some s \<Rightarrow>
               if p384_verify rc verifying_key message s then Ok () else Err VerificationFailed))"

definition verify_ed25519 ::
  "rust_crypto_crates \<Rightarrow> bytes \<Rightarrow> bytes \<Rightarrow> bytes \<Rightarrow> CryptoError + unit" where
  "verify_ed25519 rc key_bytes signature message =
     (case ed25519_key_try_from rc key_bytes of
        Inl e \<Rightarrow> Err (InvalidKey e)
      | Inr verifying_key \<Rightarrow>
          (case ed25519_signature_from_slice rc signature of
             None \<Rightarrow> Err VerificationFailed
           | Some s \<Rightarrow>
               if ed25519_verify rc verifying_key message s then Ok () else Err VerificationFailed))"

definition RustCrypto :: "rust_crypto_crates \<Rightarrow> asn1_library \<Rightarrow> signature_verifier" where
  "RustCrypto rc lib algorithm public_key message signature =
     (let unsupported = unsupported_algorithm lib algorithm;
          spki_der = spki_raw public_key;
          key_bytes = spki_subject_public_key public_key
      in case verification_algorithm algorithm public_key of
           None \<Rightarrow> Some (Err unsupported)
         | Some v \<Rightarrow> Some
             (case v of
                RsaPkcs1Sha1 \<Rightarrow> verify_rsa_pkcs1 rc Sha1 spki_der signature message
              | RsaPkcs1Sha256 \<Rightarrow> verify_rsa_pkcs1 rc Sha256 spki_der signature message
              | RsaPkcs1Sha384 \<Rightarrow> verify_rsa_pkcs1 rc Sha384 spki_der signature message
              | RsaPkcs1Sha512 \<Rightarrow> verify_rsa_pkcs1 rc Sha512 spki_der signature message
              | RsaPssSha256 \<Rightarrow> verify_rsa_pss rc Sha256 spki_der signature message
              | RsaPssSha384 \<Rightarrow> verify_rsa_pss rc Sha384 spki_der signature message
              | RsaPssSha512 \<Rightarrow> verify_rsa_pss rc Sha512 spki_der signature message
              | EcdsaP256Sha256 \<Rightarrow> verify_ecdsa_p256_sha256 rc key_bytes signature message
              | EcdsaP256Sha384 \<Rightarrow> verify_ecdsa_p256_sha384 rc key_bytes signature message
              | EcdsaP384Sha256 \<Rightarrow> verify_ecdsa_p384_sha256 rc key_bytes signature message
              | EcdsaP384Sha384 \<Rightarrow> verify_ecdsa_p384_sha384 rc key_bytes signature message
              | Ed25519 \<Rightarrow> verify_ed25519 rc key_bytes signature message
              | EcdsaP256Sha512 \<Rightarrow> Err unsupported
              | EcdsaP384Sha512 \<Rightarrow> Err unsupported))"

subsection \<open>Choosing a provider\<close>

definition UndeterminedCryptoBackend :: signature_verifier where
  "UndeterminedCryptoBackend algorithm public_key message signature = panic"

text \<open>The \<open>cfg\<close> attributes as booleans.\<close>

record crate_features =
  feature_aws_lc :: bool
  feature_ring :: bool
  feature_rust_crypto :: bool

definition default_provider ::
  "crate_features \<Rightarrow> signature_crate \<Rightarrow> signature_crate \<Rightarrow> rust_crypto_crates \<Rightarrow> asn1_library \<Rightarrow>
   signature_verifier" where
  "default_provider f aws_lc_rs ring_krate rc lib =
     (if feature_aws_lc f \<and> \<not> feature_ring f \<and> \<not> feature_rust_crypto f then AwsLc aws_lc_rs lib
      else if feature_ring f \<and> \<not> feature_aws_lc f \<and> \<not> feature_rust_crypto f then Ring ring_krate lib
      else if feature_rust_crypto f \<and> \<not> feature_aws_lc f \<and> \<not> feature_ring f then RustCrypto rc lib
      else UndeterminedCryptoBackend)"

text \<open>The fuzzing provider, which accepts every signature.\<close>

definition fuzzing_provider :: signature_verifier where
  "fuzzing_provider algorithm public_key message signature = Some (Ok ())"

subsection \<open>The contract of a backend\<close>

text \<open>
  A backend returns on every input, supports a fixed set of algorithms and reports every other one
  as an unsupported key, and otherwise succeeds exactly when its check does.
\<close>

locale crypto_backend =
  fixes verify :: signature_verifier
    and supports :: "VerificationAlgorithm \<Rightarrow> bool"
    and check :: "VerificationAlgorithm \<Rightarrow> SubjectPublicKeyInfo \<Rightarrow> bytes \<Rightarrow> bytes \<Rightarrow> bool"
    and describe :: "AlgorithmIdentifier \<Rightarrow> CryptoError"
  assumes unselected: "verification_algorithm a k = None \<Longrightarrow> verify a k m s = Some (Err (describe a))"
    and unsupported: "verification_algorithm a k = Some v \<Longrightarrow> \<not> supports v \<Longrightarrow>
          verify a k m s = Some (Err (describe a))"
    and checked: "verification_algorithm a k = Some v \<Longrightarrow> supports v \<Longrightarrow>
          verify a k m s \<noteq> None \<and> (verify a k m s = Some (Ok ()) \<longleftrightarrow> check v k m s)"
begin

lemma verify_cases:
  "verify a k m s \<noteq> None \<and>
   (verify a k m s = Some (Ok ()) \<longleftrightarrow> (\<exists>v. verification_algorithm a k = Some v \<and> supports v \<and> check v k m s))"
proof (cases "verification_algorithm a k")
  case None
  then show ?thesis using unselected by simp
next
  case (Some v)
  then show ?thesis using unsupported [OF Some, of m s] checked [OF Some, of m s]
    by (cases "supports v") auto
qed

lemma verify_returns: "verify a k m s \<noteq> None"
  using verify_cases by blast

lemma verify_Ok_iff:
  "verify a k m s = Some (Ok ()) \<longleftrightarrow>
     (\<exists>v. verification_algorithm a k = Some v \<and> supports v \<and> check v k m s)"
  using verify_cases by blast

end

text \<open>The crate algorithm of the same name.\<close>

fun crate_name :: "VerificationAlgorithm \<Rightarrow> crate_algorithm" where
  "crate_name RsaPkcs1Sha1 = RSA_PKCS1_1024_8192_SHA1_FOR_LEGACY_USE_ONLY"
| "crate_name RsaPkcs1Sha256 = RSA_PKCS1_2048_8192_SHA256"
| "crate_name RsaPkcs1Sha384 = RSA_PKCS1_2048_8192_SHA384"
| "crate_name RsaPkcs1Sha512 = RSA_PKCS1_2048_8192_SHA512"
| "crate_name RsaPssSha256 = RSA_PSS_2048_8192_SHA256"
| "crate_name RsaPssSha384 = RSA_PSS_2048_8192_SHA384"
| "crate_name RsaPssSha512 = RSA_PSS_2048_8192_SHA512"
| "crate_name EcdsaP256Sha256 = ECDSA_P256_SHA256_ASN1"
| "crate_name EcdsaP256Sha384 = ECDSA_P256_SHA384_ASN1"
| "crate_name EcdsaP256Sha512 = ECDSA_P256_SHA512_ASN1"
| "crate_name EcdsaP384Sha256 = ECDSA_P384_SHA256_ASN1"
| "crate_name EcdsaP384Sha384 = ECDSA_P384_SHA384_ASN1"
| "crate_name EcdsaP384Sha512 = ECDSA_P384_SHA512_ASN1"
| "crate_name Ed25519 = ED25519"

definition ecdsa_sha512 :: "VerificationAlgorithm \<Rightarrow> bool" where
  "ecdsa_sha512 v \<longleftrightarrow> v = EcdsaP256Sha512 \<or> v = EcdsaP384Sha512"

lemma aws_lc_algorithm: "backend_algorithm aws_lc_p256 aws_lc_p384 v = Some (Some (crate_name v))"
  by (cases v)
    (simp_all add: backend_algorithm_def aws_lc_p256_def aws_lc_p384_def ecdsa_p256_def ecdsa_p384_def)

lemma ring_algorithm:
  "backend_algorithm ring_p256 ring_p384 v = Some (if ecdsa_sha512 v then None else Some (crate_name v))"
  by (cases v)
    (simp_all add: backend_algorithm_def ring_p256_def ring_p384_def ecdsa_p256_def ecdsa_p384_def
      ecdsa_sha512_def)

interpretation aws_lc_backend: crypto_backend "AwsLc krate lib" "\<lambda>v. True"
    "\<lambda>v k m s. unparsed_public_key_verify krate (crate_name v) (spki_subject_public_key k) m s"
    "unsupported_algorithm lib" for krate lib
  by unfold_locales (auto simp: AwsLc_def backend_verify_signature_def aws_lc_algorithm)

interpretation ring_backend: crypto_backend "Ring krate lib" "\<lambda>v. \<not> ecdsa_sha512 v"
    "\<lambda>v k m s. unparsed_public_key_verify krate (crate_name v) (spki_subject_public_key k) m s"
    "unsupported_algorithm lib" for krate lib
  by unfold_locales (auto simp: Ring_def backend_verify_signature_def ring_algorithm)

text \<open>What each check of the RustCrypto backend amounts to.\<close>

definition rsa_check ::
  "rust_crypto_crates \<Rightarrow> (bytes \<Rightarrow> bytes option) \<Rightarrow> (rsa_public_key_value \<Rightarrow> bytes \<Rightarrow> bytes \<Rightarrow> bool) \<Rightarrow>
   SubjectPublicKeyInfo \<Rightarrow> bytes \<Rightarrow> bytes \<Rightarrow> bool" where
  "rsa_check rc decode ver k m s \<longleftrightarrow>
     (\<exists>key sig. rsa_from_public_key_der rc (spki_raw k) = Inr key \<and>
        256 \<le> rsa_size key \<and> rsa_size key \<le> 1024 \<and> decode s = Some sig \<and> ver key m sig)"

definition key_check ::
  "(bytes \<Rightarrow> string + bytes) \<Rightarrow> (bytes \<Rightarrow> bytes option) \<Rightarrow> (bytes \<Rightarrow> bytes \<Rightarrow> bytes \<Rightarrow> bool) \<Rightarrow>
   SubjectPublicKeyInfo \<Rightarrow> bytes \<Rightarrow> bytes \<Rightarrow> bool" where
  "key_check parse_key decode ver k m s \<longleftrightarrow>
     (\<exists>key sig. parse_key (spki_subject_public_key k) = Inr key \<and> decode s = Some sig \<and> ver key m sig)"

fun rust_crypto_check ::
  "rust_crypto_crates \<Rightarrow> VerificationAlgorithm \<Rightarrow> SubjectPublicKeyInfo \<Rightarrow> bytes \<Rightarrow> bytes \<Rightarrow> bool" where
  "rust_crypto_check rc RsaPkcs1Sha1 = rsa_check rc (pkcs1v15_signature rc) (pkcs1v15_verify rc Sha1)"
| "rust_crypto_check rc RsaPkcs1Sha256 = rsa_check rc (pkcs1v15_signature rc) (pkcs1v15_verify rc Sha256)"
| "rust_crypto_check rc RsaPkcs1Sha384 = rsa_check rc (pkcs1v15_signature rc) (pkcs1v15_verify rc Sha384)"
| "rust_crypto_check rc RsaPkcs1Sha512 = rsa_check rc (pkcs1v15_signature rc) (pkcs1v15_verify rc Sha512)"
| "rust_crypto_check rc RsaPssSha256 = rsa_check rc (pss_signature rc) (pss_verify rc Sha256)"
| "rust_crypto_check rc RsaPssSha384 = rsa_check rc (pss_signature rc) (pss_verify rc Sha384)"
| "rust_crypto_check rc RsaPssSha512 = rsa_check rc (pss_signature rc) (pss_verify rc Sha512)"
| "rust_crypto_check rc EcdsaP256Sha256 =
     key_check (p256_from_sec1_bytes rc) (p256_signature_from_der rc) (p256_verify rc)"
| "rust_crypto_check rc EcdsaP256Sha384 =
     key_check (p256_from_sec1_bytes rc) (p256_signature_from_der rc)
       (\<lambda>key m. p256_verify_prehash rc key (digest_of rc Sha384 m))"
| "rust_crypto_check rc EcdsaP384Sha256 =
     key_check (p384_from_sec1_bytes rc) (p384_signature_from_der rc)
       (\<lambda>key m. p384_verify_prehash rc key (digest_of rc Sha256 m))"
| "rust_crypto_check rc EcdsaP384Sha384 =
     key_check (p384_from_sec1_bytes rc) (p384_signature_from_der rc) (p384_verify rc)"
| "rust_crypto_check rc Ed25519 =
     key_check (ed25519_key_try_from rc) (ed25519_signature_from_slice rc) (ed25519_verify rc)"
| "rust_crypto_check rc EcdsaP256Sha512 = (\<lambda>k m s. False)"
| "rust_crypto_check rc EcdsaP384Sha512 = (\<lambda>k m s. False)"

lemma rsa_public_key_Ok:
  "rsa_public_key rc der = Inr key \<longleftrightarrow>
     rsa_from_public_key_der rc der = Inr key \<and> 256 \<le> rsa_size key \<and> rsa_size key \<le> 1024"
  by (auto simp: rsa_public_key_def MIN_RSA_MODULUS_BYTES_def MAX_RSA_MODULUS_BYTES_def Let_def
      split: sum.splits if_splits)

lemma rsa_check_alt:
  "rsa_check rc decode ver k m s \<longleftrightarrow>
     (\<exists>key sig. rsa_public_key rc (spki_raw k) = Inr key \<and> decode s = Some sig \<and> ver key m sig)"
  by (auto simp: rsa_check_def rsa_public_key_Ok)

lemma verify_rsa_Ok:
  "verify_rsa_pkcs1 rc d (spki_raw k) s m = Inr () \<longleftrightarrow>
     rsa_check rc (pkcs1v15_signature rc) (pkcs1v15_verify rc d) k m s"
  "verify_rsa_pss rc d (spki_raw k) s m = Inr () \<longleftrightarrow>
     rsa_check rc (pss_signature rc) (pss_verify rc d) k m s"
  by (auto simp: verify_rsa_pkcs1_def verify_rsa_pss_def rsa_check_alt split: sum.splits option.splits)

lemma verify_key_Ok:
  "verify_ecdsa_p256_sha256 rc (spki_subject_public_key k) s m = Inr () \<longleftrightarrow>
     rust_crypto_check rc EcdsaP256Sha256 k m s"
  "verify_ecdsa_p256_sha384 rc (spki_subject_public_key k) s m = Inr () \<longleftrightarrow>
     rust_crypto_check rc EcdsaP256Sha384 k m s"
  "verify_ecdsa_p384_sha256 rc (spki_subject_public_key k) s m = Inr () \<longleftrightarrow>
     rust_crypto_check rc EcdsaP384Sha256 k m s"
  "verify_ecdsa_p384_sha384 rc (spki_subject_public_key k) s m = Inr () \<longleftrightarrow>
     rust_crypto_check rc EcdsaP384Sha384 k m s"
  "verify_ed25519 rc (spki_subject_public_key k) s m = Inr () \<longleftrightarrow> rust_crypto_check rc Ed25519 k m s"
  by (auto simp: verify_ecdsa_p256_sha256_def verify_ecdsa_p256_sha384_def verify_ecdsa_p384_sha256_def
      verify_ecdsa_p384_sha384_def verify_ed25519_def key_check_def split: sum.splits option.splits)

interpretation rust_crypto_backend: crypto_backend "RustCrypto rc lib" "\<lambda>v. \<not> ecdsa_sha512 v"
    "rust_crypto_check rc" "unsupported_algorithm lib" for rc lib
proof
  fix a k m s v
  assume v: "verification_algorithm a k = Some v"
  show "\<not> ecdsa_sha512 v \<Longrightarrow> RustCrypto rc lib a k m s \<noteq> None \<and>
      (RustCrypto rc lib a k m s = Some (Inr ()) \<longleftrightarrow> rust_crypto_check rc v k m s)"
    using v verify_rsa_Ok [of rc _ k s m] verify_key_Ok [of rc k s m]
    by (cases v) (simp_all add: RustCrypto_def ecdsa_sha512_def del: rust_crypto_check.simps(8-12))
  show "\<not> \<not> ecdsa_sha512 v \<Longrightarrow> RustCrypto rc lib a k m s = Some (Inl (unsupported_algorithm lib a))"
    using v by (auto simp: RustCrypto_def ecdsa_sha512_def)
qed (simp add: RustCrypto_def)

subsection \<open>Properties\<close>

text \<open>What an algorithm identifier and a key must say for an algorithm to be selected.\<close>

definition names_curve :: "SubjectPublicKeyInfo \<Rightarrow> oid \<Rightarrow> bool" where
  "names_curve k c \<longleftrightarrow>
     (\<exists>ps. alg_parameters (spki_algorithm k) = Some ps \<and> any_as_oid ps = Some c)"

definition names_pss_hash :: "AlgorithmIdentifier \<Rightarrow> oid \<Rightarrow> bool" where
  "names_pss_hash a h \<longleftrightarrow>
     (\<exists>ps. alg_parameters a = Some ps \<and> any_pss_hash_algorithm_oid ps = Some h)"

fun selected_by :: "VerificationAlgorithm \<Rightarrow> AlgorithmIdentifier \<Rightarrow> SubjectPublicKeyInfo \<Rightarrow> bool" where
  "selected_by RsaPkcs1Sha1 a k =
     (alg_algorithm a \<in> {[1, 2, 840, 113549, 1, 1, 5], [1, 3, 14, 3, 2, 29]})"
| "selected_by RsaPkcs1Sha256 a k = (alg_algorithm a = [1, 2, 840, 113549, 1, 1, 11])"
| "selected_by RsaPkcs1Sha384 a k = (alg_algorithm a = [1, 2, 840, 113549, 1, 1, 12])"
| "selected_by RsaPkcs1Sha512 a k = (alg_algorithm a = [1, 2, 840, 113549, 1, 1, 13])"
| "selected_by RsaPssSha256 a k =
     (alg_algorithm a = [1, 2, 840, 113549, 1, 1, 10] \<and> names_pss_hash a [2, 16, 840, 1, 101, 3, 4, 2, 1])"
| "selected_by RsaPssSha384 a k =
     (alg_algorithm a = [1, 2, 840, 113549, 1, 1, 10] \<and> names_pss_hash a [2, 16, 840, 1, 101, 3, 4, 2, 2])"
| "selected_by RsaPssSha512 a k =
     (alg_algorithm a = [1, 2, 840, 113549, 1, 1, 10] \<and> names_pss_hash a [2, 16, 840, 1, 101, 3, 4, 2, 3])"
| "selected_by EcdsaP256Sha256 a k =
     (alg_algorithm a = [1, 2, 840, 10045, 4, 3, 2] \<and> names_curve k [1, 2, 840, 10045, 3, 1, 7])"
| "selected_by EcdsaP256Sha384 a k =
     (alg_algorithm a = [1, 2, 840, 10045, 4, 3, 3] \<and> names_curve k [1, 2, 840, 10045, 3, 1, 7])"
| "selected_by EcdsaP256Sha512 a k =
     (alg_algorithm a = [1, 2, 840, 10045, 4, 3, 4] \<and> names_curve k [1, 2, 840, 10045, 3, 1, 7])"
| "selected_by EcdsaP384Sha256 a k =
     (alg_algorithm a = [1, 2, 840, 10045, 4, 3, 2] \<and> names_curve k [1, 3, 132, 0, 34])"
| "selected_by EcdsaP384Sha384 a k =
     (alg_algorithm a = [1, 2, 840, 10045, 4, 3, 3] \<and> names_curve k [1, 3, 132, 0, 34])"
| "selected_by EcdsaP384Sha512 a k =
     (alg_algorithm a = [1, 2, 840, 10045, 4, 3, 4] \<and> names_curve k [1, 3, 132, 0, 34])"
| "selected_by Ed25519 a k = (alg_algorithm a = [1, 3, 101, 112])"

lemma rsa_pss_algorithm_iff:
  "rsa_pss_algorithm ps = Some v \<longleftrightarrow>
     (\<exists>p h. ps = Some p \<and> any_pss_hash_algorithm_oid p = Some h \<and>
        (h = OID_NIST_HASH_SHA256 \<and> v = RsaPssSha256 \<or> h = OID_NIST_HASH_SHA384 \<and> v = RsaPssSha384 \<or>
         h = OID_NIST_HASH_SHA512 \<and> v = RsaPssSha512))"
  by (auto simp: rsa_pss_algorithm_def rsa_pss_digest_bits_def oid_defs split: Option.bind_splits)

lemma ecdsa_algorithm_iff:
  "ecdsa_algorithm (spki_algorithm k) bits = Some v \<longleftrightarrow>
     (names_curve k OID_EC_P256 \<and>
        (bits = 256 \<and> v = EcdsaP256Sha256 \<or> bits = 384 \<and> v = EcdsaP256Sha384 \<or> bits = 512 \<and> v = EcdsaP256Sha512)) \<or>
     (names_curve k OID_NIST_EC_P384 \<and>
        (bits = 256 \<and> v = EcdsaP384Sha256 \<or> bits = 384 \<and> v = EcdsaP384Sha384 \<or> bits = 512 \<and> v = EcdsaP384Sha512))"
  by (auto simp: ecdsa_algorithm_def names_curve_def oid_defs split: Option.bind_splits)

text \<open>
  The signature algorithm is selected by the certificate's algorithm identifier together with
  the hash in its PSS parameters, or the curve in the signer's key for ECDSA, exactly as the table
  \<open>selected_by\<close> says; in every other case no algorithm is selected.
\<close>

theorem verification_algorithm_table:
  "verification_algorithm a k = Some v \<longleftrightarrow> selected_by v a k"
proof (cases v)
qed (auto simp: verification_algorithm_def Let_def rsa_pss_algorithm_iff ecdsa_algorithm_iff
    names_pss_hash_def oid_defs)

text \<open>
  C31. Each backend returns on every input, and accepts a signature exactly when an algorithm it
  supports is selected and its primitive for that algorithm accepts the signer's key, the message
  and the signature: aws-lc supports all fourteen, ring and RustCrypto all but ECDSA with SHA-512.
\<close>

theorem backend_accepts:
  "(AwsLc krate lib a k m s = Some (Ok ()) \<longleftrightarrow>
      (\<exists>v. verification_algorithm a k = Some v \<and>
         unparsed_public_key_verify krate (crate_name v) (spki_subject_public_key k) m s)) \<and>
   (Ring krate lib a k m s = Some (Ok ()) \<longleftrightarrow>
      (\<exists>v. verification_algorithm a k = Some v \<and> v \<noteq> EcdsaP256Sha512 \<and> v \<noteq> EcdsaP384Sha512 \<and>
         unparsed_public_key_verify krate (crate_name v) (spki_subject_public_key k) m s)) \<and>
   (RustCrypto rc lib a k m s = Some (Ok ()) \<longleftrightarrow>
      (\<exists>v. verification_algorithm a k = Some v \<and> v \<noteq> EcdsaP256Sha512 \<and> v \<noteq> EcdsaP384Sha512 \<and>
         rust_crypto_check rc v k m s)) \<and>
   AwsLc krate lib a k m s \<noteq> None \<and> Ring krate lib a k m s \<noteq> None \<and> RustCrypto rc lib a k m s \<noteq> None"
  using aws_lc_backend.verify_returns ring_backend.verify_returns rust_crypto_backend.verify_returns
  by (simp add: aws_lc_backend.verify_Ok_iff ring_backend.verify_Ok_iff rust_crypto_backend.verify_Ok_iff
      ecdsa_sha512_def)


definition permissive_rsa :: rust_crypto_crates where
  "permissive_rsa =
     \<lparr>rsa_from_public_key_der = (\<lambda>der. Inr \<lparr>rsa_size = 256, rsa_der = der\<rparr>),
      pkcs1v15_signature = Some, pkcs1v15_verify = (\<lambda>_ _ _ _. True),
      pss_signature = Some, pss_verify = (\<lambda>_ _ _ _. True), digest_of = (\<lambda>_ m. m),
      p256_from_sec1_bytes = Inr, p256_signature_from_der = Some, p256_verify = (\<lambda>_ _ _. True),
      p256_verify_prehash = (\<lambda>_ _ _. True), p384_from_sec1_bytes = Inr, p384_signature_from_der = Some,
      p384_verify = (\<lambda>_ _ _. True), p384_verify_prehash = (\<lambda>_ _ _. True),
      ed25519_key_try_from = Inr, ed25519_signature_from_slice = Some, ed25519_verify = (\<lambda>_ _ _. True)\<rparr>"

definition bare_library :: asn1_library where
  "bare_library = \<lparr>lib_oid2sn = Map.empty, lib_to_id_string = (\<lambda>_. []), lib_oid_to_string = (\<lambda>_. [])\<rparr>"

definition sample_rsa_algorithm :: AlgorithmIdentifier where
  "sample_rsa_algorithm = \<lparr>alg_algorithm = OID_PKCS1_SHA256WITHRSA, alg_parameters = None\<rparr>"


text \<open>
  With exactly one backend feature the default provider is that backend; with none, and also
  with two or three, every signature check panics.
\<close>

theorem default_provider_panics:
  "default_provider f aws rng rc lib a k m s = None \<longleftrightarrow>
     length (filter id [feature_aws_lc f, feature_ring f, feature_rust_crypto f]) \<noteq> 1"
  using aws_lc_backend.verify_returns ring_backend.verify_returns rust_crypto_backend.verify_returns
  by (cases "feature_aws_lc f"; cases "feature_ring f"; cases "feature_rust_crypto f")
    (auto simp: default_provider_def UndeterminedCryptoBackend_def)

end
