(* ===== verification/Diagnostics.thy ===== *)
theory Diagnostics
  imports Policies
begin

text \<open>
  \<^verbatim>\<open>diagnostic.rs\<close>: the events a validation reports and their renderings. \<open>Storage\<close> and its boxed
  structs are one datatype; the constructor functions are kept because the validator calls them.
  The \<open>Debug\<close> form, which quotes the \<open>Display\<close> text with the standard library's Unicode escaping, is
  the subject of \<open>Debug_Format\<close>.
\<close>

subsection \<open>Events\<close>

datatype Storage =
    LeafCertificateHasUnhandledCriticalExtension certificate "oid list"
  | LeafCertificateIsInTheRootStoreButDoesNotMeetPolicy certificate PolicyFailureReason
  | ChainFailsToMeetPolicy "certificate list" PolicyFailureReason
  | IssuerHasUnhandledCriticalExtension certificate "certificate list" "oid list"
  | IssuerHasNotSignedCertificate certificate "certificate list"
  | SearchingForIssuerOfPartialChain "certificate list"
  | FoundCandidateIssuersOfPartialChainInRootStore "certificate list" "certificate list"
  | FoundCandidateIssuersOfPartialChainInIntermediateStore "certificate list" "certificate list"
  | FoundValidCertificateChain "certificate list"
  | CouldNotValidateLeafCertificate certificate
  | IssuerIsAlreadyInTheChain "certificate list" certificate

record VerificationDiagnostic =
  storage :: Storage

definition leaf_certificate_has_unhandled_critical_extension ::
  "certificate \<Rightarrow> oid list \<Rightarrow> VerificationDiagnostic" where
  "leaf_certificate_has_unhandled_critical_extension leaf_certificate handled_critical_extensions =
     \<lparr>storage = LeafCertificateHasUnhandledCriticalExtension leaf_certificate handled_critical_extensions\<rparr>"

definition leaf_certificate_is_in_the_root_store_but_does_not_meet_policy ::
  "certificate \<Rightarrow> PolicyFailureReason \<Rightarrow> VerificationDiagnostic" where
  "leaf_certificate_is_in_the_root_store_but_does_not_meet_policy leaf_certificate failure_reason =
     \<lparr>storage = LeafCertificateIsInTheRootStoreButDoesNotMeetPolicy leaf_certificate failure_reason\<rparr>"

definition chain_fails_to_meet_policy ::
  "certificate list \<Rightarrow> PolicyFailureReason \<Rightarrow> VerificationDiagnostic" where
  "chain_fails_to_meet_policy chain failure_reason =
     \<lparr>storage = ChainFailsToMeetPolicy chain failure_reason\<rparr>"

definition issuer_has_unhandled_critical_extension ::
  "certificate \<Rightarrow> certificate list \<Rightarrow> oid list \<Rightarrow> VerificationDiagnostic" where
  "issuer_has_unhandled_critical_extension issuer partial_chain handled_critical_extensions =
     \<lparr>storage = IssuerHasUnhandledCriticalExtension issuer partial_chain handled_critical_extensions\<rparr>"

definition issuer_has_not_signed_certificate ::
  "certificate \<Rightarrow> certificate list \<Rightarrow> VerificationDiagnostic" where
  "issuer_has_not_signed_certificate issuer partial_chain =
     \<lparr>storage = IssuerHasNotSignedCertificate issuer partial_chain\<rparr>"

definition searching_for_issuer_of_partial_chain ::
  "certificate list \<Rightarrow> VerificationDiagnostic" where
  "searching_for_issuer_of_partial_chain partial_chain =
     \<lparr>storage = SearchingForIssuerOfPartialChain partial_chain\<rparr>"

definition found_candidate_issuers_of_partial_chain_in_root_store ::
  "certificate list \<Rightarrow> certificate list \<Rightarrow> VerificationDiagnostic" where
  "found_candidate_issuers_of_partial_chain_in_root_store partial_chain issuers_in_root_store =
     \<lparr>storage = FoundCandidateIssuersOfPartialChainInRootStore partial_chain issuers_in_root_store\<rparr>"

definition found_candidate_issuers_of_partial_chain_in_intermediate_store ::
  "certificate list \<Rightarrow> certificate list \<Rightarrow> VerificationDiagnostic" where
  "found_candidate_issuers_of_partial_chain_in_intermediate_store partial_chain issuers_in_intermediate_store =
     \<lparr>storage = FoundCandidateIssuersOfPartialChainInIntermediateStore partial_chain issuers_in_intermediate_store\<rparr>"

definition found_valid_certificate_chain ::
  "certificate list \<Rightarrow> VerificationDiagnostic" where
  "found_valid_certificate_chain valid_certificate_chain =
     \<lparr>storage = FoundValidCertificateChain valid_certificate_chain\<rparr>"

definition could_not_validate_leaf_certificate ::
  "certificate \<Rightarrow> VerificationDiagnostic" where
  "could_not_validate_leaf_certificate leaf =
     \<lparr>storage = CouldNotValidateLeafCertificate leaf\<rparr>"

definition issuer_is_already_in_the_chain ::
  "certificate list \<Rightarrow> certificate \<Rightarrow> VerificationDiagnostic" where
  "issuer_is_already_in_the_chain partial_chain issuer =
     \<lparr>storage = IssuerIsAlreadyInTheChain partial_chain issuer\<rparr>"

lemmas diagnostic_defs =
  leaf_certificate_has_unhandled_critical_extension_def
  leaf_certificate_is_in_the_root_store_but_does_not_meet_policy_def
  chain_fails_to_meet_policy_def
  issuer_has_unhandled_critical_extension_def
  issuer_has_not_signed_certificate_def
  searching_for_issuer_of_partial_chain_def
  found_candidate_issuers_of_partial_chain_in_root_store_def
  found_candidate_issuers_of_partial_chain_in_intermediate_store_def
  found_valid_certificate_chain_def
  could_not_validate_leaf_certificate_def
  issuer_is_already_in_the_chain_def

subsection \<open>Renderings\<close>

definition nl :: string where
  "nl = [CHR 10]"

definition unhandled_critical_extensions :: "asn1_library \<Rightarrow> certificate \<Rightarrow> oid list \<Rightarrow> string list" where
  "unhandled_critical_extensions lib cert handled_critical_extensions =
     map (\<lambda>ext. lib_to_id_string lib (ext_oid ext))
       (filter (\<lambda>ext. ext_critical ext \<and> ext_oid ext \<notin> set handled_critical_extensions)
         (tbs_extensions cert))"

definition join_certificates :: "asn1_library \<Rightarrow> certificate list \<Rightarrow> string \<Rightarrow> string" where
  "join_certificates lib certificates separator =
     join_with separator (map (format_certificate lib) certificates)"

definition diagnostic_display :: "asn1_library \<Rightarrow> VerificationDiagnostic \<Rightarrow> string" where
  "diagnostic_display lib self =
     (case storage self of
        LeafCertificateHasUnhandledCriticalExtension leaf handled \<Rightarrow>
          ''The leaf certificate has critical extensions that the policy does not '' @
          ''understand and therefore can't enforce. Unhandled extensions: ['' @
          join_with '', '' (unhandled_critical_extensions lib leaf handled) @
          ''] Leaf certificate: '' @
          format_certificate lib leaf
      | LeafCertificateIsInTheRootStoreButDoesNotMeetPolicy leaf reason \<Rightarrow>
          ''Leaf certificate is in the root store of the validator but it does by itself '' @
          ''not meet the policy. Reason: '' @
          PolicyFailureReason_fmt reason @
          '' Leaf Certificate: '' @
          format_certificate lib leaf
      | ChainFailsToMeetPolicy chain reason \<Rightarrow>
          ''A certificate chain to a certificate in the root store was found but it does '' @
          ''not meet the policy. Reason: '' @
          PolicyFailureReason_fmt reason @
          '' Chain (from leaf to root): ['' @
          join_certificates lib chain '', '' @
          '']''
      | IssuerHasUnhandledCriticalExtension issuer partial_chain handled \<Rightarrow>
          ''A candidate issuer of a certificate in the (partial) chain has critical '' @
          ''extensions that the policy does not understand and therefore can't enforce. '' @
          ''Unhandled extensions: ['' @
          join_with '', '' (map (\<lambda>oid. ''- '' @ oid) (unhandled_critical_extensions lib issuer handled)) @
          ''] Chain (from leaf to candidate issuer that has critical extensions the policy '' @
          ''doesn't enforce): ['' @
          join_certificates lib partial_chain '', '' @
          '', '' @
          format_certificate lib issuer @
          '']''
      | IssuerHasNotSignedCertificate issuer partial_chain \<Rightarrow>
          ''A candidate issuer of a certificate in the (partial) chain has not signed the '' @
          ''previous certificate in the chain. Chain (from leaf to candidate issuer that '' @
          ''has not signed the certificate before it): ['' @
          join_certificates lib partial_chain '', '' @
          '', '' @
          format_certificate lib issuer @
          '']''
      | SearchingForIssuerOfPartialChain partial_chain \<Rightarrow>
          ''Searching for issuers of partial candidate chain. Chain (from leaf to tip): ['' @
          join_certificates lib partial_chain '', '' @
          '']''
      | FoundCandidateIssuersOfPartialChainInRootStore partial_chain issuers \<Rightarrow>
          ''Found candidate issuers in the root store of the partial chain. Chain (from '' @
          ''leaf to tip): ['' @
          join_certificates lib partial_chain '', '' @
          ''] Candidate issuers in the root store: ['' @
          join_certificates lib issuers '', '' @
          '']''
      | FoundCandidateIssuersOfPartialChainInIntermediateStore partial_chain issuers \<Rightarrow>
          ''Found candidate issuers in the intermediate store of the partial chain. Chain '' @
          ''(from leaf to tip): ['' @
          join_certificates lib partial_chain '', '' @
          ''] Candidate issuers in the intermediate store: ['' @
          join_certificates lib issuers '', '' @
          '']''
      | FoundValidCertificateChain chain \<Rightarrow>
          ''Validation completed successfully. Verified certificate chain (from leaf to '' @
          ''root): ['' @
          join_certificates lib chain '', '' @
          '']''
      | CouldNotValidateLeafCertificate leaf \<Rightarrow>
          ''Could not validate leaf certificate: '' @
          format_certificate lib leaf
      | IssuerIsAlreadyInTheChain partial_chain issuer \<Rightarrow>
          ''Candidate issuer is already in partial chain and is therefore skipped because '' @
          ''it would always produce a chain that could have been shorter. Partial chain '' @
          ''(from leaf to tip): ['' @
          join_certificates lib partial_chain '', '' @
          ''] Candidate issuer which is already in the chain above: '' @
          format_certificate lib issuer)"

definition multiline_description :: "asn1_library \<Rightarrow> VerificationDiagnostic \<Rightarrow> string" where
  "multiline_description lib self =
     (case storage self of
        LeafCertificateHasUnhandledCriticalExtension leaf handled \<Rightarrow>
          ''The leaf certificate has critical extensions that the policy does not '' @
          ''understand and therefore can't enforce.'' @
          nl @
          nl @
          ''Unhandled extensions:'' @
          nl @
          join_with nl (unhandled_critical_extensions lib leaf handled) @
          nl @
          nl @
          ''Leaf certificate:'' @
          nl @
          format_certificate lib leaf
      | LeafCertificateIsInTheRootStoreButDoesNotMeetPolicy leaf reason \<Rightarrow>
          ''Leaf certificate is in the root store of the validator but it does by itself '' @
          ''not meet the policy.'' @
          nl @
          nl @
          ''Reason:'' @
          nl @
          PolicyFailureReason_fmt reason @
          nl @
          nl @
          ''Leaf Certificate:'' @
          nl @
          format_certificate lib leaf
      | ChainFailsToMeetPolicy chain reason \<Rightarrow>
          ''A certificate chain to a certificate in the root store was found but it does '' @
          ''not meet the policy.'' @
          nl @
          nl @
          ''Reason:'' @
          nl @
          PolicyFailureReason_fmt reason @
          nl @
          nl @
          ''Chain (from leaf to root):'' @
          nl @
          join_certificates lib chain nl
      | IssuerHasUnhandledCriticalExtension issuer partial_chain handled \<Rightarrow>
          ''A candidate issuer of a certificate in the (partial) chain has critical '' @
          ''extensions that the policy does not understand and therefore can't enforce.'' @
          nl @
          nl @
          ''Unhandled extensions:'' @
          nl @
          join_with nl (map (\<lambda>oid. ''- '' @ oid) (unhandled_critical_extensions lib issuer handled)) @
          nl @
          nl @
          ''Chain (from leaf to candidate issuer that has critical extensions the policy '' @
          ''doesn't enforce):'' @
          nl @
          join_certificates lib partial_chain nl @
          nl @
          format_certificate lib issuer
      | IssuerHasNotSignedCertificate issuer partial_chain \<Rightarrow>
          ''A candidate issuer of a certificate in the (partial) chain has not signed the '' @
          ''previous certificate in the chain.'' @
          nl @
          nl @
          ''Chain (from leaf to candidate issuer that has not signed the certificate before '' @
          ''it):'' @
          nl @
          join_certificates lib partial_chain nl @
          nl @
          format_certificate lib issuer
      | SearchingForIssuerOfPartialChain partial_chain \<Rightarrow>
          ''Searching for issuers of partial candidate chain.'' @
          nl @
          ''Chain (from leaf to tip):'' @
          nl @
          join_certificates lib partial_chain nl
      | FoundCandidateIssuersOfPartialChainInRootStore partial_chain issuers \<Rightarrow>
          ''Found candidate issuers in the root store of the partial chain.'' @
          nl @
          ''Chain (from leaf to tip):'' @
          nl @
          join_certificates lib partial_chain nl @
          nl @
          ''Candidate issuers in the root store:'' @
          nl @
          join_certificates lib issuers nl
      | FoundCandidateIssuersOfPartialChainInIntermediateStore partial_chain issuers \<Rightarrow>
          ''Found candidate issuers in the intermediate store of the partial chain.'' @
          nl @
          ''Chain (from leaf to tip):'' @
          nl @
          join_certificates lib partial_chain nl @
          nl @
          ''Candidate issuers in the intermediate store:'' @
          nl @
          join_certificates lib issuers nl
      | FoundValidCertificateChain chain \<Rightarrow>
          ''Validation completed successfully.'' @
          nl @
          ''Verified certificate chain (from leaf to root):'' @
          nl @
          join_certificates lib chain nl
      | CouldNotValidateLeafCertificate leaf \<Rightarrow>
          ''Could not validate leaf certificate:'' @
          nl @
          format_certificate lib leaf
      | IssuerIsAlreadyInTheChain partial_chain issuer \<Rightarrow>
          ''Candidate issuer is already in partial chain and is therefore skipped because '' @
          ''it would always produce a chain that could have been shorter.'' @
          nl @
          ''Partial chain (from leaf to tip):'' @
          nl @
          join_certificates lib partial_chain nl @
          nl @
          ''Candidate issuer which is already in the chain above:'' @
          nl @
          format_certificate lib issuer)"

subsection \<open>What the renderings say\<close>

text \<open>The parts of an event: summaries of its certificates, its reason, and its unhandled OIDs.\<close>

fun diagnostic_items :: "asn1_library \<Rightarrow> Storage \<Rightarrow> string list" where
  "diagnostic_items lib (LeafCertificateHasUnhandledCriticalExtension leaf handled) =
     format_certificate lib leaf # unhandled_critical_extensions lib leaf handled"
| "diagnostic_items lib (LeafCertificateIsInTheRootStoreButDoesNotMeetPolicy leaf reason) =
     [reason_text reason, format_certificate lib leaf]"
| "diagnostic_items lib (ChainFailsToMeetPolicy chain reason) =
     reason_text reason # map (format_certificate lib) chain"
| "diagnostic_items lib (IssuerHasUnhandledCriticalExtension issuer partial_chain handled) =
     unhandled_critical_extensions lib issuer handled @ map (format_certificate lib) (partial_chain @ [issuer])"
| "diagnostic_items lib (IssuerHasNotSignedCertificate issuer partial_chain) =
     map (format_certificate lib) (partial_chain @ [issuer])"
| "diagnostic_items lib (SearchingForIssuerOfPartialChain partial_chain) =
     map (format_certificate lib) partial_chain"
| "diagnostic_items lib (FoundCandidateIssuersOfPartialChainInRootStore partial_chain issuers) =
     map (format_certificate lib) (partial_chain @ issuers)"
| "diagnostic_items lib (FoundCandidateIssuersOfPartialChainInIntermediateStore partial_chain issuers) =
     map (format_certificate lib) (partial_chain @ issuers)"
| "diagnostic_items lib (FoundValidCertificateChain chain) = map (format_certificate lib) chain"
| "diagnostic_items lib (CouldNotValidateLeafCertificate leaf) = [format_certificate lib leaf]"
| "diagnostic_items lib (IssuerIsAlreadyInTheChain partial_chain issuer) =
     map (format_certificate lib) (partial_chain @ [issuer])"

lemma sublist_parts [intro]:
  "sublist s t \<Longrightarrow> sublist s (t @ u)" "sublist s u \<Longrightarrow> sublist s (t @ u)"
proof -
  show "sublist s t \<Longrightarrow> sublist s (t @ u)" unfolding sublist_def by (metis append.assoc)
  show "sublist s u \<Longrightarrow> sublist s (t @ u)" unfolding sublist_def by (metis append.assoc)
qed

lemma sublist_join: "s \<in> set ss \<Longrightarrow> sublist s (join_with sep ss)"
  by (induction sep ss rule: join_with.induct) auto

lemma sublist_join_certificates:
  "s \<in> format_certificate lib ` set cs \<Longrightarrow> sublist s (join_certificates lib cs sep)"
  unfolding join_certificates_def by (rule sublist_join) simp

lemma sublist_join_dashed:
  "s \<in> set ss \<Longrightarrow> sublist s (join_with sep (map (\<lambda>oid. ''- '' @ oid) ss))"
proof (induction ss)
  case (Cons a ss)
  then show ?case
    by (cases ss) (auto simp del: append.simps(2))
qed simp

lemma sublist_append_or: "sublist s t \<or> sublist s u \<Longrightarrow> sublist s (t @ u)"
  by blast

lemmas rendering_rules = sublist_append_or sublist_join sublist_join_certificates sublist_join_dashed
  sublist_order.order.refl simp_thms PolicyFailureReason_fmt_def

lemmas item_sets = diagnostic_items.simps list.set set_append set_map list.map map_append
  image_insert image_Un image_empty insert_iff Un_iff empty_iff simp_thms

text \<open>Which event an item comes from decides where in the two texts it stands.\<close>

lemma items_rendered:
  "s \<in> set (diagnostic_items lib e) \<Longrightarrow>
     sublist s (diagnostic_display lib \<lparr>storage = e\<rparr>) \<and> sublist s (multiline_description lib \<lparr>storage = e\<rparr>)"
  unfolding diagnostic_display_def multiline_description_def VerificationDiagnostic.simps
  by (cases e; hypsubst; simp only: item_sets Storage.case; (elim disjE)?; simp only: rendering_rules)

subsection \<open>One line\<close>

fun diagnostic_certificates :: "Storage \<Rightarrow> certificate set" where
  "diagnostic_certificates (LeafCertificateHasUnhandledCriticalExtension leaf handled) = {leaf}"
| "diagnostic_certificates (LeafCertificateIsInTheRootStoreButDoesNotMeetPolicy leaf reason) = {leaf}"
| "diagnostic_certificates (ChainFailsToMeetPolicy chain reason) = set chain"
| "diagnostic_certificates (IssuerHasUnhandledCriticalExtension issuer partial_chain handled) =
     insert issuer (set partial_chain)"
| "diagnostic_certificates (IssuerHasNotSignedCertificate issuer partial_chain) =
     insert issuer (set partial_chain)"
| "diagnostic_certificates (SearchingForIssuerOfPartialChain partial_chain) = set partial_chain"
| "diagnostic_certificates (FoundCandidateIssuersOfPartialChainInRootStore partial_chain issuers) =
     set partial_chain \<union> set issuers"
| "diagnostic_certificates (FoundCandidateIssuersOfPartialChainInIntermediateStore partial_chain issuers) =
     set partial_chain \<union> set issuers"
| "diagnostic_certificates (FoundValidCertificateChain chain) = set chain"
| "diagnostic_certificates (CouldNotValidateLeafCertificate leaf) = {leaf}"
| "diagnostic_certificates (IssuerIsAlreadyInTheChain partial_chain issuer) = insert issuer (set partial_chain)"

fun diagnostic_reason :: "Storage \<Rightarrow> string" where
  "diagnostic_reason (LeafCertificateIsInTheRootStoreButDoesNotMeetPolicy leaf reason) = reason_text reason"
| "diagnostic_reason (ChainFailsToMeetPolicy chain reason) = reason_text reason"
| "diagnostic_reason _ = []"

lemma single_line_join_certificates:
  assumes "library_single_line lib" "\<forall>c \<in> set cs. text_single_line c"
  shows "single_line (join_certificates lib cs '', '')"
  unfolding join_certificates_def
  using assms by (intro single_line_join) (auto simp: single_line_format_certificate)

lemma single_line_extensions:
  assumes "library_single_line lib"
  shows "single_line (join_with '', '' (unhandled_critical_extensions lib c h))"
    and "single_line (join_with '', '' (map (\<lambda>oid. ''- '' @ oid) (unhandled_critical_extensions lib c h)))"
  using assms
  by (auto intro!: single_line_join simp: unhandled_critical_extensions_def library_single_line_def)

subsection \<open>Properties\<close>

text \<open>
  The one-line and the multi-line rendering of an event carry the same information: the summary
  of every certificate in it, its failure reason, and the OID of every unhandled critical extension
  each appear in full in both.
\<close>

theorem renderings_complete:
  "\<forall>s \<in> set (diagnostic_items lib (storage d)).
     sublist s (diagnostic_display lib d) \<and> sublist s (multiline_description lib d)"
  using items_rendered [of _ lib "storage d"] by (metis (full_types) VerificationDiagnostic.surjective unit.exhaust)

theorem renderings_complete_witness:
  "sublist ''2.5.29.99'' (diagnostic_display
     \<lparr>lib_oid2sn = (\<lambda>_. None), lib_to_id_string = (\<lambda>_. ''2.5.29.99''), lib_oid_to_string = (\<lambda>_. ''2.5.29.99'')\<rparr>
     (leaf_certificate_has_unhandled_critical_extension
       ((sample_certificate ''leaf'' ''root'')\<lparr>tbs_extensions :=
          [\<lparr>ext_oid = [2, 5, 29, 99], ext_critical = True, ext_value = [], ext_parsed = UninspectedExtension\<rparr>]\<rparr>) []))"
proof -
  let ?lib = "\<lparr>lib_oid2sn = (\<lambda>_. None), lib_to_id_string = (\<lambda>_. ''2.5.29.99''), lib_oid_to_string = (\<lambda>_. ''2.5.29.99'')\<rparr>"
  let ?d = "leaf_certificate_has_unhandled_critical_extension
       ((sample_certificate ''leaf'' ''root'')\<lparr>tbs_extensions :=
          [\<lparr>ext_oid = [2, 5, 29, 99], ext_critical = True, ext_value = [], ext_parsed = UninspectedExtension\<rparr>]\<rparr>) []"
  have "''2.5.29.99'' \<in> set (diagnostic_items ?lib (storage ?d))"
    by (simp add: leaf_certificate_has_unhandled_critical_extension_def unhandled_critical_extensions_def)
  then show ?thesis using renderings_complete [of ?lib ?d] by blast
qed

text \<open>
  The \<open>Display\<close> rendering is a single line whenever the texts it is given are: the ASN.1
  names, the certificates' own display fields, and the failure reason.
\<close>

theorem display_is_one_line:
  assumes "library_single_line lib" "\<forall>c \<in> diagnostic_certificates (storage d). text_single_line c"
    and "single_line (diagnostic_reason (storage d))"
  shows "single_line (diagnostic_display lib d)"
  using assms
  by (cases "storage d")
    (simp_all add: diagnostic_display_def PolicyFailureReason_fmt_def single_line_join_certificates
      single_line_extensions single_line_format_certificate)

theorem display_is_one_line_witness:
  "single_line (diagnostic_display
     \<lparr>lib_oid2sn = (\<lambda>_. None), lib_to_id_string = (\<lambda>_. ''oid''), lib_oid_to_string = (\<lambda>_. ''oid'')\<rparr>
     (chain_fails_to_meet_policy [sample_certificate ''leaf'' ''root'', sample_ca ''root'' ''root'']
       (PolicyFailureReason ''certificate has expired'')))"
  by (rule display_is_one_line)
    (simp_all add: chain_fails_to_meet_policy_def library_single_line_def text_single_line_def
      sample_ca_def sample_certificate_def sample_name_def)

end
