(* ===== verification/Validator.thy ===== *)
theory Validator
  imports Store Policies Crypto Diagnostics
begin

text \<open>
  \<^verbatim>\<open>validator.rs\<close>: building candidate chains from a leaf through the intermediates to the root store,
  checking each against the policy.

  The optional callback is a log: \<open>None\<close> when there is none, otherwise the events it has received so
  far, in order. The work stack has its top at the head of the list. Every operation that calls a
  policy or the crypto backend may panic, because those may.
\<close>

record Validator =
  root_certificates :: CertificateStore
  crypto :: signature_verifier
  validator_policy :: ValidationPolicy

record PolicyFailure =
  pf_chain :: UnverifiedCertificateChain
  policy_failure_reason :: PolicyFailureReason

type_synonym ChainValidationResult = "PolicyFailure list + ValidatedCertificateChain"

type_synonym diagnostics = "VerificationDiagnostic list option"

definition diagnose :: "diagnostics \<Rightarrow> VerificationDiagnostic \<Rightarrow> diagnostics" where
  "diagnose diagnostics d = map_option (\<lambda>events. events @ [d]) diagnostics"

definition PolicyFailure_new :: "UnverifiedCertificateChain \<Rightarrow> PolicyFailureReason \<Rightarrow> PolicyFailure" where
  "PolicyFailure_new chain reason = \<lparr>pf_chain = chain, policy_failure_reason = reason\<rparr>"

definition PolicyFailure_display :: "PolicyFailure \<Rightarrow> string" where
  "PolicyFailure_display self = PolicyFailureReason_fmt (policy_failure_reason self)"

definition PolicyFailure_debug :: "PolicyFailure \<Rightarrow> string" where
  "PolicyFailure_debug self =
     PolicyFailureReason_fmt (policy_failure_reason self) @ '' (chain of '' @
     decimal (chain_len (pf_chain self)) @ '')''"

definition Validator_with_policy_and_backend ::
  "CertificateStore \<Rightarrow> ValidationPolicy \<Rightarrow> signature_verifier \<Rightarrow> Validator" where
  "Validator_with_policy_and_backend roots policy backend =
     \<lparr>root_certificates = roots, crypto = backend, validator_policy = policy\<rparr>"

definition Validator_with_policy ::
  "crate_features \<Rightarrow> signature_crate \<Rightarrow> signature_crate \<Rightarrow> rust_crypto_crates \<Rightarrow> asn1_library \<Rightarrow>
   CertificateStore \<Rightarrow> ValidationPolicy \<Rightarrow> Validator" where
  "Validator_with_policy f aws_lc_rs ring_krate rc lib roots policy =
     Validator_with_policy_and_backend roots policy (default_provider f aws_lc_rs ring_krate rc lib)"

definition has_unhandled_critical_extensions :: "certificate \<Rightarrow> ValidationPolicy \<Rightarrow> bool" where
  "has_unhandled_critical_extensions cert policy =
     (let handled = verifying_critical_extensions policy
      in list_ex (\<lambda>ext. ext_critical ext \<and> ext_oid ext \<notin> set handled) (tbs_extensions cert))"

definition issuer_rank :: "bytes option \<Rightarrow> certificate \<Rightarrow> nat" where
  "issuer_rank subject_aki candidate =
     (case (subject_aki, subject_key_identifier candidate) of
        (Some aki, Some ski) \<Rightarrow> if aki = ski then 0 else 2
      | (_, None) \<Rightarrow> 1
      | (None, Some _) \<Rightarrow> 1)"

text \<open>\<open>sort_by_key\<close> is stable, and so is \<open>sort_key\<close>.\<close>

definition sort_by_suitability_for_issuing :: "certificate list \<Rightarrow> certificate \<Rightarrow> certificate list" where
  "sort_by_suitability_for_issuing candidates subject =
     sort_key (issuer_rank (authority_key_identifier subject)) candidates"

definition should_skip_adding_certificate ::
  "certificate \<Rightarrow> certificate list \<Rightarrow> signature_verifier \<Rightarrow> ValidationPolicy \<Rightarrow> diagnostics \<Rightarrow>
   (bool \<times> diagnostics) may_panic" where
  "should_skip_adding_certificate candidate partial_chain backend policy diagnostics =
     (if has_unhandled_critical_extensions candidate policy
      then Some (True, diagnose diagnostics
             (issuer_has_unhandled_critical_extension candidate partial_chain
               (verifying_critical_extensions policy)))
      else if list_ex (\<lambda>existing. has_same_identity_as existing candidate) partial_chain
      then Some (True, diagnose diagnostics (issuer_is_already_in_the_chain partial_chain candidate))
      else do {
        tip \<leftarrow> slice_last partial_chain;
        verdict \<leftarrow> backend (cert_signature_algorithm tip) (tbs_subject_pki candidate) (tbs_raw tip)
                     (cert_signature_value tip);
        let signature_verifies = (case verdict of Inr _ \<Rightarrow> True | Inl _ \<Rightarrow> False);
        let diagnostics =
          (if \<not> signature_verifies
           then diagnose diagnostics (issuer_has_not_signed_certificate candidate partial_chain)
           else diagnostics);
        Some (\<not> signature_verifies, diagnostics) })"

text \<open>
  The loop over the root candidates: \<open>Inl\<close> is its \<open>return Ok(..)\<close>, \<open>Inr\<close> falling out of it with the
  failures so far.
\<close>

fun root_loop ::
  "Validator \<Rightarrow> certificate list \<Rightarrow> certificate list \<Rightarrow> PolicyFailure list \<Rightarrow> diagnostics \<Rightarrow>
   ((ValidatedCertificateChain + PolicyFailure list) \<times> diagnostics) may_panic" where
  "root_loop self partial_chain [] policy_failures diagnostics = Some (Inr policy_failures, diagnostics)"
| "root_loop self partial_chain (candidate # root_candidates) policy_failures diagnostics = do {
     (skip, diagnostics) \<leftarrow>
       should_skip_adding_certificate candidate partial_chain (crypto self) (validator_policy self) diagnostics;
     if skip then root_loop self partial_chain root_candidates policy_failures diagnostics
     else do {
       let chain_certs = partial_chain @ [candidate];
       chain \<leftarrow> UnverifiedCertificateChain_new chain_certs;
       verdict \<leftarrow> chain_meets_policy_requirements (validator_policy self) chain;
       case verdict of
         Inr _ \<Rightarrow> do {
           let diagnostics = diagnose diagnostics (found_valid_certificate_chain chain_certs);
           validated \<leftarrow> ValidatedCertificateChain_new_unchecked chain_certs;
           Some (Inl validated, diagnostics) }
       | Inl reason \<Rightarrow>
           root_loop self partial_chain root_candidates
             (policy_failures @ [PolicyFailure_new chain reason])
             (diagnose diagnostics (chain_fails_to_meet_policy chain_certs reason)) } }"

fun intermediate_loop ::
  "Validator \<Rightarrow> certificate list \<Rightarrow> certificate list \<Rightarrow> certificate list list \<Rightarrow> diagnostics \<Rightarrow>
   (certificate list list \<times> diagnostics) may_panic" where
  "intermediate_loop self partial_chain [] stack diagnostics = Some (stack, diagnostics)"
| "intermediate_loop self partial_chain (candidate # candidates) stack diagnostics = do {
     (skip, diagnostics) \<leftarrow>
       should_skip_adding_certificate candidate partial_chain (crypto self) (validator_policy self) diagnostics;
     if skip then intermediate_loop self partial_chain candidates stack diagnostics
     else intermediate_loop self partial_chain candidates ((partial_chain @ [candidate]) # stack) diagnostics }"

subsection \<open>The search ends\<close>

text \<open>
  How many certificates of a store a partial chain could still be extended by: those whose identity
  it does not hold. Every chain pushed on the stack has fewer than the one it extends.
\<close>

definition unused :: "CertificateStore \<Rightarrow> certificate list \<Rightarrow> nat" where
  "unused store p =
     card {c \<in> store_certificates store. \<not> (\<exists>e \<in> set p. has_same_identity_as e c)}"

lemma unused_extend:
  assumes "c \<in> store_certificates store" "\<not> (\<exists>e \<in> set p. has_same_identity_as e c)"
  shows "unused store (p @ [c]) < unused store p"
  unfolding unused_def using assms by (intro psubset_card_mono) auto

lemma should_skip_False:
  assumes "should_skip_adding_certificate c p b pol d = Some (False, d')"
  shows "\<not> has_unhandled_critical_extensions c pol" and "\<not> (\<exists>e \<in> set p. has_same_identity_as e c)"
    and "b (cert_signature_algorithm (last p)) (tbs_subject_pki c) (tbs_raw (last p))
           (cert_signature_value (last p)) = Some (Ok ())"
  using assms
  by (auto simp: should_skip_adding_certificate_def list_ex_iff slice_last_def Let_def
      split: if_splits Option.bind_splits sum.splits)

lemma intermediate_loop_pushes:
  "intermediate_loop V p cs stack d = Some (stack', d') \<Longrightarrow>
     \<exists>new. stack' = new @ stack \<and>
       (\<forall>q \<in> set new. \<exists>c \<in> set cs. q = p @ [c] \<and> \<not> (\<exists>e \<in> set p. has_same_identity_as e c))"
proof (induction V p cs stack d rule: intermediate_loop.induct)
  case (2 V p c cs stack d)
  from "2.prems" obtain skip d1 where s:
    "should_skip_adding_certificate c p (crypto V) (validator_policy V) d = Some (skip, d1)"
    by (auto split: Option.bind_splits)
  show ?case
  proof (cases skip)
    case True
    then show ?thesis using "2.IH"(1) [OF s refl True] "2.prems" s by auto
  next
    case False
    then have "\<exists>new. stack' = new @ (p @ [c]) # stack \<and>
       (\<forall>q \<in> set new. \<exists>c \<in> set cs. q = p @ [c] \<and> \<not> (\<exists>e \<in> set p. has_same_identity_as e c))"
      using "2.IH"(2) [OF s refl False] "2.prems" s by simp
    then obtain new where "stack' = (new @ [p @ [c]]) @ stack" and
      "\<forall>q \<in> set new. \<exists>c \<in> set cs. q = p @ [c] \<and> \<not> (\<exists>e \<in> set p. has_same_identity_as e c)" by auto
    moreover have "\<not> (\<exists>e \<in> set p. has_same_identity_as e c)"
      using should_skip_False(2) [of c p "crypto V" "validator_policy V" d d1] s False by simp
    ultimately show ?thesis by (intro exI [of _ "new @ [p @ [c]]"]) auto
  qed
qed simp

lemma set_sort_by_suitability [simp]: "set (sort_by_suitability_for_issuing cs s) = set cs"
  by (simp add: sort_by_suitability_for_issuing_def)

definition stack_order :: "((CertificateStore \<times> certificate list list) \<times> CertificateStore \<times> certificate list list) set" where
  "stack_order =
     inv_image (mult less_than) (\<lambda>(store, stack). image_mset (unused store) (mset stack))"

lemma wf_stack_order: "wf stack_order"
  unfolding stack_order_def by (intro wf_inv_image wf_mult wf_less_than)

lemma stack_order_push:
  assumes "\<forall>q \<in> set new. unused store q < unused store p"
  shows "((store, new @ stack), (store, p # stack)) \<in> stack_order"
proof -
  have "(image_mset (unused store) (mset stack) + image_mset (unused store) (mset new),
      image_mset (unused store) (mset stack) + {#unused store p#}) \<in> mult less_than"
    using assms by (intro one_step_implies_mult) auto
  then show ?thesis by (simp add: stack_order_def add.commute)
qed

lemma intermediate_loop_order:
  assumes "intermediate_loop V p (rev (sort_by_suitability_for_issuing (find_by_subject store k) tip)) stack d =
      Some (stack', d')"
  shows "((store, stack'), (store, p # stack)) \<in> stack_order"
proof -
  from intermediate_loop_pushes [OF assms] obtain new where "stack' = new @ stack"
    "\<forall>q \<in> set new. \<exists>c \<in> set (find_by_subject store k). q = p @ [c] \<and> \<not> (\<exists>e \<in> set p. has_same_identity_as e c)"
    by auto
  then show ?thesis
    using find_by_subject_subset [of store k] by (auto intro!: stack_order_push unused_extend)
qed

subsection \<open>The search\<close>

function search_loop ::
  "Validator \<Rightarrow> CertificateStore \<Rightarrow> certificate list list \<Rightarrow> PolicyFailure list \<Rightarrow> diagnostics \<Rightarrow>
   (ChainValidationResult \<times> diagnostics) may_panic" where
  "search_loop self intermediates [] policy_failures diagnostics = Some (Err policy_failures, diagnostics)"
| "search_loop self intermediates (partial_chain # stack) policy_failures diagnostics = do {
     let diagnostics = diagnose diagnostics (searching_for_issuer_of_partial_chain partial_chain);
     tip \<leftarrow> slice_last partial_chain;
     let root_candidates =
       sort_by_suitability_for_issuing (find_by_subject (root_certificates self) (issuer_key tip)) tip;
     let diagnostics =
       (if root_candidates \<noteq> []
        then diagnose diagnostics
               (found_candidate_issuers_of_partial_chain_in_root_store partial_chain root_candidates)
        else diagnostics);
     (outcome, diagnostics) \<leftarrow> root_loop self partial_chain root_candidates policy_failures diagnostics;
     case outcome of
       Inl validated \<Rightarrow> Some (Ok validated, diagnostics)
     | Inr policy_failures \<Rightarrow> do {
         let intermediate_candidates =
           sort_by_suitability_for_issuing (find_by_subject intermediates (issuer_key tip)) tip;
         let diagnostics =
           (if intermediate_candidates \<noteq> []
            then diagnose diagnostics
                   (found_candidate_issuers_of_partial_chain_in_intermediate_store partial_chain
                     intermediate_candidates)
            else diagnostics);
         (stack, diagnostics) \<leftarrow>
           intermediate_loop self partial_chain (rev intermediate_candidates) stack diagnostics;
         search_loop self intermediates stack policy_failures diagnostics } }"
  by pat_completeness auto
termination
  by (relation "inv_image stack_order (\<lambda>(self, intermediates, stack, _). (intermediates, stack))")
    (auto simp: wf_stack_order intro: intermediate_loop_order)

declare search_loop.simps(2) [simp del]

definition validate_inner ::
  "Validator \<Rightarrow> certificate \<Rightarrow> CertificateStore \<Rightarrow> diagnostics \<Rightarrow>
   (ChainValidationResult \<times> diagnostics) may_panic" where
  "validate_inner self leaf intermediates diagnostics =
     (if has_unhandled_critical_extensions leaf (validator_policy self)
      then do {
        let diagnostics = diagnose diagnostics
          (leaf_certificate_has_unhandled_critical_extension leaf
            (verifying_critical_extensions (validator_policy self)));
        chain \<leftarrow> UnverifiedCertificateChain_new [leaf];
        Some (Err [PolicyFailure_new chain
               (PolicyFailureReason_new ''leaf certificate has unhandled critical extension'')], diagnostics) }
      else do {
        let leaf_key = subject_key leaf;
        (outcome, diagnostics) \<leftarrow>
          (if list_ex (\<lambda>c. c = leaf) (find_by_subject (root_certificates self) leaf_key)
           then do {
             chain \<leftarrow> UnverifiedCertificateChain_new [leaf];
             verdict \<leftarrow> chain_meets_policy_requirements (validator_policy self) chain;
             case verdict of
               Inr _ \<Rightarrow> do {
                 let diagnostics = diagnose diagnostics (found_valid_certificate_chain [leaf]);
                 validated \<leftarrow> ValidatedCertificateChain_new_unchecked [leaf];
                 Some (Inl validated, diagnostics) }
             | Inl reason \<Rightarrow>
                 Some (Inr [PolicyFailure_new chain reason],
                   diagnose diagnostics
                     (leaf_certificate_is_in_the_root_store_but_does_not_meet_policy leaf reason)) }
           else Some (Inr [], diagnostics));
        case outcome of
          Inl validated \<Rightarrow> Some (Ok validated, diagnostics)
        | Inr policy_failures \<Rightarrow> do {
            (result, diagnostics) \<leftarrow> search_loop self intermediates [[leaf]] policy_failures diagnostics;
            case result of
              Inr validated \<Rightarrow> Some (Ok validated, diagnostics)
            | Inl failures \<Rightarrow>
                Some (Err failures, diagnose diagnostics (could_not_validate_leaf_certificate leaf)) } })"

definition validate ::
  "Validator \<Rightarrow> certificate \<Rightarrow> CertificateStore \<Rightarrow> ChainValidationResult may_panic" where
  "validate self leaf intermediates = map_option fst (validate_inner self leaf intermediates None)"

text \<open>The result together with the events the callback received.\<close>

definition validate_with_diagnostics ::
  "Validator \<Rightarrow> certificate \<Rightarrow> CertificateStore \<Rightarrow>
   (ChainValidationResult \<times> VerificationDiagnostic list) may_panic" where
  "validate_with_diagnostics self leaf intermediates =
     map_option (map_prod id the) (validate_inner self leaf intermediates (Some []))"

end
