(* ===== verification/Validator_Correct.thy ===== *)
theory Validator_Correct
  imports Validator
begin

text \<open>
  Correctness of the chain search. The stack of partial chains is related to a recursive enumeration
  of all candidate chains, in order of preference; membership in the enumeration is characterised
  position by position. Soundness, completeness, the contents of the error list, totality and the
  reported events follow.
\<close>

subsection \<open>The enumeration of candidate chains\<close>

definition signed_by :: "Validator \<Rightarrow> certificate \<Rightarrow> certificate \<Rightarrow> bool" where
  "signed_by V subject issuer \<longleftrightarrow>
     crypto V (cert_signature_algorithm subject) (tbs_subject_pki issuer) (tbs_raw subject)
       (cert_signature_value subject) = Some (Ok ())"

definition handled_critical :: "Validator \<Rightarrow> certificate \<Rightarrow> bool" where
  "handled_critical V c \<longleftrightarrow>
     (\<forall>ext \<in> set (tbs_extensions c). ext_critical ext \<longrightarrow> handles (validator_policy V) (ext_oid ext))"

definition usable :: "Validator \<Rightarrow> certificate list \<Rightarrow> certificate \<Rightarrow> bool" where
  "usable V p c \<longleftrightarrow>
     handled_critical V c \<and> (\<forall>e \<in> set p. \<not> has_same_identity_as e c) \<and> signed_by V (last p) c"

definition issuers_in :: "Validator \<Rightarrow> CertificateStore \<Rightarrow> certificate list \<Rightarrow> certificate list" where
  "issuers_in V store p =
     filter (usable V p)
       (sort_by_suitability_for_issuing (find_by_subject store (issuer_key (last p))) (last p))"

lemma issuers_in_iff:
  "c \<in> set (issuers_in V store p) \<longleftrightarrow> c \<in> set (find_by_subject store (issuer_key (last p))) \<and> usable V p c"
  by (auto simp: issuers_in_def)

lemma issuers_in_unused: "c \<in> set (issuers_in V store p) \<Longrightarrow> unused store (p @ [c]) < unused store p"
  using find_by_subject_subset [of store "issuer_key (last p)"]
  by (intro unused_extend) (auto simp: issuers_in_iff usable_def)

function chains_from :: "Validator \<Rightarrow> CertificateStore \<Rightarrow> certificate list \<Rightarrow> certificate list list" where
  "chains_from V ints p =
     map (\<lambda>r. p @ [r]) (issuers_in V (root_certificates V) p) @
     concat (map (\<lambda>c. chains_from V ints (p @ [c])) (issuers_in V ints p))"
  by pat_completeness auto
termination
  by (relation "measure (\<lambda>(V, ints, p). unused ints p)") (auto intro: issuers_in_unused)

declare chains_from.simps [simp del]

definition candidate_chains :: "Validator \<Rightarrow> CertificateStore \<Rightarrow> certificate \<Rightarrow> certificate list list" where
  "candidate_chains V ints leaf =
     (if leaf \<in> set (find_by_subject (root_certificates V) (subject_key leaf)) then [[leaf]] else []) @
     chains_from V ints [leaf]"

text \<open>Taking the first chain the policy accepts, and collecting the rejections before it.\<close>

fun first_accepted ::
  "Validator \<Rightarrow> certificate list list \<Rightarrow> PolicyFailure list \<Rightarrow> ChainValidationResult may_panic" where
  "first_accepted V [] fs = Some (Err fs)"
| "first_accepted V (cs # css) fs =
     (case chain_meets_policy_requirements (validator_policy V) \<lparr>uc_certificates = cs\<rparr> of
        None \<Rightarrow> None
      | Some (Inr _) \<Rightarrow> Some (Ok \<lparr>vc_certificates = cs\<rparr>)
      | Some (Inl reason) \<Rightarrow>
          first_accepted V css (fs @ [\<lparr>pf_chain = \<lparr>uc_certificates = cs\<rparr>, policy_failure_reason = reason\<rparr>]))"

lemma first_accepted_append:
  "first_accepted V (xs @ ys) fs =
     (case first_accepted V xs fs of
        None \<Rightarrow> None | Some (Inr v) \<Rightarrow> Some (Inr v) | Some (Inl fs') \<Rightarrow> first_accepted V ys fs')"
  by (induction xs arbitrary: fs) (auto split: option.split sum.split)

text \<open>The failures of the chains before the first one the policy accepts.\<close>

fun rejected_before :: "Validator \<Rightarrow> certificate list list \<Rightarrow> PolicyFailure list" where
  "rejected_before V [] = []"
| "rejected_before V (cs # css) =
     (case chain_meets_policy_requirements (validator_policy V) \<lparr>uc_certificates = cs\<rparr> of
        Some (Inl reason) \<Rightarrow>
          \<lparr>pf_chain = \<lparr>uc_certificates = cs\<rparr>, policy_failure_reason = reason\<rparr> # rejected_before V css
      | _ \<Rightarrow> [])"

lemma rejected_before_append:
  "first_accepted V xs fs = Some (Inl fs') \<Longrightarrow>
     rejected_before V (xs @ ys) = rejected_before V xs @ rejected_before V ys"
  "first_accepted V xs fs = Some (Inr v) \<Longrightarrow> rejected_before V (xs @ ys) = rejected_before V xs"
  by (induction xs arbitrary: fs) (auto split: option.splits sum.splits)

lemma first_accepted_rejected:
  "first_accepted V css fs = Some (Inl fs') \<Longrightarrow> fs' = fs @ rejected_before V css"
  by (induction css arbitrary: fs) (fastforce split: option.splits sum.splits)+

lemma rejected_before_reasons:
  "f \<in> set (rejected_before V css) \<Longrightarrow>
     chain_meets_policy_requirements (validator_policy V) (pf_chain f) = Some (Err (policy_failure_reason f))"
  by (induction css) (auto split: option.splits sum.splits)

lemma rejected_before_chains:
  "first_accepted V css fs = Some (Inr v) \<Longrightarrow>
     \<exists>after. css = map (\<lambda>f. uc_certificates (pf_chain f)) (rejected_before V css) @ vc_certificates v # after"
  "first_accepted V css fs = Some (Inl fs') \<Longrightarrow>
     css = map (\<lambda>f. uc_certificates (pf_chain f)) (rejected_before V css)"
  by (induction css arbitrary: fs) (fastforce split: option.splits sum.splits)+

subsection \<open>One step of the search\<close>

lemma handled_critical_iff:
  "has_unhandled_critical_extensions c (validator_policy V) \<longleftrightarrow> \<not> handled_critical V c"
  by (auto simp: has_unhandled_critical_extensions_def handled_critical_def handles_def list_ex_iff)

text \<open>The candidate test decides usability, whatever is done with the events.\<close>

lemma should_skip_usable:
  assumes "should_skip_adding_certificate c p (crypto V) (validator_policy V) d = Some (b, d')"
  shows "b \<longleftrightarrow> \<not> usable V p c"
  using assms
  by (auto simp: should_skip_adding_certificate_def handled_critical_iff usable_def list_ex_iff
      signed_by_def slice_last_def Let_def split: if_splits Option.bind_splits sum.splits)

definition crypto_total :: "Validator \<Rightarrow> bool" where
  "crypto_total V \<longleftrightarrow> (\<forall>a k m s. crypto V a k m s \<noteq> None)"

lemma should_skip_returns:
  assumes "crypto_total V" "p \<noteq> []"
  shows "should_skip_adding_certificate c p (crypto V) (validator_policy V) d \<noteq> None"
proof -
  obtain v where "crypto V (cert_signature_algorithm (last p)) (tbs_subject_pki c) (tbs_raw (last p))
      (cert_signature_value (last p)) = Some v"
    using assms(1) by (fastforce simp: crypto_total_def)
  then show ?thesis using assms(2)
    by (simp add: should_skip_adding_certificate_def Let_def del: not_None_eq)
qed

lemma root_loop_result:
  "root_loop V p cs fs d = Some (r, d') \<Longrightarrow>
     first_accepted V (map (\<lambda>c. p @ [c]) (filter (usable V p) cs)) fs =
       Some (case r of Inl v \<Rightarrow> Inr v | Inr fs' \<Rightarrow> Inl fs')"
proof (induction V p cs fs d rule: root_loop.induct)
  case (2 V p c cs fs d)
  from "2.prems" obtain skip d1 where s:
    "should_skip_adding_certificate c p (crypto V) (validator_policy V) d = Some (skip, d1)"
    by (auto split: Option.bind_splits)
  note usable = should_skip_usable [OF s]
  show ?case
  proof (cases skip)
    case True
    then show ?thesis using "2.IH"(1) [OF s refl True] "2.prems" s usable by simp
  next
    case False
    from "2.prems" s False obtain v where v:
      "chain_meets_policy_requirements (validator_policy V) \<lparr>uc_certificates = p @ [c]\<rparr> = Some v"
      by (auto simp: Let_def split: Option.bind_splits)
    have IH: "v = Inl reason \<Longrightarrow>
        root_loop V p cs (fs @ [PolicyFailure_new \<lparr>uc_certificates = p @ [c]\<rparr> reason])
          (diagnose d1 (chain_fails_to_meet_policy (p @ [c]) reason)) = Some (r, d') \<Longrightarrow>
        first_accepted V (map (\<lambda>c. p @ [c]) (filter (usable V p) cs))
          (fs @ [PolicyFailure_new \<lparr>uc_certificates = p @ [c]\<rparr> reason]) =
        Some (case r of Inl v \<Rightarrow> Inr v | Inr fs' \<Rightarrow> Inl fs')" for reason
      using "2.IH"(2) [OF s refl False refl _ v] by simp
    show ?thesis
      using "2.prems" s False v usable IH
      by (cases v) (auto simp: Let_def PolicyFailure_new_def)
  qed
qed auto

lemma root_loop_returns:
  assumes "crypto_total V" "policy_total (validator_policy V)" "p \<noteq> []"
  shows "root_loop V p cs fs d \<noteq> None"
proof (induction cs arbitrary: fs d)
  case (Cons c cs)
  obtain skip d1 where s:
    "should_skip_adding_certificate c p (crypto V) (validator_policy V) d = Some (skip, d1)"
    using should_skip_returns [OF assms(1,3)] by fastforce
  obtain v where
    "chain_meets_policy_requirements (validator_policy V) \<lparr>uc_certificates = p @ [c]\<rparr> = Some v"
    using assms(2) by (fastforce simp: policy_total_def)
  then show ?case using s Cons.IH by (auto simp: Let_def split: sum.splits)
qed simp

lemma intermediate_loop_result:
  "intermediate_loop V p cs stack d = Some (stack', d') \<Longrightarrow>
     stack' = rev (map (\<lambda>c. p @ [c]) (filter (usable V p) cs)) @ stack"
proof (induction V p cs stack d rule: intermediate_loop.induct)
  case (2 V p c cs stack d)
  from "2.prems" obtain skip d1 where s:
    "should_skip_adding_certificate c p (crypto V) (validator_policy V) d = Some (skip, d1)"
    by (auto split: Option.bind_splits)
  show ?case
    using "2.IH"(1) [OF s refl] "2.IH"(2) [OF s refl] "2.prems" s should_skip_usable [OF s]
    by (cases skip) simp_all
qed simp

lemma intermediate_loop_returns:
  assumes "crypto_total V" "p \<noteq> []"
  shows "intermediate_loop V p cs stack d \<noteq> None"
proof (induction cs arbitrary: stack d)
  case (Cons c cs)
  obtain skip d1 where
    "should_skip_adding_certificate c p (crypto V) (validator_policy V) d = Some (skip, d1)"
    using should_skip_returns [OF assms] by fastforce
  then show ?case using Cons.IH by auto
qed simp

text \<open>A turn of the search, with the two reports of candidates as functions of the log.\<close>

definition preferred :: "CertificateStore \<Rightarrow> certificate list \<Rightarrow> certificate list" where
  "preferred store p =
     sort_by_suitability_for_issuing (find_by_subject store (issuer_key (last p))) (last p)"

definition report_roots :: "Validator \<Rightarrow> certificate list \<Rightarrow> diagnostics \<Rightarrow> diagnostics" where
  "report_roots V p d =
     (let d = diagnose d (searching_for_issuer_of_partial_chain p);
          rs = preferred (root_certificates V) p
      in if rs \<noteq> [] then diagnose d (found_candidate_issuers_of_partial_chain_in_root_store p rs) else d)"

definition report_intermediates :: "CertificateStore \<Rightarrow> certificate list \<Rightarrow> diagnostics \<Rightarrow> diagnostics" where
  "report_intermediates ints p d =
     (let cs = preferred ints p
      in if cs \<noteq> [] then diagnose d (found_candidate_issuers_of_partial_chain_in_intermediate_store p cs)
         else d)"

lemma search_unfold:
  assumes "p \<noteq> []"
  shows "search_loop V ints (p # stack) fs d =
    Option.bind (root_loop V p (preferred (root_certificates V) p) fs (report_roots V p d))
      (\<lambda>(outcome, d). case outcome of
          Inl v \<Rightarrow> Some (Inr v, d)
        | Inr fs \<Rightarrow>
            Option.bind (intermediate_loop V p (rev (preferred ints p)) stack (report_intermediates ints p d))
              (\<lambda>(stack, d). search_loop V ints stack fs d))"
  using assms
  by (simp add: search_loop.simps(2) Let_def preferred_def report_roots_def report_intermediates_def
      cong: sum.case_cong)

lemma search_empty_chain: "search_loop V ints ([] # stack) fs d = None"
  by (simp add: search_loop.simps(2) Let_def)

lemma issuers_in_preferred: "issuers_in V store p = filter (usable V p) (preferred store p)"
  by (simp add: issuers_in_def preferred_def)

lemma search_step:
  assumes "search_loop V ints (p # stack) fs d = Some (r, d')"
  obtains v where "p \<noteq> []" "r = Inr v"
    "first_accepted V (map (\<lambda>c. p @ [c]) (issuers_in V (root_certificates V) p)) fs = Some (Inr v)"
  | fs1 d1 where "p \<noteq> []"
    "first_accepted V (map (\<lambda>c. p @ [c]) (issuers_in V (root_certificates V) p)) fs = Some (Inl fs1)"
    "search_loop V ints (map (\<lambda>c. p @ [c]) (issuers_in V ints p) @ stack) fs1 d1 = Some (r, d')"
proof -
  have p: "p \<noteq> []" using assms search_empty_chain by (cases p) auto
  from assms obtain outcome d1 where o: "root_loop V p (preferred (root_certificates V) p) fs
      (report_roots V p d) = Some (outcome, d1)"
    unfolding search_unfold [OF p] by (auto split: Option.bind_splits)
  note roots = root_loop_result [OF o, folded issuers_in_preferred]
  show ?thesis
  proof (cases outcome)
    case (Inl v)
    then show ?thesis using that(1) p roots assms o by (auto simp: search_unfold [OF p])
  next
    case (Inr fs1)
    with assms o obtain stack1 d2 where
      i: "intermediate_loop V p (rev (preferred ints p)) stack (report_intermediates ints p d1) = Some (stack1, d2)"
      and s: "search_loop V ints stack1 fs1 d2 = Some (r, d')"
      unfolding search_unfold [OF p] by (auto split: Option.bind_splits)
    have "stack1 = map (\<lambda>c. p @ [c]) (issuers_in V ints p) @ stack"
      using intermediate_loop_result [OF i] by (simp add: issuers_in_preferred rev_filter rev_map)
    then show ?thesis using that(2) p roots Inr s by simp
  qed
qed

subsection \<open>The whole search\<close>

lemma search_loop_result:
  "search_loop V ints stack fs d = Some (r, d') \<Longrightarrow>
     first_accepted V (concat (map (chains_from V ints) stack)) fs = Some r"
proof (induction "(ints, stack)" arbitrary: stack fs d rule: wf_induct_rule [OF wf_stack_order])
  case 1
  show ?case
  proof (cases stack)
    case Nil
    then show ?thesis using "1.prems" by simp
  next
    case (Cons p rest)
    let ?new = "map (\<lambda>c. p @ [c]) (issuers_in V ints p)"
    have all: "concat (map (chains_from V ints) stack) =
        map (\<lambda>c. p @ [c]) (issuers_in V (root_certificates V) p) @
        concat (map (chains_from V ints) (?new @ rest))"
      unfolding Cons by (simp add: chains_from.simps [of V ints p] comp_def)
    have smaller: "((ints, ?new @ rest), (ints, stack)) \<in> stack_order"
      unfolding Cons by (rule stack_order_push) (auto intro: issuers_in_unused)
    from "1.prems" [unfolded Cons] show ?thesis
    proof (cases rule: search_step)
      case (1 v)
      then show ?thesis unfolding all by (simp add: first_accepted_append)
    next
      case (2 fs1 d1)
      then show ?thesis
        using "1.hyps" [OF smaller 2(3)] unfolding all by (simp add: first_accepted_append)
    qed
  qed
qed

lemma search_loop_returns:
  assumes "crypto_total V" "policy_total (validator_policy V)"
  shows "\<forall>p \<in> set stack. p \<noteq> [] \<Longrightarrow> search_loop V ints stack fs d \<noteq> None"
proof (induction "(ints, stack)" arbitrary: stack fs d rule: wf_induct_rule [OF wf_stack_order])
  case 1
  show ?case
  proof (cases stack)
    case (Cons p rest)
    then have p: "p \<noteq> []" using "1.prems" by simp
    obtain outcome d1 where o: "root_loop V p (preferred (root_certificates V) p) fs (report_roots V p d) =
        Some (outcome, d1)"
      using root_loop_returns [OF assms p] by fastforce
    obtain stack1 d2 where i: "intermediate_loop V p (rev (preferred ints p)) rest
        (report_intermediates ints p d1) = Some (stack1, d2)"
      using intermediate_loop_returns [OF assms(1) p] by fastforce
    have new: "stack1 = map (\<lambda>c. p @ [c]) (issuers_in V ints p) @ rest"
      using intermediate_loop_result [OF i] by (simp add: issuers_in_preferred rev_filter rev_map)
    have "((ints, stack1), (ints, stack)) \<in> stack_order"
      unfolding Cons new by (rule stack_order_push) (auto intro: issuers_in_unused)
    moreover have "\<forall>q \<in> set stack1. q \<noteq> []" using new "1.prems" Cons by auto
    ultimately have "search_loop V ints stack1 fs1 d2 \<noteq> None" for fs1 by (rule "1.hyps")
    then show ?thesis unfolding Cons using o i by (auto simp: search_unfold [OF p] split: sum.split)
  qed simp
qed

lemma validate_inner_result:
  assumes "validate_inner V leaf ints d = Some (r, d')"
  shows "if handled_critical V leaf then first_accepted V (candidate_chains V ints leaf) [] = Some r
     else r = Err [\<lparr>pf_chain = \<lparr>uc_certificates = [leaf]\<rparr>, policy_failure_reason =
                 PolicyFailureReason ''leaf certificate has unhandled critical extension''\<rparr>]"
proof (cases "handled_critical V leaf")
  case False
  then show ?thesis using assms
    by (auto simp: validate_inner_def handled_critical_iff PolicyFailure_new_def
        PolicyFailureReason_new_def Let_def)
next
  case True
  let ?in_roots = "leaf \<in> set (find_by_subject (root_certificates V) (subject_key leaf))"
  have search: "search_loop V ints [[leaf]] fs d1 = Some (r1, d2) \<Longrightarrow>
      first_accepted V (chains_from V ints [leaf]) fs = Some r1" for fs d1 r1 d2
    using search_loop_result [of V ints "[[leaf]]"] by fastforce
  have mem: "list_ex (\<lambda>c. c = leaf) (find_by_subject (root_certificates V) (subject_key leaf)) \<longleftrightarrow> ?in_roots"
    by (auto simp: list_ex_iff)
  show ?thesis
  proof (cases ?in_roots)
    case False
    then show ?thesis using assms True search mem
      by (auto simp: validate_inner_def handled_critical_iff candidate_chains_def Let_def
          split: Option.bind_splits sum.splits)
  next
    case inr: True
    from assms obtain v where v:
      "chain_meets_policy_requirements (validator_policy V) \<lparr>uc_certificates = [leaf]\<rparr> = Some v"
      using True inr mem
      by (auto simp: validate_inner_def handled_critical_iff Let_def split: Option.bind_splits)
    then show ?thesis using assms True inr search mem
      by (cases v) (auto simp: validate_inner_def handled_critical_iff candidate_chains_def Let_def
          PolicyFailure_new_def split: Option.bind_splits sum.splits)
  qed
qed

lemma validate_inner_returns:
  assumes "crypto_total V" "policy_total (validator_policy V)"
  shows "validate_inner V leaf ints d \<noteq> None"
proof -
  obtain v where v: "chain_meets_policy_requirements (validator_policy V) \<lparr>uc_certificates = [leaf]\<rparr> = Some v"
    using assms(2) by (fastforce simp: policy_total_def)
  have s: "Option.bind (search_loop V ints [[leaf]] fs d1) (\<lambda>(r, d). f r d) = None \<longleftrightarrow>
      (\<exists>r d2. search_loop V ints [[leaf]] fs d1 = Some (r, d2) \<and> f r d2 = None)"
    for fs d1 and f :: "ChainValidationResult \<Rightarrow> diagnostics \<Rightarrow> (ChainValidationResult \<times> diagnostics) option"
  proof -
    obtain r d2 where "search_loop V ints [[leaf]] fs d1 = Some (r, d2)"
      using search_loop_returns [OF assms, of "[[leaf]]"] by fastforce
    then show ?thesis by simp
  qed
  show ?thesis
    using v by (cases v) (auto simp: validate_inner_def Let_def s simp del: not_None_eq split: sum.splits)
qed

subsection \<open>Which chains are enumerated\<close>

text \<open>
  One extension of a partial chain by an intermediate, as a step relation; the partial chains the
  search visits are the states reachable from the leaf.
\<close>

inductive extend_step :: "Validator \<Rightarrow> CertificateStore \<Rightarrow> certificate list \<Rightarrow> certificate list \<Rightarrow> bool"
  for V ints where
  extend: "c \<in> set (issuers_in V ints p) \<Longrightarrow> extend_step V ints p (p @ [c])"

inductive_cases extend_stepE: "extend_step V ints p q"

inductive_simps extend_step_iff: "extend_step V ints p q"

abbreviation reaches :: "Validator \<Rightarrow> CertificateStore \<Rightarrow> certificate list \<Rightarrow> certificate list \<Rightarrow> bool" where
  "reaches V ints \<equiv> (extend_step V ints)\<^sup>*\<^sup>*"

lemma chains_from_reaches:
  "set (chains_from V ints p) =
     {q @ [r] |q r. reaches V ints p q \<and> r \<in> set (issuers_in V (root_certificates V) q)}"
proof (induction V ints p rule: chains_from.induct)
  case (1 V ints p)
  have "reaches V ints p q \<longleftrightarrow> q = p \<or> (\<exists>c \<in> set (issuers_in V ints p). reaches V ints (p @ [c]) q)" for q
  proof
    assume "reaches V ints p q"
    then show "q = p \<or> (\<exists>c \<in> set (issuers_in V ints p). reaches V ints (p @ [c]) q)"
      by (cases rule: converse_rtranclpE) (auto elim: extend_stepE)
  next
    assume "q = p \<or> (\<exists>c \<in> set (issuers_in V ints p). reaches V ints (p @ [c]) q)"
    then show "reaches V ints p q" by (auto intro: converse_rtranclp_into_rtranclp extend)
  qed
  then show ?case
    by (subst chains_from.simps) (auto simp: 1)
qed

text \<open>The link between neighbours, position by position.\<close>

definition linked :: "Validator \<Rightarrow> CertificateStore \<Rightarrow> certificate list \<Rightarrow> bool" where
  "linked V store q \<longleftrightarrow>
     (\<forall>i. Suc i < length q \<longrightarrow>
        q ! Suc i \<in> set (find_by_subject store (issuer_key (q ! i))) \<and>
        signed_by V (q ! i) (q ! Suc i) \<and> handled_critical V (q ! Suc i))"

definition no_repeated_identity :: "certificate list \<Rightarrow> bool" where
  "no_repeated_identity q \<longleftrightarrow> sorted_wrt (\<lambda>a b. \<not> has_same_identity_as a b) q"

lemma linked_single [simp]: "linked V store [c]"
  by (simp add: linked_def)

lemma linked_snoc:
  assumes "q \<noteq> []"
  shows "linked V store (q @ [c]) \<longleftrightarrow> linked V store q \<and>
    c \<in> set (find_by_subject store (issuer_key (last q))) \<and> signed_by V (last q) c \<and> handled_critical V c"
proof -
  let ?P = "\<lambda>q i. q ! Suc i \<in> set (find_by_subject store (issuer_key (q ! i))) \<and>
        signed_by V (q ! i) (q ! Suc i) \<and> handled_critical V (q ! Suc i)"
  have "(\<forall>i. Suc i < length (q @ [c]) \<longrightarrow> ?P (q @ [c]) i) \<longleftrightarrow>
      (\<forall>i. Suc i < length q \<longrightarrow> ?P (q @ [c]) i) \<and> ?P (q @ [c]) (length q - 1)"
  proof (rule iffI)
    assume "\<forall>i. Suc i < length (q @ [c]) \<longrightarrow> ?P (q @ [c]) i"
    moreover have "Suc (length q - 1) < length (q @ [c])" using assms by simp
    ultimately show "(\<forall>i. Suc i < length q \<longrightarrow> ?P (q @ [c]) i) \<and> ?P (q @ [c]) (length q - 1)"
      by (metis (no_types, lifting) length_append_singleton less_SucI)
  next
    assume l: "(\<forall>i. Suc i < length q \<longrightarrow> ?P (q @ [c]) i) \<and> ?P (q @ [c]) (length q - 1)"
    show "\<forall>i. Suc i < length (q @ [c]) \<longrightarrow> ?P (q @ [c]) i"
    proof (rule allI, rule impI)
      fix i assume "Suc i < length (q @ [c])"
      then have "Suc i < length q \<or> i = length q - 1" by auto
      then show "?P (q @ [c]) i" using l by blast
    qed
  qed
  moreover have "?P (q @ [c]) (length q - 1) \<longleftrightarrow>
      c \<in> set (find_by_subject store (issuer_key (last q))) \<and> signed_by V (last q) c \<and> handled_critical V c"
    using assms by (simp add: nth_append last_conv_nth)
  moreover have "(\<forall>i. Suc i < length q \<longrightarrow> ?P (q @ [c]) i) \<longleftrightarrow> (\<forall>i. Suc i < length q \<longrightarrow> ?P q i)"
    by (simp add: nth_append)
  ultimately show ?thesis unfolding linked_def by (simp only:)
qed

lemma no_repeated_identity_snoc:
  "no_repeated_identity (q @ [c]) \<longleftrightarrow> no_repeated_identity q \<and> (\<forall>e \<in> set q. \<not> has_same_identity_as e c)"
  by (simp add: no_repeated_identity_def sorted_wrt_append)

lemma reaches_iff:
  "reaches V ints [leaf] q \<longleftrightarrow> q \<noteq> [] \<and> hd q = leaf \<and> linked V ints q \<and> no_repeated_identity q"
proof
  assume "reaches V ints [leaf] q"
  then show "q \<noteq> [] \<and> hd q = leaf \<and> linked V ints q \<and> no_repeated_identity q"
  proof (induction rule: rtranclp_induct)
    case base
    then show ?case by (simp add: no_repeated_identity_def)
  next
    case (step p q)
    then show ?case
      by (auto simp: extend_step_iff linked_snoc no_repeated_identity_snoc issuers_in_iff usable_def)
  qed
next
  assume "q \<noteq> [] \<and> hd q = leaf \<and> linked V ints q \<and> no_repeated_identity q"
  then show "reaches V ints [leaf] q"
  proof (induction q rule: rev_induct)
    case (snoc c q)
    show ?case
    proof (cases "q = []")
      case False
      with snoc have "reaches V ints [leaf] q" "c \<in> set (issuers_in V ints q)"
        by (auto simp: linked_snoc no_repeated_identity_snoc issuers_in_iff usable_def)
      then show ?thesis by (meson extend rtranclp.rtrancl_into_rtrancl)
    qed (use snoc in simp)
  qed simp
qed

text \<open>A path of trust from the leaf: all but the last certificate linked through the intermediates.\<close>

definition trust_path :: "Validator \<Rightarrow> CertificateStore \<Rightarrow> certificate \<Rightarrow> certificate list \<Rightarrow> bool" where
  "trust_path V ints leaf cs \<longleftrightarrow>
     (cs = [leaf] \<and> leaf \<in> set (find_by_subject (root_certificates V) (subject_key leaf))) \<or>
     (2 \<le> length cs \<and> hd cs = leaf \<and> no_repeated_identity cs \<and> linked V ints (butlast cs) \<and>
      linked V (root_certificates V) [last (butlast cs), last cs])"

lemma trust_path_snoc:
  assumes "q \<noteq> []"
  shows "trust_path V ints leaf (q @ [r]) \<longleftrightarrow>
     reaches V ints [leaf] q \<and> r \<in> set (issuers_in V (root_certificates V) q)"
proof -
  have two: "linked V store [a, b] \<longleftrightarrow>
      b \<in> set (find_by_subject store (issuer_key a)) \<and> signed_by V a b \<and> handled_critical V b" for store a b
    using linked_snoc [of "[a]" V store b] by simp
  have "2 \<le> length (q @ [r])" using assms by (cases q) auto
  then show ?thesis using assms
    by (auto simp: trust_path_def reaches_iff issuers_in_iff usable_def two no_repeated_identity_snoc)
qed

lemma candidate_chains_iff: "cs \<in> set (candidate_chains V ints leaf) \<longleftrightarrow> trust_path V ints leaf cs"
proof -
  have long: "cs \<in> set (chains_from V ints [leaf]) \<longleftrightarrow>
      (\<exists>q r. cs = q @ [r] \<and> q \<noteq> [] \<and> trust_path V ints leaf cs)"
  proof
    assume "cs \<in> set (chains_from V ints [leaf])"
    then obtain q r where q: "cs = q @ [r]" "reaches V ints [leaf] q"
      "r \<in> set (issuers_in V (root_certificates V) q)"
      by (auto simp: chains_from_reaches)
    moreover from q(2) have "q \<noteq> []" by (simp add: reaches_iff)
    ultimately show "\<exists>q r. cs = q @ [r] \<and> q \<noteq> [] \<and> trust_path V ints leaf cs"
      using trust_path_snoc by blast
  next
    assume "\<exists>q r. cs = q @ [r] \<and> q \<noteq> [] \<and> trust_path V ints leaf cs"
    then show "cs \<in> set (chains_from V ints [leaf])"
      by (auto simp: chains_from_reaches trust_path_snoc)
  qed
  have "trust_path V ints leaf cs \<Longrightarrow> cs = [leaf] \<or> (\<exists>q r. cs = q @ [r] \<and> q \<noteq> [])"
    by (cases cs rule: rev_cases) (auto simp: trust_path_def)
  then show ?thesis
    unfolding candidate_chains_def by (auto simp: long) (auto simp: trust_path_def)
qed

subsection \<open>What the first accepted chain is\<close>

lemma first_accepted_Ok:
  "first_accepted V css fs = Some (Inr v) \<Longrightarrow>
     vc_certificates v \<in> set css \<and> accepts (validator_policy V) \<lparr>uc_certificates = vc_certificates v\<rparr>"
  by (induction V css fs rule: first_accepted.induct)
    (auto simp: accepts_def split: option.splits sum.splits)

lemma first_accepted_Err:
  "first_accepted V css fs = Some (Inl fs') \<Longrightarrow>
     \<exists>new. fs' = fs @ new \<and> map pf_chain new = map (\<lambda>cs. \<lparr>uc_certificates = cs\<rparr>) css \<and>
       (\<forall>f \<in> set new. chain_meets_policy_requirements (validator_policy V) (pf_chain f) =
          Some (Err (policy_failure_reason f)))"
proof (induction css arbitrary: fs)
  case (Cons cs css)
  then obtain reason where r:
    "chain_meets_policy_requirements (validator_policy V) \<lparr>uc_certificates = cs\<rparr> = Some (Inl reason)"
    "first_accepted V css (fs @ [\<lparr>pf_chain = \<lparr>uc_certificates = cs\<rparr>, policy_failure_reason = reason\<rparr>]) =
       Some (Inl fs')"
    by (auto split: option.splits sum.splits)
  from Cons.IH [OF r(2)] r(1) show ?case by auto
qed simp

lemma first_accepted_complete:
  assumes "first_accepted V css fs = Some r" "cs \<in> set css" "accepts (validator_policy V) \<lparr>uc_certificates = cs\<rparr>"
  shows "\<exists>v. r = Inr v"
proof (cases r)
  case (Inl fs')
  with assms(1) obtain new :: "PolicyFailure list" where "map pf_chain new = map (\<lambda>cs. \<lparr>uc_certificates = cs\<rparr>) css"
    "\<forall>f \<in> set new. chain_meets_policy_requirements (validator_policy V) (pf_chain f) =
       Some (Err (policy_failure_reason f))"
    using first_accepted_Err [of V css fs fs'] by auto
  moreover from this(1) assms(2) have "\<lparr>uc_certificates = cs\<rparr> \<in> pf_chain ` set new"
    by (metis image_eqI list.set_map)
  ultimately show ?thesis using assms(3) by (auto simp: accepts_def)
qed simp

subsection \<open>The callback does not influence the result\<close>

definition silent :: "('a \<times> diagnostics) option \<Rightarrow> ('a \<times> diagnostics) option" where
  "silent m = map_option (\<lambda>(r, _). (r, None)) m"

lemma silent_simps [simp]:
  "silent None = None" "silent (Some (r, d)) = Some (r, None)"
  "diagnose None e = None"
  by (simp_all add: silent_def diagnose_def)

lemma silent_bind:
  assumes "\<And>r d. m = Some (r, d) \<Longrightarrow> silent (f r d) = g r"
  shows "silent (Option.bind m (\<lambda>(r, d). f r d)) = Option.bind (silent m) (\<lambda>(r, d). g r)"
  using assms by (cases m) (auto simp: split: prod.split)

lemma should_skip_silent:
  "should_skip_adding_certificate c p b pol None = silent (should_skip_adding_certificate c p b pol d)"
  by (auto simp: should_skip_adding_certificate_def Let_def split: option.split Option.bind_split)

lemma root_loop_silent: "root_loop V p cs fs None = silent (root_loop V p cs fs d)"
proof (induction cs arbitrary: fs d)
  case (Cons c cs)
  show ?case
  proof (cases "should_skip_adding_certificate c p (crypto V) (validator_policy V) d")
    case None
    then show ?thesis using should_skip_silent [of c p "crypto V" "validator_policy V" d] by simp
  next
    case (Some r)
    then obtain skip d1 where s: "should_skip_adding_certificate c p (crypto V) (validator_policy V) d = Some (skip, d1)"
      by (cases r) auto
    then have n: "should_skip_adding_certificate c p (crypto V) (validator_policy V) None = Some (skip, None)"
      using should_skip_silent [of c p "crypto V" "validator_policy V" d] by simp
    show ?thesis
      using Cons.IH [of fs d1] Cons.IH s n
      by (auto simp: Let_def split: Option.bind_split sum.split)
  qed
qed simp

lemma intermediate_loop_silent:
  "intermediate_loop V p cs stack None = silent (intermediate_loop V p cs stack d)"
proof (induction cs arbitrary: stack d)
  case (Cons c cs)
  show ?case
    using should_skip_silent [of c p "crypto V" "validator_policy V" d] Cons.IH
    by (cases "should_skip_adding_certificate c p (crypto V) (validator_policy V) d") auto
qed simp

lemma report_silent [simp]: "report_roots V p None = None" "report_intermediates ints p None = None"
  by (simp_all add: report_roots_def report_intermediates_def Let_def)

lemma search_loop_silent: "search_loop V ints stack fs None = silent (search_loop V ints stack fs d)"
proof (induction "(ints, stack)" arbitrary: stack fs d rule: wf_induct_rule [OF wf_stack_order])
  case 1
  show ?case
  proof (cases stack)
    case (Cons p rest)
    show ?thesis
    proof (cases "p = []")
      case True
      then show ?thesis unfolding Cons by (simp add: search_empty_chain)
    next
      case False
      note roots = root_loop_silent [of V p "preferred (root_certificates V) p" fs "report_roots V p d"]
      show ?thesis
      proof (cases "root_loop V p (preferred (root_certificates V) p) fs (report_roots V p d)")
        case None
        then show ?thesis unfolding Cons using roots by (simp add: search_unfold [OF False])
      next
        case (Some r)
        then obtain outcome d1 where o: "root_loop V p (preferred (root_certificates V) p) fs (report_roots V p d) =
            Some (outcome, d1)" by (cases r) auto
        note ints = intermediate_loop_silent [of V p "rev (preferred ints p)" rest "report_intermediates ints p d1"]
        have "search_loop V ints stack1 fs1 None = silent (search_loop V ints stack1 fs1 d2)"
          if "intermediate_loop V p (rev (preferred ints p)) rest (report_intermediates ints p d1) = Some (stack1, d2)"
          for stack1 d2 fs1
          using "1.hyps" intermediate_loop_order [OF that [unfolded preferred_def]] unfolding Cons by blast
        then show ?thesis unfolding Cons using o roots ints
          by (cases "intermediate_loop V p (rev (preferred ints p)) rest (report_intermediates ints p d1)")
            (auto simp: search_unfold [OF False] split: sum.split)
      qed
    qed
  qed simp
qed

lemma validate_inner_silent: "validate_inner V leaf ints None = silent (validate_inner V leaf ints d)"
proof -
  have search: "search_loop V ints [[leaf]] fs None = silent (search_loop V ints [[leaf]] fs d1)" for fs d1
    by (rule search_loop_silent)
  have "Option.bind (search_loop V ints [[leaf]] fs None) (\<lambda>(r, d). case r of Inr v \<Rightarrow> Some (Inr v, d)
        | Inl fs \<Rightarrow> Some (Inl fs, diagnose d e)) =
      silent (Option.bind (search_loop V ints [[leaf]] fs d1) (\<lambda>(r, d). case r of Inr v \<Rightarrow> Some (Inr v, d)
        | Inl fs \<Rightarrow> Some (Inl fs, diagnose d e)))" for fs d1 e
    unfolding search [of fs d1]
    by (cases "search_loop V ints [[leaf]] fs d1") (auto split: sum.split)
  then show ?thesis
    by (auto simp: validate_inner_def Let_def split: Option.bind_split sum.split)
qed

subsection \<open>The reported events\<close>

text \<open>The rejections an event list reports, in order.\<close>

fun rejection :: "Storage \<Rightarrow> PolicyFailure option" where
  "rejection (ChainFailsToMeetPolicy cs reason) =
     Some \<lparr>pf_chain = \<lparr>uc_certificates = cs\<rparr>, policy_failure_reason = reason\<rparr>"
| "rejection (LeafCertificateIsInTheRootStoreButDoesNotMeetPolicy leaf reason) =
     Some \<lparr>pf_chain = \<lparr>uc_certificates = [leaf]\<rparr>, policy_failure_reason = reason\<rparr>"
| "rejection _ = None"

fun rejections :: "VerificationDiagnostic list \<Rightarrow> PolicyFailure list" where
  "rejections [] = []"
| "rejections (e # es) =
     (case rejection (storage e) of None \<Rightarrow> rejections es | Some f \<Rightarrow> f # rejections es)"

lemma rejections_append [simp]: "rejections (xs @ ys) = rejections xs @ rejections ys"
  by (induction xs) (auto split: option.split)

lemma diagnose_Some [simp]: "diagnose (Some es) e = Some (es @ [e])"
  by (simp add: diagnose_def)

lemma should_skip_events:
  "should_skip_adding_certificate c p b pol (Some es) = Some (x, d') \<Longrightarrow>
     \<exists>es'. d' = Some es' \<and> rejections es' = rejections es"
  by (auto simp: should_skip_adding_certificate_def Let_def diagnostic_defs
      split: if_splits Option.bind_splits)

text \<open>
  A loop that is given an event list extends it; the rejections it adds are those of the chains
  before the first accepted one, and after an accepted chain the last event reports it.
\<close>

definition reports :: "Validator \<Rightarrow> diagnostics \<Rightarrow> PolicyFailure list \<Rightarrow> certificate list list \<Rightarrow> bool" where
  "reports V d fs css \<longleftrightarrow> (\<exists>es. d = Some es \<and> rejections es = fs @ rejected_before V css)"

definition ends_with_chain :: "diagnostics \<Rightarrow> ValidatedCertificateChain \<Rightarrow> bool" where
  "ends_with_chain d v \<longleftrightarrow> (\<exists>es. d = Some (es @ [found_valid_certificate_chain (vc_certificates v)]))"

lemma root_loop_events:
  "root_loop V p cs fs (Some es) = Some (r, d') \<Longrightarrow>
     reports V d' (rejections es) (map (\<lambda>c. p @ [c]) (filter (usable V p) cs)) \<and>
     (\<forall>v. r = Inl v \<longrightarrow> ends_with_chain d' v)"
proof (induction cs arbitrary: fs es)
  case (Cons c cs)
  from Cons.prems obtain skip d1 where s:
    "should_skip_adding_certificate c p (crypto V) (validator_policy V) (Some es) = Some (skip, d1)"
    by (auto split: Option.bind_splits)
  then obtain es1 where e: "d1 = Some es1" "rejections es1 = rejections es"
    using should_skip_events by blast
  note usable = should_skip_usable [OF s]
  show ?case
  proof (cases skip)
    case True
    then show ?thesis using Cons.IH [of fs es1] Cons.prems s e usable by simp
  next
    case False
    with Cons.prems s e obtain v where v:
      "chain_meets_policy_requirements (validator_policy V) \<lparr>uc_certificates = p @ [c]\<rparr> = Some v"
      by (auto simp: Let_def split: Option.bind_splits)
    show ?thesis
    proof (cases v)
      case (Inl reason)
      let ?es = "es1 @ [chain_fails_to_meet_policy (p @ [c]) reason]"
      have "rejections ?es = rejections es @ [PolicyFailure_new \<lparr>uc_certificates = p @ [c]\<rparr> reason]"
        using e by (simp add: chain_fails_to_meet_policy_def PolicyFailure_new_def)
      then show ?thesis using Cons.IH [of _ ?es] Cons.prems s e False v Inl usable
        by (auto simp: Let_def reports_def PolicyFailure_new_def)
    next
      case (Inr u)
      then show ?thesis using Cons.prems s e False v usable
        by (auto simp: Let_def ends_with_chain_def reports_def found_valid_certificate_chain_def)
    qed
  qed
qed (auto simp: reports_def)

lemma intermediate_loop_events:
  "intermediate_loop V p cs stack (Some es) = Some (stack', d') \<Longrightarrow>
     \<exists>es'. d' = Some es' \<and> rejections es' = rejections es"
proof (induction cs arbitrary: stack es)
  case (Cons c cs)
  from Cons.prems obtain skip d1 where s:
    "should_skip_adding_certificate c p (crypto V) (validator_policy V) (Some es) = Some (skip, d1)"
    by (auto split: Option.bind_splits)
  then obtain es1 where "d1 = Some es1" "rejections es1 = rejections es"
    using should_skip_events by blast
  then show ?case using Cons.IH [of _ es1] Cons.prems s by (cases skip) auto
qed auto

lemma report_events:
  "\<exists>es'. report_roots V p (Some es) = Some es' \<and> rejections es' = rejections es"
  "\<exists>es'. report_intermediates ints p (Some es) = Some es' \<and> rejections es' = rejections es"
  by (simp_all add: report_roots_def report_intermediates_def Let_def diagnostic_defs)

lemma search_loop_events:
  "search_loop V ints stack fs (Some es) = Some (r, d') \<Longrightarrow>
     reports V d' (rejections es) (concat (map (chains_from V ints) stack)) \<and>
     (\<forall>v. r = Inr v \<longrightarrow> ends_with_chain d' v)"
proof (induction "(ints, stack)" arbitrary: stack fs es rule: wf_induct_rule [OF wf_stack_order])
  case 1
  show ?case
  proof (cases stack)
    case Nil
    then show ?thesis using "1.prems" by (auto simp: reports_def)
  next
    case (Cons p rest)
    let ?roots = "map (\<lambda>c. p @ [c]) (issuers_in V (root_certificates V) p)"
    let ?new = "map (\<lambda>c. p @ [c]) (issuers_in V ints p) @ rest"
    have all: "concat (map (chains_from V ints) stack) = ?roots @ concat (map (chains_from V ints) ?new)"
      unfolding Cons by (simp add: chains_from.simps [of V ints p] comp_def)
    have p: "p \<noteq> []" using "1.prems" search_empty_chain unfolding Cons by (cases p) auto
    obtain es1 where r: "report_roots V p (Some es) = Some es1" "rejections es1 = rejections es"
      using report_events(1) by metis
    from "1.prems" r obtain outcome d1 where o:
      "root_loop V p (preferred (root_certificates V) p) fs (Some es1) = Some (outcome, d1)"
      unfolding Cons search_unfold [OF p] by (auto split: Option.bind_splits)
    note e = root_loop_events [OF o, folded issuers_in_preferred]
      and f = root_loop_result [OF o, folded issuers_in_preferred]
    show ?thesis
    proof (cases outcome)
      case (Inl v)
      then show ?thesis using "1.prems" o r e f rejected_before_append(2) unfolding all
        by (auto simp: Cons search_unfold [OF p] reports_def)
    next
      case (Inr fs1)
      obtain es2 where es2: "d1 = Some es2" "rejections es2 = rejections es @ rejected_before V ?roots"
        using e r(2) by (auto simp: reports_def)
      obtain es3 where es3: "report_intermediates ints p (Some es2) = Some es3" "rejections es3 = rejections es2"
        using report_events(2) by metis
      obtain stack1 d3 where
        i: "intermediate_loop V p (rev (preferred ints p)) rest (Some es3) = Some (stack1, d3)"
        and s: "search_loop V ints stack1 fs1 d3 = Some (r, d')"
        using "1.prems" o r Inr es2(1) es3(1) unfolding Cons search_unfold [OF p]
        by (auto split: Option.bind_splits)
      obtain es4 where es4: "d3 = Some es4" "rejections es4 = rejections es3"
        using intermediate_loop_events [OF i] by auto
      have new: "stack1 = ?new"
        using intermediate_loop_result [OF i] by (simp add: issuers_in_preferred rev_filter rev_map)
      have "((ints, stack1), (ints, stack)) \<in> stack_order"
        using intermediate_loop_order [OF i [unfolded preferred_def]] unfolding Cons .
      then have IH: "reports V d' (rejections es4) (concat (map (chains_from V ints) ?new))"
        "\<forall>v. r = Inr v \<longrightarrow> ends_with_chain d' v"
        using "1.hyps" s es4(1) unfolding new by blast+
      have "rejected_before V (?roots @ concat (map (chains_from V ints) ?new)) =
          rejected_before V ?roots @ rejected_before V (concat (map (chains_from V ints) ?new))"
        using f Inr by (intro rejected_before_append(1)) simp
      then show ?thesis using IH es2(2) es3(2) es4(2) unfolding all reports_def by simp
    qed
  qed
qed

lemma search_from_leaf_events:
  assumes "Option.bind (search_loop V ints [[leaf]] fs (Some es)) (\<lambda>(result, d). case result of
      Inl fs \<Rightarrow> Some (Inl fs, diagnose d (could_not_validate_leaf_certificate leaf))
    | Inr v \<Rightarrow> Some (Inr v, d)) = Some (r, d')"
  shows "\<exists>es'. d' = Some es' \<and> es' \<noteq> [] \<and>
    rejections es' = rejections es @ rejected_before V (chains_from V ints [leaf]) \<and>
    last es' = (case r of Inr v \<Rightarrow> found_valid_certificate_chain (vc_certificates v)
      | Inl _ \<Rightarrow> could_not_validate_leaf_certificate leaf)"
proof -
  from assms obtain r1 d1 where s: "search_loop V ints [[leaf]] fs (Some es) = Some (r1, d1)"
    by (auto split: Option.bind_splits)
  from search_loop_events [OF s] assms s show ?thesis
    by (cases r1) (auto simp: ends_with_chain_def reports_def could_not_validate_leaf_certificate_def)
qed

lemma validate_inner_events:
  assumes "validate_inner V leaf ints (Some []) = Some (r, d')"
  shows "\<exists>es. d' = Some es \<and> es \<noteq> [] \<and>
    (if \<not> handled_critical V leaf
     then es = [leaf_certificate_has_unhandled_critical_extension leaf
                 (verifying_critical_extensions (validator_policy V))]
     else rejections es = rejected_before V (candidate_chains V ints leaf) \<and>
       last es = (case r of Inr v \<Rightarrow> found_valid_certificate_chain (vc_certificates v)
         | Inl _ \<Rightarrow> could_not_validate_leaf_certificate leaf))"
proof (cases "handled_critical V leaf")
  case False
  then show ?thesis using assms
    by (auto simp: validate_inner_def handled_critical_iff Let_def)
next
  case True
  let ?in_roots = "leaf \<in> set (find_by_subject (root_certificates V) (subject_key leaf))"
  have mem: "list_ex (\<lambda>c. c = leaf) (find_by_subject (root_certificates V) (subject_key leaf)) \<longleftrightarrow> ?in_roots"
    by (auto simp: list_ex_iff)
  show ?thesis
  proof (cases ?in_roots)
    case False
    then show ?thesis using assms True mem search_from_leaf_events [of V ints leaf "[]" "[]" r d']
      by (auto simp: validate_inner_def handled_critical_iff candidate_chains_def Let_def)
  next
    case inr: True
    from assms obtain v where v:
      "chain_meets_policy_requirements (validator_policy V) \<lparr>uc_certificates = [leaf]\<rparr> = Some v"
      using True inr mem
      by (auto simp: validate_inner_def handled_critical_iff Let_def split: Option.bind_splits)
    show ?thesis
    proof (cases v)
      case (Inl reason)
      then show ?thesis using assms True inr mem v search_from_leaf_events [of V ints leaf
            "[PolicyFailure_new \<lparr>uc_certificates = [leaf]\<rparr> reason]"
            "[leaf_certificate_is_in_the_root_store_but_does_not_meet_policy leaf reason]" r d']
        by (auto simp: validate_inner_def handled_critical_iff candidate_chains_def Let_def
            leaf_certificate_is_in_the_root_store_but_does_not_meet_policy_def)
    next
      case (Inr u)
      then show ?thesis using assms True inr mem v
        by (auto simp: validate_inner_def handled_critical_iff candidate_chains_def Let_def
            found_valid_certificate_chain_def)
    qed
  qed
qed

subsection \<open>Bounds and preference\<close>

lemma no_repeated_identity_distinct: "no_repeated_identity q \<Longrightarrow> distinct q"
  unfolding no_repeated_identity_def by (induction q) auto

lemma linked_tl:
  assumes "linked V store q" "c \<in> set (tl q)"
  shows "c \<in> store_certificates store" and "handled_critical V c"
proof -
  obtain i where "i < length q - 1" "c = tl q ! i" using assms(2) by (auto simp: in_set_conv_nth)
  then have "Suc i < length q" "c = q ! Suc i" by (auto simp: nth_tl)
  then show "c \<in> store_certificates store" "handled_critical V c"
    using assms(1) find_by_subject_subset by (fastforce simp: linked_def)+
qed

lemma trust_path_length:
  assumes "trust_path V ints leaf cs"
  shows "length cs \<le> card (store_certificates ints) + 2"
proof (cases "cs = [leaf]")
  case False
  then have l: "2 \<le> length cs" "no_repeated_identity cs" "linked V ints (butlast cs)"
    using assms by (auto simp: trust_path_def)
  have "distinct (tl (butlast cs))"
    using no_repeated_identity_distinct [OF l(2)] by (simp add: distinct_butlast distinct_tl)
  then have "length (tl (butlast cs)) \<le> card (store_certificates ints)"
    using linked_tl(1) [OF l(3)] by (metis card_mono distinct_card finite_store_certificates subsetI)
  then show ?thesis using l(1) by simp
qed simp

text \<open>The chains the enumeration puts first: the trusted leaf alone, then one root on top of it.\<close>

lemma first_accepted_prefix:
  assumes "first_accepted V (xs @ ys) fs = Some r" "cs \<in> set xs"
    and "accepts (validator_policy V) \<lparr>uc_certificates = cs\<rparr>"
  shows "\<exists>v. r = Inr v \<and> vc_certificates v \<in> set xs"
proof -
  from assms(1) obtain r1 where r1: "first_accepted V xs fs = Some r1"
    by (auto simp: first_accepted_append split: option.splits)
  then obtain v where "r1 = Inr v" using first_accepted_complete assms(2,3) by blast
  then show ?thesis using r1 assms(1) first_accepted_Ok by (auto simp: first_accepted_append)
qed

subsection \<open>The contract between the validator and its policy and backend\<close>

text \<open>
  What the validator needs of the two components it calls: the backend and the policy return. Then
  validation returns, and it is the scan of the enumeration.
\<close>

locale validator_contract =
  fixes V :: Validator
  assumes backend_returns: "crypto V a k m s \<noteq> None"
    and policy_returns: "policy_total (validator_policy V)"
begin

lemma backend_total: "crypto_total V"
  unfolding crypto_total_def using backend_returns by blast

lemma returns_inner: "\<exists>r d'. validate_inner V leaf ints d = Some (r, d')"
  using validate_inner_returns [OF backend_total policy_returns] by fastforce

lemma scan:
  "validate V leaf ints =
     (if handled_critical V leaf then first_accepted V (candidate_chains V ints leaf) []
      else Some (Err [\<lparr>pf_chain = \<lparr>uc_certificates = [leaf]\<rparr>, policy_failure_reason =
                 PolicyFailureReason ''leaf certificate has unhandled critical extension''\<rparr>]))"
proof -
  obtain r d' where "validate_inner V leaf ints None = Some (r, d')" using returns_inner by blast
  then show ?thesis
    using validate_inner_result [of V leaf ints None r d'] by (auto simp: validate_def split: if_splits)
qed

lemma complete:
  assumes "handled_critical V leaf" "trust_path V ints leaf cs"
    and "accepts (validator_policy V) \<lparr>uc_certificates = cs\<rparr>"
  shows "\<exists>v. validate V leaf ints = Some (Ok v)"
proof -
  obtain r d' where r: "validate_inner V leaf ints None = Some (r, d')" using returns_inner by blast
  then have "first_accepted V (candidate_chains V ints leaf) [] = Some r"
    using validate_inner_result assms(1) by fastforce
  then obtain v where "r = Inr v"
    using first_accepted_complete assms(2,3) candidate_chains_iff by blast
  then show ?thesis using r by (simp add: validate_def)
qed

end

lemma contract_of_totals:
  "crypto_total V \<Longrightarrow> policy_total (validator_policy V) \<Longrightarrow> validator_contract V"
  by unfold_locales (auto simp: crypto_total_def)

lemma validate_result:
  assumes "validate V leaf ints = Some r"
  shows "if handled_critical V leaf then first_accepted V (candidate_chains V ints leaf) [] = Some r
     else r = Err [\<lparr>pf_chain = \<lparr>uc_certificates = [leaf]\<rparr>, policy_failure_reason =
                 PolicyFailureReason ''leaf certificate has unhandled critical extension''\<rparr>]"
proof -
  from assms obtain d' where "validate_inner V leaf ints None = Some (r, d')" by (auto simp: validate_def)
  then show ?thesis by (rule validate_inner_result)
qed

lemma validate_Ok_path:
  assumes "validate V leaf ints = Some (Ok v)"
  shows "handled_critical V leaf" and "trust_path V ints leaf (vc_certificates v)"
    and "accepts (validator_policy V) \<lparr>uc_certificates = vc_certificates v\<rparr>"
proof -
  show "handled_critical V leaf" using validate_result [OF assms] by (auto split: if_splits)
  then have f: "first_accepted V (candidate_chains V ints leaf) [] = Some (Inr v)"
    using validate_result [OF assms] by simp
  show "trust_path V ints leaf (vc_certificates v)"
    "accepts (validator_policy V) \<lparr>uc_certificates = vc_certificates v\<rparr>"
    using first_accepted_Ok [OF f] candidate_chains_iff by blast+
qed

lemma trust_path_not_Nil: "trust_path V ints leaf cs \<Longrightarrow> cs \<noteq> []"
  by (auto simp: trust_path_def)

text \<open>With the contracts discharged, success is the existence of a path of trust the policy accepts.\<close>

lemma success_iff:
  assumes "validator_contract V"
  shows "(\<exists>v. validate V leaf ints = Some (Ok v)) \<longleftrightarrow>
    handled_critical V leaf \<and>
    (\<exists>cs. trust_path V ints leaf cs \<and> accepts (validator_policy V) \<lparr>uc_certificates = cs\<rparr>)"
  using validate_Ok_path validator_contract.complete [OF assms] by blast

lemma trust_path_link:
  assumes "trust_path V ints leaf cs" "Suc i < length cs"
  shows "(cs ! Suc i \<in> set (find_by_subject ints (issuer_key (cs ! i))) \<or>
      cs ! Suc i \<in> set (find_by_subject (root_certificates V) (issuer_key (cs ! i)))) \<and>
    signed_by V (cs ! i) (cs ! Suc i)"
proof -
  have l: "2 \<le> length cs" "linked V ints (butlast cs)"
    "linked V (root_certificates V) [last (butlast cs), last cs]"
    using assms by (auto simp: trust_path_def)
  show ?thesis
  proof (cases "Suc i = length cs - 1")
    case True
    have "cs \<noteq> []" "butlast cs \<noteq> []" using l(1) by (cases cs; auto)+
    moreover have "length cs - Suc (Suc 0) = i" using True l(1) by simp
    ultimately have "cs ! Suc i = last cs" "cs ! i = last (butlast cs)"
      using True last_conv_nth [of cs] last_conv_nth [of "butlast cs"] by (simp_all add: nth_butlast)
    then show ?thesis using l(3) by (simp add: linked_def)
  next
    case False
    then have "Suc i < length (butlast cs)" "butlast cs ! i = cs ! i" "butlast cs ! Suc i = cs ! Suc i"
      using assms(2) by (simp_all add: nth_butlast)
    then show ?thesis using l(2) [unfolded linked_def, rule_format, of i] by simp
  qed
qed

text \<open>A validator that trusts one root, accepts every signature and has no policy of its own.\<close>

definition sample_root :: certificate where
  "sample_root = sample_ca ''root'' ''root''"

definition sample_leaf :: certificate where
  "sample_leaf = sample_certificate ''leaf'' ''root''"

definition sample_validator :: Validator where
  "sample_validator =
     Validator_with_policy_and_backend (store_from_iter [sample_root]) (WrappedOptional None) fuzzing_provider"

lemma sample_validator_total:
  "crypto_total sample_validator" "policy_total (validator_policy sample_validator)"
  by (auto simp: sample_validator_def Validator_with_policy_and_backend_def crypto_total_def
      fuzzing_provider_def intro: panic_free)

interpretation sample: validator_contract sample_validator
  by (rule contract_of_totals) (rule sample_validator_total)+

lemma sample_handled: "handled_critical sample_validator sample_leaf" "handled_critical sample_validator sample_root"
  by (simp_all add: handled_critical_def sample_leaf_def sample_root_def sample_ca_def sample_certificate_def)

lemma sample_accepts: "accepts (validator_policy sample_validator) ch"
  by (simp add: sample_validator_def Validator_with_policy_and_backend_def)

lemma sample_trust_path: "trust_path sample_validator CertificateStore_new sample_leaf [sample_leaf, sample_root]"
proof -
  have "sample_root \<in> set (find_by_subject (root_certificates sample_validator) (issuer_key sample_leaf))"
    by (simp add: sample_validator_def Validator_with_policy_and_backend_def find_by_subject_from_iter
        issuer_key_def subject_key_def sample_leaf_def sample_root_def sample_ca_def sample_certificate_def)
  moreover have "signed_by sample_validator sample_leaf sample_root"
    by (simp add: signed_by_def sample_validator_def Validator_with_policy_and_backend_def fuzzing_provider_def)
  moreover have "\<not> has_same_identity_as sample_leaf sample_root"
    by (simp add: has_same_identity_as_def sample_leaf_def sample_root_def sample_ca_def
        sample_certificate_def sample_name_def)
  ultimately show ?thesis using sample_handled
    by (simp add: trust_path_def linked_def no_repeated_identity_def)
qed

lemma sample_result:
  "\<exists>v. validate sample_validator sample_leaf CertificateStore_new = Some (Ok v)"
  using sample.complete sample_handled sample_trust_path sample_accepts by blast

text \<open>Any validator that trusts the sample root and accepts the sample leaf's signature finds the chain.\<close>

lemma sample_roots:
  assumes "root_certificates V = store_from_iter [sample_root]"
  shows "find_by_subject (root_certificates V) k = (if k = subject_key sample_root then [sample_root] else [])"
  by (simp add: assms find_by_subject_from_iter)

lemma sample_chain_found:
  assumes "validator_contract V" "root_certificates V = store_from_iter [sample_root]"
    and "signed_by V sample_leaf sample_root"
    and "accepts (validator_policy V) \<lparr>uc_certificates = [sample_leaf, sample_root]\<rparr>"
  shows "\<exists>v. validate V sample_leaf (store_from_iter []) = Some (Ok v) \<and> Suc 0 < length (vc_certificates v)"
proof -
  note roots = sample_roots [OF assms(2)]
  have empty: "store_from_iter [] = CertificateStore_new" by (simp add: store_from_iter_def)
  have h: "handled_critical V sample_leaf" "handled_critical V sample_root"
    by (simp_all add: handled_critical_def sample_leaf_def sample_root_def sample_ca_def sample_certificate_def)
  have "issuer_key sample_leaf = subject_key sample_root" "\<not> has_same_identity_as sample_leaf sample_root"
    by (simp_all add: issuer_key_def subject_key_def has_same_identity_as_def sample_leaf_def sample_root_def
        sample_ca_def sample_certificate_def sample_name_def)
  then have "trust_path V CertificateStore_new sample_leaf [sample_leaf, sample_root]"
    using h assms(3) roots by (simp add: trust_path_def linked_def no_repeated_identity_def)
  then obtain v where v: "validate V sample_leaf CertificateStore_new = Some (Ok v)"
    using validator_contract.complete [OF assms(1) h(1)] assms(4) by blast
  moreover have "sample_leaf \<noteq> sample_root"
    by (simp add: sample_leaf_def sample_root_def sample_ca_def sample_certificate_def)
  ultimately have "Suc 0 < length (vc_certificates v)"
    using validate_Ok_path(2) [OF v] by (auto simp: trust_path_def roots split: if_splits)
  then show ?thesis using v empty by auto
qed

end
