(* ===== verification/Validator_Properties.thy ===== *)
theory Validator_Properties
  imports Validator_Correct
begin

text \<open>
  What the validator promises its callers: the properties of \<open>validate\<close> and
  \<open>validate_with_diagnostics\<close>, for every policy, backend and pair of stores.
\<close>

subsection \<open>Trust\<close>

text \<open>
  C1. Soundness: a chain that validation returns starts with the leaf, is accepted by the policy, and
  is a path of trust. Either it is the leaf alone, which is itself in the root store; or each
  certificate's issuer name and signature are those of the next, no identity (subject, key,
  alternative names) occurs twice, all but the last come from the intermediates and the last from the
  root store. No certificate in it has a critical extension that the policy does not handle.
\<close>

theorem validate_sound:
  assumes "validate V leaf ints = Some (Ok v)"
  shows "hd (vc_certificates v) = leaf \<and>
    accepts (validator_policy V) \<lparr>uc_certificates = vc_certificates v\<rparr> \<and>
    (\<forall>c \<in> set (vc_certificates v). handled_critical V c) \<and>
    trust_path V ints leaf (vc_certificates v)"
proof -
  note h = validate_Ok_path(1) [OF assms] and t = validate_Ok_path(2) [OF assms]
  have "\<forall>c \<in> set (vc_certificates v). handled_critical V c"
  proof (cases "vc_certificates v = [leaf]")
    case False
    then have l: "2 \<le> length (vc_certificates v)" "hd (vc_certificates v) = leaf"
      "linked V ints (butlast (vc_certificates v))"
      "linked V (root_certificates V) [last (butlast (vc_certificates v)), last (vc_certificates v)]"
      using t by (auto simp: trust_path_def)
    let ?front = "butlast (vc_certificates v)"
    have front: "?front \<noteq> []" "hd ?front = leaf" "vc_certificates v = ?front @ [last (vc_certificates v)]"
      using l(1,2) by (cases "vc_certificates v"; auto)+
    have "handled_critical V (last (vc_certificates v))" using l(4) by (simp add: linked_def)
    moreover have "handled_critical V c" if "c \<in> set ?front" for c
      using that linked_tl(2) [OF l(3)] h front(1,2) by (cases ?front) auto
    ultimately show ?thesis by (subst front(3)) auto
  qed (use h in simp)
  moreover have "hd (vc_certificates v) = leaf" using t by (auto simp: trust_path_def)
  ultimately show ?thesis using t validate_Ok_path(3) [OF assms] by blast
qed

theorem validate_sound_witness:
  "\<exists>v. validate sample_validator sample_leaf CertificateStore_new = Some (Ok v) \<and>
     hd (vc_certificates v) = sample_leaf \<and>
     trust_path sample_validator CertificateStore_new sample_leaf (vc_certificates v)"
  using sample_result validate_sound by blast

text \<open>
  C2. Completeness: if the leaf has no unhandled critical extension and some path of trust from it
  is accepted by the policy, then validation succeeds, provided backend and policy return.
\<close>

theorem validate_complete:
  assumes "crypto_total V" "policy_total (validator_policy V)"
    and "handled_critical V leaf" "trust_path V ints leaf cs"
    and "accepts (validator_policy V) \<lparr>uc_certificates = cs\<rparr>"
  shows "\<exists>v. validate V leaf ints = Some (Ok v)"
  using validator_contract.complete [OF contract_of_totals [OF assms(1,2)] assms(3-5)] .

theorem validate_complete_witness:
  "\<exists>v. validate sample_validator sample_leaf CertificateStore_new = Some (Ok v)"
  by (rule validate_complete [OF sample_validator_total sample_handled(1) sample_trust_path sample_accepts])

text \<open>
  C3. The stack-driven search computes the same result as the recursive enumeration: validation
  returns the first chain the policy accepts among the trusted leaf alone, then, for each partial
  chain, its extensions by a root in order of suitability, then those by an intermediate in order of
  suitability, depth first.
\<close>

theorem validate_is_first_accepted:
  assumes "crypto_total V" "policy_total (validator_policy V)" "handled_critical V leaf"
  shows "validate V leaf ints = first_accepted V (candidate_chains V ints leaf) []"
  using validator_contract.scan [OF contract_of_totals [OF assms(1,2)]] assms(3) by simp

theorem validate_is_first_accepted_witness:
  "validate sample_validator sample_leaf CertificateStore_new =
     first_accepted sample_validator (candidate_chains sample_validator CertificateStore_new sample_leaf) []"
  by (rule validate_is_first_accepted [OF sample_validator_total sample_handled(1)])

text \<open>The sample validator with a policy that refuses every chain, and the result with the events.\<close>

lemma sample_refused:
  "\<exists>fs. validate (sample_validator\<lparr>validator_policy := OneOfWrappedOptional None\<rparr>) sample_leaf CertificateStore_new =
      Some (Err fs)"
proof -
  let ?V = "sample_validator\<lparr>validator_policy := OneOfWrappedOptional None\<rparr>"
  have total: "crypto_total ?V" "policy_total (validator_policy ?V)"
    using sample_validator_total by (auto simp: crypto_total_def intro: panic_free)
  have h: "handled_critical ?V sample_leaf"
    by (simp add: handled_critical_def sample_leaf_def sample_certificate_def)
  obtain r where r: "validate ?V sample_leaf CertificateStore_new = Some r"
    using validator_contract.returns_inner [OF contract_of_totals [OF total]] by (fastforce simp: validate_def)
  have "r \<noteq> Inr v" for v
    using validate_result [OF r] h first_accepted_Ok [of ?V] by auto
  then show ?thesis using r by (cases r) auto
qed

lemma validate_result_events:
  assumes "validate V leaf ints = Some r"
  shows "\<exists>es. validate_with_diagnostics V leaf ints = Some (r, es)"
  using assms validate_inner_silent [of V leaf ints "Some []"]
  by (cases "validate_inner V leaf ints (Some [])") (auto simp: validate_def validate_with_diagnostics_def)

text \<open>
  C4. A failed validation of a leaf with no unhandled critical extension reports exactly the
  candidate chains, each once per way of building it and in the order they were considered, each with
  the reason the policy gave for it; and no path of trust is accepted.
\<close>

theorem validate_failures:
  assumes "validate V leaf ints = Some (Err fs)" "handled_critical V leaf"
  shows "map pf_chain fs = map (\<lambda>cs. \<lparr>uc_certificates = cs\<rparr>) (candidate_chains V ints leaf) \<and>
    (\<forall>f \<in> set fs. chain_meets_policy_requirements (validator_policy V) (pf_chain f) =
       Some (Err (policy_failure_reason f))) \<and>
    (\<forall>cs. trust_path V ints leaf cs \<longrightarrow> \<not> accepts (validator_policy V) \<lparr>uc_certificates = cs\<rparr>)"
proof -
  have f: "first_accepted V (candidate_chains V ints leaf) [] = Some (Inl fs)"
    using validate_result [OF assms(1)] assms(2) by simp
  have "\<not> accepts (validator_policy V) \<lparr>uc_certificates = cs\<rparr>" if "trust_path V ints leaf cs" for cs
    using first_accepted_complete [OF f] that candidate_chains_iff by blast
  then show ?thesis using first_accepted_Err [OF f] by auto
qed

theorem validate_failures_witness:
  "\<exists>fs. validate (sample_validator\<lparr>validator_policy := OneOfWrappedOptional None\<rparr>) sample_leaf CertificateStore_new =
      Some (Err fs) \<and>
    map pf_chain fs = map (\<lambda>cs. \<lparr>uc_certificates = cs\<rparr>)
      (candidate_chains (sample_validator\<lparr>validator_policy := OneOfWrappedOptional None\<rparr>) CertificateStore_new
        sample_leaf)"
  using sample_refused validate_failures [of "sample_validator\<lparr>validator_policy := OneOfWrappedOptional None\<rparr>"]
  by (fastforce simp: handled_critical_def sample_leaf_def sample_certificate_def)

text \<open>
  C5. Validation always ends with a result: whatever the certificates, cross-signing loops included,
  it returns, with or without a callback, provided backend and policy return.
\<close>

theorem validate_returns:
  assumes "crypto_total V" "policy_total (validator_policy V)"
  shows "\<exists>r es. validate V leaf ints = Some r \<and> validate_with_diagnostics V leaf ints = Some (r, es)"
proof -
  obtain r d' where "validate_inner V leaf ints (Some []) = Some (r, d')"
    using validator_contract.returns_inner [OF contract_of_totals [OF assms]] by blast
  then show ?thesis
    using validate_inner_silent [of V leaf ints "Some []"]
    by (simp add: validate_def validate_with_diagnostics_def)
qed

theorem validate_returns_witness:
  "\<exists>r es. validate sample_validator sample_root (store_from_iter [sample_leaf, sample_root]) = Some r \<and>
     validate_with_diagnostics sample_validator sample_root (store_from_iter [sample_leaf, sample_root]) = Some (r, es)"
  by (rule validate_returns [OF sample_validator_total])

subsection \<open>Events\<close>

text \<open>
  C26. The events agree with the result. If the leaf has a critical extension that the policy does
  not handle, that is the only event, no rejected chain is reported and the result is the one failure
  for it. Otherwise the rejections reported are those of the candidate chains that were considered,
  in order and each with the reason the policy gave: if a chain is returned, the candidates before it,
  and the last event reports that chain; if none is, all candidates, the failures returned are exactly
  the rejections reported, and the last event says that the leaf could not be validated.
\<close>

theorem diagnostics_agree_with_result:
  assumes "validate_with_diagnostics V leaf ints = Some (r, es)"
  shows "es \<noteq> [] \<and>
    (if \<not> handled_critical V leaf
     then es = [leaf_certificate_has_unhandled_critical_extension leaf
                 (verifying_critical_extensions (validator_policy V))] \<and> rejections es = [] \<and>
       r = Err [\<lparr>pf_chain = \<lparr>uc_certificates = [leaf]\<rparr>, policy_failure_reason =
                 PolicyFailureReason ''leaf certificate has unhandled critical extension''\<rparr>]
     else (\<forall>f \<in> set (rejections es). chain_meets_policy_requirements (validator_policy V) (pf_chain f) =
         Some (Err (policy_failure_reason f))) \<and>
       (case r of
          Inr v \<Rightarrow> last es = found_valid_certificate_chain (vc_certificates v) \<and>
            (\<exists>after. candidate_chains V ints leaf =
               map (\<lambda>f. uc_certificates (pf_chain f)) (rejections es) @ vc_certificates v # after)
        | Inl fs \<Rightarrow> last es = could_not_validate_leaf_certificate leaf \<and> fs = rejections es \<and>
            candidate_chains V ints leaf = map (\<lambda>f. uc_certificates (pf_chain f)) (rejections es)))"
proof -
  from assms obtain d' where d: "validate_inner V leaf ints (Some []) = Some (r, d')" "es = the d'"
    by (auto simp: validate_with_diagnostics_def)
  then have e: "d' = Some es" using validate_inner_events by fastforce
  note events = validate_inner_events [OF d(1)] and result = validate_inner_result [OF d(1)]
  show ?thesis
  proof (cases "handled_critical V leaf")
    case False
    then show ?thesis using events result e
      by (simp add: leaf_certificate_has_unhandled_critical_extension_def)
  next
    case True
    then have f: "first_accepted V (candidate_chains V ints leaf) [] = Some r" using result by simp
    have es: "es \<noteq> []" "rejections es = rejected_before V (candidate_chains V ints leaf)"
      "last es = (case r of Inr v \<Rightarrow> found_valid_certificate_chain (vc_certificates v)
         | Inl _ \<Rightarrow> could_not_validate_leaf_certificate leaf)"
      using events e True by auto
    show ?thesis
    proof (cases r)
      case (Inl fs)
      then show ?thesis using True es first_accepted_rejected [OF f [unfolded Inl]]
          rejected_before_chains(2) [OF f [unfolded Inl]] rejected_before_reasons by simp
    next
      case (Inr v)
      then show ?thesis using True es rejected_before_chains(1) [OF f [unfolded Inr]]
          rejected_before_reasons by simp
    qed
  qed
qed

theorem diagnostics_agree_with_result_witness:
  "(\<exists>v es. validate_with_diagnostics sample_validator sample_leaf CertificateStore_new = Some (Ok v, es) \<and>
     last es = found_valid_certificate_chain (vc_certificates v)) \<and>
   (\<exists>fs es. validate_with_diagnostics (sample_validator\<lparr>validator_policy := OneOfWrappedOptional None\<rparr>)
       sample_leaf CertificateStore_new = Some (Err fs, es) \<and>
     last es = could_not_validate_leaf_certificate sample_leaf \<and> fs = rejections es)"
proof -
  let ?V = "sample_validator\<lparr>validator_policy := OneOfWrappedOptional None\<rparr>"
  have h: "handled_critical ?V sample_leaf"
    by (simp add: handled_critical_def sample_leaf_def sample_certificate_def)
  obtain v es where "validate_with_diagnostics sample_validator sample_leaf CertificateStore_new = Some (Ok v, es)"
    using sample_result validate_result_events by blast
  moreover obtain fs es' where "validate_with_diagnostics ?V sample_leaf CertificateStore_new = Some (Err fs, es')"
    using sample_refused validate_result_events by blast
  ultimately show ?thesis
    using diagnostics_agree_with_result sample_handled(1) h by fastforce
qed

text \<open>
  C27. A callback only observes: validation with diagnostics gives the same result as without, and
  panics exactly when it does.
\<close>

theorem diagnostics_do_not_change_result:
  "validate V leaf ints = map_option fst (validate_with_diagnostics V leaf ints)"
  using validate_inner_silent [of V leaf ints "Some []"]
  by (cases "validate_inner V leaf ints (Some [])")
    (auto simp: validate_def validate_with_diagnostics_def)

subsection \<open>Bounds and preference\<close>

text \<open>
  C39. A returned chain has at most two certificates more than the intermediate store, so a hostile
  set of cross-signed intermediates cannot make it longer.
\<close>

theorem validated_chain_length:
  assumes "validate V leaf ints = Some (Ok v)"
  shows "length (vc_certificates v) \<le> card (store_certificates ints) + 2"
  by (rule trust_path_length [OF validate_Ok_path(2) [OF assms]])

theorem validated_chain_length_witness:
  "\<exists>v. validate sample_validator sample_leaf CertificateStore_new = Some (Ok v) \<and>
     length (vc_certificates v) \<le> card (store_certificates CertificateStore_new) + 2"
  using sample_result validated_chain_length by blast

text \<open>
  C35. Short chains come first: if the leaf has no unhandled critical extension and the policy
  accepts it together with one root that issued it, then validation succeeds, provided backend and policy return, and
  the returned chain has at most two certificates, however many intermediates would give longer ones.
\<close>

theorem direct_root_preferred:
  assumes "crypto_total V" "policy_total (validator_policy V)" "handled_critical V leaf"
    and "trust_path V ints leaf [leaf, r]" "accepts (validator_policy V) \<lparr>uc_certificates = [leaf, r]\<rparr>"
  shows "\<exists>v. validate V leaf ints = Some (Ok v) \<and> length (vc_certificates v) \<le> 2"
proof -
  let ?short = "(if leaf \<in> set (find_by_subject (root_certificates V) (subject_key leaf)) then [[leaf]] else []) @
      map (\<lambda>r. [leaf] @ [r]) (issuers_in V (root_certificates V) [leaf])"
  have all: "candidate_chains V ints leaf =
      ?short @ concat (map (\<lambda>c. chains_from V ints ([leaf] @ [c])) (issuers_in V ints [leaf]))"
    unfolding candidate_chains_def by (subst chains_from.simps) simp
  have "r \<in> set (issuers_in V (root_certificates V) [leaf])"
    using assms(4) trust_path_snoc [of "[leaf]" V ints leaf r] by simp
  then have mem: "[leaf, r] \<in> set ?short" by auto
  obtain res where res: "validate V leaf ints = Some res" "first_accepted V (candidate_chains V ints leaf) [] = Some res"
    using validator_contract.scan [OF contract_of_totals [OF assms(1,2)], of leaf ints]
      validator_contract.complete [OF contract_of_totals [OF assms(1,2)] assms(3-5)] assms(3) by auto
  obtain v where "res = Inr v" "vc_certificates v \<in> set ?short"
    using first_accepted_prefix [OF res(2) [unfolded all] mem assms(5)] by blast
  then show ?thesis using res(1) by (auto split: if_splits)
qed

theorem direct_root_preferred_witness:
  "\<exists>v. validate sample_validator sample_leaf CertificateStore_new = Some (Ok v) \<and> length (vc_certificates v) \<le> 2"
  by (rule direct_root_preferred [OF sample_validator_total sample_handled(1) sample_trust_path sample_accepts])

text \<open>
  Sorting candidates by suitability keeps exactly the candidates, puts those whose subject key
  identifier matches the subject's authority key identifier first and those with a different one
  last, and leaves candidates of equal suitability in the order of the store.
\<close>

theorem suitability_order:
  "mset (sort_by_suitability_for_issuing cs subject) = mset cs \<and>
   sorted (map (issuer_rank (authority_key_identifier subject)) (sort_by_suitability_for_issuing cs subject)) \<and>
   filter (\<lambda>c. issuer_rank (authority_key_identifier subject) c = k) (sort_by_suitability_for_issuing cs subject) =
     filter (\<lambda>c. issuer_rank (authority_key_identifier subject) c = k) cs \<and>
   (issuer_rank (authority_key_identifier subject) c = 0 \<longleftrightarrow>
      authority_key_identifier subject \<noteq> None \<and>
      subject_key_identifier c = authority_key_identifier subject) \<and>
   (issuer_rank (authority_key_identifier subject) c = 2 \<longleftrightarrow>
      authority_key_identifier subject \<noteq> None \<and> subject_key_identifier c \<noteq> None \<and>
      subject_key_identifier c \<noteq> authority_key_identifier subject)"
proof -
  let ?rank = "issuer_rank (authority_key_identifier subject)"
  have "(?rank c = 0 \<longleftrightarrow> authority_key_identifier subject \<noteq> None \<and>
        subject_key_identifier c = authority_key_identifier subject) \<and>
      (?rank c = 2 \<longleftrightarrow> authority_key_identifier subject \<noteq> None \<and> subject_key_identifier c \<noteq> None \<and>
        subject_key_identifier c \<noteq> authority_key_identifier subject)"
    by (auto simp: issuer_rank_def split: option.splits)
  then show ?thesis
    unfolding sort_by_suitability_for_issuing_def by (simp add: sort_key_stable)
qed

subsection \<open>Leaves that need no search\<close>

text \<open>
  A leaf that is itself in the root store and passes the policy alone is returned as a chain of
  one, with no signature checked: the result holds for every backend, also one that panics on every
  call, although the documentation says that validation then panics.
\<close>

theorem trusted_leaf_needs_no_backend:
  assumes "handled_critical V leaf" "leaf \<in> set (find_by_subject (root_certificates V) (subject_key leaf))"
    and "accepts (validator_policy V) \<lparr>uc_certificates = [leaf]\<rparr>"
  shows "validate (V\<lparr>crypto := UndeterminedCryptoBackend\<rparr>) leaf ints = Some (Ok \<lparr>vc_certificates = [leaf]\<rparr>)"
proof -
  have "\<not> has_unhandled_critical_extensions leaf (validator_policy V)"
    using assms(1) handled_critical_iff by blast
  then show ?thesis using assms(2,3)
    by (auto simp: validate_def validate_inner_def list_ex_iff accepts_def Let_def)
qed

theorem trusted_leaf_needs_no_backend_witness:
  "validate (sample_validator\<lparr>crypto := UndeterminedCryptoBackend\<rparr>) sample_root CertificateStore_new =
     Some (Ok \<lparr>vc_certificates = [sample_root]\<rparr>)"
proof (rule trusted_leaf_needs_no_backend [OF sample_handled(2) _ sample_accepts])
  show "sample_root \<in> set (find_by_subject (root_certificates sample_validator) (subject_key sample_root))"
    by (simp add: sample_validator_def Validator_with_policy_and_backend_def find_by_subject_from_iter)
qed

text \<open>
  A leaf with a critical extension the policy does not handle is refused before anything else
  happens, even if it is in the root store: no policy and no signature is evaluated.
\<close>

theorem unhandled_critical_leaf_refused:
  assumes "ext \<in> set (tbs_extensions leaf)" "ext_critical ext" "\<not> handles (validator_policy V) (ext_oid ext)"
  shows "validate V leaf ints = Some (Err [\<lparr>pf_chain = \<lparr>uc_certificates = [leaf]\<rparr>,
           policy_failure_reason = PolicyFailureReason ''leaf certificate has unhandled critical extension''\<rparr>])"
proof -
  have "has_unhandled_critical_extensions leaf (validator_policy V)"
    using assms by (auto simp: has_unhandled_critical_extensions_def handles_def list_ex_iff)
  then show ?thesis
    by (simp add: validate_def validate_inner_def PolicyFailure_new_def PolicyFailureReason_new_def Let_def)
qed

theorem unhandled_critical_leaf_refused_witness:
  "validate sample_validator
     (sample_root\<lparr>tbs_extensions := [\<lparr>ext_oid = [2, 5, 29, 54], ext_critical = True, ext_value = [],
        ext_parsed = UninspectedExtension\<rparr>]\<rparr>) CertificateStore_new =
   Some (Err [\<lparr>pf_chain = \<lparr>uc_certificates = [sample_root\<lparr>tbs_extensions := [\<lparr>ext_oid = [2, 5, 29, 54],
        ext_critical = True, ext_value = [], ext_parsed = UninspectedExtension\<rparr>]\<rparr>]\<rparr>,
      policy_failure_reason = PolicyFailureReason ''leaf certificate has unhandled critical extension''\<rparr>])"
  by (rule unhandled_critical_leaf_refused [where ext = "\<lparr>ext_oid = [2, 5, 29, 54], ext_critical = True,
        ext_value = [], ext_parsed = UninspectedExtension\<rparr>"])
    (simp_all add: sample_validator_def Validator_with_policy_and_backend_def)

end
