(* ===== verification/Rfc5280_Basic.thy ===== *)
theory Rfc5280_Basic
  imports Policies
begin

text \<open>
  \<^verbatim>\<open>rfc5280/version_policy.rs\<close>, \<^verbatim>\<open>rfc5280/expiry_policy.rs\<close> and
  \<^verbatim>\<open>rfc5280/basic_constraints_policy.rs\<close>, each with the declarative condition it decides and an
  interpretation of the policy contract.
\<close>

subsection \<open>Version\<close>

definition version_check :: "certificate \<Rightarrow> PolicyEvaluationResult" where
  "version_check certificate =
     (let is_v1 = (tbs_version certificate = V1);
          has_extensions = (tbs_extensions certificate \<noteq> [])
      in if is_v1 \<and> has_extensions
         then failure (''version 1 certificate contains extensions but should not: '' @
                       cert_debug certificate)
         else Ok ())"

definition VersionPolicy :: ValidationPolicy where
  "VersionPolicy =
     \<lparr>verifying_critical_extensions = [],
      chain_meets_policy_requirements =
        (\<lambda>chain. for_each (\<lambda>c. Some (version_check c)) (chain_iter chain))\<rparr>"

definition version_ok :: "certificate list \<Rightarrow> bool" where
  "version_ok cs \<longleftrightarrow> (\<forall>c \<in> set cs. tbs_version c = V1 \<longrightarrow> tbs_extensions c = [])"

interpretation version: policy_contract VersionPolicy version_ok
proof
  fix cs :: "certificate list"
  show "chain_meets_policy_requirements VersionPolicy \<lparr>uc_certificates = cs\<rparr> \<noteq> None"
    by (simp add: VersionPolicy_def for_each_total del: not_None_eq)
  show "accepts VersionPolicy \<lparr>uc_certificates = cs\<rparr> \<longleftrightarrow> version_ok cs"
    by (auto simp: accepts_def VersionPolicy_def for_each_Ok_iff version_check_def version_ok_def
        chain_iter_def Let_def)
qed

subsection \<open>Expiry\<close>

record ExpiryPolicy =
  validation_time :: int

definition ExpiryPolicy_new :: "int \<Rightarrow> ExpiryPolicy" where
  "ExpiryPolicy_new t = \<lparr>validation_time = t\<rparr>"

definition expiry_check :: "ExpiryPolicy \<Rightarrow> certificate \<Rightarrow> PolicyEvaluationResult" where
  "expiry_check self cert =
     (let not_before = tbs_not_before cert;
          not_after = tbs_not_after cert
      in if not_before > not_after
         then failure (''certificate '' @ cert_debug cert @
                       '' has invalid expiry, not_after is earlier than not_before'')
         else if validation_time self < not_before
         then failure (''certificate '' @ cert_debug cert @ '' is not yet valid'')
         else if validation_time self > not_after
         then failure ''certificate has expired''
         else Ok ())"

definition ExpiryPolicy_policy :: "ExpiryPolicy \<Rightarrow> ValidationPolicy" where
  "ExpiryPolicy_policy self =
     \<lparr>verifying_critical_extensions = [],
      chain_meets_policy_requirements =
        (\<lambda>chain. for_each (\<lambda>c. Some (expiry_check self c)) (chain_iter chain))\<rparr>"

definition expiry_ok :: "int \<Rightarrow> certificate list \<Rightarrow> bool" where
  "expiry_ok t cs \<longleftrightarrow> (\<forall>c \<in> set cs. tbs_not_before c \<le> t \<and> t \<le> tbs_not_after c)"

interpretation expiry: policy_contract "ExpiryPolicy_policy (ExpiryPolicy_new t)" "expiry_ok t" for t
proof
  fix cs :: "certificate list"
  show "chain_meets_policy_requirements (ExpiryPolicy_policy (ExpiryPolicy_new t))
      \<lparr>uc_certificates = cs\<rparr> \<noteq> None"
    by (simp add: ExpiryPolicy_policy_def for_each_total del: not_None_eq)
  show "accepts (ExpiryPolicy_policy (ExpiryPolicy_new t)) \<lparr>uc_certificates = cs\<rparr> \<longleftrightarrow> expiry_ok t cs"
    by (auto simp: accepts_def ExpiryPolicy_policy_def ExpiryPolicy_new_def for_each_Ok_iff
        expiry_check_def expiry_ok_def chain_iter_def Let_def)
qed

subsection \<open>Basic constraints\<close>

text \<open>\<open>OID_X509_EXT_BASIC_CONSTRAINTS\<close>, 2.5.29.19.\<close>

definition basic_constraints_oid :: oid where
  "basic_constraints_oid = [2, 5, 29, 19]"

definition basic_constraints_error :: "certificate \<Rightarrow> x509_error \<Rightarrow> PolicyEvaluationResult" where
  "basic_constraints_error cert error =
     failure (''error processing basic constraints for '' @ cert_debug cert @ '': '' @
              x509_error_display error)"

text \<open>A trust root presented as the end entity.\<close>

definition basic_constraints_single :: "certificate \<Rightarrow> PolicyEvaluationResult" where
  "basic_constraints_single leaf =
     (case tbs_basic_constraints leaf of
        Inl error \<Rightarrow> basic_constraints_error leaf error
      | Inr None \<Rightarrow> failure (''self-signed cert '' @ cert_debug leaf @ '' is not marked as a CA'')
      | Inr (Some bc) \<Rightarrow>
          if ca bc then Ok ()
          else failure (''self-signed cert '' @ cert_debug leaf @ '' is not marked as a CA''))"

definition basic_constraints_issuer :: "certificate \<Rightarrow> 32 word \<Rightarrow> PolicyEvaluationResult" where
  "basic_constraints_issuer cert sub_ca_count =
     (if tbs_version cert = V1 then Ok ()
      else
        (case tbs_basic_constraints cert of
           Inl error \<Rightarrow> basic_constraints_error cert error
         | Inr None \<Rightarrow> failure (''certificate '' @ cert_debug cert @ '' is not marked as a CA'')
         | Inr (Some bc) \<Rightarrow>
             if ca bc then
               (case path_len_constraint bc of
                  None \<Rightarrow> Ok ()
                | Some max_path_length \<Rightarrow>
                    if max_path_length < sub_ca_count
                    then failure (''CA '' @ cert_debug cert @ '' has maximum path length '' @
                                  decimal (unat max_path_length) @ '', but chain has '' @
                                  decimal (unat sub_ca_count) @ '' subCAs'')
                    else Ok ())
             else failure (''certificate '' @ cert_debug cert @ '' is not marked as a CA'')))"

text \<open>
  The loop over the issuers, with the number of subordinate CAs passed so far as a \<open>u32\<close>. The
  addition wraps, as in a release build; a debug build would panic there instead, and below
  \<open>2 ^ 32\<close> certificates neither happens.
\<close>

fun basic_constraints_loop ::
  "UnverifiedCertificateChain \<Rightarrow> nat list \<Rightarrow> 32 word \<Rightarrow> PolicyEvaluationResult may_panic" where
  "basic_constraints_loop chain [] sub_ca_count = Some (Ok ())"
| "basic_constraints_loop chain (i # is) sub_ca_count = do {
     cert \<leftarrow> chain_index chain i;
     try_ok (Some (basic_constraints_issuer cert sub_ca_count))
       (\<lambda>_. basic_constraints_loop chain is
              (if tbs_issuer cert \<noteq> tbs_subject cert then sub_ca_count + 1 else sub_ca_count)) }"

definition basic_constraints_meets ::
  "UnverifiedCertificateChain \<Rightarrow> PolicyEvaluationResult may_panic" where
  "basic_constraints_meets chain =
     (if chain_is_empty chain then Some (failure ''empty certificate chain'')
      else do {
        leaf \<leftarrow> chain_leaf chain;
        let leaf_is_v1 = (tbs_version leaf = V1);
        if chain_len chain = 1 \<and> \<not> leaf_is_v1
        then Some (basic_constraints_single leaf)
        else basic_constraints_loop chain [1..<chain_len chain] 0 })"

definition BasicConstraintsPolicy :: ValidationPolicy where
  "BasicConstraintsPolicy =
     \<lparr>verifying_critical_extensions = [basic_constraints_oid],
      chain_meets_policy_requirements = basic_constraints_meets\<rparr>"

subsubsection \<open>What it decides\<close>

definition is_ca :: "certificate \<Rightarrow> bool" where
  "is_ca c \<longleftrightarrow> (\<exists>bc. tbs_basic_constraints c = Ok (Some bc) \<and> ca bc)"

text \<open>The number of non-self-issued certificates strictly between the leaf and position \<open>i\<close>.\<close>

definition sub_cas :: "certificate list \<Rightarrow> nat \<Rightarrow> nat" where
  "sub_cas cs i = length (filter (\<lambda>c. tbs_issuer c \<noteq> tbs_subject c) (drop 1 (take i cs)))"

definition path_length_at_least :: "certificate \<Rightarrow> nat \<Rightarrow> bool" where
  "path_length_at_least c n \<longleftrightarrow>
     (\<forall>bc m. tbs_basic_constraints c = Ok (Some bc) \<longrightarrow> path_len_constraint bc = Some m \<longrightarrow>
        n \<le> unat m)"

definition basic_constraints_ok :: "certificate list \<Rightarrow> bool" where
  "basic_constraints_ok cs \<longleftrightarrow>
     (if length cs = 1 then tbs_version (hd cs) = V1 \<or> is_ca (hd cs)
      else \<forall>i \<in> {1..<length cs}. tbs_version (cs ! i) = V1 \<or>
             (is_ca (cs ! i) \<and> path_length_at_least (cs ! i) (sub_cas cs i mod 2 ^ 32)))"

lemma basic_constraints_single_Ok: "basic_constraints_single c = Inr () \<longleftrightarrow> is_ca c"
  by (auto simp: basic_constraints_single_def is_ca_def basic_constraints_error_def
      split: sum.splits option.splits)

lemma basic_constraints_issuer_Ok:
  "basic_constraints_issuer c n = Inr () \<longleftrightarrow>
     tbs_version c = V1 \<or> (is_ca c \<and> path_length_at_least c (unat n))"
  by (auto simp: basic_constraints_issuer_def is_ca_def path_length_at_least_def
      basic_constraints_error_def word_less_nat_alt split: sum.splits option.splits)

lemma sub_cas_1 [simp]: "sub_cas cs (Suc 0) = 0"
  by (cases cs) (simp_all add: sub_cas_def)

lemma sub_cas_Suc:
  assumes "1 \<le> i" "i < length cs"
  shows "sub_cas cs (Suc i) = sub_cas cs i + (if tbs_issuer (cs ! i) \<noteq> tbs_subject (cs ! i) then 1 else 0)"
  using assms by (simp add: sub_cas_def take_Suc_conv_app_nth)

text \<open>The loop, started at any issuer with the count its prefix gives.\<close>

lemma basic_constraints_loop_from:
  assumes "1 \<le> i" "i \<le> length cs"
  shows "basic_constraints_loop \<lparr>uc_certificates = cs\<rparr> [i..<length cs] (word_of_nat (sub_cas cs i)) \<noteq> None \<and>
    (basic_constraints_loop \<lparr>uc_certificates = cs\<rparr> [i..<length cs] (word_of_nat (sub_cas cs i)) = Some (Inr ())
     \<longleftrightarrow> (\<forall>j \<in> {i..<length cs}. tbs_version (cs ! j) = V1 \<or>
            (is_ca (cs ! j) \<and> path_length_at_least (cs ! j) (sub_cas cs j mod 2 ^ 32))))"
  using assms
proof (induction "length cs - i" arbitrary: i)
  case 0
  then show ?case by simp
next
  case (Suc d)
  then have i: "1 \<le> i" "i < length cs" and d: "d = length cs - Suc i" by simp_all
  let ?loop = "basic_constraints_loop \<lparr>uc_certificates = cs\<rparr>"
  have idx: "chain_index \<lparr>uc_certificates = cs\<rparr> i = Some (cs ! i)"
    using i by (simp add: chain_len_def)
  have cnt: "(if tbs_issuer (cs ! i) \<noteq> tbs_subject (cs ! i) then word_of_nat (sub_cas cs i) + 1
      else word_of_nat (sub_cas cs i) :: 32 word) = word_of_nat (sub_cas cs (Suc i))"
    by (simp add: sub_cas_Suc [OF i])
  have un: "unat (word_of_nat (sub_cas cs i) :: 32 word) = sub_cas cs i mod 2 ^ 32"
    by (simp add: unat_of_nat)
  have step: "?loop [i..<length cs] (word_of_nat (sub_cas cs i)) =
      try_ok (Some (basic_constraints_issuer (cs ! i) (word_of_nat (sub_cas cs i))))
        (\<lambda>_. ?loop [Suc i..<length cs] (word_of_nat (sub_cas cs (Suc i))))"
    using i by (simp add: upt_rec [of i] idx cnt del: word_of_nat_eq_0_iff)
  have split: "{i..<length cs} = insert i {Suc i..<length cs}" using i by auto
  have rest: "?loop [Suc i..<length cs] (word_of_nat (sub_cas cs (Suc i))) \<noteq> None \<and>
    (?loop [Suc i..<length cs] (word_of_nat (sub_cas cs (Suc i))) = Some (Inr ())
     \<longleftrightarrow> (\<forall>j \<in> {Suc i..<length cs}. tbs_version (cs ! j) = V1 \<or>
            (is_ca (cs ! j) \<and> path_length_at_least (cs ! j) (sub_cas cs j mod 2 ^ 32))))"
    using Suc.hyps(1) [OF d] i by simp
  show ?case
    unfolding step split using rest
    by (auto simp: try_ok_Ok_iff try_ok_None_iff basic_constraints_issuer_Ok un)
qed

lemma basic_constraints_meets_eq:
  assumes "cs \<noteq> []"
  shows "basic_constraints_meets \<lparr>uc_certificates = cs\<rparr> =
     (if length cs = 1 \<and> tbs_version (hd cs) \<noteq> V1 then Some (basic_constraints_single (hd cs))
      else basic_constraints_loop \<lparr>uc_certificates = cs\<rparr> [1..<length cs] 0)"
  using assms by (simp add: basic_constraints_meets_def chain_is_empty_def chain_len_def Let_def)

interpretation basic_constraints: policy_contract BasicConstraintsPolicy basic_constraints_ok
proof
  fix cs :: "certificate list"
  assume cs: "cs \<noteq> []"
  then have "1 \<le> length cs" by (simp add: Suc_le_eq)
  note loop = basic_constraints_loop_from [OF order_refl this]
  show "chain_meets_policy_requirements BasicConstraintsPolicy \<lparr>uc_certificates = cs\<rparr> \<noteq> None"
    using loop by (simp add: BasicConstraintsPolicy_def basic_constraints_meets_eq [OF cs])
  show "accepts BasicConstraintsPolicy \<lparr>uc_certificates = cs\<rparr> \<longleftrightarrow> basic_constraints_ok cs"
    using loop by (auto simp: accepts_def BasicConstraintsPolicy_def basic_constraints_meets_eq [OF cs]
        basic_constraints_ok_def basic_constraints_single_Ok)
qed

subsection \<open>Properties\<close>

lemma sub_cas_less: "i < length cs \<Longrightarrow> sub_cas cs i < length cs"
proof -
  assume "i < length cs"
  moreover have "sub_cas cs i \<le> length (drop 1 (take i cs))"
    unfolding sub_cas_def by (rule length_filter_le)
  ultimately show ?thesis by simp
qed

text \<open>
  C14. The basic-constraints policy returns a verdict on every chain, and on a chain of at most
  \<open>2 ^ 32\<close> certificates (where its 32-bit counter cannot wrap) it accepts exactly when a single
  certificate is version 1 or a CA, and in a longer chain each issuer is version 1, or is a CA whose
  path length constraint, if any, is at least the number of non-self-issued certificates between it
  and the leaf.
\<close>

theorem basic_constraints_path_length:
  assumes "length (c # cs) \<le> 2 ^ 32"
  shows "chain_meets_policy_requirements BasicConstraintsPolicy \<lparr>uc_certificates = c # cs\<rparr> \<noteq> None \<and>
    (chain_meets_policy_requirements BasicConstraintsPolicy \<lparr>uc_certificates = c # cs\<rparr> = Some (Ok ()) \<longleftrightarrow>
     (if cs = [] then tbs_version c = V1 \<or> is_ca c
      else \<forall>i \<in> {1..<length (c # cs)}. tbs_version ((c # cs) ! i) = V1 \<or>
        (is_ca ((c # cs) ! i) \<and> path_length_at_least ((c # cs) ! i) (sub_cas (c # cs) i))))"
proof -
  have "sub_cas (c # cs) i mod 2 ^ 32 = sub_cas (c # cs) i" if "i \<in> {1..<length (c # cs)}" for i
    using sub_cas_less [of i "c # cs"] that assms by simp
  then have "basic_constraints_ok (c # cs) \<longleftrightarrow>
     (if cs = [] then tbs_version c = V1 \<or> is_ca c
      else \<forall>i \<in> {1..<length (c # cs)}. tbs_version ((c # cs) ! i) = V1 \<or>
        (is_ca ((c # cs) ! i) \<and> path_length_at_least ((c # cs) ! i) (sub_cas (c # cs) i)))"
    unfolding basic_constraints_ok_def by (cases cs) auto
  then show ?thesis
    using basic_constraints.returns [of "c # cs"] basic_constraints.verdict [of "c # cs"]
    by (simp add: accepts_def)
qed

theorem basic_constraints_path_length_witness:
  "chain_meets_policy_requirements BasicConstraintsPolicy
     \<lparr>uc_certificates = [sample_certificate ''leaf'' ''inter'', sample_ca ''inter'' ''root'', sample_ca ''root'' ''root'']\<rparr>
     = Some (Ok ())"
proof -
  have ca: "is_ca (sample_ca s i)" for s i by (simp add: is_ca_def sample_ca_def)
  have "path_length_at_least (sample_ca s i) n \<longleftrightarrow> n \<le> 1" for s i n
    by (auto simp: path_length_at_least_def sample_ca_def)
  moreover have "\<forall>i \<in> {1..<3}. sub_cas [a, b, d] i \<le> 1" for a b d
    by (auto simp: sub_cas_def numeral_eq_Suc less_Suc_eq)
  ultimately have "\<forall>i \<in> {1..<3}. is_ca ([sample_certificate ''leaf'' ''inter'', sample_ca ''inter'' ''root'',
        sample_ca ''root'' ''root''] ! i) \<and>
      path_length_at_least ([sample_certificate ''leaf'' ''inter'', sample_ca ''inter'' ''root'',
        sample_ca ''root'' ''root''] ! i) (sub_cas [sample_certificate ''leaf'' ''inter'',
        sample_ca ''inter'' ''root'', sample_ca ''root'' ''root''] i)"
    using ca by (auto simp: numeral_eq_Suc less_Suc_eq)
  then show ?thesis
    using basic_constraints_path_length [of "sample_certificate ''leaf'' ''inter''"
        "[sample_ca ''inter'' ''root'', sample_ca ''root'' ''root'']"] by simp
qed

text \<open>
  The expiry policy returns a verdict on every chain and accepts exactly when the validation
  time lies in the validity period of every certificate, both ends included; the version policy
  accepts exactly when no version 1 certificate has extensions.
\<close>

theorem expiry_and_version_verdict:
  "chain_meets_policy_requirements (ExpiryPolicy_policy (ExpiryPolicy_new t)) \<lparr>uc_certificates = c # cs\<rparr> \<noteq> None \<and>
   (chain_meets_policy_requirements (ExpiryPolicy_policy (ExpiryPolicy_new t)) \<lparr>uc_certificates = c # cs\<rparr> = Some (Ok ())
    \<longleftrightarrow> list_all (\<lambda>d. tbs_not_before d \<le> t \<and> t \<le> tbs_not_after d) (c # cs)) \<and>
   chain_meets_policy_requirements VersionPolicy \<lparr>uc_certificates = c # cs\<rparr> \<noteq> None \<and>
   (chain_meets_policy_requirements VersionPolicy \<lparr>uc_certificates = c # cs\<rparr> = Some (Ok ())
    \<longleftrightarrow> \<not> list_ex (\<lambda>d. tbs_version d = V1 \<and> tbs_extensions d \<noteq> []) (c # cs))"
  using expiry.returns [of "c # cs" t] expiry.verdict [of "c # cs" t]
    version.returns [of "c # cs"] version.verdict [of "c # cs"]
  by (simp add: accepts_def expiry_ok_def version_ok_def list_all_iff list_ex_iff)

end
