(* ===== verification/Dns_Names.thy ===== *)
theory Dns_Names
  imports Prelude
begin

text \<open>
  \<^verbatim>\<open>rfc5280/dns_names.rs\<close>: when a DNS name satisfies a dNSName constraint. The code walks both names
  label by label from the right with an iterator; the theorems relate it to the lists of labels.
  A slice taken at an index that \<open>position\<close> has just returned is in range, so these are written
  with \<open>take\<close> and \<open>drop\<close>.
\<close>

definition ASCII_PERIOD :: byte where "ASCII_PERIOD = 0x2E"

definition ASCII_ASTERISK :: byte where "ASCII_ASTERISK = 0x2A"

definition ASCII_HYPHEN :: byte where "ASCII_HYPHEN = 0x2D"

definition MAXIMUM_LABEL_LENGTH :: nat where "MAXIMUM_LABEL_LENGTH = 63"

definition MAXIMUM_NAME_LENGTH :: nat where "MAXIMUM_NAME_LENGTH = 253"

lemmas ascii_consts = ASCII_PERIOD_def ASCII_ASTERISK_def ASCII_HYPHEN_def

subsection \<open>Syntax of names\<close>

datatype LabelContents = AllAscii nat | NonAscii

fun label_contents_from :: "nat \<Rightarrow> bytes \<Rightarrow> LabelContents" where
  "label_contents_from non_numerics [] = AllAscii non_numerics"
| "label_contents_from non_numerics (byte # rest) =
     (if is_ascii_digit byte then label_contents_from non_numerics rest
      else if is_ascii_lowercase byte \<or> is_ascii_uppercase byte \<or> byte = 0x2D \<or> byte = 0x5F
      then label_contents_from (non_numerics + 1) rest
      else NonAscii)"

definition label_contents :: "bytes \<Rightarrow> LabelContents" where
  "label_contents label = label_contents_from 0 label"

text \<open>The loop of \<open>is_valid_dns_name\<close>: \<open>None\<close> is its \<open>return false\<close>, and \<open>Some\<close> the label count.\<close>

function (sequential) valid_labels :: "bool \<Rightarrow> bytes \<Rightarrow> nat \<Rightarrow> nat option" where
  "valid_labels is_constraint [] label_count = Some label_count"
| "valid_labels is_constraint (b # bs) label_count =
     (let bytes = b # bs;
          (label, bytes') =
            (case position (\<lambda>b. b = ASCII_PERIOD) bytes of
               Some period_index \<Rightarrow> (take period_index bytes, drop (period_index + 1) bytes)
             | None \<Rightarrow> (bytes, []));
          label_count' = label_count + 1
      in if label = [] \<and> \<not> (label_count' = 1 \<and> is_constraint) then None
         else if slice_first label = Some ASCII_HYPHEN \<or> slice_last label = Some ASCII_HYPHEN then None
         else if length label > MAXIMUM_LABEL_LENGTH then None
         else (case label_contents label of
                 NonAscii \<Rightarrow> None
               | AllAscii non_numerics \<Rightarrow>
                   if non_numerics = 0 \<and> bytes' = [] then None
                   else valid_labels is_constraint bytes' label_count'))"
  by pat_completeness auto
termination
  by (relation "measure (\<lambda>(_, bytes, _). length bytes)")
    (auto split: option.splits dest: position_Some_less)

declare valid_labels.simps(2) [simp del]

definition is_valid_dns_name :: "bytes \<Rightarrow> bool \<Rightarrow> bool" where
  "is_valid_dns_name name is_constraint =
     (if length name > MAXIMUM_NAME_LENGTH then False
      else if slice_first name = Some ASCII_ASTERISK then
        (let bytes = drop 1 name
         in if slice_first bytes = Some ASCII_PERIOD then
              (case valid_labels is_constraint (drop 1 bytes) 1 of
                 None \<Rightarrow> False
               | Some label_count \<Rightarrow> \<not> (label_count < 3))
            else False)
      else
        (case valid_labels is_constraint name 0 of None \<Rightarrow> False | Some _ \<Rightarrow> True))"

subsection \<open>Labels from the right\<close>

record ReverseDnsLabels =
  remaining :: "bytes option"

definition ReverseDnsLabels_new :: "bytes \<Rightarrow> ReverseDnsLabels" where
  "ReverseDnsLabels_new name = \<lparr>remaining = Some name\<rparr>"

definition has_more_labels :: "ReverseDnsLabels \<Rightarrow> bool" where
  "has_more_labels it \<longleftrightarrow> remaining it \<noteq> None"

definition next_label :: "ReverseDnsLabels \<Rightarrow> bytes option \<times> ReverseDnsLabels" where
  "next_label it =
     (case remaining it of
        None \<Rightarrow> (None, it)
      | Some base \<Rightarrow>
          (case rposition (\<lambda>b. b = ASCII_PERIOD) base of
             Some period_index \<Rightarrow>
               (Some (drop (period_index + 1) base), it\<lparr>remaining := Some (take period_index base)\<rparr>)
           | None \<Rightarrow> (Some base, it\<lparr>remaining := None\<rparr>)))"

text \<open>\<open>MASK\<close> is \<open>!(1 << 5)\<close>.\<close>

definition case_insensitive_ascii_match_mask :: "bytes \<Rightarrow> bytes \<Rightarrow> bool" where
  "case_insensitive_ascii_match_mask a b =
     (if length a \<noteq> length b then False
      else list_all (\<lambda>(x, y). (x AND 0xDF) = (y AND 0xDF)) (zip a b))"

definition labels_left :: "ReverseDnsLabels \<Rightarrow> nat" where
  "labels_left it = (case remaining it of None \<Rightarrow> 0 | Some base \<Rightarrow> Suc (length base))"

lemma next_label_decreases:
  "next_label it = (Some l, it') \<Longrightarrow> labels_left it' < labels_left it"
  by (auto simp: next_label_def labels_left_def split: option.splits dest: position_Some_less
      simp: rposition_Some_iff)

function dns_match_loop :: "ReverseDnsLabels \<Rightarrow> ReverseDnsLabels \<Rightarrow> bool" where
  "dns_match_loop dns_labels constraint_labels =
     (case (next_label dns_labels, next_label constraint_labels) of
        ((None, _), (None, _)) \<Rightarrow> True
      | ((Some _, _), (None, _)) \<Rightarrow> True
      | ((None, _), (Some _, _)) \<Rightarrow> False
      | ((Some dns_label, dns_labels'), (Some constraint_label, constraint_labels')) \<Rightarrow>
          if dns_label = [] then False
          else if constraint_label = [] then \<not> has_more_labels constraint_labels'
          else if \<not> case_insensitive_ascii_match_mask dns_label constraint_label then False
          else dns_match_loop dns_labels' constraint_labels')"
  by pat_completeness auto
termination
  by (relation "measure (\<lambda>(d, c). labels_left d)") (auto dest!: sym [of _ "next_label _"] next_label_decreases)

declare dns_match_loop.simps [simp del]

definition dns_name_matches_constraint :: "bytes \<Rightarrow> bytes \<Rightarrow> bool" where
  "dns_name_matches_constraint dns_name constraint =
     (if \<not> is_valid_dns_name dns_name False \<or> \<not> is_valid_dns_name constraint True then False
      else if constraint = [] then True
      else
        (let constraint = (if slice_last constraint = Some ASCII_PERIOD
                           then take (length constraint - 1) constraint else constraint)
         in dns_match_loop (ReverseDnsLabels_new dns_name) (ReverseDnsLabels_new constraint)))"

subsection \<open>Bytes of a label\<close>

definition dns_label_byte :: "byte \<Rightarrow> bool" where
  "dns_label_byte b \<longleftrightarrow> is_ascii_alphanumeric b \<or> b = 0x2D \<or> b = 0x5F"

lemma label_contents_from_AllAscii:
  "label_contents_from k label = AllAscii n \<longleftrightarrow>
     list_all dns_label_byte label \<and> n = k + length (filter (\<lambda>b. \<not> is_ascii_digit b) label)"
  by (induction label arbitrary: k) (auto simp: dns_label_byte_def is_ascii_alphanumeric_def)

lemma label_contents_AllAscii:
  "label_contents label = AllAscii n \<longleftrightarrow>
     list_all dns_label_byte label \<and> n = length (filter (\<lambda>b. \<not> is_ascii_digit b) label)"
  by (simp add: label_contents_def label_contents_from_AllAscii)

lemma label_contents_NonAscii:
  "label_contents label = NonAscii \<longleftrightarrow> \<not> list_all dns_label_byte label"
  using label_contents_AllAscii [of label] by (metis LabelContents.exhaust LabelContents.distinct(1))

lemma dns_label_byte_not_period: "dns_label_byte b \<Longrightarrow> b \<noteq> ASCII_PERIOD"
  unfolding dns_label_byte_def is_ascii_alphanumeric_def is_ascii_digit_def is_ascii_uppercase_def
    is_ascii_lowercase_def ASCII_PERIOD_def
  by auto

subsection \<open>Which names are valid\<close>

text \<open>The labels of a name, a trailing period contributing none.\<close>

definition effective_labels :: "bytes \<Rightarrow> bytes list" where
  "effective_labels name =
     (let ls = split_on ASCII_PERIOD name in if last ls = [] then butlast ls else ls)"

definition label_ok :: "bytes \<Rightarrow> bool" where
  "label_ok l \<longleftrightarrow> list_all dns_label_byte l \<and> length l \<le> MAXIMUM_LABEL_LENGTH \<and>
     (l \<noteq> [] \<longrightarrow> hd l \<noteq> ASCII_HYPHEN \<and> last l \<noteq> ASCII_HYPHEN)"

fun labels_ok :: "bool \<Rightarrow> bool \<Rightarrow> bytes list \<Rightarrow> bool" where
  "labels_ok is_constraint at_start [] = True"
| "labels_ok is_constraint at_start (l # ls) =
     (label_ok l \<and> (l = [] \<longrightarrow> at_start \<and> is_constraint) \<and>
      (ls = [] \<longrightarrow> \<not> list_all is_ascii_digit l) \<and> labels_ok is_constraint False ls)"

lemma effective_labels_Nil [simp]: "effective_labels [] = []"
  by (simp add: effective_labels_def)

lemma effective_labels_no_period:
  "ASCII_PERIOD \<notin> set bs \<Longrightarrow> bs \<noteq> [] \<Longrightarrow> effective_labels bs = [bs]"
  by (simp add: effective_labels_def)

lemma effective_labels_period [simp]:
  "ASCII_PERIOD \<notin> set l \<Longrightarrow>
     effective_labels (l @ ASCII_PERIOD # rest) = l # effective_labels rest"
  by (simp add: effective_labels_def Let_def)

lemma first_label_cases:
  assumes "bs \<noteq> []"
  obtains "ASCII_PERIOD \<notin> set bs" "position (\<lambda>b. b = ASCII_PERIOD) bs = None"
    "effective_labels bs = [bs]"
  | l rest where "bs = l @ ASCII_PERIOD # rest" "ASCII_PERIOD \<notin> set l"
    "position (\<lambda>b. b = ASCII_PERIOD) bs = Some (length l)"
    "effective_labels bs = l # effective_labels rest"
proof (cases "ASCII_PERIOD \<in> set bs")
  case True
  then obtain l rest where "bs = l @ ASCII_PERIOD # rest" "ASCII_PERIOD \<notin> set l"
    by (meson split_list_first)
  then show ?thesis by (intro that(2) [of l rest]) auto
next
  case False
  then show ?thesis using assms by (intro that(1)) (auto simp: effective_labels_no_period)
qed

lemma effective_labels_eq_Nil [simp]: "effective_labels bs = [] \<longleftrightarrow> bs = []"
  by (cases "bs = []") (auto elim: first_label_cases)

text \<open>One turn of the loop, on a name split at its first period.\<close>

lemma valid_labels_step:
  assumes "bs \<noteq> []"
    and "(case position (\<lambda>b. b = ASCII_PERIOD) bs of
            Some i \<Rightarrow> (take i bs, drop (i + 1) bs) | None \<Rightarrow> (bs, [])) = (l, rest)"
  shows "valid_labels ic bs k =
     (if label_ok l \<and> (l = [] \<longrightarrow> k = 0 \<and> ic) \<and> (rest = [] \<longrightarrow> \<not> list_all is_ascii_digit l)
      then valid_labels ic rest (Suc k) else None)"
proof -
  have digits: "length (filter (\<lambda>b. \<not> is_ascii_digit b) l) = 0 \<longleftrightarrow> list_all is_ascii_digit l"
    by (simp add: filter_empty_conv list_all_iff)
  have hyphen: "(slice_first l = Some ASCII_HYPHEN \<or> slice_last l = Some ASCII_HYPHEN) \<longleftrightarrow>
      l \<noteq> [] \<and> (hd l = ASCII_HYPHEN \<or> last l = ASCII_HYPHEN)"
    by (cases l) (simp_all add: slice_last_def)
  obtain b bs' where bs: "bs = b # bs'" using assms(1) by (cases bs) auto
  show ?thesis
  proof (cases "label_contents l")
    case (AllAscii n)
    then have "list_all dns_label_byte l" "n = 0 \<longleftrightarrow> list_all is_ascii_digit l"
      using digits by (simp_all add: label_contents_AllAscii)
    then show ?thesis
      using assms(2) AllAscii hyphen unfolding bs
      by (auto simp: valid_labels.simps(2) Let_def label_ok_def not_less)
  next
    case NonAscii
    then have "\<not> label_ok l" by (simp add: label_contents_NonAscii label_ok_def)
    then show ?thesis
      using assms(2) NonAscii unfolding bs by (simp add: valid_labels.simps(2) Let_def)
  qed
qed

lemma valid_labels_iff:
  "valid_labels ic bs k =
     (if labels_ok ic (k = 0) (effective_labels bs)
      then Some (k + length (effective_labels bs)) else None)"
proof (induction "length bs" arbitrary: bs k rule: less_induct)
  case less
  show ?case
  proof (cases "bs = []")
    case True
    then show ?thesis by simp
  next
    case False
    then show ?thesis
    proof (cases rule: first_label_cases)
      case 1
      then show ?thesis using valid_labels_step [OF False, of bs "[]" ic k] by simp
    next
      case (2 l rest)
      then have "length rest < length bs" by simp
      note IH = less [OF this]
      show ?thesis
        using valid_labels_step [OF False, of l rest ic k] 2 by (auto simp: IH)
    qed
  qed
qed

lemma effective_labels_byte:
  "b \<in> set bs \<Longrightarrow> b \<noteq> ASCII_PERIOD \<Longrightarrow> \<exists>l \<in> set (effective_labels bs). b \<in> set l"
proof (induction "length bs" arbitrary: bs rule: less_induct)
  case less
  then have ne: "bs \<noteq> []" by auto
  then show ?case
  proof (cases rule: first_label_cases)
    case 1
    then show ?thesis using less.prems by auto
  next
    case (2 l rest)
    then have "length rest < length bs" by simp
    note less.hyps [OF this]
    then show ?thesis using 2 less.prems by auto
  qed
qed

lemma labels_ok_bytes: "labels_ok ic s ls \<Longrightarrow> l \<in> set ls \<Longrightarrow> list_all dns_label_byte l"
  by (induction ls arbitrary: s) (auto simp: label_ok_def)

lemma labels_ok_nonempty: "labels_ok ic s ls \<Longrightarrow> l \<in> set ls \<Longrightarrow> \<not> (s \<and> ic) \<Longrightarrow> l \<noteq> []"
  by (induction ls arbitrary: s) auto

text \<open>The names that pass, in terms of their labels.\<close>

definition dns_name_syntax :: "bool \<Rightarrow> bytes \<Rightarrow> bool" where
  "dns_name_syntax is_constraint name \<longleftrightarrow>
     length name \<le> MAXIMUM_NAME_LENGTH \<and>
     (labels_ok is_constraint True (effective_labels name) \<or>
      (\<exists>rest. name = ASCII_ASTERISK # ASCII_PERIOD # rest \<and> 2 \<le> length (effective_labels rest) \<and>
         labels_ok is_constraint False (effective_labels rest)))"

lemma asterisk_not_label_byte: "\<not> dns_label_byte ASCII_ASTERISK"
  by (simp add: dns_label_byte_def is_ascii_alphanumeric_def is_ascii_digit_def
      is_ascii_uppercase_def is_ascii_lowercase_def ASCII_ASTERISK_def)

lemma asterisk_name_not_ok:
  "slice_first name = Some ASCII_ASTERISK \<Longrightarrow> \<not> labels_ok ic s (effective_labels name)"
proof
  assume "slice_first name = Some ASCII_ASTERISK" "labels_ok ic s (effective_labels name)"
  moreover from this obtain l where "l \<in> set (effective_labels name)" "ASCII_ASTERISK \<in> set l"
    using effective_labels_byte [of ASCII_ASTERISK name]
    by (auto simp: slice_first_eq_Some ascii_consts)
  ultimately show False
    using labels_ok_bytes asterisk_not_label_byte by (metis list_all_iff)
qed

lemma is_valid_dns_name_iff: "is_valid_dns_name name ic \<longleftrightarrow> dns_name_syntax ic name"
proof (cases "slice_first name = Some ASCII_ASTERISK")
  case True
  then obtain tail where name: "name = ASCII_ASTERISK # tail" by (auto simp: slice_first_eq_Some)
  have neq: "ASCII_ASTERISK \<noteq> ASCII_PERIOD" by (simp add: ascii_consts)
  show ?thesis
  proof (cases "slice_first tail = Some ASCII_PERIOD")
    case wild: True
    then obtain rest where tail: "tail = ASCII_PERIOD # rest" by (auto simp: slice_first_eq_Some)
    show ?thesis
      using True asterisk_name_not_ok [OF True, of ic True] neq
      by (auto simp: is_valid_dns_name_def dns_name_syntax_def name tail valid_labels_iff Let_def)
  next
    case False
    then show ?thesis
      using True asterisk_name_not_ok [OF True, of ic True]
      by (auto simp: is_valid_dns_name_def dns_name_syntax_def name Let_def)
  qed
next
  case False
  then show ?thesis
    by (auto simp: is_valid_dns_name_def dns_name_syntax_def valid_labels_iff)
qed

subsection \<open>The iterator yields the labels in reverse\<close>

function labels_collect :: "ReverseDnsLabels \<Rightarrow> bytes list" where
  "labels_collect it =
     (case next_label it of (None, _) \<Rightarrow> [] | (Some l, it') \<Rightarrow> l # labels_collect it')"
  by pat_completeness auto
termination
  by (relation "measure labels_left") (auto dest!: sym [of _ "next_label _"] next_label_decreases)

declare labels_collect.simps [simp del]

lemma next_label_simps:
  "ASCII_PERIOD \<notin> set bs \<Longrightarrow> next_label \<lparr>remaining = Some bs\<rparr> = (Some bs, \<lparr>remaining = None\<rparr>)"
  "ASCII_PERIOD \<notin> set l \<Longrightarrow>
     next_label \<lparr>remaining = Some (bs @ ASCII_PERIOD # l)\<rparr> = (Some l, \<lparr>remaining = Some bs\<rparr>)"
  "next_label \<lparr>remaining = None\<rparr> = (None, \<lparr>remaining = None\<rparr>)"
  by (simp_all add: next_label_def)

lemma last_label_cases:
  obtains "ASCII_PERIOD \<notin> set bs"
  | front l where "bs = front @ ASCII_PERIOD # l" "ASCII_PERIOD \<notin> set l"
  by (metis split_list_last)

lemma labels_collect_None [simp]: "labels_collect \<lparr>remaining = None\<rparr> = []"
  by (simp add: labels_collect.simps next_label_simps)

lemma labels_collect_Some: "labels_collect \<lparr>remaining = Some bs\<rparr> = rev (split_on ASCII_PERIOD bs)"
proof (induction "length bs" arbitrary: bs rule: less_induct)
  case less
  show ?case
  proof (cases bs rule: last_label_cases)
    case 1
    then show ?thesis by (simp add: labels_collect.simps [of "\<lparr>remaining = Some bs\<rparr>"] next_label_simps)
  next
    case (2 front l)
    then have "length front < length bs" by simp
    note IH = less [OF this]
    show ?thesis using 2
      by (simp add: labels_collect.simps [of "\<lparr>remaining = Some (front @ ASCII_PERIOD # l)\<rparr>"]
          next_label_simps IH)
  qed
qed

subsection \<open>Matching, on lists of labels\<close>

text \<open>The comparison loop on the two reversed lists of labels.\<close>

fun labels_match :: "bytes list \<Rightarrow> bytes list \<Rightarrow> bool" where
  "labels_match ds [] = True"
| "labels_match [] (c # cs) = False"
| "labels_match (d # ds) (c # cs) =
     (if d = [] then False
      else if c = [] then cs = []
      else case_insensitive_ascii_match_mask d c \<and> labels_match ds cs)"

lemma has_more_labels_iff: "has_more_labels it \<longleftrightarrow> labels_collect it \<noteq> []"
  by (cases it, rename_tac r, case_tac r) (auto simp: has_more_labels_def labels_collect_Some)

lemma dns_match_loop_labels:
  "dns_match_loop d c = labels_match (labels_collect d) (labels_collect c)"
proof (induction d c rule: dns_match_loop.induct)
  case (1 d c)
  obtain nd d' nc c' where n: "next_label d = (nd, d')" "next_label c = (nc, c')"
    by (metis surj_pair)
  show ?case
  proof (cases "nd = None \<or> nc = None")
    case True
    then show ?thesis
      by (auto simp: dns_match_loop.simps [of d c] labels_collect.simps [of d]
          labels_collect.simps [of c] n split: option.splits)
  next
    case False
    then obtain ld lc where s: "nd = Some ld" "nc = Some lc" by auto
    have IH: "ld \<noteq> [] \<Longrightarrow> lc \<noteq> [] \<Longrightarrow> case_insensitive_ascii_match_mask ld lc \<Longrightarrow>
       dns_match_loop d' c' = labels_match (labels_collect d') (labels_collect c')"
      by (rule "1.IH") (simp_all add: n s)
    then show ?thesis
      using n s
      by (simp add: dns_match_loop.simps [of d c] labels_collect.simps [of d]
          labels_collect.simps [of c] has_more_labels_iff)
  qed
qed

subsection \<open>Masking out bit 5 is case folding on label bytes\<close>

definition dns_name_byte :: "byte \<Rightarrow> bool" where
  "dns_name_byte b \<longleftrightarrow> dns_label_byte b \<or> b = ASCII_ASTERISK"

definition unmask :: "byte \<Rightarrow> byte" where
  "unmask m = (if m = 0x5F then m else m + 32)"

lemma masked_byte:
  "dns_name_byte b \<longrightarrow>
     to_ascii_lowercase b = unmask (b AND 0xDF) \<and> to_ascii_lowercase b AND 0xDF = b AND 0xDF"
  by (rule all_bytesD [of "\<lambda>b. dns_name_byte b \<longrightarrow>
      to_ascii_lowercase b = unmask (b AND 0xDF) \<and> to_ascii_lowercase b AND 0xDF = b AND 0xDF"])
    code_simp

lemma mask_eq_iff:
  "dns_name_byte a \<Longrightarrow> dns_name_byte b \<Longrightarrow>
     (a AND 0xDF) = (b AND 0xDF) \<longleftrightarrow> to_ascii_lowercase a = to_ascii_lowercase b"
  using masked_byte [of a] masked_byte [of b] by metis

lemma case_insensitive_match_lower:
  assumes "list_all dns_name_byte a" "list_all dns_name_byte b"
  shows "case_insensitive_ascii_match_mask a b \<longleftrightarrow> lower a = lower b"
proof (cases "length a = length b")
  case True
  then show ?thesis
    using assms
    by (induction a b rule: list_induct2)
      (auto simp: case_insensitive_ascii_match_mask_def mask_eq_iff)
next
  case False
  then show ?thesis
    by (auto simp: case_insensitive_ascii_match_mask_def dest: arg_cong [of _ _ length])
qed

lemma lower_eq_Nil [simp]: "lower l = [] \<longleftrightarrow> l = []"
  by (simp add: lower_def)

text \<open>
  The reversed constraint may end in one empty label, which stands for a leading period and asks
  for at least one further label of the name.
\<close>

lemma labels_match_iff:
  assumes "\<forall>d \<in> set ds. d \<noteq> [] \<and> list_all dns_name_byte d"
    and "\<forall>c \<in> set cs. list_all dns_name_byte c" and "\<forall>c \<in> set (butlast cs). c \<noteq> []" and "cs \<noteq> []"
  shows "labels_match ds cs \<longleftrightarrow>
    (if last cs = [] then \<exists>extra. extra \<noteq> [] \<and> map lower ds = map lower (butlast cs) @ extra
     else prefix (map lower cs) (map lower ds))"
  using assms
proof (induction ds cs rule: labels_match.induct)
  case (3 d ds c cs)
  then have ne: "d \<noteq> []" by simp
  show ?case
  proof (cases "cs = []")
    case True
    then show ?thesis using ne "3.prems"
      by (auto simp: case_insensitive_match_lower)
  next
    case False
    then have c: "c \<noteq> []" "\<forall>c \<in> set (butlast cs). c \<noteq> []" using "3.prems"(3) by auto
    have "case_insensitive_ascii_match_mask d c \<longleftrightarrow> lower d = lower c"
      using "3.prems" by (intro case_insensitive_match_lower) simp_all
    moreover have "labels_match ds cs \<longleftrightarrow>
      (if last cs = [] then \<exists>extra. extra \<noteq> [] \<and> map lower ds = map lower (butlast cs) @ extra
       else prefix (map lower cs) (map lower ds))"
      if "case_insensitive_ascii_match_mask d c"
      using "3.IH" [OF ne c(1)] "3.prems" False c by simp
    ultimately show ?thesis using ne c False
      by (cases "lower d = lower c") simp_all
  qed
qed auto

subsection \<open>What a constraint permits\<close>

lemma effective_labels_no_trailing:
  "bs \<noteq> [] \<Longrightarrow> last bs \<noteq> ASCII_PERIOD \<Longrightarrow> split_on ASCII_PERIOD bs = effective_labels bs"
  by (simp add: effective_labels_def last_split_on_Nil)

lemma effective_labels_trailing:
  "split_on ASCII_PERIOD bs = effective_labels (bs @ [ASCII_PERIOD])"
  using split_on_append [of ASCII_PERIOD bs "[]"] by (simp add: effective_labels_def del: split_on_append)

lemma dns_name_syntax_labels:
  assumes "dns_name_syntax ic name"
  shows "\<forall>l \<in> set (effective_labels name). list_all dns_name_byte l"
    and "\<forall>l \<in> set (tl (effective_labels name)). l \<noteq> []"
    and "\<not> ic \<Longrightarrow> \<forall>l \<in> set (effective_labels name). l \<noteq> []"
proof -
  have star: "effective_labels (ASCII_ASTERISK # ASCII_PERIOD # rest) =
      [ASCII_ASTERISK] # effective_labels rest" for rest
    using effective_labels_period [of "[ASCII_ASTERISK]" rest] by (simp add: ascii_consts)
  have weaken: "list_all dns_label_byte l \<Longrightarrow> list_all dns_name_byte l" for l
    by (auto simp: list_all_iff dns_name_byte_def)
  have tail: "labels_ok ic s ls \<Longrightarrow> l \<in> set (tl ls) \<Longrightarrow> l \<noteq> []" for s ls l
    by (cases ls) (auto dest: labels_ok_nonempty)
  consider (plain) "labels_ok ic True (effective_labels name)"
    | (wild) rest where "effective_labels name = [ASCII_ASTERISK] # effective_labels rest"
        "labels_ok ic False (effective_labels rest)"
    using assms star unfolding dns_name_syntax_def by blast
  then have "(\<forall>l \<in> set (effective_labels name). list_all dns_name_byte l) \<and>
      (\<forall>l \<in> set (tl (effective_labels name)). l \<noteq> []) \<and>
      (\<not> ic \<longrightarrow> (\<forall>l \<in> set (effective_labels name). l \<noteq> []))"
  proof cases
    case plain
    then show ?thesis using tail labels_ok_nonempty labels_ok_bytes weaken by blast
  next
    case wild
    then show ?thesis using labels_ok_nonempty labels_ok_bytes weaken
      by (fastforce simp: dns_name_byte_def)
  qed
  then show "\<forall>l \<in> set (effective_labels name). list_all dns_name_byte l"
    "\<forall>l \<in> set (tl (effective_labels name)). l \<noteq> []"
    "\<not> ic \<Longrightarrow> \<forall>l \<in> set (effective_labels name). l \<noteq> []"
    by blast+
qed

definition strip_period :: "bytes \<Rightarrow> bytes" where
  "strip_period c =
     (if slice_last c = Some ASCII_PERIOD then take (length c - 1) c else c)"

lemma split_on_strip_period:
  "c \<noteq> [] \<Longrightarrow> split_on ASCII_PERIOD (strip_period c) = effective_labels c"
proof (cases "slice_last c = Some ASCII_PERIOD")
  case True
  then obtain d where "c = d @ [ASCII_PERIOD]" by (auto simp: slice_last_eq_Some)
  then show ?thesis by (simp add: strip_period_def effective_labels_trailing)
next
  case False
  assume "c \<noteq> []"
  with False show ?thesis by (simp add: strip_period_def effective_labels_no_trailing)
qed

lemma dns_name_matches_constraint_labels:
  "dns_name_matches_constraint n c \<longleftrightarrow> dns_name_syntax False n \<and> dns_name_syntax True c \<and>
     (c = [] \<or> labels_match (rev (split_on ASCII_PERIOD n)) (rev (effective_labels c)))"
  unfolding dns_name_matches_constraint_def strip_period_def [symmetric] Let_def
  by (auto simp: is_valid_dns_name_iff dns_match_loop_labels ReverseDnsLabels_new_def
      labels_collect_Some split_on_strip_period)

text \<open>
  A name lies in the subtree of a constraint when the constraint's labels end the name's labels,
  letter case aside; after a leading period the name needs at least one more label.
\<close>

definition in_dns_subtree :: "bytes \<Rightarrow> bytes \<Rightarrow> bool" where
  "in_dns_subtree n c \<longleftrightarrow>
     (let nl = map lower (effective_labels n); cl = map lower (effective_labels c)
      in if cl = [] then True
         else if hd cl = [] then \<exists>extra. extra \<noteq> [] \<and> nl = extra @ tl cl
         else suffix cl nl)"

lemma dns_match_subtree:
  assumes "dns_name_syntax False n" "dns_name_syntax True c" "c \<noteq> []"
  shows "labels_match (rev (split_on ASCII_PERIOD n)) (rev (effective_labels c)) \<longleftrightarrow>
     n \<noteq> [] \<and> last n \<noteq> ASCII_PERIOD \<and> in_dns_subtree n c"
proof -
  have ne: "effective_labels c \<noteq> []" using assms(3) by simp
  show ?thesis
  proof (cases "n \<noteq> [] \<and> last n \<noteq> ASCII_PERIOD")
    case False
    then have "last (split_on ASCII_PERIOD n) = []" by (auto simp: last_split_on_Nil)
    then obtain ls where "split_on ASCII_PERIOD n = ls @ [[]]"
      by (metis append_butlast_last_id split_on_not_Nil)
    then have "rev (split_on ASCII_PERIOD n) = [] # rev ls" by simp
    moreover obtain k ks where "rev (effective_labels c) = k # ks"
      using ne by (cases "rev (effective_labels c)") auto
    ultimately show ?thesis using False by auto
  next
    case True
    let ?nl = "effective_labels n" and ?cl = "effective_labels c"
    note nl = dns_name_syntax_labels [OF assms(1)] and cl = dns_name_syntax_labels [OF assms(2)]
    have pre: "labels_match (rev ?nl) (rev ?cl) \<longleftrightarrow>
      (if last (rev ?cl) = []
       then \<exists>extra. extra \<noteq> [] \<and> map lower (rev ?nl) = map lower (butlast (rev ?cl)) @ extra
       else prefix (map lower (rev ?cl)) (map lower (rev ?nl)))"
      using nl cl ne by (intro labels_match_iff) (simp_all add: butlast_rev)
    have rev_ex: "(\<exists>extra. extra \<noteq> [] \<and> rev xs = rev ys @ extra) \<longleftrightarrow>
        (\<exists>extra. extra \<noteq> [] \<and> xs = extra @ ys)" for xs ys :: "bytes list"
      by (metis rev_append rev_is_Nil_conv rev_rev_ident)
    have "(\<exists>extra. extra \<noteq> [] \<and> map lower (rev ?nl) = map lower (butlast (rev ?cl)) @ extra) \<longleftrightarrow>
        (\<exists>extra. extra \<noteq> [] \<and> map lower ?nl = extra @ tl (map lower ?cl))"
      using rev_ex [of "map lower ?nl" "map lower (tl ?cl)"] by (simp add: rev_map butlast_rev flip: map_tl)
    moreover have "prefix (map lower (rev ?cl)) (map lower (rev ?nl)) \<longleftrightarrow>
        suffix (map lower ?cl) (map lower ?nl)"
      by (simp add: suffix_to_prefix rev_map)
    moreover have "last (rev ?cl) = [] \<longleftrightarrow> hd (map lower ?cl) = []"
      using ne by (simp add: last_rev hd_map)
    ultimately show ?thesis
      using True pre ne effective_labels_no_trailing [of n]
      by (simp add: in_dns_subtree_def Let_def)
  qed
qed

lemma dns_name_matches_constraint_iff:
  "dns_name_matches_constraint n c \<longleftrightarrow>
     dns_name_syntax False n \<and> dns_name_syntax True c \<and>
     (c = [] \<or> n \<noteq> [] \<and> last n \<noteq> ASCII_PERIOD \<and> in_dns_subtree n c)"
  using dns_match_subtree by (auto simp: dns_name_matches_constraint_labels)

text \<open>
  C9. A DNS name satisfies a dNSName constraint exactly when both are syntactically valid and
  either the constraint is empty, or the name has no trailing period and the labels of the
  constraint are the rightmost labels of the name up to ASCII letter case, where a constraint with
  a leading period also demands at least one further label.
\<close>

theorem dns_constraint_subtree:
  "dns_name_matches_constraint n c \<longleftrightarrow>
     dns_name_syntax False n \<and> dns_name_syntax True c \<and>
     (c = [] \<or> n \<noteq> [] \<and> last n \<noteq> ASCII_PERIOD \<and> in_dns_subtree n c)"
  by (rule dns_name_matches_constraint_iff)

text \<open>
  C30. The validity check accepts exactly the names of at most 253 bytes whose labels are at most
  63 letters, digits, hyphens and underscores, do not begin or end with a hyphen, are not empty
  (but for a leading one in a constraint) and do not end in an all-numeric label, or such a name
  of at least two labels after a leading \<open>*.\<close>.
\<close>

theorem valid_dns_name_syntax: "is_valid_dns_name name ic \<longleftrightarrow> dns_name_syntax ic name"
  by (rule is_valid_dns_name_iff)

end
