(* ===== verification/Ip_Constraints.thy ===== *)
theory Ip_Constraints
  imports Prelude
begin

text \<open>
  \<^verbatim>\<open>rfc5280/ip_constraints.rs\<close>: when an address lies in the subnet of an iPAddress constraint. The
  code's byte tests on the mask are related to CIDR prefixes, that is to lists of bits, most
  significant first.
\<close>

subsection \<open>The code\<close>

text \<open>\<open>u8::leading_zeros\<close> and \<open>u8::wrapping_shl\<close>.\<close>

fun leading_zeros_below :: "byte \<Rightarrow> nat \<Rightarrow> nat" where
  "leading_zeros_below b 0 = 0"
| "leading_zeros_below b (Suc i) = (if bit b i then 0 else Suc (leading_zeros_below b i))"

definition leading_zeros :: "byte \<Rightarrow> nat" where
  "leading_zeros b = leading_zeros_below b 8"

definition wrapping_shl :: "byte \<Rightarrow> nat \<Rightarrow> byte" where
  "wrapping_shl b n = push_bit (n mod 8) b"

definition is_valid_cidr_mask :: "bytes \<Rightarrow> bool may_panic" where
  "is_valid_cidr_mask msk =
     (case position (\<lambda>b. b \<noteq> 0xff) msk of
        None \<Rightarrow> Some True
      | Some first_interesting_index \<Rightarrow> do {
          byte \<leftarrow> index_at msk first_interesting_index;
          let leading_one_count = leading_zeros (NOT byte);
          if leading_one_count < 8 \<and> wrapping_shl byte leading_one_count \<noteq> 0
          then Some False
          else do {
            rest \<leftarrow> slice_from msk (first_interesting_index + 1);
            Some (list_all (\<lambda>b. b = 0) rest) } })"

fun subnet_loop :: "bytes \<Rightarrow> bytes \<Rightarrow> bytes \<Rightarrow> nat list \<Rightarrow> bool may_panic" where
  "subnet_loop address base msk [] = Some True"
| "subnet_loop address base msk (i # is) = do {
     a \<leftarrow> index_at address i;
     m \<leftarrow> index_at msk i;
     b \<leftarrow> index_at base i;
     if (a AND m) \<noteq> (b AND m) then Some False else subnet_loop address base msk is }"

text \<open>The \<open>debug_assert\<close> is kept as a panic; no caller triggers it.\<close>

definition address_is_in_subnet :: "bytes \<Rightarrow> bytes \<Rightarrow> bool may_panic" where
  "address_is_in_subnet address subnet =
     (if length subnet \<noteq> length address * 2 then panic
      else do {
        let middle = length subnet div 2;
        let base = take middle subnet;
        let msk = drop middle subnet;
        valid \<leftarrow> is_valid_cidr_mask msk;
        if \<not> valid then Some False
        else subnet_loop address base msk [0..<length address] })"

definition ip_address_matches_constraint :: "bytes \<Rightarrow> bytes \<Rightarrow> bool may_panic" where
  "ip_address_matches_constraint ip_address constraint =
     (if length ip_address = 4 \<and> length constraint = 8
      then address_is_in_subnet ip_address constraint
      else if length ip_address = 16 \<and> length constraint = 32
      then address_is_in_subnet ip_address constraint
      else Some False)"

subsection \<open>Bits of addresses\<close>

definition byte_bits :: "byte \<Rightarrow> bool list" where
  "byte_bits b = map (bit b) [7, 6, 5, 4, 3, 2, 1, 0]"

definition bits_of :: "bytes \<Rightarrow> bool list" where
  "bits_of bs = concat (map byte_bits bs)"

lemma length_byte_bits [simp]: "length (byte_bits b) = 8"
  by (simp add: byte_bits_def)

lemma bits_of_simps [simp]:
  "bits_of [] = []" "bits_of (b # bs) = byte_bits b @ bits_of bs"
  "bits_of (as @ bs) = bits_of as @ bits_of bs"
  by (simp_all add: bits_of_def)

lemma length_bits_of [simp]: "length (bits_of bs) = 8 * length bs"
  by (induction bs) simp_all

lemma all_below_8: "(\<forall>n < 8. P n) \<longleftrightarrow> list_all P [7, 6, 5, 4, 3, 2, 1, 0 :: nat]"
  by (auto simp add: numeral_eq_Suc All_less_Suc)

lemma byte_eq_iff: "a = b \<longleftrightarrow> (\<forall>n < 8. bit a n = bit (b :: byte) n)"
  by (auto intro: bit_word_eqI)

lemma byte_bits_inject: "byte_bits a = byte_bits b \<longleftrightarrow> a = b"
  by (auto simp: byte_eq_iff all_below_8 byte_bits_def)

lemma byte_bits_zero: "(\<forall>x \<in> set (byte_bits b). \<not> x) \<longleftrightarrow> b = 0"
  unfolding byte_eq_iff all_below_8 by (auto simp: byte_bits_def)

lemma byte_bits_ones: "(\<forall>x \<in> set (byte_bits b). x) \<longleftrightarrow> b = 0xff"
proof -
  have "bit (0xff :: byte) n" if "n < 8" for n
    using that by (auto simp: less_Suc_eq numeral_eq_Suc)
  then have "b = 0xff \<longleftrightarrow> (\<forall>n < 8. bit b n)" by (auto simp: byte_eq_iff)
  then show ?thesis unfolding all_below_8 by (auto simp: byte_bits_def)
qed

lemma bits_of_zero: "(\<forall>x \<in> set (bits_of bs). \<not> x) \<longleftrightarrow> list_all (\<lambda>b. b = 0) bs"
  by (induction bs) (simp_all add: byte_bits_zero ball_Un)

lemma bits_of_ones: "(\<forall>x \<in> set (bits_of bs). x) \<longleftrightarrow> list_all (\<lambda>b. b = 0xff) bs"
  by (induction bs) (simp_all add: byte_bits_ones ball_Un)

text \<open>A run of ones followed by a run of zeros.\<close>

definition ones_then_zeros :: "bool list \<Rightarrow> bool" where
  "ones_then_zeros xs \<longleftrightarrow> sorted_wrt (\<lambda>x y. y \<longrightarrow> x) xs"

lemma zeros_sorted: "\<forall>y \<in> set xs. \<not> y \<Longrightarrow> sorted_wrt (\<lambda>x y. y \<longrightarrow> x) xs"
  by (induction xs) auto

lemma ones_sorted: "\<forall>y \<in> set xs. y \<Longrightarrow> sorted_wrt (\<lambda>x y. y \<longrightarrow> x) xs"
  by (induction xs) auto

lemma ones_then_zeros_iff:
  "ones_then_zeros xs \<longleftrightarrow> (\<exists>p \<le> length xs. xs = replicate p True @ replicate (length xs - p) False)"
proof (induction xs)
  case (Cons x xs)
  show ?case
  proof (cases x)
    case True
    have "ones_then_zeros (x # xs) \<longleftrightarrow> ones_then_zeros xs" using True by (simp add: ones_then_zeros_def)
    also have "\<dots> \<longleftrightarrow> (\<exists>p \<le> length (x # xs).
        x # xs = replicate p True @ replicate (length (x # xs) - p) False)"
    proof
      assume "ones_then_zeros xs"
      then obtain p where "p \<le> length xs" "xs = replicate p True @ replicate (length xs - p) False"
        using Cons.IH by blast
      then have "Suc p \<le> length (x # xs) \<and>
          x # xs = replicate (Suc p) True @ replicate (length (x # xs) - Suc p) False"
        using True by simp
      then show "\<exists>p \<le> length (x # xs).
          x # xs = replicate p True @ replicate (length (x # xs) - p) False" by blast
    next
      assume "\<exists>p \<le> length (x # xs). x # xs = replicate p True @ replicate (length (x # xs) - p) False"
      then obtain p where p: "p \<le> length (x # xs)"
        "x # xs = replicate p True @ replicate (length (x # xs) - p) False" by blast
      then obtain q where "p = Suc q" using True by (cases p) auto
      with p show "ones_then_zeros xs" using Cons.IH by auto
    qed
    finally show ?thesis .
  next
    case False
    then have "ones_then_zeros (x # xs) \<longleftrightarrow> (\<forall>y \<in> set xs. \<not> y)"
      by (auto simp: ones_then_zeros_def zeros_sorted)
    also have "\<dots> \<longleftrightarrow> x # xs = replicate (length (x # xs)) False"
      using False by (auto simp: replicate_length_same) (metis in_set_replicate)
    also have "\<dots> \<longleftrightarrow> (\<exists>p \<le> length (x # xs).
        x # xs = replicate p True @ replicate (length (x # xs) - p) False)"
    proof
      assume "x # xs = replicate (length (x # xs)) False"
      then show "\<exists>p \<le> length (x # xs).
          x # xs = replicate p True @ replicate (length (x # xs) - p) False"
        by (intro exI [of _ 0]) simp
    next
      assume "\<exists>p \<le> length (x # xs). x # xs = replicate p True @ replicate (length (x # xs) - p) False"
      then obtain p where "x # xs = replicate p True @ replicate (length (x # xs) - p) False" by blast
      moreover from this False have "p = 0" by (cases p) auto
      ultimately show "x # xs = replicate (length (x # xs)) False" by simp
    qed
    finally show ?thesis .
  qed
qed (simp add: ones_then_zeros_def)

lemma shifted_byte:
  "(wrapping_shl b (leading_zeros (NOT b)) = 0 \<or> b = 0xff) = ones_then_zeros (byte_bits b)"
  by (rule all_bytesD [of "\<lambda>b. (wrapping_shl b (leading_zeros (NOT b)) = 0 \<or> b = 0xff) =
      ones_then_zeros (byte_bits b)"])
    code_simp

lemma leading_ones_less: "b \<noteq> 0xff \<Longrightarrow> leading_zeros (NOT b) < 8"
  unfolding byte_eq_iff by (auto simp: leading_zeros_def numeral_eq_Suc less_Suc_eq bit_not_iff)

subsection \<open>Masks are prefixes\<close>

definition is_prefix_mask :: "bytes \<Rightarrow> nat \<Rightarrow> bool" where
  "is_prefix_mask msk p \<longleftrightarrow>
     p \<le> 8 * length msk \<and> bits_of msk = replicate p True @ replicate (8 * length msk - p) False"

lemma is_prefix_mask_ex: "(\<exists>p. is_prefix_mask msk p) \<longleftrightarrow> ones_then_zeros (bits_of msk)"
  by (auto simp: is_prefix_mask_def ones_then_zeros_iff)

lemma ones_then_zeros_split:
  assumes "\<forall>x \<in> set as. x" "\<not> (\<forall>x \<in> set bs. x)"
  shows "ones_then_zeros (as @ bs @ cs) \<longleftrightarrow> ones_then_zeros bs \<and> (\<forall>x \<in> set cs. \<not> x)"
  using assms by (auto simp: ones_then_zeros_def sorted_wrt_append zeros_sorted ones_sorted)

lemma is_valid_cidr_mask_eq: "is_valid_cidr_mask msk = Some (\<exists>p. is_prefix_mask msk p)"
proof (cases "position (\<lambda>b. b \<noteq> 0xff) msk")
  case None
  then have "\<forall>x \<in> set (bits_of msk). x" by (simp add: bits_of_ones list_all_iff)
  then have "ones_then_zeros (bits_of msk)" by (simp add: ones_then_zeros_def ones_sorted)
  then show ?thesis unfolding is_valid_cidr_mask_def None by (simp add: is_prefix_mask_ex)
next
  case (Some i)
  then obtain front b rest where m: "msk = front @ b # rest" "length front = i" "b \<noteq> 0xff"
    "\<forall>y \<in> set front. y = 0xff"
    by (auto simp: position_Some_iff)
  have "ones_then_zeros (bits_of msk) \<longleftrightarrow>
      ones_then_zeros (byte_bits b) \<and> (\<forall>x \<in> set (bits_of rest). \<not> x)"
    using m bits_of_ones [of front] byte_bits_ones [of b] ones_then_zeros_split
    by (simp add: list_all_iff)
  also have "\<dots> \<longleftrightarrow> wrapping_shl b (leading_zeros (NOT b)) = 0 \<and> list_all (\<lambda>b. b = 0) rest"
    using shifted_byte [of b] m(3) by (simp add: bits_of_zero)
  finally have "ones_then_zeros (bits_of msk) \<longleftrightarrow>
      wrapping_shl b (leading_zeros (NOT b)) = 0 \<and> list_all (\<lambda>b. b = 0) rest" .
  moreover have "index_at msk i = Some b" "slice_from msk (i + 1) = Some rest"
    using m(1,2) by (auto simp: index_at_def)
  ultimately show ?thesis
    using leading_ones_less [OF m(3)] unfolding is_valid_cidr_mask_def Some
    by (simp add: is_prefix_mask_ex Let_def)
qed

subsection \<open>Subnets\<close>

lemma masked_byte_eq:
  "(a AND m) = (b AND m) \<longleftrightarrow>
     list_all (\<lambda>((x, y), z). z \<longrightarrow> x = y) (zip (zip (byte_bits a) (byte_bits b)) (byte_bits m))"
proof -
  have "((x \<and> z) = (y \<and> z)) = (z \<longrightarrow> x = y)" for x y z by blast
  then show ?thesis
    unfolding byte_eq_iff [of "a AND m"] all_below_8 by (simp add: byte_bits_def bit_and_iff)
qed

lemma masked_bytes_eq:
  assumes "length as = length bs" "length bs = length ms"
  shows "(\<forall>i < length as. (as ! i AND ms ! i) = (bs ! i AND ms ! i)) \<longleftrightarrow>
     list_all (\<lambda>((x, y), z). z \<longrightarrow> x = y) (zip (zip (bits_of as) (bits_of bs)) (bits_of ms))"
  using assms
proof (induction as bs ms rule: list_induct3)
  case (Cons a as b bs m ms)
  then show ?case
    by (simp add: All_less_Suc2 masked_byte_eq)
qed simp

lemma masked_prefix_eq:
  "length xs = length ys \<Longrightarrow> p + q = length xs \<Longrightarrow>
     list_all (\<lambda>((x, y), z). z \<longrightarrow> x = y) (zip (zip xs ys) (replicate p True @ replicate q False))
     \<longleftrightarrow> take p xs = take p ys"
proof (induction xs ys arbitrary: p rule: list_induct2)
  case (Cons x xs y ys)
  show ?case
  proof (cases p)
    case 0
    have "list_all (\<lambda>((x, y), z). z \<longrightarrow> x = y) (zip us (replicate n False))" for us :: "('b \<times> 'b) list" and n
      by (auto simp: list_all_iff set_zip)
    then show ?thesis using 0 by simp
  next
    case (Suc r)
    then show ?thesis using Cons.IH [of r] Cons.prems by auto
  qed
qed simp

lemma subnet_loop_eq:
  assumes "\<forall>i \<in> set is. i < length address \<and> i < length base \<and> i < length msk"
  shows "subnet_loop address base msk is =
     Some (\<forall>i \<in> set is. (address ! i AND msk ! i) = (base ! i AND msk ! i))"
  using assms by (induction "is") (auto simp: index_at_def)

lemma address_is_in_subnet_eq:
  assumes "length base = length address" "length msk = length address"
  shows "address_is_in_subnet address (base @ msk) =
     Some (\<exists>p. is_prefix_mask msk p \<and> take p (bits_of address) = take p (bits_of base))"
proof (cases "\<exists>p. is_prefix_mask msk p")
  case True
  then obtain p where p: "is_prefix_mask msk p" by blast
  have unique: "q = p" if "is_prefix_mask msk q" for q
  proof -
    have "length (filter id (bits_of msk)) = r" if "is_prefix_mask msk r" for r
      using that by (simp add: is_prefix_mask_def)
    then show ?thesis using p that by blast
  qed
  have "(\<forall>i \<in> set [0..<length address]. (address ! i AND msk ! i) = (base ! i AND msk ! i)) \<longleftrightarrow>
      take p (bits_of address) = take p (bits_of base)"
    using masked_bytes_eq [of address base msk]
      masked_prefix_eq [of "bits_of address" "bits_of base" p "8 * length msk - p"] assms p
    by (auto simp: is_prefix_mask_def)
  moreover have "subnet_loop address base msk [0..<length address] =
      Some (\<forall>i \<in> set [0..<length address]. (address ! i AND msk ! i) = (base ! i AND msk ! i))"
    using assms by (intro subnet_loop_eq) simp
  moreover have "(\<exists>q. is_prefix_mask msk q \<and> take q (bits_of address) = take q (bits_of base)) \<longleftrightarrow>
      take p (bits_of address) = take p (bits_of base)"
    using p unique by blast
  moreover have "is_valid_cidr_mask msk = Some True" using True by (simp add: is_valid_cidr_mask_eq)
  ultimately show ?thesis
    using assms by (simp add: address_is_in_subnet_def Let_def)
next
  case False
  then have "is_valid_cidr_mask msk = Some False" by (simp add: is_valid_cidr_mask_eq)
  then show ?thesis
    using assms False by (simp add: address_is_in_subnet_def Let_def)
qed

lemma ip_address_matches_constraint_eq:
  "ip_address_matches_constraint address constraint =
     Some ((length address = 4 \<or> length address = 16) \<and>
        length constraint = 2 * length address \<and>
        (let base = take (length address) constraint; msk = drop (length address) constraint
         in \<exists>p. is_prefix_mask msk p \<and> take p (bits_of address) = take p (bits_of base)))"
proof (cases "(length address = 4 \<or> length address = 16) \<and> length constraint = 2 * length address")
  case True
  let ?b = "take (length address) constraint" and ?m = "drop (length address) constraint"
  have "ip_address_matches_constraint address constraint = address_is_in_subnet address (?b @ ?m)"
    using True by (auto simp: ip_address_matches_constraint_def)
  also have "\<dots> = Some (\<exists>p. is_prefix_mask ?m p \<and> take p (bits_of address) = take p (bits_of ?b))"
    using True by (intro address_is_in_subnet_eq) auto
  finally show ?thesis using True by (simp add: Let_def)
next
  case False
  then show ?thesis by (auto simp: ip_address_matches_constraint_def)
qed

lemma ip_address_matches_constraint_total [panic_free]:
  "ip_address_matches_constraint address constraint \<noteq> None"
  by (simp add: ip_address_matches_constraint_eq)

text \<open>
  C10. An address matches an iPAddress constraint exactly when it is an IPv4 or IPv6 address, the
  constraint is a base address followed by a mask of the same family, the mask is a CIDR mask (some
  number \<open>p\<close> of one bits followed by zero bits only, \<open>p = 0\<close> included), and address and base agree
  on their first \<open>p\<close> bits. The check never panics.
\<close>

theorem ip_constraint_cidr:
  "ip_address_matches_constraint address constraint =
     Some ((length address = 4 \<or> length address = 16) \<and>
        length constraint = 2 * length address \<and>
        (let base = take (length address) constraint; msk = drop (length address) constraint
         in \<exists>p. is_prefix_mask msk p \<and> take p (bits_of address) = take p (bits_of base)))"
  by (rule ip_address_matches_constraint_eq)

end
