(* ===== verification/Std_Net.thy ===== *)
theory Std_Net
  imports Prelude
begin

text \<open>
  The parts of the Rust standard library that the host and address code calls: UTF-8 validation
  (\<open>core::str::from_utf8\<close>), \<open>str::split_once\<close>, and the textual forms of IP addresses
  (\<open>FromStr\<close> for \<open>Ipv4Addr\<close> and \<open>Ipv6Addr\<close>). An address is the list of its octets.
\<close>

subsection \<open>UTF-8\<close>

definition utf8_cont :: "byte \<Rightarrow> bool" where
  "utf8_cont b \<longleftrightarrow> 0x80 \<le> b \<and> b \<le> 0xBF"

definition utf8_second3 :: "byte \<Rightarrow> byte \<Rightarrow> bool" where
  "utf8_second3 a b \<longleftrightarrow>
     (a = 0xE0 \<and> 0xA0 \<le> b \<and> b \<le> 0xBF) \<or> (0xE1 \<le> a \<and> a \<le> 0xEC \<and> utf8_cont b) \<or>
     (a = 0xED \<and> 0x80 \<le> b \<and> b \<le> 0x9F) \<or> (0xEE \<le> a \<and> a \<le> 0xEF \<and> utf8_cont b)"

definition utf8_second4 :: "byte \<Rightarrow> byte \<Rightarrow> bool" where
  "utf8_second4 a b \<longleftrightarrow>
     (a = 0xF0 \<and> 0x90 \<le> b \<and> b \<le> 0xBF) \<or> (0xF1 \<le> a \<and> a \<le> 0xF3 \<and> utf8_cont b) \<or>
     (a = 0xF4 \<and> 0x80 \<le> b \<and> b \<le> 0x8F)"

fun utf8_valid :: "bytes \<Rightarrow> bool" where
  "utf8_valid [] = True"
| "utf8_valid (a # rest) =
     (if a < 0x80 then utf8_valid rest
      else (case rest of
          [] \<Rightarrow> False
        | b # rest2 \<Rightarrow>
            if 0xC2 \<le> a \<and> a \<le> 0xDF then utf8_cont b \<and> utf8_valid rest2
            else (case rest2 of
                [] \<Rightarrow> False
              | c # rest3 \<Rightarrow>
                  if 0xE0 \<le> a \<and> a \<le> 0xEF then utf8_second3 a b \<and> utf8_cont c \<and> utf8_valid rest3
                  else (case rest3 of
                      [] \<Rightarrow> False
                    | d # rest4 \<Rightarrow>
                        utf8_second4 a b \<and> utf8_cont c \<and> utf8_cont d \<and> utf8_valid rest4))))"

lemma utf8_valid_ascii: "\<forall>b \<in> set bs. b < 0x80 \<Longrightarrow> utf8_valid bs"
  by (induction bs) auto

subsection \<open>Splitting\<close>

fun split_once :: "'a list \<Rightarrow> 'a list \<Rightarrow> ('a list \<times> 'a list) option" where
  "split_once pat [] = (if pat = [] then Some ([], []) else None)"
| "split_once pat (x # xs) =
     (if prefix pat (x # xs) then Some ([], drop (length pat) (x # xs))
      else map_option (\<lambda>(before, after). (x # before, after)) (split_once pat xs))"

lemma split_once_found:
  assumes "p \<notin> set before"
  shows "split_once (p # ps) (before @ (p # ps) @ after) = Some (before, after)"
  using assms by (induction before) auto

subsection \<open>IP addresses\<close>

definition digit_value :: "int \<Rightarrow> byte \<Rightarrow> int option" where
  "digit_value radix b =
     (let v = (if is_ascii_digit b then uint b - 48
               else if is_ascii_lowercase b then uint b - 87
               else if is_ascii_uppercase b then uint b - 55
               else radix)
      in if v < radix then Some v else None)"

text \<open>The digit loop of \<open>read_number\<close>: \<open>None\<close> when there are more digits than allowed.\<close>

fun read_digits :: "int \<Rightarrow> nat \<Rightarrow> int \<Rightarrow> nat \<Rightarrow> bytes \<Rightarrow> (int \<times> nat \<times> bytes) option" where
  "read_digits radix max_digits result digit_count [] = Some (result, digit_count, [])"
| "read_digits radix max_digits result digit_count (b # bs) =
     (case digit_value radix b of
        None \<Rightarrow> Some (result, digit_count, b # bs)
      | Some d \<Rightarrow>
          if digit_count + 1 > max_digits then None
          else read_digits radix max_digits (result * radix + d) (digit_count + 1) bs)"

definition read_number ::
  "int \<Rightarrow> nat \<Rightarrow> bool \<Rightarrow> int \<Rightarrow> bytes \<Rightarrow> (int \<times> bytes) option" where
  "read_number radix max_digits allow_zero_prefix max_value p =
     (let has_leading_zero = (slice_first p = Some 0x30)
      in case read_digits radix max_digits 0 0 p of
           None \<Rightarrow> None
         | Some (result, digit_count, rest) \<Rightarrow>
             if digit_count = 0 then None
             else if \<not> allow_zero_prefix \<and> has_leading_zero \<and> digit_count > 1 then None
             else if result \<le> max_value then Some (result, rest) else None)"

definition read_separator ::
  "byte \<Rightarrow> nat \<Rightarrow> (bytes \<Rightarrow> ('a \<times> bytes) option) \<Rightarrow> bytes \<Rightarrow> ('a \<times> bytes) option" where
  "read_separator sep index inner p =
     (if index > 0
      then (case p of b # rest \<Rightarrow> if b = sep then inner rest else None | [] \<Rightarrow> None)
      else inner p)"

definition read_ipv4_addr :: "bytes \<Rightarrow> (bytes \<times> bytes) option" where
  "read_ipv4_addr p = do {
     (a, p) \<leftarrow> read_separator 0x2E 0 (read_number 10 3 False 255) p;
     (b, p) \<leftarrow> read_separator 0x2E 1 (read_number 10 3 False 255) p;
     (c, p) \<leftarrow> read_separator 0x2E 2 (read_number 10 3 False 255) p;
     (d, p) \<leftarrow> read_separator 0x2E 3 (read_number 10 3 False 255) p;
     Some (map word_of_int [a, b, c, d], p) }"

definition octets_of_group :: "int \<Rightarrow> bytes" where
  "octets_of_group g = [word_of_int (g div 256), word_of_int (g mod 256)]"

text \<open>Groups read so far come as their octets; \<open>left\<close> is how many more may be read.\<close>

fun read_groups :: "nat \<Rightarrow> nat \<Rightarrow> bytes \<Rightarrow> bytes \<Rightarrow> bytes \<times> bool \<times> bytes" where
  "read_groups i 0 groups p = (groups, False, p)"
| "read_groups i (Suc left) groups p =
     (case (if left \<ge> 1 then read_separator 0x3A i read_ipv4_addr p else None) of
        Some (octets, p') \<Rightarrow> (groups @ octets, True, p')
      | None \<Rightarrow>
          (case read_separator 0x3A i (read_number 16 4 True 0xFFFF) p of
             Some (g, p') \<Rightarrow> read_groups (Suc i) left (groups @ octets_of_group g) p'
           | None \<Rightarrow> (groups, False, p)))"

definition read_ipv6_addr :: "bytes \<Rightarrow> (bytes \<times> bytes) option" where
  "read_ipv6_addr p =
     (case read_groups 0 8 [] p of
        (head, head_ipv4, p) \<Rightarrow>
          if length head = 16 then Some (head, p)
          else if head_ipv4 then None
          else
            (case p of
               c1 # c2 # p \<Rightarrow>
                 if c1 = 0x3A \<and> c2 = 0x3A
                 then (case read_groups 0 (7 - length head div 2) [] p of
                         (tail, _, p) \<Rightarrow>
                           Some (head @ replicate (16 - length head - length tail) 0 @ tail, p))
                 else None
             | _ \<Rightarrow> None))"

definition parse_ipv4 :: "bytes \<Rightarrow> bytes option" where
  "parse_ipv4 s =
     (if length s > 15 then None
      else (case read_ipv4_addr s of Some (octets, []) \<Rightarrow> Some octets | _ \<Rightarrow> None))"

definition parse_ipv6 :: "bytes \<Rightarrow> bytes option" where
  "parse_ipv6 s = (case read_ipv6_addr s of Some (octets, []) \<Rightarrow> Some octets | _ \<Rightarrow> None)"

lemma length_parse_ipv4: "parse_ipv4 s = Some a \<Longrightarrow> length a = 4"
  by (auto simp: parse_ipv4_def read_ipv4_addr_def split: if_splits option.splits list.splits
      Option.bind_splits)

lemma length_read_ipv4: "read_ipv4_addr p = Some (a, p') \<Longrightarrow> length a = 4"
  by (auto simp: read_ipv4_addr_def split: Option.bind_splits)

lemma length_read_separator_ipv4:
  "read_separator s i read_ipv4_addr p = Some (a, p') \<Longrightarrow> length a = 4"
  by (auto simp: read_separator_def dest: length_read_ipv4 split: if_splits list.splits)

lemma length_read_groups:
  "read_groups i left groups p = (g, b, p') \<Longrightarrow>
     length groups \<le> length g \<and> length g \<le> length groups + 2 * left"
proof (induction left arbitrary: i groups p)
  case (Suc left)
  show ?case
  proof (cases "if left \<ge> 1 then read_separator 0x3A i read_ipv4_addr p else None")
    case None
    show ?thesis
    proof (cases "read_separator 0x3A i (read_number 16 4 True 0xFFFF) p")
      case (Some r)
      then obtain v q where "r = (v, q)" by (cases r)
      with Some None Suc.prems
      have "read_groups (Suc i) left (groups @ octets_of_group v) q = (g, b, p')"
        by (simp del: octets_of_group_def)
      from Suc.IH [OF this] show ?thesis by (simp add: octets_of_group_def)
    qed (use None Suc.prems in simp)
  next
    case (Some r)
    then show ?thesis using Suc.prems
      by (cases r) (auto dest!: length_read_separator_ipv4 split: if_splits)
  qed
qed auto

lemma length_parse_ipv6: "parse_ipv6 s = Some a \<Longrightarrow> length a = 16"
proof -
  assume "parse_ipv6 s = Some a"
  then have "read_ipv6_addr s = Some (a, [])"
    by (auto simp: parse_ipv6_def split: option.splits list.splits prod.splits)
  then show ?thesis
    by (auto simp: read_ipv6_addr_def split: prod.splits if_splits list.splits
        dest!: length_read_groups)
qed

end
