(* ===== verification/Uri_Constraints.thy ===== *)
theory Uri_Constraints
  imports Std_Net Dns_Names
begin

text \<open>
  \<^verbatim>\<open>rfc5280/uri_constraints.rs\<close>: the host part of a URI, and when it satisfies a
  uniformResourceIdentifier constraint. The theorems say which host is extracted from a URI that is
  put together from its components, and that matching is DNS subtree matching of that host.
\<close>

definition ends_authority :: "byte \<Rightarrow> bool" where
  "ends_authority b \<longleftrightarrow> b = 0x2F \<or> b = 0x3F \<or> b = 0x23"

text \<open>
  The searches are for ASCII characters, so the indices they return are character boundaries and
  the string slices taken there cannot panic.
\<close>

definition extract_host :: "bytes \<Rightarrow> bytes option" where
  "extract_host uri =
     (if \<not> utf8_valid uri then None
      else do {
        (_, after_scheme) \<leftarrow> split_once [0x3A, 0x2F, 0x2F] uri;
        let authority_end =
          (case position ends_authority after_scheme of
             Some i \<Rightarrow> i | None \<Rightarrow> length after_scheme);
        let authority = take authority_end after_scheme;
        if authority = [] then None
        else do {
          let host_and_port =
            (case rposition (\<lambda>b. b = 0x40) authority of
               Some at_index \<Rightarrow> drop (at_index + 1) authority
             | None \<Rightarrow> authority);
          if host_and_port = [] then None
          else do {
            host \<leftarrow>
              (if slice_first host_and_port = Some 0x5B
               then map_option (\<lambda>close. take (close - 1) (drop 1 host_and_port))
                      (position (\<lambda>b. b = 0x5D) host_and_port)
               else
                 (case rposition (\<lambda>b. b = 0x3A) host_and_port of
                    Some colon_index \<Rightarrow> Some (take colon_index host_and_port)
                  | None \<Rightarrow> Some host_and_port));
            if host = [] then None else Some (lower host) } } })"

definition is_ip_address :: "bytes \<Rightarrow> bool" where
  "is_ip_address host \<longleftrightarrow> parse_ipv4 host \<noteq> None \<or> parse_ipv6 host \<noteq> None"

definition uri_name_matches_constraint :: "bytes \<Rightarrow> bytes \<Rightarrow> bool" where
  "uri_name_matches_constraint uri_name constraint =
     (case extract_host uri_name of
        None \<Rightarrow> False
      | Some host \<Rightarrow>
          if is_ip_address host then False
          else dns_name_matches_constraint host constraint)"

subsection \<open>URIs from their components\<close>

definition uri_authority :: "bytes option \<Rightarrow> bytes \<Rightarrow> bytes option \<Rightarrow> bytes" where
  "uri_authority userinfo host port =
     (case userinfo of None \<Rightarrow> [] | Some u \<Rightarrow> u @ [0x40]) @ host @
     (case port of None \<Rightarrow> [] | Some p \<Rightarrow> 0x3A # p)"

definition uri_of :: "bytes \<Rightarrow> bytes \<Rightarrow> bytes \<Rightarrow> bytes" where
  "uri_of scheme authority tail = scheme @ [0x3A, 0x2F, 0x2F] @ authority @ tail"

text \<open>Path, query and fragment: nothing, or something that starts by ending the authority.\<close>

definition uri_tail :: "bytes \<Rightarrow> bool" where
  "uri_tail t \<longleftrightarrow> t = [] \<or> ends_authority (hd t)"

definition no_delimiter :: "bytes \<Rightarrow> bool" where
  "no_delimiter bs \<longleftrightarrow> (\<forall>b \<in> set bs. \<not> ends_authority b)"

lemma no_delimiter_simps [simp]:
  "no_delimiter []" "no_delimiter (b # bs) \<longleftrightarrow> \<not> ends_authority b \<and> no_delimiter bs"
  "no_delimiter (as @ bs) \<longleftrightarrow> no_delimiter as \<and> no_delimiter bs"
  by (auto simp: no_delimiter_def)

lemma authority_end:
  assumes "no_delimiter a" "uri_tail t"
  shows "take (case position ends_authority (a @ t) of Some i \<Rightarrow> i | None \<Rightarrow> length (a @ t)) (a @ t) = a"
proof (cases t)
  case Nil
  then have "position ends_authority (a @ t) = None" using assms by (simp add: no_delimiter_def)
  then show ?thesis using Nil by (simp del: position_None_iff)
next
  case (Cons b t')
  then have "position ends_authority (a @ t) = Some (length a)"
    using assms by (simp add: no_delimiter_def uri_tail_def)
  then show ?thesis by simp
qed

text \<open>The host and port are what follows the last \<open>@\<close>.\<close>

lemma userinfo_stripped:
  assumes "0x40 \<notin> set hp"
  shows "(case rposition (\<lambda>b. b = (0x40 :: byte)) ((case u of None \<Rightarrow> [] | Some u \<Rightarrow> u @ [0x40]) @ hp) of
            Some i \<Rightarrow> drop (i + 1) ((case u of None \<Rightarrow> [] | Some u \<Rightarrow> u @ [0x40]) @ hp)
          | None \<Rightarrow> (case u of None \<Rightarrow> [] | Some u \<Rightarrow> u @ [0x40]) @ hp) = hp"
  using assms by (cases u) simp_all

lemma extract_host_uri_of:
  assumes "utf8_valid (uri_of scheme a t)" "0x3A \<notin> set scheme"
    and "no_delimiter a" "uri_tail t"
    and a: "a = (case u of None \<Rightarrow> [] | Some u \<Rightarrow> u @ [0x40]) @ hp" and hp: "0x40 \<notin> set hp" "hp \<noteq> []"
  shows "extract_host (uri_of scheme a t) =
     Option.bind (if slice_first hp = Some 0x5B
         then map_option (\<lambda>e. take (e - 1) (drop 1 hp)) (position (\<lambda>b. b = 0x5D) hp)
         else (case rposition (\<lambda>b. b = 0x3A) hp of Some i \<Rightarrow> Some (take i hp) | None \<Rightarrow> Some hp))
       (\<lambda>host. if host = [] then None else Some (lower host))"
proof -
  have parts: "split_once [0x3A, 0x2F, 0x2F] (uri_of scheme a t) = Some (scheme, a @ t)"
    unfolding uri_of_def using split_once_found [OF assms(2), of "[0x2F, 0x2F]" "a @ t"] by simp
  have "a \<noteq> []" using a hp by simp
  then show ?thesis
    unfolding extract_host_def Let_def parts Option.bind.simps prod.case authority_end [OF assms(3,4)]
      userinfo_stripped [OF hp(1), of u, folded a]
    using assms(1) hp(2) by simp
qed

lemma extract_host_name:
  assumes "utf8_valid (uri_of scheme (uri_authority userinfo host port) t)" "0x3A \<notin> set scheme"
    and "no_delimiter (uri_authority userinfo host port)" "uri_tail t"
    and host: "host \<noteq> []" "hd host \<noteq> 0x5B" "0x40 \<notin> set host" "0x3A \<notin> set host"
    and port: "case port of None \<Rightarrow> True | Some p \<Rightarrow> 0x40 \<notin> set p \<and> 0x3A \<notin> set p"
  shows "extract_host (uri_of scheme (uri_authority userinfo host port) t) = Some (lower host)"
proof -
  let ?hp = "host @ (case port of None \<Rightarrow> [] | Some p \<Rightarrow> 0x3A # p)"
  have at: "0x40 \<notin> set ?hp" "?hp \<noteq> []" using host port by (auto split: option.splits)
  have "slice_first ?hp \<noteq> Some 0x5B" using host by (cases host) auto
  moreover have "(case rposition (\<lambda>b. b = 0x3A) ?hp of Some i \<Rightarrow> Some (take i ?hp) | None \<Rightarrow> Some ?hp) =
      Some host"
    using host port by (cases port) simp_all
  ultimately show ?thesis
    using extract_host_uri_of [OF assms(1-4) uri_authority_def at] host(1) by simp
qed

lemma extract_host_bracketed:
  assumes "utf8_valid (uri_of scheme (uri_authority userinfo ([0x5B] @ host @ [0x5D]) port) t)"
    and "0x3A \<notin> set scheme"
    and "no_delimiter (uri_authority userinfo ([0x5B] @ host @ [0x5D]) port)" "uri_tail t"
    and host: "host \<noteq> []" "0x40 \<notin> set host" "0x5D \<notin> set host"
    and port: "case port of None \<Rightarrow> True | Some p \<Rightarrow> 0x40 \<notin> set p"
  shows "extract_host (uri_of scheme (uri_authority userinfo ([0x5B] @ host @ [0x5D]) port) t) =
           Some (lower host)"
proof -
  let ?hp = "([0x5B] @ host @ [0x5D]) @ (case port of None \<Rightarrow> [] | Some p \<Rightarrow> 0x3A # p)"
  have at: "0x40 \<notin> set ?hp" "?hp \<noteq> []" using host port by (auto split: option.splits)
  have "slice_first ?hp = Some 0x5B" by simp
  moreover have "position (\<lambda>b. b = 0x5D) ?hp = Some (Suc (length host))"
    using host by (simp split: option.splits)
  ultimately show ?thesis
    using extract_host_uri_of [OF assms(1-4) uri_authority_def at] host(1) by simp
qed

subsection \<open>Letter case\<close>

lemma dns_label_byte_lower:
  "dns_label_byte (to_ascii_lowercase b) = dns_label_byte b \<and>
   is_ascii_digit (to_ascii_lowercase b) = is_ascii_digit b \<and>
   (to_ascii_lowercase b = ASCII_HYPHEN) = (b = ASCII_HYPHEN) \<and>
   (to_ascii_lowercase b = ASCII_ASTERISK) = (b = ASCII_ASTERISK)"
  by (rule all_bytesD [of "\<lambda>b. dns_label_byte (to_ascii_lowercase b) = dns_label_byte b \<and>
        is_ascii_digit (to_ascii_lowercase b) = is_ascii_digit b \<and>
        (to_ascii_lowercase b = ASCII_HYPHEN) = (b = ASCII_HYPHEN) \<and>
        (to_ascii_lowercase b = ASCII_ASTERISK) = (b = ASCII_ASTERISK)"])
    code_simp

lemma to_ascii_lowercase_PERIOD [simp]: "to_ascii_lowercase b = ASCII_PERIOD \<longleftrightarrow> b = ASCII_PERIOD"
  by (simp add: ASCII_PERIOD_def)

lemma split_on_lower: "split_on ASCII_PERIOD (lower bs) = map lower (split_on ASCII_PERIOD bs)"
  by (induction bs) (auto split: list.split)

lemma effective_labels_lower: "effective_labels (lower bs) = map lower (effective_labels bs)"
  by (simp add: effective_labels_def split_on_lower last_map map_butlast Let_def)

lemma label_ok_lower: "label_ok (lower l) = label_ok l"
  by (cases "l = []")
    (simp_all add: label_ok_def lower_def list_all_iff hd_map last_map dns_label_byte_lower)

lemma labels_ok_lower: "labels_ok ic s (map lower ls) = labels_ok ic s ls"
proof -
  have "list_all is_ascii_digit (lower l) = list_all is_ascii_digit l" for l
    by (simp add: lower_def list_all_iff dns_label_byte_lower)
  then show ?thesis by (induction ls arbitrary: s) (auto simp: label_ok_lower)
qed

lemma dns_name_syntax_lower: "dns_name_syntax ic (lower n) = dns_name_syntax ic n"
proof -
  have "(\<exists>rest. lower n = ASCII_ASTERISK # ASCII_PERIOD # rest \<and> P rest) \<longleftrightarrow>
      (\<exists>rest. n = ASCII_ASTERISK # ASCII_PERIOD # rest \<and> P (lower rest))" for P
    by (cases n; cases "tl n") (auto simp: dns_label_byte_lower)
  then show ?thesis
    by (simp add: dns_name_syntax_def effective_labels_lower labels_ok_lower)
qed

lemma in_dns_subtree_lower: "in_dns_subtree (lower n) c = in_dns_subtree n c"
  by (simp add: in_dns_subtree_def effective_labels_lower comp_def)

lemma dns_name_matches_constraint_lower:
  "dns_name_matches_constraint (lower n) c = dns_name_matches_constraint n c"
proof -
  have "last (lower n) = ASCII_PERIOD \<longleftrightarrow> last n = ASCII_PERIOD" if "n \<noteq> []"
    using that by (simp add: lower_def last_map)
  then show ?thesis
    by (auto simp: dns_name_matches_constraint_iff dns_name_syntax_lower in_dns_subtree_lower)
qed

subsection \<open>Properties\<close>

text \<open>
  C16. A URI \<open>scheme://[userinfo@]host[:port]tail\<close> with a registered name as its host satisfies a
  uniformResourceIdentifier constraint exactly when the host does not read as an IP address and
  satisfies the constraint as a DNS name, whatever its letter case. The userinfo may itself contain
  \<open>@\<close> and \<open>:\<close>, so it cannot pass for the host.
\<close>

theorem uri_constraint_applies_to_host:
  assumes "utf8_valid (uri_of scheme (uri_authority userinfo host port) t)" "0x3A \<notin> set scheme"
    and "no_delimiter (uri_authority userinfo host port)" "uri_tail t"
    and "host \<noteq> []" "hd host \<noteq> 0x5B" "0x40 \<notin> set host" "0x3A \<notin> set host"
    and "case port of None \<Rightarrow> True | Some p \<Rightarrow> 0x40 \<notin> set p \<and> 0x3A \<notin> set p"
  shows "uri_name_matches_constraint (uri_of scheme (uri_authority userinfo host port) t) c \<longleftrightarrow>
     \<not> is_ip_address (lower host) \<and> dns_name_matches_constraint host c"
  using extract_host_name [OF assms]
  by (simp add: uri_name_matches_constraint_def dns_name_matches_constraint_lower)

theorem uri_constraint_applies_to_host_witness:
  "uri_name_matches_constraint (uri_of (ascii ''https'')
       (uri_authority (Some (ascii ''evil.org:x@y'')) (ascii ''Host.Example.com'') (Some (ascii ''8443'')))
       (ascii ''/a@b?c#d'')) (ascii ''.example.com'') \<longleftrightarrow>
   \<not> is_ip_address (lower (ascii ''Host.Example.com'')) \<and>
   dns_name_matches_constraint (ascii ''Host.Example.com'') (ascii ''.example.com'')"
  by (rule uri_constraint_applies_to_host; code_simp)

text \<open>
  A constraint without a leading period accepts hosts below the one it names: the constraint
  \<open>host.example.com\<close> is satisfied by a URI on \<open>my.host.example.com\<close>, although it specifies a host.
  A constraint with a leading period is not satisfied by the domain itself.
\<close>

theorem uri_host_constraint_matches_subdomain:
  "uri_name_matches_constraint (ascii ''https://my.host.example.com/'') (ascii ''host.example.com'') \<and>
   uri_name_matches_constraint (ascii ''https://my.host.example.com/'') (ascii ''.example.com'') \<and>
   \<not> uri_name_matches_constraint (ascii ''https://example.com/'') (ascii ''.example.com'') \<and>
   \<not> uri_name_matches_constraint (ascii ''https://192.0.2.1/'') (ascii '''')"
  by code_simp

end
