(* ===== verification/Name_Constraints.thy ===== *)
theory Name_Constraints
  imports Policies Dns_Names Ip_Constraints Uri_Constraints
begin

text \<open>
  \<^verbatim>\<open>rfc5280/name_constraints_policy.rs\<close>: each CA's permitted and excluded subtrees are applied to the
  subject and the alternative names of every certificate below it. The policy's contract is the
  declarative condition \<open>name_constraints_ok\<close>, which does not depend on the order in which the code
  visits names and subtrees.
\<close>

subsection \<open>The code\<close>

text \<open>\<open>OID_X509_EXT_NAME_CONSTRAINTS\<close>, 2.5.29.30.\<close>

definition name_constraints_oid :: oid where
  "name_constraints_oid = [2, 5, 29, 30]"

definition is_directory_name :: "GeneralName \<Rightarrow> bool" where
  "is_directory_name n = (case n of DirectoryName _ \<Rightarrow> True | _ \<Rightarrow> False)"

definition is_invalid_name :: "GeneralName \<Rightarrow> bool" where
  "is_invalid_name n = (case n of Invalid _ _ \<Rightarrow> True | _ \<Rightarrow> False)"

fun names_loop ::
  "certificate \<Rightarrow> GeneralName list \<Rightarrow> GeneralName list \<Rightarrow> PolicyFailureReason + GeneralName list" where
  "names_loop cert acc [] = Ok acc"
| "names_loop cert acc (name # general_names) =
     (if is_invalid_name name
      then Err (PolicyFailureReason_new
             (''unable to decode a subject alternative name from '' @ cert_debug cert))
      else names_loop cert (acc @ [name]) general_names)"

definition names :: "certificate \<Rightarrow> PolicyFailureReason + GeneralName list" where
  "names cert =
     (case tbs_subject_alternative_name cert of
        Inl error \<Rightarrow>
          Err (PolicyFailureReason_new (''unable to decode subject alternative name from '' @
                 cert_debug cert @ '': '' @ x509_error_display error))
      | Inr None \<Rightarrow> Ok [DirectoryName (tbs_subject cert)]
      | Inr (Some general_names) \<Rightarrow> names_loop cert [DirectoryName (tbs_subject cert)] general_names)"

definition constraint_kind_is_unsupported :: "GeneralName \<Rightarrow> bool" where
  "constraint_kind_is_unsupported constraint =
     (\<not> (case constraint of
           DNSName _ \<Rightarrow> True | IPAddress _ \<Rightarrow> True | URI _ \<Rightarrow> True | DirectoryName _ \<Rightarrow> True
         | _ \<Rightarrow> False))"

text \<open>
  The \<open>match (name, constraint)\<close> of both subtree checks: the inner \<open>None\<close> is \<open>continue\<close>, the outer
  one the \<open>unreachable!\<close> arm.
\<close>

definition match_name :: "GeneralName \<Rightarrow> GeneralName \<Rightarrow> bool option may_panic" where
  "match_name name constraint =
     (case (name, constraint) of
        (DNSName name_value, DNSName constraint_value) \<Rightarrow>
          Some (Some (dns_name_matches_constraint name_value constraint_value))
      | (IPAddress name_value, IPAddress constraint_value) \<Rightarrow>
          map_option Some (ip_address_matches_constraint name_value constraint_value)
      | (URI name_value, URI constraint_value) \<Rightarrow>
          Some (Some (uri_name_matches_constraint name_value constraint_value))
      | (DirectoryName _, DirectoryName _) \<Rightarrow> panic
      | _ \<Rightarrow> Some None)"

fun validate_excluded_subtrees ::
  "GeneralSubtree list \<Rightarrow> GeneralName \<Rightarrow> PolicyEvaluationResult may_panic" where
  "validate_excluded_subtrees [] name = Some (Ok ())"
| "validate_excluded_subtrees (subtree # subtrees) name =
     (let constraint = base subtree
      in if is_directory_name constraint \<and> is_directory_name name
         then Some (failure ''directoryName name constraints are not supported'')
         else if constraint_kind_is_unsupported constraint
         then Some (failure ''unable to validate excluded subtree, unsupported constraint kind'')
         else do {
           matched \<leftarrow> match_name name constraint;
           if matched = Some True then Some (failure ''name is in an excluded subtree'')
           else validate_excluded_subtrees subtrees name })"

fun permitted_loop ::
  "bool \<Rightarrow> GeneralSubtree list \<Rightarrow> GeneralName \<Rightarrow> PolicyEvaluationResult may_panic" where
  "permitted_loop evaluated_at_least_one_constraint [] name =
     (if \<not> evaluated_at_least_one_constraint then Some (Ok ())
      else Some (failure ''unable to validate permitted subtree, no matches''))"
| "permitted_loop evaluated_at_least_one_constraint (subtree # subtrees) name =
     (let constraint = base subtree
      in if is_directory_name constraint \<and> is_directory_name name
         then Some (failure ''directoryName name constraints are not supported'')
         else if constraint_kind_is_unsupported constraint
         then Some (failure ''unable to validate permitted subtree, unsupported constraint kind'')
         else do {
           matched \<leftarrow> match_name name constraint;
           case matched of
             None \<Rightarrow> permitted_loop evaluated_at_least_one_constraint subtrees name
           | Some True \<Rightarrow> Some (Ok ())
           | Some False \<Rightarrow> permitted_loop True subtrees name })"

definition validate_permitted_subtrees ::
  "GeneralSubtree list \<Rightarrow> GeneralName \<Rightarrow> PolicyEvaluationResult may_panic" where
  "validate_permitted_subtrees subtrees name = permitted_loop False subtrees name"

definition validate_name ::
  "NameConstraints \<Rightarrow> GeneralName \<Rightarrow> PolicyEvaluationResult may_panic" where
  "validate_name constraints name =
     try_ok (case permitted_subtrees constraints of
               Some permitted \<Rightarrow> validate_permitted_subtrees permitted name
             | None \<Rightarrow> Some (Ok ()))
       (\<lambda>_. case excluded_subtrees constraints of
               Some excluded \<Rightarrow> validate_excluded_subtrees excluded name
             | None \<Rightarrow> Some (Ok ()))"

definition validate_name_constraints ::
  "UnverifiedCertificateChain \<Rightarrow> certificate \<Rightarrow> nat list \<Rightarrow> PolicyEvaluationResult may_panic" where
  "validate_name_constraints chain issuer subject_indices =
     (case tbs_name_constraints issuer of
        Inl error \<Rightarrow>
          Some (failure (''unable to decode name constraints from '' @ cert_debug issuer @ '': '' @
                 x509_error_display error))
      | Inr None \<Rightarrow> Some (Ok ())
      | Inr (Some constraints) \<Rightarrow>
          for_each (\<lambda>i. do {
              cert \<leftarrow> chain_index chain i;
              try_ok (Some (names cert)) (\<lambda>ns. for_each (validate_name constraints) ns) })
            subject_indices)"

definition name_constraints_meets ::
  "UnverifiedCertificateChain \<Rightarrow> PolicyEvaluationResult may_panic" where
  "name_constraints_meets chain =
     (if chain_len chain = 1
      then do { leaf \<leftarrow> chain_leaf chain; validate_name_constraints chain leaf [0] }
      else for_each (\<lambda>issuer_index. do {
               issuer \<leftarrow> chain_index chain issuer_index;
               validate_name_constraints chain issuer [0..<issuer_index] })
             (rev [1..<chain_len chain]))"

definition NameConstraintsPolicy :: ValidationPolicy where
  "NameConstraintsPolicy =
     \<lparr>verifying_critical_extensions = [name_constraints_oid],
      chain_meets_policy_requirements = name_constraints_meets\<rparr>"

subsection \<open>What it decides\<close>

text \<open>A name and a constraint of the same one of the three comparable forms.\<close>

fun comparable :: "GeneralName \<Rightarrow> GeneralName \<Rightarrow> bool" where
  "comparable (DNSName _) (DNSName _) = True"
| "comparable (IPAddress _) (IPAddress _) = True"
| "comparable (URI _) (URI _) = True"
| "comparable _ _ = False"

fun in_subtree :: "GeneralName \<Rightarrow> GeneralName \<Rightarrow> bool" where
  "in_subtree (DNSName n) (DNSName c) = dns_name_matches_constraint n c"
| "in_subtree (IPAddress n) (IPAddress c) = (ip_address_matches_constraint n c = Some True)"
| "in_subtree (URI n) (URI c) = uri_name_matches_constraint n c"
| "in_subtree _ _ = False"

fun supported :: "GeneralName \<Rightarrow> bool" where
  "supported (DNSName _) = True"
| "supported (IPAddress _) = True"
| "supported (URI _) = True"
| "supported _ = False"

definition subtrees_of :: "GeneralSubtree list option \<Rightarrow> GeneralName set" where
  "subtrees_of sts = (case sts of None \<Rightarrow> {} | Some l \<Rightarrow> base ` set l)"

definition name_permitted :: "NameConstraints \<Rightarrow> GeneralName \<Rightarrow> bool" where
  "name_permitted nc n \<longleftrightarrow>
     (\<forall>c \<in> subtrees_of (excluded_subtrees nc). \<not> in_subtree n c) \<and>
     ((\<exists>c \<in> subtrees_of (permitted_subtrees nc). comparable n c) \<longrightarrow>
      (\<exists>c \<in> subtrees_of (permitted_subtrees nc). in_subtree n c))"

definition constraints_evaluable :: "NameConstraints \<Rightarrow> bool" where
  "constraints_evaluable nc \<longleftrightarrow>
     (\<forall>c \<in> subtrees_of (permitted_subtrees nc) \<union> subtrees_of (excluded_subtrees nc). supported c)"

text \<open>The alternative names of a certificate, where they decode completely.\<close>

definition decoded_san :: "certificate \<Rightarrow> GeneralName list option" where
  "decoded_san c =
     (case tbs_subject_alternative_name c of
        Inl _ \<Rightarrow> None
      | Inr None \<Rightarrow> Some []
      | Inr (Some ns) \<Rightarrow> if list_ex is_invalid_name ns then None else Some ns)"

definition issuer_constrains :: "certificate \<Rightarrow> certificate list \<Rightarrow> bool" where
  "issuer_constrains issuer subjects \<longleftrightarrow>
     (case tbs_name_constraints issuer of
        Inl _ \<Rightarrow> False
      | Inr None \<Rightarrow> True
      | Inr (Some nc) \<Rightarrow>
          constraints_evaluable nc \<and>
          (\<forall>s \<in> set subjects. \<exists>ns. decoded_san s = Some ns \<and> (\<forall>n \<in> set ns. name_permitted nc n)))"

definition name_constraints_ok :: "certificate list \<Rightarrow> bool" where
  "name_constraints_ok cs \<longleftrightarrow>
     (if length cs = 1 then issuer_constrains (hd cs) cs
      else \<forall>i \<in> {1..<length cs}. issuer_constrains (cs ! i) (take i cs))"

subsection \<open>One name\<close>

lemma supported_iff:
  "supported c \<longleftrightarrow> \<not> constraint_kind_is_unsupported c \<and> \<not> is_directory_name c"
  by (cases c) (simp_all add: constraint_kind_is_unsupported_def is_directory_name_def)

lemma match_name_eq:
  "\<not> (is_directory_name c \<and> is_directory_name n) \<Longrightarrow>
     match_name n c = Some (if comparable n c then Some (in_subtree n c) else None)"
  by (cases n; cases c)
    (simp_all add: match_name_def is_directory_name_def ip_address_matches_constraint_eq)

lemma in_subtree_comparable: "in_subtree n c \<Longrightarrow> comparable n c"
  by (cases n; cases c) simp_all

lemma directory_not_comparable:
  "is_directory_name n \<Longrightarrow> \<not> comparable n c" "is_directory_name n \<Longrightarrow> \<not> in_subtree n c"
  by (cases n; simp add: is_directory_name_def)+

text \<open>A constraint the policy cannot evaluate against the name at hand.\<close>

definition blocks :: "GeneralName \<Rightarrow> GeneralName \<Rightarrow> bool" where
  "blocks n c \<longleftrightarrow>
     constraint_kind_is_unsupported c \<or> (is_directory_name c \<and> is_directory_name n)"

lemma blocks_directory: "is_directory_name n \<Longrightarrow> blocks n c \<longleftrightarrow> \<not> supported c"
  by (auto simp: blocks_def supported_iff)

lemma supported_not_blocks: "supported c \<Longrightarrow> \<not> blocks n c"
  by (simp add: blocks_def supported_iff)

lemma validate_excluded_step:
  "validate_excluded_subtrees (st # sts) n =
     (if is_directory_name (base st) \<and> is_directory_name n
      then Some (failure ''directoryName name constraints are not supported'')
      else if constraint_kind_is_unsupported (base st)
      then Some (failure ''unable to validate excluded subtree, unsupported constraint kind'')
      else if in_subtree n (base st) then Some (failure ''name is in an excluded subtree'')
      else validate_excluded_subtrees sts n)"
  using in_subtree_comparable [of n "base st"] by (auto simp: match_name_eq Let_def)

lemma validate_excluded_returns: "validate_excluded_subtrees sts n \<noteq> None"
  by (induction sts) (simp_all add: validate_excluded_step del: validate_excluded_subtrees.simps(2))

lemma validate_excluded_Ok:
  "validate_excluded_subtrees sts n = Some (Inr ()) \<longleftrightarrow>
     (\<forall>st \<in> set sts. \<not> blocks n (base st) \<and> \<not> in_subtree n (base st))"
  by (induction sts)
    (auto simp: validate_excluded_step blocks_def simp del: validate_excluded_subtrees.simps(2))

lemma permitted_step:
  "permitted_loop e (st # sts) n =
     (if is_directory_name (base st) \<and> is_directory_name n
      then Some (failure ''directoryName name constraints are not supported'')
      else if constraint_kind_is_unsupported (base st)
      then Some (failure ''unable to validate permitted subtree, unsupported constraint kind'')
      else if in_subtree n (base st) then Some (Ok ())
      else permitted_loop (e \<or> comparable n (base st)) sts n)"
  using in_subtree_comparable [of n "base st"] by (auto simp: match_name_eq Let_def)

lemma permitted_returns: "permitted_loop e sts n \<noteq> None"
  by (induction sts arbitrary: e) (simp_all add: permitted_step del: permitted_loop.simps(2))

lemma permitted_Ok:
  assumes "\<forall>st \<in> set sts. \<not> blocks n (base st)"
  shows "permitted_loop e sts n = Some (Inr ()) \<longleftrightarrow>
     (e \<or> (\<exists>st \<in> set sts. comparable n (base st)) \<longrightarrow> (\<exists>st \<in> set sts. in_subtree n (base st)))"
  using assms
  by (induction sts arbitrary: e)
    (auto simp: permitted_step blocks_def simp del: permitted_loop.simps(2) dest: in_subtree_comparable)

text \<open>A name of the directory form matches nothing, so every subtree is reached.\<close>

lemma permitted_directory_Ok:
  assumes "is_directory_name n"
  shows "permitted_loop False sts n = Some (Inr ()) \<longleftrightarrow> (\<forall>st \<in> set sts. supported (base st))"
  by (induction sts)
    (auto simp: permitted_step supported_iff directory_not_comparable assms simp del: permitted_loop.simps(2))

lemma validate_name_returns: "validate_name nc n \<noteq> None"
  using validate_excluded_returns permitted_returns
  by (auto simp: validate_name_def validate_permitted_subtrees_def try_ok_None_iff split: option.splits)

lemma validate_name_directory:
  assumes "is_directory_name n"
  shows "validate_name nc n = Some (Inr ()) \<longleftrightarrow> constraints_evaluable nc"
  using permitted_directory_Ok [OF assms]
  by (auto simp: directory_not_comparable [OF assms] validate_name_def validate_permitted_subtrees_def try_ok_Ok_iff validate_excluded_Ok
      constraints_evaluable_def subtrees_of_def blocks_directory [OF assms] split: option.splits)

lemma validate_name_Ok:
  assumes "constraints_evaluable nc"
  shows "validate_name nc n = Some (Inr ()) \<longleftrightarrow> name_permitted nc n"
proof -
  have p: "permitted_loop False l n = Some (Inr ()) \<longleftrightarrow>
      ((\<exists>st \<in> set l. comparable n (base st)) \<longrightarrow> (\<exists>st \<in> set l. in_subtree n (base st)))"
    if "permitted_subtrees nc = Some l" for l
    using assms that
    by (subst permitted_Ok) (auto simp: constraints_evaluable_def subtrees_of_def supported_not_blocks)
  have x: "validate_excluded_subtrees l n = Some (Inr ()) \<longleftrightarrow> (\<forall>st \<in> set l. \<not> in_subtree n (base st))"
    if "excluded_subtrees nc = Some l" for l
    using assms that
    by (auto simp: validate_excluded_Ok constraints_evaluable_def subtrees_of_def supported_not_blocks)
  show ?thesis
    using p x
    by (auto simp: validate_name_def validate_permitted_subtrees_def try_ok_Ok_iff name_permitted_def
        subtrees_of_def split: option.splits)
qed

subsection \<open>The names of a certificate\<close>

lemma names_loop_eq:
  "names_loop c acc ns =
     (if list_ex is_invalid_name ns
      then Err (PolicyFailureReason_new
             (''unable to decode a subject alternative name from '' @ cert_debug c))
      else Ok (acc @ ns))"
  by (induction ns arbitrary: acc) auto

lemma names_Ok:
  "names c = Inr ns \<longleftrightarrow> (\<exists>san. decoded_san c = Some san \<and> ns = DirectoryName (tbs_subject c) # san)"
  by (auto simp: names_def names_loop_eq decoded_san_def split: sum.splits option.splits)

lemma validate_subject_Ok:
  "try_ok (Some (names c)) (\<lambda>ns. for_each (validate_name nc) ns) = Some (Inr ()) \<longleftrightarrow>
     constraints_evaluable nc \<and> (\<exists>ns. decoded_san c = Some ns \<and> (\<forall>n \<in> set ns. name_permitted nc n))"
proof -
  have "is_directory_name (DirectoryName (tbs_subject c))" by (simp add: is_directory_name_def)
  then show ?thesis
    using validate_name_Ok [of nc] validate_name_directory [of "DirectoryName (tbs_subject c)" nc]
    by (auto simp: try_ok_Ok_iff names_Ok for_each_Ok_iff)
qed

subsection \<open>Whole chains\<close>

lemma validate_subject_returns:
  "try_ok (Some (names c)) (\<lambda>ns. for_each (validate_name nc) ns) \<noteq> None"
  using for_each_total [of _ "validate_name nc"] validate_name_returns by (auto simp: try_ok_None_iff)

lemma validate_name_constraints_returns:
  assumes "\<forall>i \<in> set is. i < length cs"
  shows "validate_name_constraints \<lparr>uc_certificates = cs\<rparr> issuer is \<noteq> None"
proof (cases "tbs_name_constraints issuer")
  case (Inr nc)
  have "for_each (\<lambda>i. Option.bind (chain_index \<lparr>uc_certificates = cs\<rparr> i)
      (\<lambda>cert. try_ok (Some (names cert)) (\<lambda>ns. for_each (validate_name d) ns))) is \<noteq> None" for d
    using assms validate_subject_returns by (intro for_each_total) (simp add: chain_index_def)
  then show ?thesis
    using Inr by (simp add: validate_name_constraints_def split: option.split)
qed (simp add: validate_name_constraints_def)

lemma validate_name_constraints_Ok:
  assumes "is \<noteq> []" "\<forall>i \<in> set is. i < length cs"
  shows "validate_name_constraints \<lparr>uc_certificates = cs\<rparr> issuer is = Some (Inr ()) \<longleftrightarrow>
     issuer_constrains issuer (map ((!) cs) is)"
proof -
  obtain k where "k \<in> set is" using assms(1) by (cases "is") auto
  with assms(2) show ?thesis
    by (auto simp: validate_name_constraints_def issuer_constrains_def for_each_Ok_iff chain_index_def
        validate_subject_Ok split: sum.splits option.splits)
qed

lemma map_nth_upt: "i \<le> length cs \<Longrightarrow> map ((!) cs) [0..<i] = take i cs"
  by (rule nth_equalityI) simp_all

lemma name_constraints_meets_Ok:
  assumes "cs \<noteq> []"
  shows "name_constraints_meets \<lparr>uc_certificates = cs\<rparr> = Some (Inr ()) \<longleftrightarrow> name_constraints_ok cs"
proof (cases "length cs = 1")
  case True
  then show ?thesis using assms
    by (cases cs) (simp_all add: name_constraints_meets_def name_constraints_ok_def chain_len_def
        chain_leaf_def validate_name_constraints_Ok)
next
  case False
  have "validate_name_constraints \<lparr>uc_certificates = cs\<rparr> (cs ! i) [0..<i] = Some (Inr ()) \<longleftrightarrow>
      issuer_constrains (cs ! i) (take i cs)" if "i \<in> {1..<length cs}" for i
    using that by (subst validate_name_constraints_Ok) (simp_all add: map_nth_upt)
  then show ?thesis using False
    by (simp add: name_constraints_meets_def name_constraints_ok_def chain_len_def for_each_Ok_iff
        chain_index_def)
qed

interpretation name_constraints: policy_contract NameConstraintsPolicy name_constraints_ok
proof
  fix cs :: "certificate list"
  assume cs: "cs \<noteq> []"
  have "for_each (\<lambda>i. Option.bind (chain_index \<lparr>uc_certificates = cs\<rparr> i)
      (\<lambda>issuer. validate_name_constraints \<lparr>uc_certificates = cs\<rparr> issuer [0..<i]))
      (rev [1..<length cs]) \<noteq> None"
    using validate_name_constraints_returns by (intro for_each_total) (simp add: chain_index_def)
  then show "chain_meets_policy_requirements NameConstraintsPolicy \<lparr>uc_certificates = cs\<rparr> \<noteq> None"
    using cs validate_name_constraints_returns [of "[0]" cs "hd cs"]
    unfolding NameConstraintsPolicy_def name_constraints_meets_def by (simp add: chain_len_def)
  show "accepts NameConstraintsPolicy \<lparr>uc_certificates = cs\<rparr> \<longleftrightarrow> name_constraints_ok cs"
    using name_constraints_meets_Ok [OF cs] by (simp add: accepts_def NameConstraintsPolicy_def)
qed

subsection \<open>Properties\<close>

text \<open>
  C11. The name-constraints policy returns a verdict on every chain and accepts exactly the chains
  in which each issuer's nameConstraints extension decodes, names only subtrees of the three
  supported forms (any directoryName, rfc822Name or other subtree rejects the chain, whichever
  names the certificates carry), and every certificate below that issuer has a completely decoded
  subjectAltName whose names are all outside the excluded subtrees and, where a permitted subtree
  of the same form exists, inside a permitted one. A single certificate is held to its own
  constraints.
\<close>

theorem name_constraints_verdict:
  "chain_meets_policy_requirements NameConstraintsPolicy \<lparr>uc_certificates = c # cs\<rparr> \<noteq> None \<and>
   (chain_meets_policy_requirements NameConstraintsPolicy \<lparr>uc_certificates = c # cs\<rparr> = Some (Ok ())
    \<longleftrightarrow> name_constraints_ok (c # cs))"
  using name_constraints.returns [of "c # cs"] name_constraints.verdict [of "c # cs"]
  by (simp add: accepts_def)

text \<open>
  C12. A name excluded by any issuer cannot be used below it: if a certificate at position \<open>j\<close> has
  an alternative name in an excluded subtree of an issuer at a later position \<open>i\<close>, the chain is
  rejected with a reason, whatever else the chain holds.
\<close>

theorem excluded_name_rejects_chain:
  assumes "j < i" "i < length cs"
    and "tbs_name_constraints (cs ! i) = Ok (Some nc)" "excluded_subtrees nc = Some sts" "st \<in> set sts"
    and "tbs_subject_alternative_name (cs ! j) = Ok (Some ns)" "n \<in> set ns" "in_subtree n (base st)"
  shows "\<exists>reason. chain_meets_policy_requirements NameConstraintsPolicy \<lparr>uc_certificates = cs\<rparr> =
           Some (Err reason)"
proof (rule name_constraints.reject)
  show "cs \<noteq> []" using assms(2) by auto
  have "cs ! j \<in> set (take i cs)" using assms(1,2) by (auto simp: in_set_conv_nth intro!: exI [of _ j])
  moreover have "\<not> name_permitted nc n"
    using assms(4,5,8) by (auto simp: name_permitted_def subtrees_of_def)
  ultimately have "\<not> issuer_constrains (cs ! i) (take i cs)"
    using assms(3,6,7) by (force simp: issuer_constrains_def decoded_san_def split: if_splits)
  then show "\<not> name_constraints_ok cs"
    using assms(1,2) by (auto simp: name_constraints_ok_def)
qed

theorem excluded_name_rejects_chain_witness:
  "\<exists>reason. chain_meets_policy_requirements NameConstraintsPolicy
     \<lparr>uc_certificates =
       [(sample_certificate ''leaf'' ''root'')
          \<lparr>tbs_subject_alternative_name := Ok (Some [DNSName (ascii ''www.Bad.example'')])\<rparr>,
        (sample_ca ''root'' ''root'')
          \<lparr>tbs_name_constraints := Ok (Some \<lparr>permitted_subtrees = None,
             excluded_subtrees = Some [\<lparr>base = DNSName (ascii ''bad.example'')\<rparr>]\<rparr>)\<rparr>]\<rparr> =
     Some (Err reason)"
proof (rule excluded_name_rejects_chain [where j = 0 and i = 1 and
      nc = "\<lparr>permitted_subtrees = None, excluded_subtrees = Some [\<lparr>base = DNSName (ascii ''bad.example'')\<rparr>]\<rparr>" and
      st = "\<lparr>base = DNSName (ascii ''bad.example'')\<rparr>" and sts = "[\<lparr>base = DNSName (ascii ''bad.example'')\<rparr>]" and
      n = "DNSName (ascii ''www.Bad.example'')" and ns = "[DNSName (ascii ''www.Bad.example'')]"])
  show "in_subtree (DNSName (ascii ''www.Bad.example'')) (base \<lparr>base = DNSName (ascii ''bad.example'')\<rparr>)"
    by code_simp
qed (simp_all add: sample_certificate_def sample_ca_def)

end
