(* ===== verification/Eku.thy ===== *)
theory Eku
  imports Policies
begin

text \<open>
  \<^verbatim>\<open>rfc5280/eku_policy.rs\<close>: which certificates of a chain must name an accepted key purpose in their
  extendedKeyUsage extension. The policy carries the OID rendering it uses in its error text as a
  parameter, the \<open>Display\<close> of the ASN.1 crate.
\<close>

subsection \<open>The code\<close>

definition server_auth_oid :: oid where "server_auth_oid = [1, 3, 6, 1, 5, 5, 7, 3, 1]"

definition client_auth_oid :: oid where "client_auth_oid = [1, 3, 6, 1, 5, 5, 7, 3, 2]"

definition code_signing_oid :: oid where "code_signing_oid = [1, 3, 6, 1, 5, 5, 7, 3, 3]"

definition email_protection_oid :: oid where "email_protection_oid = [1, 3, 6, 1, 5, 5, 7, 3, 4]"

definition time_stamping_oid :: oid where "time_stamping_oid = [1, 3, 6, 1, 5, 5, 7, 3, 8]"

definition ocsp_signing_oid :: oid where "ocsp_signing_oid = [1, 3, 6, 1, 5, 5, 7, 3, 9]"

definition any_extended_key_usage_oid :: oid where "any_extended_key_usage_oid = [2, 5, 29, 37, 0]"

text \<open>\<open>OID_X509_EXT_EXTENDED_KEY_USAGE\<close>, 2.5.29.37.\<close>

definition extended_key_usage_oid :: oid where "extended_key_usage_oid = [2, 5, 29, 37]"

datatype CertificateRole = EndEntity | Issuers | IssuersExcludingAnchor | EntireChain

definition role_covers :: "CertificateRole \<Rightarrow> nat \<Rightarrow> nat \<Rightarrow> bool" where
  "role_covers self index len =
     (let is_end_entity = (index = 0);
          is_anchor = (index + 1 = len)
      in case self of
           EndEntity \<Rightarrow> is_end_entity
         | Issuers \<Rightarrow> \<not> is_end_entity
         | IssuersExcludingAnchor \<Rightarrow> \<not> is_end_entity \<and> \<not> is_anchor
         | EntireChain \<Rightarrow> True)"

record EkuPolicy =
  accepted_purposes :: "oid list"
  eku_role :: CertificateRole
  extension_required :: bool

definition EkuPolicy_key_purposes :: "oid list \<Rightarrow> EkuPolicy" where
  "EkuPolicy_key_purposes purposes =
     \<lparr>accepted_purposes = purposes, eku_role = EntireChain, extension_required = False\<rparr>"

definition EkuPolicy_new :: "oid \<Rightarrow> EkuPolicy" where
  "EkuPolicy_new purpose = EkuPolicy_key_purposes [purpose]"

definition EkuPolicy_server_auth :: EkuPolicy where
  "EkuPolicy_server_auth = EkuPolicy_new server_auth_oid"

definition EkuPolicy_client_auth :: EkuPolicy where
  "EkuPolicy_client_auth = EkuPolicy_new client_auth_oid"

definition applies_to :: "EkuPolicy \<Rightarrow> CertificateRole \<Rightarrow> EkuPolicy" where
  "applies_to self role = self\<lparr>eku_role := role\<rparr>"

definition require_extension :: "EkuPolicy \<Rightarrow> EkuPolicy" where
  "require_extension self = self\<lparr>extension_required := True\<rparr>"

definition eku_accepts :: "EkuPolicy \<Rightarrow> ExtendedKeyUsage \<Rightarrow> bool" where
  "eku_accepts self usage =
     (let named =
        [(eku_server_auth usage, server_auth_oid),
         (eku_client_auth usage, client_auth_oid),
         (eku_code_signing usage, code_signing_oid),
         (eku_email_protection usage, email_protection_oid),
         (eku_time_stamping usage, time_stamping_oid),
         (eku_ocsp_signing usage, ocsp_signing_oid),
         (eku_any usage, any_extended_key_usage_oid)]
      in list_ex (\<lambda>accepted.
           list_ex (\<lambda>(present, oid). present \<and> oid = accepted) named \<or>
           accepted \<in> set (eku_other usage)) (accepted_purposes self))"

definition accepted_purposes_display :: "asn1_library \<Rightarrow> EkuPolicy \<Rightarrow> string" where
  "accepted_purposes_display lib self =
     join_with '', '' (map (lib_oid_to_string lib) (accepted_purposes self))"

definition is_empty_sequence :: "bytes \<Rightarrow> bool" where
  "is_empty_sequence value \<longleftrightarrow> value = [0x30, 0x00]"

definition certificate_meets_requirement ::
  "asn1_library \<Rightarrow> EkuPolicy \<Rightarrow> certificate \<Rightarrow> PolicyEvaluationResult" where
  "certificate_meets_requirement lib self cert =
     (case ext_extended_key_usage cert of
        Inl error \<Rightarrow>
          failure (''error processing extended key usage for '' @ cert_debug cert @ '': '' @
                   x509_error_display error)
      | Inr None \<Rightarrow>
          if extension_required self
          then failure (''certificate '' @ cert_debug cert @ '' carries no extended key usage extension'')
          else Ok ()
      | Inr (Some extension) \<Rightarrow>
          if is_empty_sequence (ext_value extension)
          then failure (''certificate '' @ cert_debug cert @
                        '' has an empty extended key usage extension'')
          else
            (case tbs_extended_key_usage cert of
               Inl error \<Rightarrow>
                 failure (''error processing extended key usage for '' @ cert_debug cert @ '': '' @
                          x509_error_display error)
             | Inr None \<Rightarrow> failure (''error processing extended key usage for '' @ cert_debug cert)
             | Inr (Some usage) \<Rightarrow>
                 if eku_accepts self usage then Ok ()
                 else failure (''certificate '' @ cert_debug cert @
                               '' names none of the accepted extended key usages '' @
                               accepted_purposes_display lib self)))"

definition EkuPolicy_policy :: "asn1_library \<Rightarrow> EkuPolicy \<Rightarrow> ValidationPolicy" where
  "EkuPolicy_policy lib self =
     \<lparr>verifying_critical_extensions = [extended_key_usage_oid],
      chain_meets_policy_requirements = (\<lambda>chain.
        let len = chain_len chain
        in for_each (\<lambda>(index, cert).
             if role_covers (eku_role self) index len
             then Some (certificate_meets_requirement lib self cert)
             else Some (Ok ())) (enumerate 0 (chain_iter chain)))\<rparr>"

subsection \<open>What it decides\<close>

text \<open>The key purposes an extension names, recognised or not.\<close>

definition purposes :: "ExtendedKeyUsage \<Rightarrow> oid set" where
  "purposes u =
     (if eku_server_auth u then {server_auth_oid} else {}) \<union>
     (if eku_client_auth u then {client_auth_oid} else {}) \<union>
     (if eku_code_signing u then {code_signing_oid} else {}) \<union>
     (if eku_email_protection u then {email_protection_oid} else {}) \<union>
     (if eku_time_stamping u then {time_stamping_oid} else {}) \<union>
     (if eku_ocsp_signing u then {ocsp_signing_oid} else {}) \<union>
     (if eku_any u then {any_extended_key_usage_oid} else {}) \<union> set (eku_other u)"

definition eku_satisfied :: "EkuPolicy \<Rightarrow> certificate \<Rightarrow> bool" where
  "eku_satisfied p c \<longleftrightarrow>
     (ext_extended_key_usage c = Ok None \<and> \<not> extension_required p) \<or>
     (\<exists>ext u. ext_extended_key_usage c = Ok (Some ext) \<and> ext_value ext \<noteq> [0x30, 0x00] \<and>
        tbs_extended_key_usage c = Ok (Some u) \<and> set (accepted_purposes p) \<inter> purposes u \<noteq> {})"

fun covered :: "CertificateRole \<Rightarrow> certificate list \<Rightarrow> certificate list" where
  "covered EndEntity cs = take 1 cs"
| "covered Issuers cs = tl cs"
| "covered IssuersExcludingAnchor cs = butlast (tl cs)"
| "covered EntireChain cs = cs"

definition eku_ok :: "EkuPolicy \<Rightarrow> certificate list \<Rightarrow> bool" where
  "eku_ok p cs \<longleftrightarrow> (\<forall>c \<in> set (covered (eku_role p) cs). eku_satisfied p c)"

lemma eku_accepts_iff: "eku_accepts p u \<longleftrightarrow> set (accepted_purposes p) \<inter> purposes u \<noteq> {}"
  by (auto simp: eku_accepts_def Let_def list_ex_iff purposes_def split: if_splits)

lemma certificate_meets_requirement_Ok:
  "certificate_meets_requirement lib p c = Inr () \<longleftrightarrow> eku_satisfied p c"
  by (auto simp: certificate_meets_requirement_def eku_satisfied_def is_empty_sequence_def
      eku_accepts_iff split: sum.splits option.splits)

text \<open>The covered certificates by position.\<close>

lemma set_tl_nth: "set (tl cs) = {cs ! i |i. i < length cs \<and> i \<noteq> 0}"
proof (cases cs)
  case (Cons c ds)
  have "d \<in> set ds \<longleftrightarrow> (\<exists>i < length (c # ds). i \<noteq> 0 \<and> d = (c # ds) ! i)" for d
    by (simp add: in_set_conv_nth Ex_less_Suc2) metis
  then show ?thesis using Cons by auto
qed simp

lemma covered_nth:
  "set (covered r cs) = {cs ! i |i. i < length cs \<and> role_covers r i (length cs)}"
proof (cases r)
  case EndEntity
  then show ?thesis by (cases cs) (auto simp: role_covers_def)
next
  case Issuers
  then show ?thesis by (simp add: role_covers_def set_tl_nth)
next
  case IssuersExcludingAnchor
  have "butlast (tl cs) = tl (butlast cs)" by (cases cs) auto
  then have "set (butlast (tl cs)) = {butlast cs ! i |i. i < length (butlast cs) \<and> i \<noteq> 0}"
    by (simp add: set_tl_nth)
  also have "\<dots> = {cs ! i |i. i < length cs \<and> i \<noteq> 0 \<and> Suc i \<noteq> length cs}"
    by (rule Collect_cong, rule ex_cong1) (auto simp: nth_butlast)
  finally show ?thesis using IssuersExcludingAnchor by (simp add: role_covers_def)
next
  case EntireChain
  then show ?thesis by (auto simp: role_covers_def in_set_conv_nth)
qed

lemma ball_enumerate:
  "(\<forall>x \<in> set (enumerate 0 cs). P (fst x) (snd x)) \<longleftrightarrow> (\<forall>i < length cs. P i (cs ! i))"
proof -
  have "(i, cs ! i) \<in> set (enumerate 0 cs)" if "i < length cs" for i
    using that by (simp add: in_set_enumerate_eq)
  then show ?thesis by (fastforce simp: in_set_enumerate_eq)
qed

interpretation eku: policy_contract "EkuPolicy_policy lib p" "eku_ok p" for lib p
proof
  fix cs :: "certificate list"
  show "chain_meets_policy_requirements (EkuPolicy_policy lib p) \<lparr>uc_certificates = cs\<rparr> \<noteq> None"
    unfolding EkuPolicy_policy_def Let_def by (simp del: not_None_eq) (rule for_each_total, auto)
  show "accepts (EkuPolicy_policy lib p) \<lparr>uc_certificates = cs\<rparr> \<longleftrightarrow> eku_ok p cs"
    using ball_enumerate [of cs "\<lambda>i c. role_covers (eku_role p) i (length cs) \<longrightarrow> eku_satisfied p c"]
    by (auto simp: accepts_def EkuPolicy_policy_def Let_def for_each_Ok_iff chain_iter_def chain_len_def
        case_prod_unfold eku_ok_def covered_nth certificate_meets_requirement_Ok)
qed

subsection \<open>Properties\<close>

text \<open>
  C15. The extended-key-usage policy returns a verdict on every chain and accepts exactly the chains
  in which each certificate its role covers either has no extension, where that is tolerated, or has
  one that is not an empty sequence, decodes, and names an accepted purpose. The anchor is the last
  certificate; \<open>anyExtendedKeyUsage\<close> counts only where it is accepted by name.
\<close>

theorem eku_verdict:
  "chain_meets_policy_requirements (EkuPolicy_policy lib p) \<lparr>uc_certificates = c # cs\<rparr> \<noteq> None \<and>
   (chain_meets_policy_requirements (EkuPolicy_policy lib p) \<lparr>uc_certificates = c # cs\<rparr> = Some (Ok ())
    \<longleftrightarrow> (\<forall>d \<in> set (covered (eku_role p) (c # cs)). eku_satisfied p d))"
  using eku.returns [of "c # cs" lib p] eku.verdict [of "c # cs" lib p]
  by (simp add: accepts_def eku_ok_def)

theorem eku_verdict_witness:
  "chain_meets_policy_requirements
     (EkuPolicy_policy \<lparr>lib_oid2sn = (\<lambda>_. None), lib_to_id_string = (\<lambda>_. ''oid''),
        lib_oid_to_string = (\<lambda>_. ''oid'')\<rparr>
       (applies_to EkuPolicy_server_auth Issuers))
     \<lparr>uc_certificates = [sample_certificate ''leaf'' ''root'', sample_ca ''root'' ''root'']\<rparr> = Some (Ok ())"
proof -
  have "eku_satisfied (applies_to EkuPolicy_server_auth Issuers) (sample_ca ''root'' ''root'')"
    by (simp add: eku_satisfied_def sample_ca_def sample_certificate_def applies_to_def
        EkuPolicy_server_auth_def EkuPolicy_new_def EkuPolicy_key_purposes_def)
  then show ?thesis
    using eku_verdict [of _ "applies_to EkuPolicy_server_auth Issuers" "sample_certificate ''leaf'' ''root''"
        "[sample_ca ''root'' ''root'']"]
    by (simp add: applies_to_def)
qed

end
