(* ===== verification/Rfc5280.thy ===== *)
theory Rfc5280
  imports Rfc5280_Basic Name_Constraints Eku
begin

text \<open>
  \<^verbatim>\<open>rfc5280/mod.rs\<close>: the bundle of the version, expiry, basic-constraints and name-constraints
  policies, with keyUsage claimed as handled; and the contracts of its compositions with the
  extended-key-usage policy.
\<close>

record RFC5280Policy =
  version_policy :: ValidationPolicy
  expiry_policy :: "ExpiryPolicy option"
  basic_constraints_policy :: ValidationPolicy
  name_constraints_policy :: ValidationPolicy

definition RFC5280Policy_new :: "int \<Rightarrow> RFC5280Policy" where
  "RFC5280Policy_new now =
     \<lparr>version_policy = VersionPolicy,
      expiry_policy = Some (ExpiryPolicy_new now),
      basic_constraints_policy = BasicConstraintsPolicy,
      name_constraints_policy = NameConstraintsPolicy\<rparr>"

definition RFC5280Policy_with_validity_check_disabled :: RFC5280Policy where
  "RFC5280Policy_with_validity_check_disabled =
     \<lparr>version_policy = VersionPolicy,
      expiry_policy = None,
      basic_constraints_policy = BasicConstraintsPolicy,
      name_constraints_policy = NameConstraintsPolicy\<rparr>"

text \<open>\<open>OID_X509_EXT_KEY_USAGE\<close>, 2.5.29.15.\<close>

definition key_usage_oid :: oid where
  "key_usage_oid = [2, 5, 29, 15]"

definition RFC5280Policy_policy :: "RFC5280Policy \<Rightarrow> ValidationPolicy" where
  "RFC5280Policy_policy self =
     \<lparr>verifying_critical_extensions =
        verifying_critical_extensions (version_policy self) @
        verifying_critical_extensions (basic_constraints_policy self) @
        verifying_critical_extensions (name_constraints_policy self) @ [key_usage_oid],
      chain_meets_policy_requirements = (\<lambda>chain.
        try_ok (chain_meets_policy_requirements (version_policy self) chain) (\<lambda>_.
        try_ok (case expiry_policy self of
                  Some expiry \<Rightarrow> chain_meets_policy_requirements (ExpiryPolicy_policy expiry) chain
                | None \<Rightarrow> Some (Ok ())) (\<lambda>_.
        try_ok (chain_meets_policy_requirements (basic_constraints_policy self) chain) (\<lambda>_.
        try_ok (chain_meets_policy_requirements (name_constraints_policy self) chain) (\<lambda>_.
        Some (Ok ()))))))\<rparr>"

definition rfc5280_ok :: "certificate list \<Rightarrow> bool" where
  "rfc5280_ok cs \<longleftrightarrow> version_ok cs \<and> basic_constraints_ok cs \<and> name_constraints_ok cs"

lemma rfc5280_returns:
  assumes "cs \<noteq> []"
  shows "chain_meets_policy_requirements (RFC5280Policy_policy (RFC5280Policy_new t)) \<lparr>uc_certificates = cs\<rparr> \<noteq> None"
    and "chain_meets_policy_requirements (RFC5280Policy_policy RFC5280Policy_with_validity_check_disabled)
           \<lparr>uc_certificates = cs\<rparr> \<noteq> None"
  using version.returns [OF assms] expiry.returns [OF assms, of t] basic_constraints.returns [OF assms]
    name_constraints.returns [OF assms]
  by (simp_all add: RFC5280Policy_policy_def RFC5280Policy_new_def
      RFC5280Policy_with_validity_check_disabled_def try_ok_None_iff del: not_None_eq)

lemma rfc5280_accepts:
  assumes "cs \<noteq> []"
  shows "accepts (RFC5280Policy_policy (RFC5280Policy_new t)) \<lparr>uc_certificates = cs\<rparr> \<longleftrightarrow>
           rfc5280_ok cs \<and> expiry_ok t cs"
    and "accepts (RFC5280Policy_policy RFC5280Policy_with_validity_check_disabled)
           \<lparr>uc_certificates = cs\<rparr> \<longleftrightarrow> rfc5280_ok cs"
  using version.verdict [OF assms] expiry.verdict [OF assms, of t] basic_constraints.verdict [OF assms]
    name_constraints.verdict [OF assms]
  by (auto simp: accepts_def RFC5280Policy_policy_def RFC5280Policy_new_def rfc5280_ok_def
      RFC5280Policy_with_validity_check_disabled_def try_ok_Ok_iff)

interpretation rfc5280: policy_contract "RFC5280Policy_policy (RFC5280Policy_new t)"
    "\<lambda>cs. rfc5280_ok cs \<and> expiry_ok t cs" for t
  by unfold_locales (simp_all add: rfc5280_returns rfc5280_accepts del: not_None_eq)

interpretation rfc5280_untimed: policy_contract
    "RFC5280Policy_policy RFC5280Policy_with_validity_check_disabled" rfc5280_ok
  by unfold_locales (simp_all add: rfc5280_returns rfc5280_accepts del: not_None_eq)

text \<open>The composition the README recommends: RFC 5280 together with a key-usage requirement.\<close>

interpretation rfc5280_eku: policy_contract_pair
    "RFC5280Policy_policy (RFC5280Policy_new t)" "\<lambda>cs. rfc5280_ok cs \<and> expiry_ok t cs"
    "EkuPolicy_policy lib p" "eku_ok p" for t lib p
  by (rule policy_contract_pair.intro) (rule rfc5280.policy_contract_axioms eku.policy_contract_axioms)+

subsection \<open>Properties\<close>

text \<open>
  C13. The RFC 5280 policy returns a verdict on every chain and accepts exactly the chains that meet
  all four of its parts; it claims exactly the critical extensions basicConstraints,
  nameConstraints and keyUsage.
\<close>

theorem rfc5280_verdict:
  "chain_meets_policy_requirements (RFC5280Policy_policy (RFC5280Policy_new t)) \<lparr>uc_certificates = c # cs\<rparr> \<noteq> None \<and>
   (chain_meets_policy_requirements (RFC5280Policy_policy (RFC5280Policy_new t)) \<lparr>uc_certificates = c # cs\<rparr>
      = Some (Ok ()) \<longleftrightarrow>
    version_ok (c # cs) \<and> expiry_ok t (c # cs) \<and> basic_constraints_ok (c # cs) \<and> name_constraints_ok (c # cs)) \<and>
   (handles (RFC5280Policy_policy (RFC5280Policy_new t)) oid \<longleftrightarrow>
      oid = [2, 5, 29, 19] \<or> oid = [2, 5, 29, 30] \<or> oid = [2, 5, 29, 15])"
  using rfc5280_returns(1) [of "c # cs" t] rfc5280_accepts(1) [of "c # cs" t]
  by (auto simp: accepts_def rfc5280_ok_def handles_def RFC5280Policy_policy_def RFC5280Policy_new_def
      VersionPolicy_def BasicConstraintsPolicy_def NameConstraintsPolicy_def basic_constraints_oid_def
      name_constraints_oid_def key_usage_oid_def)

text \<open>
  The combination of the RFC 5280 policy and an extended-key-usage policy in one \<open>policy!\<close>
  block accepts exactly the chains both accept, and never panics.
\<close>

theorem rfc5280_with_eku_verdict:
  "chain_meets_policy_requirements
     (policy_macro (PlainItem (RFC5280Policy_policy (RFC5280Policy_new t))) [PlainItem (EkuPolicy_policy lib p)])
     \<lparr>uc_certificates = c # cs\<rparr> \<noteq> None \<and>
   (accepts
     (policy_macro (PlainItem (RFC5280Policy_policy (RFC5280Policy_new t))) [PlainItem (EkuPolicy_policy lib p)])
     \<lparr>uc_certificates = c # cs\<rparr> \<longleftrightarrow>
    rfc5280_ok (c # cs) \<and> expiry_ok t (c # cs) \<and> eku_ok p (c # cs))"
proof -
  note pair = rfc5280_eku.both [of t lib p]
  show ?thesis
    using policy_contract.returns [OF pair, of "c # cs"] policy_contract.verdict [OF pair, of "c # cs"]
    by (simp add: policy_single_def)
qed

end
