(* ===== verification/Server_Identity.thy ===== *)
theory Server_Identity
  imports Policies Std_Net Dns_Names
begin

text \<open>
  \<^verbatim>\<open>server_identity_policy.rs\<close>: whether the leaf certificate names the host or address the client
  connected to. Slices that could panic are kept as such, so that the theorems also show that no
  certificate and no host name makes the matching code panic.
\<close>

subsection \<open>The code\<close>

definition ASCII_IDNA_IDENTIFIER :: bytes where
  "ASCII_IDNA_IDENTIFIER = [0x78, 0x6E, 0x2D, 0x2D]"

text \<open>\<open>OID_X509_EXT_SUBJECT_ALT_NAME\<close>, 2.5.29.17.\<close>

definition subject_alt_name_oid :: oid where
  "subject_alt_name_oid = [2, 5, 29, 17]"

datatype IpAddress = IpV4 bytes | IpV6 bytes

definition IpAddress_parse :: "bytes \<Rightarrow> IpAddress option" where
  "IpAddress_parse s =
     (case parse_ipv4 s of
        Some v4 \<Rightarrow> Some (IpV4 v4)
      | None \<Rightarrow> (case parse_ipv6 s of Some v6 \<Rightarrow> Some (IpV6 v6) | None \<Rightarrow> None))"

definition from_san_bytes :: "bytes \<Rightarrow> IpAddress option" where
  "from_san_bytes bytes =
     (if length bytes = 4 then Some (IpV4 bytes)
      else if length bytes = 16 then Some (IpV6 bytes)
      else None)"

definition match_ip_address :: "IpAddress \<Rightarrow> IpAddress \<Rightarrow> bool" where
  "match_ip_address server_ip certificate_ip \<longleftrightarrow> server_ip = certificate_ip"

record PreparedServerHostname =
  psh_bytes :: bytes
  psh_first_period_index :: "nat option"

definition is_valid_dns_character :: "byte \<Rightarrow> bool" where
  "is_valid_dns_character byte \<longleftrightarrow>
     is_ascii_alphanumeric byte \<or> byte = 0x2D \<or> byte = ASCII_PERIOD"

text \<open>The loop of \<open>PreparedServerHostname::new\<close>; \<open>None\<close> is its \<open>return None\<close>.\<close>

fun prepare_loop :: "nat option \<Rightarrow> bytes \<Rightarrow> bytes \<Rightarrow> (nat option \<times> bytes) option" where
  "prepare_loop first_period_index value [] = Some (first_period_index, value)"
| "prepare_loop first_period_index value (byte # bytes) =
     (if \<not> is_valid_dns_character byte then None
      else prepare_loop
             (if first_period_index = None \<and> byte = ASCII_PERIOD then Some (length value)
              else first_period_index)
             (value @ [byte OR 0x20]) bytes)"

definition PreparedServerHostname_new :: "bytes \<Rightarrow> PreparedServerHostname option" where
  "PreparedServerHostname_new hostname =
     (case prepare_loop None [] hostname of
        None \<Rightarrow> None
      | Some (first_period_index, value) \<Rightarrow>
          let value = (if slice_last value = Some ASCII_PERIOD then butlast value else value);
              first_period_index =
                (case first_period_index of
                   Some index \<Rightarrow> if index \<ge> length value then None else Some index
                 | None \<Rightarrow> None)
          in Some \<lparr>psh_bytes = value, psh_first_period_index = first_period_index\<rparr>)"

definition split_around_index :: "bytes \<Rightarrow> nat option \<Rightarrow> (bytes \<times> bytes) may_panic" where
  "split_around_index bytes index =
     (case index of
        None \<Rightarrow> do { tail \<leftarrow> slice_from bytes (length bytes); Some (bytes, tail) }
      | Some i \<Rightarrow> do { front \<leftarrow> slice_to bytes i; tail \<leftarrow> slice_from bytes (i + 1); Some (front, tail) })"

definition case_insensitive_ascii_match :: "bytes \<Rightarrow> bytes \<Rightarrow> bool" where
  "case_insensitive_ascii_match a b =
     (if length a \<noteq> length b then False
      else list_all (\<lambda>(x, y). eq_ignore_ascii_case x y) (zip a b))"

datatype AnalysedCertificateHostname =
    SingleName bytes
  | Wildcard (wc_base_name: bytes) (wc_asterisk_index: nat) (wc_first_period_index: "nat option")

fun analyse_loop ::
  "nat \<Rightarrow> nat option \<Rightarrow> nat option \<Rightarrow> bytes \<Rightarrow> (nat option \<times> nat option) option" where
  "analyse_loop index first_period_index asterisk_index [] = Some (first_period_index, asterisk_index)"
| "analyse_loop index first_period_index asterisk_index (byte # bytes) =
     (if byte = ASCII_PERIOD \<and> first_period_index = None
      then analyse_loop (index + 1) (Some index) asterisk_index bytes
      else if is_valid_dns_character byte
      then analyse_loop (index + 1) first_period_index asterisk_index bytes
      else if byte = ASCII_ASTERISK \<and> asterisk_index = None \<and> first_period_index = None
      then analyse_loop (index + 1) first_period_index (Some index) bytes
      else None)"

definition AnalysedCertificateHostname_new :: "bytes \<Rightarrow> AnalysedCertificateHostname option may_panic" where
  "AnalysedCertificateHostname_new name =
     (let base_name = (if slice_last name = Some ASCII_PERIOD then take (length name - 1) name else name)
      in case analyse_loop 0 None None base_name of
           None \<Rightarrow> Some None
         | Some (first_period_index, asterisk_index) \<Rightarrow>
             (case asterisk_index of
                Some a \<Rightarrow> do {
                  let prefix_len = min (length base_name) 4;
                  front \<leftarrow> slice_to base_name prefix_len;
                  idna \<leftarrow> slice_to ASCII_IDNA_IDENTIFIER prefix_len;
                  if case_insensitive_ascii_match front idna then Some None
                  else Some (Some (Wildcard base_name a first_period_index)) }
              | None \<Rightarrow> Some (Some (SingleName base_name))))"

definition valid_match_for_name ::
  "AnalysedCertificateHostname \<Rightarrow> PreparedServerHostname \<Rightarrow> bool may_panic" where
  "valid_match_for_name self target =
     (case self of
        SingleName base_name \<Rightarrow> Some (case_insensitive_ascii_match base_name (psh_bytes target))
      | Wildcard base_name asterisk_index first_period_index \<Rightarrow> do {
          (wildcard_label, remaining_components) \<leftarrow> split_around_index base_name first_period_index;
          (target_first_label, target_remaining_components) \<leftarrow>
            split_around_index (psh_bytes target) (psh_first_period_index target);
          if \<not> case_insensitive_ascii_match remaining_components target_remaining_components
          then Some False
          else if length target_first_label < length wildcard_label then Some False
          else do {
            (wildcard_prefix, wildcard_suffix) \<leftarrow> split_around_index wildcard_label (Some asterisk_index);
            target_before_wildcard \<leftarrow> slice_to target_first_label (length wildcard_prefix);
            target_after_wildcard \<leftarrow>
              (if length target_first_label < length wildcard_suffix then panic
               else slice_from target_first_label (length target_first_label - length wildcard_suffix));
            Some (case_insensitive_ascii_match target_before_wildcard wildcard_prefix \<and>
                  case_insensitive_ascii_match target_after_wildcard wildcard_suffix) } })"

definition match_hostname :: "PreparedServerHostname option \<Rightarrow> bytes \<Rightarrow> bool may_panic" where
  "match_hostname server_hostname dns_name =
     (case server_hostname of
        None \<Rightarrow> Some False
      | Some hostname \<Rightarrow> do {
          analysed \<leftarrow> AnalysedCertificateHostname_new dns_name;
          case analysed of None \<Rightarrow> Some False | Some a \<Rightarrow> valid_match_for_name a hostname })"

text \<open>The loop over the alternative names: \<open>Some True\<close> is its \<open>return Ok(())\<close>.\<close>

fun san_loop ::
  "PreparedServerHostname option \<Rightarrow> IpAddress option \<Rightarrow> GeneralName list \<Rightarrow> bool may_panic" where
  "san_loop server_hostname server_ip [] = Some False"
| "san_loop server_hostname server_ip (name # names) = do {
     hit \<leftarrow>
       (case name of
          DNSName value \<Rightarrow> match_hostname server_hostname value
        | IPAddress value \<Rightarrow>
            (case (server_ip, from_san_bytes value) of
               (Some ip, Some certificate_ip) \<Rightarrow> Some (match_ip_address ip certificate_ip)
             | _ \<Rightarrow> Some False)
        | _ \<Rightarrow> Some False);
     if hit then Some True else san_loop server_hostname server_ip names }"

definition has_valid_identity_for_service ::
  "certificate \<Rightarrow> PreparedServerHostname option \<Rightarrow> IpAddress option \<Rightarrow> PolicyEvaluationResult may_panic" where
  "has_valid_identity_for_service leaf server_hostname server_ip =
     (case tbs_subject_alternative_name leaf of
        Inl error \<Rightarrow>
          Some (failure (''error parsing SAN field, cert cannot be trusted: '' @ x509_error_display error))
      | Inr san \<Rightarrow> do {
          let subject_alt_names = (case san of Some names \<Rightarrow> names | None \<Rightarrow> []);
          let checked_match = (subject_alt_names \<noteq> []);
          matched \<leftarrow> san_loop server_hostname server_ip subject_alt_names;
          if matched then Some (Ok ())
          else if checked_match then Some (failure ''none of the names in the SAN extension matched'')
          else
            (case Option.bind (slice_last (name_common_names (tbs_subject leaf))) (\<lambda>cn. cn) of
               None \<Rightarrow> Some (failure ''no SAN extension and no common name'')
             | Some common_name \<Rightarrow> do {
                 hit \<leftarrow> match_hostname server_hostname common_name;
                 if hit then Some (Ok ())
                 else Some (failure ''common name does not match expected hostname'') }) })"

record ServerIdentityPolicy =
  server_hostname :: "PreparedServerHostname option"
  server_ip :: "IpAddress option"

definition ServerIdentityPolicy_new :: "bytes option \<Rightarrow> bytes option \<Rightarrow> ServerIdentityPolicy" where
  "ServerIdentityPolicy_new hostname ip =
     \<lparr>server_hostname = Option.bind hostname PreparedServerHostname_new,
      server_ip = Option.bind ip IpAddress_parse\<rparr>"

definition ServerIdentityPolicy_policy :: "ServerIdentityPolicy \<Rightarrow> ValidationPolicy" where
  "ServerIdentityPolicy_policy self =
     \<lparr>verifying_critical_extensions = [subject_alt_name_oid],
      chain_meets_policy_requirements = (\<lambda>chain. do {
        leaf \<leftarrow> chain_leaf chain;
        has_valid_identity_for_service leaf (server_hostname self) (server_ip self) })\<rparr>"

subsection \<open>What matches\<close>

definition first_label :: "bytes \<Rightarrow> bytes" where
  "first_label n = takeWhile (\<lambda>b. b \<noteq> ASCII_PERIOD) n"

definition other_labels :: "bytes \<Rightarrow> bytes" where
  "other_labels n = drop 1 (dropWhile (\<lambda>b. b \<noteq> ASCII_PERIOD) n)"

definition dns_characters :: "bytes \<Rightarrow> bool" where
  "dns_characters bs \<longleftrightarrow> (\<forall>b \<in> set bs. is_valid_dns_character b)"

text \<open>
  A certificate name \<open>p\<close> matches the host \<open>h\<close> (trailing periods and letter case aside) when they are
  equal, or when \<open>p\<close> has one asterisk in its first label, is not an IDN A-label, the asterisk stands
  for at least one byte of the first label of \<open>h\<close>, and all further labels are equal.
\<close>

definition host_matches :: "bytes \<Rightarrow> bytes \<Rightarrow> bool" where
  "host_matches p h \<longleftrightarrow>
     dns_characters h \<and>
     (let p = strip_period p; h = lower (strip_period h)
      in (dns_characters p \<and> lower p = h) \<or>
         (\<exists>pre suf mid.
            first_label p = pre @ ASCII_ASTERISK # suf \<and>
            dns_characters pre \<and> dns_characters suf \<and> dns_characters (other_labels p) \<and>
            take 4 (lower p) \<noteq> ASCII_IDNA_IDENTIFIER \<and> mid \<noteq> [] \<and>
            first_label h = lower pre @ mid @ lower suf \<and> lower (other_labels p) = other_labels h))"

definition leaf_identity_ok :: "bytes option \<Rightarrow> bytes option \<Rightarrow> certificate \<Rightarrow> bool" where
  "leaf_identity_ok hostname ip leaf \<longleftrightarrow>
     (case tbs_subject_alternative_name leaf of
        Inl _ \<Rightarrow> False
      | Inr san \<Rightarrow>
          (case san of
             Some (n # ns) \<Rightarrow>
               (\<exists>h d. hostname = Some h \<and> DNSName d \<in> set (n # ns) \<and> host_matches d h) \<or>
               (\<exists>s a. ip = Some s \<and> IPAddress a \<in> set (n # ns) \<and>
                  (parse_ipv4 s = Some a \<or> parse_ipv4 s = None \<and> parse_ipv6 s = Some a))
           | _ \<Rightarrow>
               (\<exists>h cn. hostname = Some h \<and> name_common_names (tbs_subject leaf) \<noteq> [] \<and>
                  last (name_common_names (tbs_subject leaf)) = Some cn \<and> host_matches cn h)))"

subsection \<open>Splitting at the first period\<close>

lemma first_label_no_period: "ASCII_PERIOD \<notin> set (first_label n)"
  by (auto simp: first_label_def dest: set_takeWhileD)

lemma labels_no_period [simp]:
  "ASCII_PERIOD \<notin> set n \<Longrightarrow> first_label n = n" "ASCII_PERIOD \<notin> set n \<Longrightarrow> other_labels n = []"
proof -
  assume "ASCII_PERIOD \<notin> set n"
  then have "\<forall>b \<in> set n. b \<noteq> ASCII_PERIOD" by blast
  then have "takeWhile (\<lambda>b. b \<noteq> ASCII_PERIOD) n = n" "dropWhile (\<lambda>b. b \<noteq> ASCII_PERIOD) n = []"
    by (simp_all only: takeWhile_eq_all_conv dropWhile_eq_Nil_conv)
  then show "first_label n = n" "other_labels n = []"
    by (simp_all only: first_label_def other_labels_def drop_Nil)
qed

lemma labels_period [simp]:
  assumes "ASCII_PERIOD \<notin> set l"
  shows "first_label (l @ ASCII_PERIOD # r) = l" "other_labels (l @ ASCII_PERIOD # r) = r"
  using assms by (induction l) (auto simp: first_label_def other_labels_def)

lemma first_period_cases:
  obtains "ASCII_PERIOD \<notin> set n" "position (\<lambda>b. b = ASCII_PERIOD) n = None"
  | l r where "n = l @ ASCII_PERIOD # r" "ASCII_PERIOD \<notin> set l"
    "position (\<lambda>b. b = ASCII_PERIOD) n = Some (length l)"
proof (cases "ASCII_PERIOD \<in> set n")
  case True
  then obtain l r where "n = l @ ASCII_PERIOD # r" "ASCII_PERIOD \<notin> set l"
    by (meson split_list_first)
  then show ?thesis by (intro that(2) [of l r]) auto
qed auto

lemma split_around_first_period:
  "split_around_index n (position (\<lambda>b. b = ASCII_PERIOD) n) = Some (first_label n, other_labels n)"
  by (cases n rule: first_period_cases) (simp_all add: split_around_index_def)

lemma set_labels: "set (other_labels n) \<subseteq> set n" "set (first_label n) \<subseteq> set n"
  by (auto simp: first_label_def other_labels_def dest: set_takeWhileD set_dropWhileD in_set_dropD)

subsection \<open>Letter case\<close>

lemma or_32_lowercase:
  "is_valid_dns_character b \<longrightarrow> b OR 0x20 = to_ascii_lowercase b"
  by (rule all_bytesD [of "\<lambda>b. is_valid_dns_character b \<longrightarrow> b OR 0x20 = to_ascii_lowercase b"]) code_simp

lemma case_insensitive_ascii_match_lower: "case_insensitive_ascii_match a b \<longleftrightarrow> lower a = lower b"
proof (cases "length a = length b")
  case True
  then show ?thesis
    by (induction a b rule: list_induct2)
      (auto simp: case_insensitive_ascii_match_def eq_ignore_ascii_case_def)
next
  case False
  then show ?thesis
    by (auto simp: case_insensitive_ascii_match_def dest: arg_cong [of _ _ length])
qed

lemma lower_period [simp]:
  "to_ascii_lowercase b = ASCII_PERIOD \<longleftrightarrow> b = ASCII_PERIOD"
  "ASCII_PERIOD = to_ascii_lowercase b \<longleftrightarrow> ASCII_PERIOD = b"
  by (auto simp: ASCII_PERIOD_def dest: sym)

lemma lower_of_period [simp]: "to_ascii_lowercase ASCII_PERIOD = ASCII_PERIOD"
  by simp

lemma period_in_lower [simp]: "ASCII_PERIOD \<in> set (lower n) \<longleftrightarrow> ASCII_PERIOD \<in> set n"
  by (induction n) (auto dest: sym)

lemma strip_period_lower: "strip_period (lower n) = lower (strip_period n)"
proof (cases n rule: rev_cases)
  case (snoc ys y)
  then show ?thesis by (simp add: strip_period_def)
qed (simp add: strip_period_def)

subsection \<open>The prepared host name\<close>

lemma prepare_loop_eq:
  "prepare_loop fp v bs =
     (if dns_characters bs
      then Some (case fp of Some i \<Rightarrow> Some i
                 | None \<Rightarrow> map_option ((+) (length v)) (position (\<lambda>b. b = ASCII_PERIOD) bs),
                 v @ lower bs)
      else None)"
proof (induction bs arbitrary: fp v)
  case (Cons b bs)
  have "map_option ((+) (Suc k)) m = map_option ((+) k) (map_option Suc m)" for k and m :: "nat option"
    by (cases m) simp_all
  then show ?case
    using Cons or_32_lowercase [of b]
    by (auto simp: dns_characters_def split: option.split)
qed (simp add: dns_characters_def split: option.split)

lemma position_strip:
  "(case position (\<lambda>b. b = ASCII_PERIOD) n of
      Some i \<Rightarrow> if length (strip_period n) \<le> i then None else Some i | None \<Rightarrow> None) =
   position (\<lambda>b. b = ASCII_PERIOD) (strip_period n)"
proof (cases "slice_last n = Some ASCII_PERIOD")
  case True
  then obtain m where m: "n = m @ [ASCII_PERIOD]" by (auto simp: slice_last_eq_Some)
  then have s: "strip_period n = m" by (simp add: strip_period_def)
  show ?thesis
  proof (cases m rule: first_period_cases)
    case (2 l r)
    then have "position (\<lambda>b. b = ASCII_PERIOD) n = Some (length l)"
      using m position_eq_simps(1) [of ASCII_PERIOD l "r @ [ASCII_PERIOD]"] by simp
    then show ?thesis using 2 s by simp
  qed (use m s in simp)
next
  case False
  then have "strip_period n = n" by (simp add: strip_period_def)
  then show ?thesis by (cases n rule: first_period_cases) simp_all
qed

lemma PreparedServerHostname_new_eq:
  "PreparedServerHostname_new h =
     (if dns_characters h
      then (let v = lower (strip_period h)
            in Some \<lparr>psh_bytes = v, psh_first_period_index = position (\<lambda>b. b = ASCII_PERIOD) v\<rparr>)
      else None)"
proof -
  have "position (\<lambda>b. b = ASCII_PERIOD) h = position (\<lambda>b. b = ASCII_PERIOD) (lower h)"
    by (induction h) auto
  moreover have "map_option ((+) 0) m = m" for m :: "nat option" by (cases m) simp_all
  moreover have "(if slice_last v = Some ASCII_PERIOD then butlast v else v) = strip_period v" for v
    by (simp add: strip_period_def butlast_conv_take)
  ultimately show ?thesis
    using position_strip [of "lower h"]
    by (simp add: PreparedServerHostname_new_def prepare_loop_eq strip_period_lower Let_def)
qed

subsection \<open>The analysed certificate name\<close>

lemma asterisk_not_dns_character: "\<not> is_valid_dns_character ASCII_ASTERISK"
  by (simp add: is_valid_dns_character_def is_ascii_alphanumeric_def is_ascii_digit_def
      is_ascii_uppercase_def is_ascii_lowercase_def ascii_consts)

lemma period_dns_character: "is_valid_dns_character ASCII_PERIOD"
  by (simp add: is_valid_dns_character_def)

lemma dns_characters_simps [simp]:
  "dns_characters []" "dns_characters (b # bs) \<longleftrightarrow> is_valid_dns_character b \<and> dns_characters bs"
  "dns_characters (as @ bs) \<longleftrightarrow> dns_characters as \<and> dns_characters bs"
  by (auto simp: dns_characters_def)

lemma analyse_after_period:
  "analyse_loop i (Some k) a bs = (if dns_characters bs then Some (Some k, a) else None)"
  by (induction bs arbitrary: i) (auto simp: asterisk_not_dns_character)

lemma map_option_Suc_shift:
  "map_option ((+) (Suc i)) m = map_option ((+) i) (map_option Suc m)" for m :: "nat option"
  by (cases m) simp_all

lemma analyse_after_asterisk:
  "analyse_loop i None (Some a) bs =
     (if dns_characters bs
      then Some (map_option ((+) i) (position (\<lambda>b. b = ASCII_PERIOD) bs), Some a) else None)"
  by (induction bs arbitrary: i)
    (auto simp: analyse_after_period map_option_Suc_shift period_dns_character)

text \<open>A name with one asterisk, which comes before the first period.\<close>

definition wildcard_at :: "bytes \<Rightarrow> nat \<Rightarrow> bool" where
  "wildcard_at bs k \<longleftrightarrow>
     (\<exists>pre post. bs = pre @ ASCII_ASTERISK # post \<and> length pre = k \<and> ASCII_PERIOD \<notin> set pre \<and>
        dns_characters pre \<and> dns_characters post)"

lemma wildcard_at_Cons:
  "wildcard_at (b # bs) k \<longleftrightarrow>
     (if b = ASCII_ASTERISK then k = 0 \<and> dns_characters bs
      else \<exists>j. k = Suc j \<and> b \<noteq> ASCII_PERIOD \<and> is_valid_dns_character b \<and> wildcard_at bs j)"
proof (cases "b = ASCII_ASTERISK")
  case True
  then show ?thesis
    by (auto simp: wildcard_at_def Cons_eq_append_conv asterisk_not_dns_character)
next
  case False
  show ?thesis
  proof
    assume "wildcard_at (b # bs) k"
    then obtain pre post where w: "b # bs = pre @ ASCII_ASTERISK # post" "length pre = k"
      "ASCII_PERIOD \<notin> set pre" "dns_characters pre" "dns_characters post"
      by (auto simp: wildcard_at_def)
    then obtain pre' where "pre = b # pre'" using False by (cases pre) auto
    then show "if b = ASCII_ASTERISK then k = 0 \<and> dns_characters bs
      else \<exists>j. k = Suc j \<and> b \<noteq> ASCII_PERIOD \<and> is_valid_dns_character b \<and> wildcard_at bs j"
      using w False by (auto simp: wildcard_at_def)
  next
    assume "if b = ASCII_ASTERISK then k = 0 \<and> dns_characters bs
      else \<exists>j. k = Suc j \<and> b \<noteq> ASCII_PERIOD \<and> is_valid_dns_character b \<and> wildcard_at bs j"
    then obtain pre post where "bs = pre @ ASCII_ASTERISK # post" "k = Suc (length pre)"
      "ASCII_PERIOD \<notin> set (b # pre)" "dns_characters (b # pre)" "dns_characters post"
      using False by (auto simp: wildcard_at_def)
    then show "wildcard_at (b # bs) k"
      unfolding wildcard_at_def by (intro exI [of _ "b # pre"] exI [of _ post]) simp
  qed
qed

lemma wildcard_at_not_plain: "wildcard_at bs k \<Longrightarrow> \<not> dns_characters bs"
  by (auto simp: wildcard_at_def asterisk_not_dns_character)

lemma analyse_from_start:
  "analyse_loop i None None bs = Some (fp, ast) \<longleftrightarrow>
     fp = map_option ((+) i) (position (\<lambda>b. b = ASCII_PERIOD) bs) \<and>
     ((dns_characters bs \<and> ast = None) \<or> (\<exists>k. wildcard_at bs k \<and> ast = Some (i + k)))"
proof (induction bs arbitrary: i)
  case Nil
  then show ?case by (auto simp: wildcard_at_def)
next
  case (Cons b bs)
  have np: "ASCII_ASTERISK \<noteq> ASCII_PERIOD" by (simp add: ascii_consts)
  consider "b = ASCII_PERIOD" | "b = ASCII_ASTERISK" | "b \<noteq> ASCII_PERIOD" "b \<noteq> ASCII_ASTERISK" by blast
  then show ?case
  proof cases
    case 1
    then show ?thesis using np
      by (auto simp: analyse_after_period wildcard_at_Cons period_dns_character)
  next
    case 2
    then show ?thesis using np asterisk_not_dns_character
      by (auto simp: analyse_after_asterisk wildcard_at_Cons map_option_Suc_shift)
  next
    case 3
    then show ?thesis
      by (auto simp: Cons.IH wildcard_at_Cons option.map_comp comp_def)
  qed
qed

lemma analyse_cases:
  obtains (plain) "analyse_loop 0 None None p = Some (position (\<lambda>b. b = ASCII_PERIOD) p, None)"
    "dns_characters p"
  | (wild) k where "analyse_loop 0 None None p = Some (position (\<lambda>b. b = ASCII_PERIOD) p, Some k)"
    "wildcard_at p k"
  | (bad) "analyse_loop 0 None None p = None" "\<not> dns_characters p" "\<not> (\<exists>k. wildcard_at p k)"
proof (cases "analyse_loop 0 None None p")
  case None
  then show ?thesis
    using bad analyse_from_start [of 0 p "map_option ((+) 0) (position (\<lambda>b. b = ASCII_PERIOD) p)"] by auto
next
  case (Some r)
  then obtain fp ast where "analyse_loop 0 None None p = Some (fp, ast)" by (cases r) auto
  moreover have "map_option ((+) 0) m = m" for m :: "nat option" by (cases m) simp_all
  ultimately show ?thesis using plain wild by (auto simp: analyse_from_start)
qed

lemma wildcard_first_label:
  "wildcard_at p k \<longleftrightarrow>
     (\<exists>pre suf. first_label p = pre @ ASCII_ASTERISK # suf \<and> length pre = k \<and>
        dns_characters pre \<and> dns_characters suf \<and> dns_characters (other_labels p))"
proof (cases p rule: first_period_cases)
  case 1
  then have "pre @ ASCII_ASTERISK # suf = p \<Longrightarrow> ASCII_PERIOD \<notin> set pre" for pre suf by auto
  then show ?thesis using 1 by (auto simp: wildcard_at_def)
next
  case (2 l r)
  have "wildcard_at p k \<longleftrightarrow> (\<exists>pre suf. l = pre @ ASCII_ASTERISK # suf \<and> length pre = k \<and>
      dns_characters pre \<and> dns_characters suf \<and> dns_characters r)"
  proof
    assume "wildcard_at p k"
    then obtain pre post where w: "p = pre @ ASCII_ASTERISK # post" "length pre = k"
      "ASCII_PERIOD \<notin> set pre" "dns_characters pre" "dns_characters post"
      by (auto simp: wildcard_at_def)
    have "ASCII_PERIOD \<in> set (pre @ ASCII_ASTERISK # post)"
      using w(1) 2(1) by (metis in_set_conv_decomp)
    then have "ASCII_PERIOD \<in> set post" using w(3) by (simp add: ascii_consts)
    then obtain suf r' where post: "post = suf @ ASCII_PERIOD # r'" "ASCII_PERIOD \<notin> set suf"
      by (meson split_list_first)
    have "ASCII_PERIOD \<notin> set (pre @ ASCII_ASTERISK # suf)"
      using w(3) post(2) by (simp add: ascii_consts)
    moreover have "p = (pre @ ASCII_ASTERISK # suf) @ ASCII_PERIOD # r'" using w(1) post(1) by simp
    ultimately have "l = pre @ ASCII_ASTERISK # suf \<and> r = r'"
      using 2(1,2) labels_period by metis
    then show "\<exists>pre suf. l = pre @ ASCII_ASTERISK # suf \<and> length pre = k \<and>
      dns_characters pre \<and> dns_characters suf \<and> dns_characters r" using w post by auto
  next
    assume "\<exists>pre suf. l = pre @ ASCII_ASTERISK # suf \<and> length pre = k \<and>
      dns_characters pre \<and> dns_characters suf \<and> dns_characters r"
    then obtain pre suf where "l = pre @ ASCII_ASTERISK # suf" "length pre = k"
      "dns_characters pre" "dns_characters suf" "dns_characters r" by blast
    then show "wildcard_at p k" using 2 period_dns_character
      unfolding wildcard_at_def by (intro exI [of _ pre] exI [of _ "suf @ ASCII_PERIOD # r"]) auto
  qed
  then show ?thesis using 2 by simp
qed

subsection \<open>Matching one name\<close>

lemma lower_labels:
  "lower (first_label n) = first_label (lower n)" "lower (other_labels n) = other_labels (lower n)"
proof -
  have "lower (first_label n) = first_label (lower n) \<and> lower (other_labels n) = other_labels (lower n)"
  proof (cases n rule: first_period_cases)
    case (2 l r)
    then show ?thesis using labels_period [of "lower l" "lower r"] by simp
  qed simp
  then show "lower (first_label n) = first_label (lower n)" "lower (other_labels n) = other_labels (lower n)"
    by auto
qed

lemma not_idna_prefix:
  assumes "ASCII_ASTERISK \<in> set q"
  shows "case_insensitive_ascii_match (take (min (length q) 4) q)
           (take (min (length q) 4) ASCII_IDNA_IDENTIFIER) \<longleftrightarrow> take 4 (lower q) = ASCII_IDNA_IDENTIFIER"
proof (cases "4 \<le> length q")
  case True
  have "lower ASCII_IDNA_IDENTIFIER = ASCII_IDNA_IDENTIFIER" by code_simp
  then show ?thesis
    using True by (simp add: case_insensitive_ascii_match_lower min_def) (simp add: ASCII_IDNA_IDENTIFIER_def)
next
  case False
  have star: "ASCII_ASTERISK \<in> set (lower q)"
    using assms by (auto simp: lower_def image_iff intro!: bexI [of _ ASCII_ASTERISK])
      (simp add: to_ascii_lowercase_def is_ascii_uppercase_def ascii_consts)
  have "ASCII_ASTERISK \<notin> set (lower (take n ASCII_IDNA_IDENTIFIER))" for n
  proof -
    have "lower ASCII_IDNA_IDENTIFIER = ASCII_IDNA_IDENTIFIER" by code_simp
    moreover have "ASCII_ASTERISK \<notin> set ASCII_IDNA_IDENTIFIER"
      by (simp add: ASCII_IDNA_IDENTIFIER_def ascii_consts)
    ultimately show ?thesis by (auto dest: in_set_takeD)
  qed
  then have "lower q \<noteq> lower (take (length q) ASCII_IDNA_IDENTIFIER)" using star by metis
  moreover have "take 4 (lower q) \<noteq> ASCII_IDNA_IDENTIFIER"
    using False by (auto simp: ASCII_IDNA_IDENTIFIER_def dest: arg_cong [of _ _ length])
  ultimately show ?thesis using False by (auto simp: case_insensitive_ascii_match_lower min_def)
qed

text \<open>Prefix, suffix and a non-empty rest in between.\<close>

lemma wildcard_label_match:
  "length pre + 1 + length suf \<le> length t \<and> take (length pre) t = pre \<and>
     drop (length t - length suf) t = suf \<longleftrightarrow> (\<exists>mid. mid \<noteq> [] \<and> t = pre @ mid @ suf)"
proof
  assume l: "length pre + 1 + length suf \<le> length t \<and> take (length pre) t = pre \<and>
     drop (length t - length suf) t = suf"
  let ?mid = "drop (length pre) (take (length t - length suf) t)"
  have "t = take (length pre) (take (length t - length suf) t) @ ?mid @ drop (length t - length suf) t"
    by (metis append.assoc append_take_drop_id)
  then have "t = pre @ ?mid @ suf" using l by (simp add: min_def split: if_splits)
  moreover have "length pre < length t - length suf" using l by linarith
  then have "?mid \<noteq> []" by simp
  ultimately show "\<exists>mid. mid \<noteq> [] \<and> t = pre @ mid @ suf" by blast
next
  assume "\<exists>mid. mid \<noteq> [] \<and> t = pre @ mid @ suf"
  then obtain mid where "mid \<noteq> []" "t = pre @ mid @ suf" by blast
  then show "length pre + 1 + length suf \<le> length t \<and> take (length pre) t = pre \<and>
     drop (length t - length suf) t = suf"
    by (cases mid) simp_all
qed

lemma wildcard_match:
  assumes q: "first_label q = pre @ ASCII_ASTERISK # suf" and v: "lower v = v"
  shows "valid_match_for_name (Wildcard q (length pre) (position (\<lambda>b. b = ASCII_PERIOD) q))
      \<lparr>psh_bytes = v, psh_first_period_index = position (\<lambda>b. b = ASCII_PERIOD) v\<rparr> =
    Some (lower (other_labels q) = other_labels v \<and>
      (\<exists>mid. mid \<noteq> [] \<and> first_label v = lower pre @ mid @ lower suf))"
proof -
  let ?t = "first_label v"
  have low: "lower ?t = ?t" "lower (other_labels v) = other_labels v"
    by (simp_all add: lower_labels v)
  have split: "split_around_index (pre @ ASCII_ASTERISK # suf) (Some (length pre)) = Some (pre, suf)"
    by (simp add: split_around_index_def)
  have mid: "(\<exists>mid. mid \<noteq> [] \<and> ?t = lower pre @ mid @ lower suf) \<longleftrightarrow>
      length pre + 1 + length suf \<le> length ?t \<and> take (length pre) ?t = lower pre \<and>
      drop (length ?t - length suf) ?t = lower suf"
    using wildcard_label_match [of "lower pre" "lower suf" ?t] by simp
  show ?thesis
    unfolding mid
    by (simp add: valid_match_for_name_def split_around_first_period q split
        case_insensitive_ascii_match_lower low)
qed

lemma match_hostname_new:
  "match_hostname (PreparedServerHostname_new h) p = Some (host_matches p h)"
proof (cases "dns_characters h")
  case True
  define q where "q = strip_period p"
  define v where "v = lower (strip_period h)"
  have host: "host_matches p h \<longleftrightarrow> (dns_characters q \<and> lower q = v) \<or>
         (\<exists>pre suf mid. first_label q = pre @ ASCII_ASTERISK # suf \<and>
            dns_characters pre \<and> dns_characters suf \<and> dns_characters (other_labels q) \<and>
            take 4 (lower q) \<noteq> ASCII_IDNA_IDENTIFIER \<and> mid \<noteq> [] \<and>
            first_label v = lower pre @ mid @ lower suf \<and> lower (other_labels q) = other_labels v)"
    using True by (simp add: host_matches_def q_def v_def Let_def)
  have low: "lower v = v" by (simp add: v_def)
  have new: "PreparedServerHostname_new h =
      Some \<lparr>psh_bytes = v, psh_first_period_index = position (\<lambda>b. b = ASCII_PERIOD) v\<rparr>"
    using True by (simp add: PreparedServerHostname_new_eq v_def Let_def)
  have base: "(if slice_last p = Some ASCII_PERIOD then take (length p - 1) p else p) = q"
    by (simp add: q_def strip_period_def)
  have wild_ex: "(\<exists>k. wildcard_at q k) \<longleftrightarrow> (\<exists>pre suf. first_label q = pre @ ASCII_ASTERISK # suf \<and>
      dns_characters pre \<and> dns_characters suf \<and> dns_characters (other_labels q))"
    by (auto simp: wildcard_first_label)
  show ?thesis
  proof (cases q rule: analyse_cases)
    case plain
    then have "\<not> (\<exists>k. wildcard_at q k)" using wildcard_at_not_plain by blast
    then have "host_matches p h \<longleftrightarrow> lower q = v" using plain host wild_ex by blast
    then show ?thesis
      using plain low
      by (simp add: match_hostname_def new AnalysedCertificateHostname_new_def base
          valid_match_for_name_def case_insensitive_ascii_match_lower)
  next
    case bad
    then have "\<not> host_matches p h" using host wild_ex by blast
    then show ?thesis using bad
      by (simp add: match_hostname_def new AnalysedCertificateHostname_new_def base)
  next
    case (wild k)
    then obtain pre suf where f: "first_label q = pre @ ASCII_ASTERISK # suf" "length pre = k"
      "dns_characters pre" "dns_characters suf" "dns_characters (other_labels q)"
      by (auto simp: wildcard_first_label)
    have nostar: "ASCII_ASTERISK \<notin> set pre" "ASCII_ASTERISK \<notin> set suf"
      using f(3,4) asterisk_not_dns_character by (auto simp: dns_characters_def)
    have unique: "first_label q = pre' @ ASCII_ASTERISK # suf' \<longleftrightarrow> pre' = pre \<and> suf' = suf" for pre' suf'
      using nostar f(1) by (metis append_Cons_eq_iff)
    have "\<not> dns_characters q" using wild wildcard_at_not_plain by blast
    then have hm: "host_matches p h \<longleftrightarrow> take 4 (lower q) \<noteq> ASCII_IDNA_IDENTIFIER \<and>
        lower (other_labels q) = other_labels v \<and>
        (\<exists>mid. mid \<noteq> [] \<and> first_label v = lower pre @ mid @ lower suf)"
      using f(3-5) by (auto simp: host unique)
    have "ASCII_ASTERISK \<in> set q" using f(1) set_labels(2) [of q] by auto
    note idna = not_idna_prefix [OF this]
    show ?thesis
      using wild(1) idna wildcard_match [OF f(1) low] f(2) hm
      by (simp add: match_hostname_def new AnalysedCertificateHostname_new_def base Let_def
          ASCII_IDNA_IDENTIFIER_def)
  qed
qed (simp add: match_hostname_def PreparedServerHostname_new_eq host_matches_def)

lemma match_hostname_eq:
  "match_hostname (Option.bind hostname PreparedServerHostname_new) p =
     Some (\<exists>h. hostname = Some h \<and> host_matches p h)"
  by (cases hostname) (simp_all add: match_hostname_new, simp add: match_hostname_def)

subsection \<open>The leaf\<close>

definition name_hit :: "bytes option \<Rightarrow> bytes option \<Rightarrow> GeneralName \<Rightarrow> bool" where
  "name_hit hostname ip n \<longleftrightarrow>
     (\<exists>h d. hostname = Some h \<and> n = DNSName d \<and> host_matches d h) \<or>
     (\<exists>s a. ip = Some s \<and> n = IPAddress a \<and>
        (parse_ipv4 s = Some a \<or> parse_ipv4 s = None \<and> parse_ipv6 s = Some a))"

lemma ip_match_eq:
  "(case (IpAddress_parse s, from_san_bytes a) of
      (Some i, Some j) \<Rightarrow> Some (match_ip_address i j) | _ \<Rightarrow> Some False) =
   Some (parse_ipv4 s = Some a \<or> parse_ipv4 s = None \<and> parse_ipv6 s = Some a)"
  using length_parse_ipv4 [of s] length_parse_ipv6 [of s]
  by (auto simp: IpAddress_parse_def from_san_bytes_def match_ip_address_def split: option.split)

lemma san_loop_eq:
  "san_loop (Option.bind hostname PreparedServerHostname_new) (Option.bind ip IpAddress_parse) ns =
     Some (\<exists>n \<in> set ns. name_hit hostname ip n)"
proof (induction ns)
  case (Cons n ns)
  have "(case n of
          DNSName value \<Rightarrow> match_hostname (Option.bind hostname PreparedServerHostname_new) value
        | IPAddress value \<Rightarrow>
            (case (Option.bind ip IpAddress_parse, from_san_bytes value) of
               (Some ip, Some certificate_ip) \<Rightarrow> Some (match_ip_address ip certificate_ip)
             | _ \<Rightarrow> Some False)
        | _ \<Rightarrow> Some False) = Some (name_hit hostname ip n)"
    by (cases n; cases ip)
      (simp_all add: match_hostname_eq name_hit_def ip_match_eq [unfolded prod.case])
  then show ?case using Cons.IH by simp
qed simp

lemma has_valid_identity_eq:
  "has_valid_identity_for_service leaf (Option.bind hostname PreparedServerHostname_new)
     (Option.bind ip IpAddress_parse) \<noteq> None \<and>
   (has_valid_identity_for_service leaf (Option.bind hostname PreparedServerHostname_new)
     (Option.bind ip IpAddress_parse) = Some (Inr ()) \<longleftrightarrow> leaf_identity_ok hostname ip leaf)"
proof (cases "tbs_subject_alternative_name leaf")
  case (Inl e)
  then show ?thesis by (simp add: has_valid_identity_for_service_def leaf_identity_ok_def)
next
  case (Inr san)
  show ?thesis
  proof (cases "san = None \<or> san = Some []")
    case True
    then show ?thesis using Inr
      by (cases "slice_last (name_common_names (tbs_subject leaf))")
        (auto simp: has_valid_identity_for_service_def leaf_identity_ok_def match_hostname_eq
          slice_last_def Let_def split: option.splits if_splits)
  next
    case False
    then obtain n ns where san: "san = Some (n # ns)" by (cases san; cases "the san") auto
    have hit: "(\<exists>m \<in> set (n # ns). name_hit hostname ip m) \<longleftrightarrow> leaf_identity_ok hostname ip leaf"
      unfolding leaf_identity_ok_def Inr san sum.case option.case list.case name_hit_def by blast
    then show ?thesis
      using san_loop_eq [of hostname ip "n # ns"]
      unfolding has_valid_identity_for_service_def Inr san sum.case option.case Let_def
      by (simp del: san_loop.simps)
  qed
qed

interpretation server_identity: policy_contract
    "ServerIdentityPolicy_policy (ServerIdentityPolicy_new hostname ip)"
    "\<lambda>cs. leaf_identity_ok hostname ip (hd cs)" for hostname ip
proof
  fix cs :: "certificate list"
  assume cs: "cs \<noteq> []"
  show "chain_meets_policy_requirements
      (ServerIdentityPolicy_policy (ServerIdentityPolicy_new hostname ip)) \<lparr>uc_certificates = cs\<rparr> \<noteq> None"
    "accepts (ServerIdentityPolicy_policy (ServerIdentityPolicy_new hostname ip)) \<lparr>uc_certificates = cs\<rparr>
      \<longleftrightarrow> leaf_identity_ok hostname ip (hd cs)"
    using has_valid_identity_eq [of "hd cs" hostname ip] cs
    by (simp_all add: accepts_def ServerIdentityPolicy_policy_def ServerIdentityPolicy_new_def)
qed

subsection \<open>Properties\<close>

text \<open>
  C7. Matching a certificate's DNS name against the host a client asked for never panics, whatever
  the two byte strings are, and answers exactly \<open>host_matches\<close>: equality up to letter case and one
  trailing period, or a single asterisk in the first label (never of an IDN A-label) standing for at
  least one byte of the host's first label, with all further labels equal.
\<close>

theorem hostname_match_spec:
  "match_hostname (PreparedServerHostname_new h) p = Some (host_matches p h)"
  by (rule match_hostname_new)

text \<open>
  C8. The server-identity policy never panics and accepts a chain exactly when the leaf's
  subjectAltName decodes and, if it has entries, one of them matches the host name or equals the
  address, and otherwise the last common name is readable and matches the host name. Any entry at
  all rules out the common name, and the common name is never compared with an address.
\<close>

theorem server_identity_verdict:
  "chain_meets_policy_requirements
     (ServerIdentityPolicy_policy (ServerIdentityPolicy_new hostname ip)) \<lparr>uc_certificates = c # cs\<rparr> \<noteq> None \<and>
   (chain_meets_policy_requirements
     (ServerIdentityPolicy_policy (ServerIdentityPolicy_new hostname ip)) \<lparr>uc_certificates = c # cs\<rparr>
      = Some (Ok ()) \<longleftrightarrow>
    (case tbs_subject_alternative_name c of
       Inl _ \<Rightarrow> False
     | Inr san \<Rightarrow>
         (case san of
            Some (n # ns) \<Rightarrow>
              (\<exists>h d. hostname = Some h \<and> DNSName d \<in> set (n # ns) \<and> host_matches d h) \<or>
              (\<exists>s a. ip = Some s \<and> IPAddress a \<in> set (n # ns) \<and>
                 (parse_ipv4 s = Some a \<or> parse_ipv4 s = None \<and> parse_ipv6 s = Some a))
          | _ \<Rightarrow>
              (\<exists>h cn. hostname = Some h \<and> name_common_names (tbs_subject c) \<noteq> [] \<and>
                 last (name_common_names (tbs_subject c)) = Some cn \<and> host_matches cn h))))"
  using server_identity.returns [of "c # cs" hostname ip] server_identity.verdict [of "c # cs" hostname ip]
  by (simp only: accepts_def leaf_identity_ok_def list.sel) simp

text \<open>
  An alternative name that cannot be matched at all, here an e-mail address, still keeps the
  matching common name from being used, although a comment in the code describes the fallback as
  applying when there are no alternative names to validate against.
\<close>

theorem unmatchable_san_suppresses_common_name:
  "chain_meets_policy_requirements
     (ServerIdentityPolicy_policy (ServerIdentityPolicy_new (Some (ascii ''host.example'')) None))
     \<lparr>uc_certificates = [(sample_certificate ''host.example'' ''root'')
        \<lparr>tbs_subject_alternative_name := Ok (Some [RFC822Name (ascii ''a@host.example'')])\<rparr>]\<rparr>
     = Some (failure ''none of the names in the SAN extension matched'') \<and>
   chain_meets_policy_requirements
     (ServerIdentityPolicy_policy (ServerIdentityPolicy_new (Some (ascii ''host.example'')) None))
     \<lparr>uc_certificates = [sample_certificate ''host.example'' ''root'']\<rparr> = Some (Ok ())"
  by code_simp

end
