(* ===== verification/Tls_Validation.thy ===== *)
theory Tls_Validation
  imports Validator_Properties Rfc5280 Server_Identity
begin

text \<open>
  The components put together the way a TLS client uses them: the validator with the RFC 5280,
  server-identity and extended-key-usage policies in one \<open>policy!\<close> block, on each of the three
  backends. The interpretations discharge the validator's contract with the policies' and the
  backends' own theorems.
\<close>

definition tls_policy ::
  "int \<Rightarrow> bytes option \<Rightarrow> bytes option \<Rightarrow> asn1_library \<Rightarrow> EkuPolicy \<Rightarrow> ValidationPolicy" where
  "tls_policy now hostname ip lib eku =
     policy_macro (PlainItem (RFC5280Policy_policy (RFC5280Policy_new now)))
       [PlainItem (ServerIdentityPolicy_policy (ServerIdentityPolicy_new hostname ip)),
        PlainItem (EkuPolicy_policy lib eku)]"

definition tls_ok ::
  "int \<Rightarrow> bytes option \<Rightarrow> bytes option \<Rightarrow> EkuPolicy \<Rightarrow> certificate list \<Rightarrow> bool" where
  "tls_ok now hostname ip eku cs \<longleftrightarrow>
     rfc5280_ok cs \<and> expiry_ok now cs \<and> leaf_identity_ok hostname ip (hd cs) \<and> eku_ok eku cs"

interpretation identity_eku: policy_contract_pair
    "ServerIdentityPolicy_policy (ServerIdentityPolicy_new hostname ip)"
    "\<lambda>cs. leaf_identity_ok hostname ip (hd cs)" "EkuPolicy_policy lib p" "eku_ok p" for hostname ip lib p
  by (rule policy_contract_pair.intro)
    (rule server_identity.policy_contract_axioms eku.policy_contract_axioms)+

interpretation rfc5280_identity_eku: policy_contract_pair
    "RFC5280Policy_policy (RFC5280Policy_new t)" "\<lambda>cs. rfc5280_ok cs \<and> expiry_ok t cs"
    "Tuple2 (ServerIdentityPolicy_policy (ServerIdentityPolicy_new hostname ip)) (EkuPolicy_policy lib p)"
    "\<lambda>cs. leaf_identity_ok hostname ip (hd cs) \<and> eku_ok p cs" for t hostname ip lib p
  by (rule policy_contract_pair.intro) (rule rfc5280.policy_contract_axioms identity_eku.both)+

lemma tls_policy_eq:
  "tls_policy t hostname ip lib p =
     Tuple2 (RFC5280Policy_policy (RFC5280Policy_new t))
       (Tuple2 (ServerIdentityPolicy_policy (ServerIdentityPolicy_new hostname ip)) (EkuPolicy_policy lib p))"
  by (simp add: tls_policy_def policy_single_def)

interpretation tls: policy_contract "tls_policy t hostname ip lib p" "tls_ok t hostname ip p"
  for t hostname ip lib p
proof -
  have "tls_ok t hostname ip p =
      (\<lambda>cs. (rfc5280_ok cs \<and> expiry_ok t cs) \<and> leaf_identity_ok hostname ip (hd cs) \<and> eku_ok p cs)"
    by (rule ext) (simp add: tls_ok_def)
  then show "policy_contract (tls_policy t hostname ip lib p) (tls_ok t hostname ip p)"
    using rfc5280_identity_eku.both [of t hostname ip lib p] by (simp only: tls_policy_eq)
qed

interpretation tls_on_aws_lc: validator_contract
    "Validator_with_policy_and_backend roots (tls_policy t hostname ip lib p) (AwsLc krate lib)"
  for roots t hostname ip lib p krate
  by unfold_locales (simp_all add: Validator_with_policy_and_backend_def aws_lc_backend.verify_returns tls.total
      del: not_None_eq)

interpretation tls_on_ring: validator_contract
    "Validator_with_policy_and_backend roots (tls_policy t hostname ip lib p) (Ring krate lib)"
  for roots t hostname ip lib p krate
  by unfold_locales (simp_all add: Validator_with_policy_and_backend_def ring_backend.verify_returns tls.total
      del: not_None_eq)

interpretation tls_on_rust_crypto: validator_contract
    "Validator_with_policy_and_backend roots (tls_policy t hostname ip lib p) (RustCrypto rc lib)"
  for roots t hostname ip lib p rc
  by unfold_locales (simp_all add: Validator_with_policy_and_backend_def rust_crypto_backend.verify_returns
      tls.total del: not_None_eq)

lemma success_iff_tls:
  assumes "validator_contract V" "validator_policy V = tls_policy t hostname ip lib p"
  shows "(\<exists>v. validate V leaf ints = Some (Ok v)) \<longleftrightarrow>
    handled_critical V leaf \<and> (\<exists>cs. trust_path V ints leaf cs \<and> tls_ok t hostname ip p cs)"
proof -
  have "accepts (validator_policy V) \<lparr>uc_certificates = cs\<rparr> \<longleftrightarrow> tls_ok t hostname ip p cs" if "trust_path V ints leaf cs" for cs
    using tls.verdict [of cs] trust_path_not_Nil [OF that] assms(2) by simp
  then show ?thesis using success_iff [OF assms(1), of leaf ints] by blast
qed

subsection \<open>Properties\<close>

text \<open>
  C6. End to end: with the RFC 5280, server-identity and key-usage policies and any of the three
  backends, validation always returns, and it succeeds exactly when the leaf has no critical
  extension outside basicConstraints, nameConstraints, keyUsage, subjectAltName and
  extendedKeyUsage, and there is a path of trust from the leaf to a root whose certificates meet all
  three policies.
\<close>

theorem tls_validation:
  "let backend = (if b = 0 then AwsLc aws_lc_rs lib else if b = (1 :: nat) then Ring ring_krate lib
         else RustCrypto rc lib);
       V = Validator_with_policy_and_backend roots (tls_policy t hostname ip lib p) backend
   in validate V leaf ints \<noteq> None \<and>
      ((\<exists>v. validate V leaf ints = Some (Ok v)) \<longleftrightarrow>
       \<not> list_ex (\<lambda>ext. ext_critical ext \<and>
            ext_oid ext \<notin> {[2, 5, 29, 19], [2, 5, 29, 30], [2, 5, 29, 15], [2, 5, 29, 17], [2, 5, 29, 37]})
          (tbs_extensions leaf) \<and>
       (\<exists>cs. trust_path V ints leaf cs \<and> rfc5280_ok cs \<and> expiry_ok t cs \<and>
          leaf_identity_ok hostname ip (hd cs) \<and> eku_ok p cs))"
proof -
  let ?backend = "if b = 0 then AwsLc aws_lc_rs lib else if b = 1 then Ring ring_krate lib else RustCrypto rc lib"
  let ?V = "Validator_with_policy_and_backend roots (tls_policy t hostname ip lib p) ?backend"
  have c: "validator_contract ?V"
    using tls_on_aws_lc.validator_contract_axioms tls_on_ring.validator_contract_axioms
      tls_on_rust_crypto.validator_contract_axioms by simp
  have pol: "validator_policy ?V = tls_policy t hostname ip lib p"
    by (simp add: Validator_with_policy_and_backend_def)
  have "handles (tls_policy t hostname ip lib p) oid \<longleftrightarrow>
      oid \<in> {[2, 5, 29, 19], [2, 5, 29, 30], [2, 5, 29, 15], [2, 5, 29, 17], [2, 5, 29, 37]}" for oid
    by (auto simp: tls_policy_eq handles_def Tuple2_def RFC5280Policy_policy_def RFC5280Policy_new_def
        VersionPolicy_def BasicConstraintsPolicy_def NameConstraintsPolicy_def ServerIdentityPolicy_policy_def
        EkuPolicy_policy_def basic_constraints_oid_def name_constraints_oid_def key_usage_oid_def
        subject_alt_name_oid_def extended_key_usage_oid_def)
  then have h: "handled_critical ?V leaf \<longleftrightarrow> \<not> list_ex (\<lambda>ext. ext_critical ext \<and>
      ext_oid ext \<notin> {[2, 5, 29, 19], [2, 5, 29, 30], [2, 5, 29, 15], [2, 5, 29, 17], [2, 5, 29, 37]})
      (tbs_extensions leaf)"
    by (auto simp: handled_critical_def pol list_ex_iff)
  have "validate ?V leaf ints \<noteq> None"
    using validator_contract.returns_inner [OF c] by (fastforce simp: validate_def)
  then show ?thesis
    using success_iff_tls [OF c pol, of leaf ints] h by (simp add: Let_def tls_ok_def)
qed

text \<open>
  C17. On the ring backend, with stores built from certificates, every link of a returned chain is
  by name and by signature: each certificate's issuer is the next one's subject, and ring's primitive
  for the selected algorithm accepted its signature under the next one's key.
\<close>

theorem ring_links_verified:
  assumes "validate (Validator_with_policy_and_backend (store_from_iter rs) policy (Ring krate lib)) leaf
      (store_from_iter is) = Some (Ok v)"
    and "Suc i < length (vc_certificates v)"
  shows "issuer_key (vc_certificates v ! i) = subject_key (vc_certificates v ! Suc i) \<and>
    (\<exists>alg. verification_algorithm (cert_signature_algorithm (vc_certificates v ! i))
         (tbs_subject_pki (vc_certificates v ! Suc i)) = Some alg \<and>
       unparsed_public_key_verify krate (crate_name alg)
         (spki_subject_public_key (tbs_subject_pki (vc_certificates v ! Suc i)))
         (tbs_raw (vc_certificates v ! i)) (cert_signature_value (vc_certificates v ! i)))"
proof -
  note link = trust_path_link [OF validate_Ok_path(2) [OF assms(1)] assms(2)]
  have "issuer_key (vc_certificates v ! i) = subject_key (vc_certificates v ! Suc i)"
    using link by (auto simp: Validator_with_policy_and_backend_def find_by_subject_from_iter)
  moreover have "Ring krate lib (cert_signature_algorithm (vc_certificates v ! i))
      (tbs_subject_pki (vc_certificates v ! Suc i)) (tbs_raw (vc_certificates v ! i))
      (cert_signature_value (vc_certificates v ! i)) = Some (Ok ())"
    using link by (simp add: signed_by_def Validator_with_policy_and_backend_def)
  ultimately show ?thesis using ring_backend.verify_Ok_iff by blast
qed

definition sample_ring :: signature_verifier where
  "sample_ring = Ring \<lparr>unparsed_public_key_verify = (\<lambda>_ _ _ _. True)\<rparr>
     \<lparr>lib_oid2sn = Map.empty, lib_to_id_string = (\<lambda>_. []), lib_oid_to_string = (\<lambda>_. [])\<rparr>"

lemma sample_ring_Ok:
  "sample_ring (cert_signature_algorithm sample_leaf) k m s = Some (Ok ())"
  by (simp add: sample_ring_def ring_backend.verify_Ok_iff verification_algorithm_def oid_defs
      sample_leaf_def sample_certificate_def sample_algorithm_def ecdsa_sha512_def)

lemma sample_ring_result:
  "\<exists>v. validate (Validator_with_policy_and_backend (store_from_iter [sample_root]) (WrappedOptional None) sample_ring)
      sample_leaf (store_from_iter []) = Some (Ok v) \<and> Suc 0 < length (vc_certificates v)"
proof -
  let ?V = "Validator_with_policy_and_backend (store_from_iter [sample_root]) (WrappedOptional None) sample_ring"
  have "validator_contract ?V"
    by unfold_locales (auto simp: Validator_with_policy_and_backend_def sample_ring_def
        ring_backend.verify_returns intro: panic_free simp del: not_None_eq)
  then show ?thesis
    by (rule sample_chain_found)
      (simp_all add: Validator_with_policy_and_backend_def signed_by_def sample_ring_Ok)
qed

theorem ring_links_verified_witness:
  "\<exists>v. validate (Validator_with_policy_and_backend (store_from_iter [sample_root]) (WrappedOptional None) sample_ring)
      sample_leaf (store_from_iter []) = Some (Ok v) \<and>
    issuer_key (vc_certificates v ! 0) = subject_key (vc_certificates v ! Suc 0)"
  using sample_ring_result ring_links_verified unfolding sample_ring_def by blast

end
