(* ===== verification/Fuzz_Targets.thy ===== *)
theory Fuzz_Targets
  imports Validator_Correct Rfc5280 Server_Identity
begin

text \<open>
  \<^verbatim>\<open>fuzz/fuzzers\<close>: the harnesses that feed arbitrary bytes to the crate, and the framing that cuts one
  input into several fields. A harness finds a bug by panicking, so each is a computation of type
  \<open>unit may_panic\<close>, and what the fuzzers search for is stated and refuted: no input makes any of them
  panic, whatever the certificate parser returns. The parser is a parameter, as in \<open>parse\<close>.
\<close>

subsection \<open>Framing\<close>

definition split_at_checked :: "'a list \<Rightarrow> nat \<Rightarrow> ('a list \<times> 'a list) option" where
  "split_at_checked xs n = (if n \<le> length xs then Some (take n xs, drop n xs) else None)"

definition u16_from_be_bytes :: "byte \<Rightarrow> byte \<Rightarrow> 16 word" where
  "u16_from_be_bytes hi lo = ucast hi * 256 + ucast lo"

function frames_loop :: "nat \<Rightarrow> bytes \<Rightarrow> bytes list \<Rightarrow> bytes list" where
  "frames_loop max_frames rest out =
     (if length out < max_frames then
        (case split_at_checked rest 2 of
           None \<Rightarrow> out
         | Some (len_bytes, body) \<Rightarrow>
             (let len = unat (u16_from_be_bytes (len_bytes ! 0) (len_bytes ! 1))
              in case split_at_checked body len of
                   Some (frame, remainder) \<Rightarrow> frames_loop max_frames remainder (out @ [frame])
                 | None \<Rightarrow> out @ [body]))
      else out)"
  by pat_completeness auto
termination
  by (relation "measure (\<lambda>(m, rest, out). length rest)")
    (auto simp: split_at_checked_def split: if_splits)

declare frames_loop.simps [simp del]

definition frames :: "bytes \<Rightarrow> nat \<Rightarrow> bytes list" where
  "frames data max_frames = frames_loop max_frames data []"

subsection \<open>The harnesses\<close>

type_synonym der_parser = "bytes \<Rightarrow> nom_err + bytes \<times> certificate"

definition parse_ok :: "der_parser \<Rightarrow> x509_error \<Rightarrow> bytes \<Rightarrow> certificate option" where
  "parse_ok from_der invalid der = (case parse from_der invalid der of Inr c \<Rightarrow> Some c | Inl _ \<Rightarrow> None)"

definition name_constraints_target :: "der_parser \<Rightarrow> x509_error \<Rightarrow> bytes \<Rightarrow> unit may_panic" where
  "name_constraints_target from_der invalid data =
     (let certs = List.map_filter (parse_ok from_der invalid) (frames data 6)
      in if certs = [] then Some ()
         else do {
           chain \<leftarrow> UnverifiedCertificateChain_new certs;
           _ \<leftarrow> chain_meets_policy_requirements NameConstraintsPolicy chain;
           Some () })"

definition server_identity_target :: "der_parser \<Rightarrow> x509_error \<Rightarrow> bytes \<Rightarrow> unit may_panic" where
  "server_identity_target from_der invalid data =
     (case frames data 3 of
        [cert_der, hostname, ip] \<Rightarrow>
          (case parse from_der invalid cert_der of
             Inl _ \<Rightarrow> Some ()
           | Inr cert \<Rightarrow>
               if \<not> (utf8_valid hostname \<and> utf8_valid ip) then Some ()
               else do {
                 let policy = ServerIdentityPolicy_policy (ServerIdentityPolicy_new (Some hostname) (Some ip));
                 chain \<leftarrow> UnverifiedCertificateChain_new [cert];
                 _ \<leftarrow> chain_meets_policy_requirements policy chain;
                 Some () })
      | _ \<Rightarrow> Some ())"

definition VALIDATION_TIME :: int where "VALIDATION_TIME = 1760000000"

definition validate_chain_validator :: "CertificateStore \<Rightarrow> Validator" where
  "validate_chain_validator roots =
     Validator_with_policy_and_backend roots (RFC5280Policy_policy (RFC5280Policy_new VALIDATION_TIME))
       fuzzing_provider"

definition validate_chain_target :: "der_parser \<Rightarrow> x509_error \<Rightarrow> bytes \<Rightarrow> unit may_panic" where
  "validate_chain_target from_der invalid data =
     (case frames data 8 of
        [] \<Rightarrow> Some ()
      | leaf_der # rest \<Rightarrow>
          (case parse from_der invalid leaf_der of
             Inl _ \<Rightarrow> Some ()
           | Inr leaf \<Rightarrow> do {
               let parsed = List.map_filter (parse_ok from_der invalid) rest;
               let roots = store_from_iter parsed;
               let intermediates = store_from_iter parsed;
               _ \<leftarrow> validate_with_diagnostics (validate_chain_validator roots) leaf intermediates;
               Some () }))"

text \<open>The accessors cannot panic: they are total functions of the parsed certificate.\<close>

definition parse_certificate_target ::
  "asn1_library \<Rightarrow> der_parser \<Rightarrow> x509_error \<Rightarrow> bytes \<Rightarrow> unit may_panic" where
  "parse_certificate_target lib from_der invalid data =
     (case parse from_der invalid data of
        Inl _ \<Rightarrow> Some ()
      | Inr cert \<Rightarrow> do {
          let _ = subject_key_identifier cert;
          let _ = authority_key_identifier cert;
          let _ = subject_key cert;
          let _ = issuer_key cert;
          let _ = subject_alternative_names cert;
          let _ = tbs_subject_pki cert;
          let _ = map ext_parsed (tbs_extensions cert);
          let _ = format_certificate lib cert;
          again \<leftarrow> (case parse from_der invalid data of Inr c \<Rightarrow> Some c | Inl _ \<Rightarrow> panic);
          if has_same_identity_as cert again then Some () else panic })"

subsection \<open>What framing does\<close>

lemma unat_u16_from_be_bytes: "unat (u16_from_be_bytes hi lo) = unat hi * 256 + unat lo"
proof -
  have "unat hi \<le> 255" "unat lo \<le> 255"
    using unsigned_less [of hi, where 'a = nat] unsigned_less [of lo, where 'a = nat] by simp_all
  then show ?thesis
    by (simp add: u16_from_be_bytes_def unat_word_ariths unsigned_ucast_eq take_bit_nat_eq_self)
qed

text \<open>The encoding the framing reads: a big-endian 16-bit length and the bytes of the field.\<close>

definition encode_frame :: "bytes \<Rightarrow> bytes" where
  "encode_frame f = word_of_nat (length f div 256) # word_of_nat (length f) # f"

lemma frame_length_bytes:
  assumes "n < 65536"
  shows "unat (u16_from_be_bytes (word_of_nat (n div 256)) (word_of_nat n)) = n"
  using assms by (simp add: unat_u16_from_be_bytes unat_of_nat)

lemma frames_loop_encoded:
  "list_all (\<lambda>f. length f < 65536) fs \<Longrightarrow>
     frames_loop m (concat (map encode_frame fs)) out = out @ take (m - length out) fs"
proof (induction fs arbitrary: out)
  case Nil
  then show ?case by (simp add: frames_loop.simps [of m "[]"] split_at_checked_def)
next
  case (Cons f fs)
  let ?rest = "concat (map encode_frame (f # fs))"
  show ?case
  proof (cases "length out < m")
    case True
    have "frames_loop m ?rest out = frames_loop m (concat (map encode_frame fs)) (out @ [f])"
      using True Cons.prems
      by (subst frames_loop.simps) (simp add: split_at_checked_def encode_frame_def frame_length_bytes)
    moreover have "m - length out = Suc (m - Suc (length out))" using True by simp
    ultimately show ?thesis using Cons by simp
  next
    case False
    then show ?thesis by (subst frames_loop.simps) simp
  qed
qed

lemma frames_loop_bounds:
  "\<exists>new. frames_loop m rest out = out @ new \<and> (new \<noteq> [] \<longrightarrow> length out + length new \<le> m) \<and>
     sum_list (map length new) + 2 * length new \<le> length rest \<and> list_all (\<lambda>f. sublist f rest) new"
proof (induction m rest out rule: frames_loop.induct)
  case (1 m rest out)
  show ?case
  proof (cases "length out < m \<and> 2 \<le> length rest")
    case False
    then have "frames_loop m rest out = out"
      by (subst frames_loop.simps) (auto simp: split_at_checked_def)
    then show ?thesis by simp
  next
    case True
    let ?body = "drop 2 rest"
    let ?len = "unat (u16_from_be_bytes (take 2 rest ! 0) (take 2 rest ! 1))"
    have split: "split_at_checked rest 2 = Some (take 2 rest, ?body)"
      using True by (simp add: split_at_checked_def)
    have "sublist (drop k xs) xs" for k and xs :: bytes by (rule suffix_imp_sublist) (rule suffix_drop)
    then have body: "sublist ?body rest" and rest: "sublist (drop ?len ?body) rest"
      by (auto intro: sublist_order.order.trans)
    show ?thesis
    proof (cases "?len \<le> length ?body")
      case False
      then have "frames_loop m rest out = out @ [?body]"
        using True by (subst frames_loop.simps) (simp add: split split_at_checked_def [of ?body])
      then show ?thesis using True body by (intro exI [of _ "[?body]"]) auto
    next
      case len: True
      have "frames_loop m rest out = frames_loop m (drop ?len ?body) (out @ [take ?len ?body])"
        using True len by (subst frames_loop.simps) (simp add: split split_at_checked_def [of ?body])
      moreover obtain new where
        new: "frames_loop m (drop ?len ?body) (out @ [take ?len ?body]) = (out @ [take ?len ?body]) @ new"
        "new \<noteq> [] \<longrightarrow> length (out @ [take ?len ?body]) + length new \<le> m"
        "sum_list (map length new) + 2 * length new \<le> length (drop ?len ?body)"
        "list_all (\<lambda>f. sublist f (drop ?len ?body)) new"
        using "1.IH" [OF conjunct1 [OF True] split refl refl _ refl, of "take ?len ?body" "drop ?len ?body"] len
        by (auto simp: split_at_checked_def)
      moreover have "sublist (take ?len ?body) rest"
        using body by (meson prefix_imp_sublist sublist_order.order.trans take_is_prefix)
      moreover have "list_all (\<lambda>f. sublist f rest) new"
        using new(4) rest by (auto simp: list_all_iff intro: sublist_order.order.trans)
      ultimately show ?thesis
        using True len by (intro exI [of _ "take ?len ?body # new"]) (cases new; auto)
    qed
  qed
qed

subsection \<open>The harnesses return\<close>

interpretation fuzzed: validator_contract "validate_chain_validator roots" for roots
  by unfold_locales
    (simp_all add: validate_chain_validator_def Validator_with_policy_and_backend_def fuzzing_provider_def
      rfc5280.total)

lemma validate_chain_target_returns: "validate_chain_target from_der invalid data = Some ()"
proof -
  have "\<exists>x. validate_with_diagnostics (validate_chain_validator roots) leaf ints = Some x" for roots leaf ints
    using fuzzed.returns_inner [of roots leaf ints "Some []"] by (auto simp: validate_with_diagnostics_def)
  then show ?thesis
    by (auto simp: validate_chain_target_def Let_def split: list.splits sum.splits Option.bind_splits)
      (metis option.distinct(1))
qed

lemma new_chain_returns: "cs \<noteq> [] \<Longrightarrow> UnverifiedCertificateChain_new cs = Some \<lparr>uc_certificates = cs\<rparr>"
  by (simp add: UnverifiedCertificateChain_new_def)

lemma name_constraints_target_returns: "name_constraints_target from_der invalid data = Some ()"
proof -
  let ?certs = "List.map_filter (parse_ok from_der invalid) (frames data 6)"
  show ?thesis
  proof (cases "?certs = []")
    case False
    then obtain r where "chain_meets_policy_requirements NameConstraintsPolicy \<lparr>uc_certificates = ?certs\<rparr> = Some r"
      using name_constraints.returns by blast
    then show ?thesis using False by (simp add: name_constraints_target_def new_chain_returns)
  qed (simp add: name_constraints_target_def)
qed

lemma server_identity_target_returns: "server_identity_target from_der invalid data = Some ()"
proof -
  have "\<exists>r. chain_meets_policy_requirements (ServerIdentityPolicy_policy (ServerIdentityPolicy_new h i))
      \<lparr>uc_certificates = [c]\<rparr> = Some r" for h i c
    using server_identity.returns [of "[c]" h i] by blast
  then show ?thesis
    by (auto simp: server_identity_target_def new_chain_returns Let_def
        split: list.splits sum.splits Option.bind_splits)
      (metis option.distinct(1))
qed

lemma parse_certificate_target_returns: "parse_certificate_target lib from_der invalid data = Some ()"
  by (simp add: parse_certificate_target_def has_same_identity_as_def split: sum.splits)

subsection \<open>Properties\<close>

text \<open>
  C21. No input makes a fuzzing harness panic, whatever the certificate parser returns for the
  framed fields: not chain building over an attacker's certificates used as roots and intermediates
  alike, not the name-constraints and server-identity policies on arbitrary names, and not the
  re-parsing check, whose assertion that the identity is stable always holds.
\<close>

theorem fuzz_targets_never_panic:
  "validate_chain_target from_der invalid data = Some () \<and>
   name_constraints_target from_der invalid data = Some () \<and>
   server_identity_target from_der invalid data = Some () \<and>
   parse_certificate_target lib from_der invalid data = Some ()"
  by (simp add: validate_chain_target_returns name_constraints_target_returns
      server_identity_target_returns parse_certificate_target_returns)

text \<open>
  Framing is total and bounded: at most the requested number of frames, each a contiguous part of
  the input, which is long enough for all of them and their length prefixes.
\<close>

theorem frames_are_slices:
  "length (frames data n) \<le> n \<and>
   sum_list (map length (frames data n)) + 2 * length (frames data n) \<le> length data \<and>
   list_all (\<lambda>f. sublist f data) (frames data n)"
proof -
  obtain new where "frames data n = new" "new \<noteq> [] \<longrightarrow> length new \<le> n"
    "sum_list (map length new) + 2 * length new \<le> length data" "list_all (\<lambda>f. sublist f data) new"
    using frames_loop_bounds [of n data "[]"] by (auto simp: frames_def)
  then show ?thesis by (cases new) auto
qed

text \<open>
  Framing reads back what was framed: fields of fewer than 65536 bytes, each written after its
  length in two big-endian bytes, come back unchanged, up to the number of frames asked for.
\<close>

theorem frames_roundtrip:
  assumes "list_all (\<lambda>f. length f < 65536) fs"
  shows "frames (concat (map encode_frame fs)) n = take n fs"
  using frames_loop_encoded [OF assms, of n "[]"] by (simp add: frames_def)

theorem frames_roundtrip_witness:
  "frames (encode_frame (ascii ''abc'') @ encode_frame [] @ encode_frame (ascii ''host'')) 2 = [ascii ''abc'', []]"
  using frames_roundtrip [of "[ascii ''abc'', [], ascii ''host'']" 2] by (simp add: ascii_def)

end
