(* ===== verification/Openssl_Backend.thy ===== *)
theory Openssl_Backend
  imports Validator_Correct Rfc5280
begin

text \<open>
  \<^verbatim>\<open>examples/custom_crypto_backend.rs\<close>: a \<open>SignatureVerifier\<close> over the OpenSSL bindings, the crate's
  documented way of plugging in a library it does not know. The bindings are the fields of the record
  \<open>openssl\<close>, about which nothing is assumed.
\<close>

subsection \<open>The code\<close>

text \<open>The operations of the bindings; an error is its \<open>Display\<close> text.\<close>

record ('key, 'verifier) openssl =
  ssl_public_key_from_der :: "bytes \<Rightarrow> string + 'key"
  ssl_verifier_new :: "digest \<Rightarrow> 'key \<Rightarrow> string + 'verifier"
  ssl_verifier_new_without_digest :: "'key \<Rightarrow> string + 'verifier"
  ssl_set_rsa_padding_pss :: "'verifier \<Rightarrow> string + 'verifier"
  ssl_set_rsa_pss_saltlen_digest :: "'verifier \<Rightarrow> string + 'verifier"
  ssl_verify_oneshot :: "'verifier \<Rightarrow> bytes \<Rightarrow> bytes \<Rightarrow> string + bool"

definition signature_scheme ::
  "asn1_library \<Rightarrow> AlgorithmIdentifier \<Rightarrow> CryptoError + digest option \<times> bool" where
  "signature_scheme lib algorithm =
     (let oid = alg_algorithm algorithm
      in if oid = OID_PKCS1_SHA256WITHRSA \<or> oid = OID_SIG_ECDSA_WITH_SHA256 then Ok (Some Sha256, False)
         else if oid = OID_PKCS1_SHA384WITHRSA \<or> oid = OID_SIG_ECDSA_WITH_SHA384 then Ok (Some Sha384, False)
         else if oid = OID_SIG_ED25519 then Ok (None, False)
         else if oid = OID_PKCS1_RSASSAPSS then
           (case rsa_pss_digest_bits (alg_parameters algorithm) of
              None \<Rightarrow> Err (InvalidKey ''unsupported RSA-PSS digest'')
            | Some bits \<Rightarrow>
                if bits = 256 then Ok (Some Sha256, True)
                else if bits = 384 then Ok (Some Sha384, True)
                else if bits = 512 then Ok (Some Sha512, True)
                else Err (InvalidKey (''RSA-PSS with SHA-'' @ decimal (nat bits))))
         else Err (InvalidKey (''unsupported: '' @ lib_oid_to_string lib oid)))"

text \<open>\<open>map_err(|e| CryptoError::InvalidKey(e.to_string()))\<close>.\<close>

definition invalid_key :: "string + 'a \<Rightarrow> (CryptoError + 'a) may_panic" where
  "invalid_key r = Some (case r of Inl e \<Rightarrow> Err (InvalidKey e) | Inr x \<Rightarrow> Ok x)"

definition OpenSsl :: "('key, 'verifier) openssl \<Rightarrow> asn1_library \<Rightarrow> signature_verifier" where
  "OpenSsl ssl lib algorithm public_key message signature =
     try_ok (Some (signature_scheme lib algorithm)) (\<lambda>(digest, pss).
     try_ok (invalid_key (ssl_public_key_from_der ssl (spki_raw public_key))) (\<lambda>key.
     try_ok (invalid_key
       (case digest of
          Some digest \<Rightarrow> ssl_verifier_new ssl digest key
        | None \<Rightarrow> ssl_verifier_new_without_digest ssl key)) (\<lambda>verifier.
     try_ok
       (if pss
        then try_ok (invalid_key (ssl_set_rsa_padding_pss ssl verifier)) (\<lambda>verifier.
             invalid_key (ssl_set_rsa_pss_saltlen_digest ssl verifier))
        else Some (Ok verifier)) (\<lambda>verifier.
     Some
       (case ssl_verify_oneshot ssl verifier signature message of
          Inr True \<Rightarrow> Ok ()
        | _ \<Rightarrow> Err VerificationFailed)))))"

text \<open>\<open>Display\<close> of a \<open>CryptoError\<close>, derived by its \<open>error\<close> attributes.\<close>

definition CryptoError_display :: "CryptoError \<Rightarrow> string" where
  "CryptoError_display e =
     (case e of
        InvalidKey text \<Rightarrow> ''invalid key encoding: '' @ text
      | VerificationFailed \<Rightarrow> ''signature verification failed'')"

text \<open>The validator the example builds over it.\<close>

definition openssl_validator ::
  "('key, 'verifier) openssl \<Rightarrow> asn1_library \<Rightarrow> CertificateStore \<Rightarrow> int \<Rightarrow> Validator" where
  "openssl_validator ssl lib roots now =
     Validator_with_policy_and_backend roots (RFC5280Policy_policy (RFC5280Policy_new now)) (OpenSsl ssl lib)"

subsection \<open>What it accepts\<close>

lemma invalid_key_simps [simp]:
  "invalid_key r = Some (Inr x) \<longleftrightarrow> r = Inr x" "invalid_key r \<noteq> None"
  by (auto simp: invalid_key_def split: sum.splits)

lemma OpenSsl_returns: "OpenSsl ssl lib a k m s \<noteq> None"
  by (auto simp: OpenSsl_def try_ok_None_iff simp del: not_None_eq split: if_splits)

text \<open>The verifier the bindings are asked to build for a scheme.\<close>

definition builds_verifier ::
  "('key, 'verifier) openssl \<Rightarrow> digest option \<Rightarrow> bool \<Rightarrow> bytes \<Rightarrow> 'verifier \<Rightarrow> bool" where
  "builds_verifier ssl digest pss spki v \<longleftrightarrow>
     (\<exists>key v0. ssl_public_key_from_der ssl spki = Ok key \<and>
        (case digest of
           Some d \<Rightarrow> ssl_verifier_new ssl d key
         | None \<Rightarrow> ssl_verifier_new_without_digest ssl key) = Ok v0 \<and>
        (if pss then \<exists>v1. ssl_set_rsa_padding_pss ssl v0 = Ok v1 \<and> ssl_set_rsa_pss_saltlen_digest ssl v1 = Ok v
         else v = v0))"

lemma OpenSsl_Ok_iff:
  "OpenSsl ssl lib a k m s = Some (Ok ()) \<longleftrightarrow>
     (\<exists>digest pss v. signature_scheme lib a = Ok (digest, pss) \<and>
        builds_verifier ssl digest pss (spki_raw k) v \<and> ssl_verify_oneshot ssl v s m = Ok True)"
proof -
  have oneshot: "(case r of Inr True \<Rightarrow> Inr () | _ \<Rightarrow> Inl VerificationFailed) = Inr () \<longleftrightarrow> r = Inr True"
    for r :: "string + bool" by (auto split: sum.splits bool.splits)
  show ?thesis
  proof (cases "signature_scheme lib a")
    case (Inr p)
    then obtain digest pss where "signature_scheme lib a = Inr (digest, pss)" by (cases p) auto
    then show ?thesis
      unfolding OpenSsl_def builds_verifier_def by (cases pss) (auto simp: try_ok_Ok_iff oneshot)
  qed (simp add: OpenSsl_def)
qed

interpretation openssl_rfc5280: validator_contract "openssl_validator ssl lib roots now" for ssl lib roots now
  by unfold_locales
    (simp_all add: openssl_validator_def Validator_with_policy_and_backend_def OpenSsl_returns rfc5280.total
      del: not_None_eq)

lemma signature_scheme_Ok_iff:
  "signature_scheme lib a = Ok (digest, pss) \<longleftrightarrow>
     alg_algorithm a \<in> {OID_PKCS1_SHA256WITHRSA, OID_SIG_ECDSA_WITH_SHA256} \<and> digest = Some Sha256 \<and> \<not> pss \<or>
     alg_algorithm a \<in> {OID_PKCS1_SHA384WITHRSA, OID_SIG_ECDSA_WITH_SHA384} \<and> digest = Some Sha384 \<and> \<not> pss \<or>
     alg_algorithm a = OID_SIG_ED25519 \<and> digest = None \<and> \<not> pss \<or>
     alg_algorithm a = OID_PKCS1_RSASSAPSS \<and> pss \<and>
       (rsa_pss_digest_bits (alg_parameters a) = Some 256 \<and> digest = Some Sha256 \<or>
        rsa_pss_digest_bits (alg_parameters a) = Some 384 \<and> digest = Some Sha384 \<or>
        rsa_pss_digest_bits (alg_parameters a) = Some 512 \<and> digest = Some Sha512)"
  unfolding signature_scheme_def Let_def
  by (auto simp: oid_defs split: option.splits if_splits)

subsection \<open>Properties\<close>

text \<open>
  The OpenSSL backend returns on every input. It accepts a signature exactly when the algorithm is
  one it maps, the bindings decode the signer's key and build a verifier for that algorithm's digest,
  with PSS padding and digest-length salt exactly for RSA-PSS, and that verifier accepts the
  signature over the message.
\<close>

theorem openssl_accepts:
  "OpenSsl ssl lib a k m s \<noteq> None \<and>
   (OpenSsl ssl lib a k m s = Some (Ok ()) \<longleftrightarrow>
    (\<exists>digest pss v. signature_scheme lib a = Ok (digest, pss) \<and>
       builds_verifier ssl digest pss (spki_raw k) v \<and> ssl_verify_oneshot ssl v s m = Ok True))"
  using OpenSsl_returns OpenSsl_Ok_iff by blast

lemma pss_digest_bits_iff:
  "rsa_pss_digest_bits (alg_parameters a) = Some bits \<longleftrightarrow>
     bits = 256 \<and> names_pss_hash a OID_NIST_HASH_SHA256 \<or> bits = 384 \<and> names_pss_hash a OID_NIST_HASH_SHA384 \<or>
     bits = 512 \<and> names_pss_hash a OID_NIST_HASH_SHA512"
  by (auto simp: rsa_pss_digest_bits_def names_pss_hash_def oid_defs split: Option.bind_splits if_splits)

text \<open>
  C20. An algorithm the backend declines to map cannot sign a chain, no matter what the certificates
  and the policy say. In a chain validated with the OpenSSL backend every certificate below the root is accepted by a
  verifier that the bindings built for the key of the next one, and its digest is the one its algorithm identifier
  names: SHA-256 or SHA-384 for RSA and ECDSA, none for Ed25519, and for RSA-PSS the hash named in its parameters, which is
  SHA-256, SHA-384 or SHA-512. So nothing is signed with SHA-1, RSA-PSS included.
\<close>

theorem openssl_chain_has_no_sha1:
  assumes "validate (Validator_with_policy_and_backend roots policy (OpenSsl ssl lib)) leaf ints = Some (Ok v)"
    and "Suc i < length (vc_certificates v)"
    and "c = vc_certificates v ! i" "a = cert_signature_algorithm c"
  shows "\<exists>digest pss verifier.
    builds_verifier ssl digest pss (spki_raw (tbs_subject_pki (vc_certificates v ! Suc i))) verifier \<and>
    ssl_verify_oneshot ssl verifier (cert_signature_value c) (tbs_raw c) = Ok True \<and>
    (case digest of
       None \<Rightarrow> \<not> pss \<and> alg_algorithm a = OID_SIG_ED25519
     | Some Sha1 \<Rightarrow> False
     | Some Sha256 \<Rightarrow> if pss then alg_algorithm a = OID_PKCS1_RSASSAPSS \<and> names_pss_hash a OID_NIST_HASH_SHA256
         else alg_algorithm a \<in> {OID_PKCS1_SHA256WITHRSA, OID_SIG_ECDSA_WITH_SHA256}
     | Some Sha384 \<Rightarrow> if pss then alg_algorithm a = OID_PKCS1_RSASSAPSS \<and> names_pss_hash a OID_NIST_HASH_SHA384
         else alg_algorithm a \<in> {OID_PKCS1_SHA384WITHRSA, OID_SIG_ECDSA_WITH_SHA384}
     | Some Sha512 \<Rightarrow> pss \<and> alg_algorithm a = OID_PKCS1_RSASSAPSS \<and> names_pss_hash a OID_NIST_HASH_SHA512)"
proof -
  have "OpenSsl ssl lib a (tbs_subject_pki (vc_certificates v ! Suc i)) (tbs_raw c) (cert_signature_value c) = Some (Ok ())"
    using trust_path_link [OF validate_Ok_path(2) [OF assms(1)] assms(2)]
    by (simp add: signed_by_def Validator_with_policy_and_backend_def assms(3,4))
  then obtain digest pss verifier where scheme: "signature_scheme lib a = Ok (digest, pss)"
    and verifier: "builds_verifier ssl digest pss (spki_raw (tbs_subject_pki (vc_certificates v ! Suc i))) verifier"
      "ssl_verify_oneshot ssl verifier (cert_signature_value c) (tbs_raw c) = Ok True"
    by (auto simp: OpenSsl_Ok_iff)
  show ?thesis
    by (rule exI [of _ digest], rule exI [of _ pss], rule exI [of _ verifier])
      (use scheme verifier in \<open>auto simp: signature_scheme_Ok_iff pss_digest_bits_iff\<close>)
qed

text \<open>Bindings that decode every key and accept every signature.\<close>

definition sample_openssl :: "(unit, unit) openssl" where
  "sample_openssl =
     \<lparr>ssl_public_key_from_der = (\<lambda>_. Ok ()), ssl_verifier_new = (\<lambda>_ _. Ok ()),
      ssl_verifier_new_without_digest = (\<lambda>_. Ok ()), ssl_set_rsa_padding_pss = Ok,
      ssl_set_rsa_pss_saltlen_digest = Ok, ssl_verify_oneshot = (\<lambda>_ _ _. Ok True)\<rparr>"

definition sample_library :: asn1_library where
  "sample_library = \<lparr>lib_oid2sn = Map.empty, lib_to_id_string = (\<lambda>_. []), lib_oid_to_string = (\<lambda>_. [])\<rparr>"

theorem openssl_chain_has_no_sha1_witness:
  "\<exists>v. validate (Validator_with_policy_and_backend (store_from_iter [sample_root]) (WrappedOptional None)
         (OpenSsl sample_openssl sample_library)) sample_leaf (store_from_iter []) = Some (Ok v) \<and>
     (\<exists>digest pss verifier.
       builds_verifier sample_openssl digest pss (spki_raw (tbs_subject_pki (vc_certificates v ! Suc 0))) verifier \<and> digest \<noteq> Some Sha1)"
proof -
  let ?V = "Validator_with_policy_and_backend (store_from_iter [sample_root]) (WrappedOptional None)
    (OpenSsl sample_openssl sample_library)"
  have "validator_contract ?V"
    by unfold_locales (auto simp: Validator_with_policy_and_backend_def OpenSsl_returns
        intro: panic_free simp del: not_None_eq)
  moreover have "signed_by ?V sample_leaf sample_root"
    by (simp add: signed_by_def Validator_with_policy_and_backend_def OpenSsl_def signature_scheme_def
        sample_openssl_def invalid_key_def sample_leaf_def sample_certificate_def sample_algorithm_def oid_defs)
  ultimately obtain v where v: "validate ?V sample_leaf (store_from_iter []) = Some (Ok v)"
    "Suc 0 < length (vc_certificates v)"
    using sample_chain_found [of ?V] by (auto simp: Validator_with_policy_and_backend_def)
  obtain digest pss verifier
    where built: "builds_verifier sample_openssl digest pss (spki_raw (tbs_subject_pki (vc_certificates v ! Suc 0))) verifier"
      and "digest \<noteq> Some Sha1"
    by (rule exE [OF openssl_chain_has_no_sha1 [OF v refl refl]], elim exE conjE) (fastforce split: if_splits)
  with v(1) show ?thesis by blast
qed

end
