(* ===== verification/Uri_Corpus.thy ===== *)
theory Uri_Corpus
  imports Corpora
begin

text \<open>
  The cross product that \<^verbatim>\<open>rfc5280/uri_constraints.rs\<close> tests: every name of the DNS corpus in every shape of
  URI. Nineteen assertions for each of 131 rows hold by lemmas on the shapes; only the side
  conditions on the names, and the foreign host against each constraint, are computed.
\<close>

subsection \<open>The shapes\<close>

definition uris_that_match :: "string \<Rightarrow> string list" where
  "uris_that_match dns_name =
     [''http://'' @ dns_name @ ''/'',
      ''https://'' @ dns_name,
      ''http://user:password@'' @ dns_name,
      ''http://'' @ dns_name @ ''/index.html'',
      ''https://'' @ dns_name @ ''/foo/bar/baz?x=y'',
      ''ftp://user:password@'' @ dns_name @ '':4343/cat.txt'']"

definition uris_that_dont_match :: "string \<Rightarrow> string list" where
  "uris_that_dont_match dns_name =
     [''http://'' @ dns_name @ '':'' @ dns_name @ ''@sir.not.appearing.in.this.movie'',
      dns_name @ ''://sir.not.appearing.in.this.movie/'',
      ''http://sir.not.appearing.in.this.movie/'' @ dns_name @ ''/baz'',
      ''http://127.0.0.1'', ''http://[fe80::1]'', ''/foo/bar'', dns_name]"

definition uri_matches :: "string \<Rightarrow> string \<Rightarrow> bool" where
  "uri_matches uri constraint = uri_name_matches_constraint (ascii uri) (ascii constraint)"

definition uri_corpus_row_holds :: "string \<times> string \<times> bool \<Rightarrow> bool" where
  "uri_corpus_row_holds row =
     (case row of (dns_name, constraint, expected) \<Rightarrow>
        list_all (\<lambda>uri. uri_matches uri constraint = expected \<and> \<not> uri_matches constraint uri)
          (uris_that_match dns_name) \<and>
        (constraint = [] \<or> list_all (\<lambda>uri. \<not> uri_matches uri constraint) (uris_that_dont_match dns_name)))"

subsection \<open>Names without URI syntax\<close>

definition name_byte :: "byte \<Rightarrow> bool" where
  "name_byte b \<longleftrightarrow> b < 0x80 \<and> \<not> ends_authority b \<and> b \<noteq> 0x3A \<and> b \<noteq> 0x40 \<and> b \<noteq> 0x5B"

definition plain :: "string \<Rightarrow> bool" where
  "plain s \<longleftrightarrow> list_all name_byte (ascii s)"

lemma ascii_append [simp]: "ascii (s @ t) = ascii s @ ascii t"
  by (simp add: ascii_def)

lemma no_colon_no_host: "0x3A \<notin> set bs \<Longrightarrow> \<not> uri_name_matches_constraint bs c"
proof -
  have "split_once [0x3A, 0x2F, 0x2F] bs = None" if "0x3A \<notin> set bs"
    using that by (induction bs) auto
  then show "0x3A \<notin> set bs \<Longrightarrow> \<not> uri_name_matches_constraint bs c"
    by (simp add: uri_name_matches_constraint_def extract_host_def)
qed

lemma plain_facts:
  assumes "plain s"
  shows "no_delimiter (ascii s)" "0x3A \<notin> set (ascii s)" "0x40 \<notin> set (ascii s)" "\<forall>b \<in> set (ascii s). b < 0x80"
    "s \<noteq> [] \<Longrightarrow> hd (ascii s) \<noteq> 0x5B"
  using assms
  by (auto simp: plain_def list_all_iff name_byte_def no_delimiter_def, auto simp: ascii_def hd_map)

text \<open>A URI in parts, with a plain host: the match is the host's.\<close>

lemma uri_host_match:
  assumes "list_all (\<lambda>b. b < 0x80) (scheme @ [0x3A, 0x2F, 0x2F] @ uri_authority userinfo (ascii host) port @ t)"
    and "0x3A \<notin> set scheme" "uri_tail t" "plain host" "host \<noteq> []" "\<not> is_ip_address (lower (ascii host))"
    and "case userinfo of None \<Rightarrow> True | Some u \<Rightarrow> no_delimiter u"
    and "case port of None \<Rightarrow> True | Some p \<Rightarrow> no_delimiter p \<and> 0x40 \<notin> set p \<and> 0x3A \<notin> set p"
  shows "uri_name_matches_constraint (scheme @ [0x3A, 0x2F, 0x2F] @ uri_authority userinfo (ascii host) port @ t) c \<longleftrightarrow>
    dns_name_matches_constraint (ascii host) c"
proof -
  note plain = plain_facts [OF assms(4)]
  have "extract_host (uri_of scheme (uri_authority userinfo (ascii host) port) t) = Some (lower (ascii host))"
  proof (rule extract_host_name)
    show "utf8_valid (uri_of scheme (uri_authority userinfo (ascii host) port) t)"
      using assms(1) by (intro utf8_valid_ascii) (simp add: uri_of_def list_all_iff)
    show "no_delimiter (uri_authority userinfo (ascii host) port)"
      using plain(1) assms(7,8) by (auto simp: uri_authority_def ends_authority_def split: option.splits)
    show "case port of None \<Rightarrow> True | Some p \<Rightarrow> 0x40 \<notin> set p \<and> 0x3A \<notin> set p"
      using assms(8) by (auto split: option.splits)
  qed (use assms plain in \<open>auto simp: ascii_def\<close>)
  then show ?thesis
    using assms(6) by (simp add: uri_name_matches_constraint_def dns_name_matches_constraint_lower uri_of_def)
qed

lemma uris_that_match_host:
  assumes "plain d" "d \<noteq> []" "\<not> is_ip_address (lower (ascii d))" "uri \<in> set (uris_that_match d)"
  shows "uri_name_matches_constraint (ascii uri) c \<longleftrightarrow> dns_name_matches_constraint (ascii d) c"
proof -
  have low: "list_all (\<lambda>b. b < 0x80) (ascii d)" using plain_facts(4) [OF assms(1)] by (simp add: list_all_iff)
  note match = uri_host_match [OF _ _ _ assms(1,2,3), where c = c]
  note parts = uri_authority_def uri_tail_def ends_authority_def low [unfolded ascii_def]
  from assms(4) show ?thesis
    using match [of "ascii ''http''" None None "ascii ''/''"]
      match [of "ascii ''https''" None None "[]"]
      match [of "ascii ''http''" "Some (ascii ''user:password'')" None "[]"]
      match [of "ascii ''http''" None None "ascii ''/index.html''"]
      match [of "ascii ''https''" None None "ascii ''/foo/bar/baz?x=y''"]
      match [of "ascii ''ftp''" "Some (ascii ''user:password'')" "Some (ascii ''4343'')" "ascii ''/cat.txt''"]
    by (auto simp: uris_that_match_def parts ascii_def)
qed

lemma uris_that_match_nothing:
  assumes "uri \<in> set (uris_that_match [])"
  shows "\<not> uri_name_matches_constraint (ascii uri) c"
proof -
  have "list_all (\<lambda>uri. extract_host (ascii uri) = None) (uris_that_match [])" by code_simp
  then show ?thesis using assms by (auto simp: list_all_iff uri_name_matches_constraint_def)
qed

subsection \<open>The host that never appears\<close>

definition foreign_host :: string where
  "foreign_host = ''sir.not.appearing.in.this.movie''"

lemma foreign_host_facts: "plain foreign_host" "foreign_host \<noteq> []" "\<not> is_ip_address (lower (ascii foreign_host))"
  by code_simp+

lemma ip_hosts_never_match:
  "\<not> uri_name_matches_constraint (ascii ''http://127.0.0.1'') c"
  "\<not> uri_name_matches_constraint (ascii ''http://[fe80::1]'') c"
proof -
  have "list_all (\<lambda>uri. case extract_host (ascii uri) of None \<Rightarrow> False | Some h \<Rightarrow> is_ip_address h)
      [''http://127.0.0.1'', ''http://[fe80::1]'']" by code_simp
  then show "\<not> uri_name_matches_constraint (ascii ''http://127.0.0.1'') c"
    "\<not> uri_name_matches_constraint (ascii ''http://[fe80::1]'') c"
    by (auto simp: uri_name_matches_constraint_def split: option.splits)
qed

lemma uris_around_foreign_host:
  assumes "plain d" "\<not> dns_name_matches_constraint (ascii foreign_host) c"
  shows "\<not> uri_name_matches_constraint (ascii (''http://'' @ d @ '':'' @ d @ ''@'' @ foreign_host)) c"
    "\<not> uri_name_matches_constraint (ascii (d @ ''://'' @ foreign_host @ ''/'')) c"
    "\<not> uri_name_matches_constraint (ascii (''http://'' @ foreign_host @ ''/'' @ d @ ''/baz'')) c"
proof -
  note d = plain_facts [OF assms(1)]
  have low: "list_all (\<lambda>b. b < 0x80) (ascii d)" "list_all (\<lambda>b. b < 0x80) (ascii foreign_host)"
    using d(4) plain_facts(4) [OF foreign_host_facts(1)] by (simp_all add: list_all_iff)
  note match = uri_host_match [OF _ _ _ foreign_host_facts, where c = c]
  note parts = uri_authority_def uri_tail_def ends_authority_def low [unfolded ascii_def] d(1,2) [unfolded ascii_def]
  show "\<not> uri_name_matches_constraint (ascii (''http://'' @ d @ '':'' @ d @ ''@'' @ foreign_host)) c"
    using match [of "ascii ''http''" "Some (ascii d @ [0x3A] @ ascii d)" None "[]"] assms(2)
    by (simp add: parts ascii_def)
  show "\<not> uri_name_matches_constraint (ascii (d @ ''://'' @ foreign_host @ ''/'')) c"
    using match [of "ascii d" None None "[0x2F]", OF _ d(2)] assms(2) by (simp add: parts ascii_def)
  show "\<not> uri_name_matches_constraint (ascii (''http://'' @ foreign_host @ ''/'' @ d @ ''/baz'')) c"
    using match [of "ascii ''http''" None None "[0x2F] @ ascii d @ ascii ''/baz''"] assms(2)
    by (simp add: parts ascii_def)
qed

lemma uris_that_dont_match_hold:
  assumes "plain d" "\<not> dns_name_matches_constraint (ascii foreign_host) c" "uri \<in> set (uris_that_dont_match d)"
  shows "\<not> uri_name_matches_constraint (ascii uri) c"
proof -
  have "0x3A \<notin> set (ascii ''/foo/bar'')" by (simp add: ascii_def)
  then show ?thesis
    using assms(3) uris_around_foreign_host [OF assms(1,2)] ip_hosts_never_match
      no_colon_no_host [OF plain_facts(2) [OF assms(1)]] no_colon_no_host [of "ascii ''/foo/bar''"]
    by (auto simp: uris_that_dont_match_def foreign_host_def)
qed

subsection \<open>The corpus\<close>

definition row_admissible :: "string \<times> string \<times> bool \<Rightarrow> bool" where
  "row_admissible row =
     (case row of (dns_name, constraint, expected) \<Rightarrow>
        plain dns_name \<and> plain constraint \<and> \<not> is_ip_address (lower (ascii dns_name)) \<and>
        (dns_name = [] \<longrightarrow> \<not> expected) \<and>
        (constraint = [] \<or> \<not> dns_name_matches_constraint (ascii foreign_host) (ascii constraint)))"

lemma admissible_row_holds:
  assumes "row_admissible row" "dns_row_holds row"
  shows "uri_corpus_row_holds row"
proof -
  obtain d c e where row: "row = (d, c, e)" by (cases row)
  have "uri_matches uri c = e" if "uri \<in> set (uris_that_match d)" for uri
    using that assms uris_that_match_host [of d uri] uris_that_match_nothing
    by (cases "d = []") (auto simp: row row_admissible_def dns_row_holds_def uri_matches_def)
  moreover have "\<not> uri_matches c uri" for uri
    using assms(1) no_colon_no_host [OF plain_facts(2)] by (simp add: row row_admissible_def uri_matches_def)
  moreover have "\<not> uri_matches uri c" if "c \<noteq> []" "uri \<in> set (uris_that_dont_match d)" for uri
    using that assms(1) uris_that_dont_match_hold by (auto simp: row row_admissible_def uri_matches_def)
  ultimately show ?thesis by (auto simp: row uri_corpus_row_holds_def list_all_iff)
qed

text \<open>One name of the corpus has a character that ends the authority of a URI, and is computed.\<close>

definition query_row :: "string \<times> string \<times> bool" where
  "query_row = (''?.bar.foo.com'', ''w.bar.foo.com'', False)"

lemma query_row_holds: "uri_corpus_row_holds query_row"
  by code_simp

lemma labels_admissible: "list_all row_admissible fixtures_labels"
  by code_simp

lemma idn_prefix_admissible: "list_all row_admissible fixtures_idn_prefix"
  by code_simp

lemma chromium_admissible: "list_all (\<lambda>row. row = query_row \<or> row_admissible row) fixtures_chromium"
  by code_simp

lemma wildcards_admissible: "list_all row_admissible fixtures_wildcards"
  by code_simp

lemma absolute_admissible: "list_all row_admissible fixtures_absolute"
  by code_simp

lemma long_admissible: "list_all row_admissible fixtures_long"
  by code_simp

lemma rows_hold:
  "list_all row_admissible rows \<Longrightarrow> list_all dns_row_holds rows \<Longrightarrow> list_all uri_corpus_row_holds rows"
  unfolding list_all_iff using admissible_row_holds by blast

lemma query_rows_hold:
  "list_all (\<lambda>row. row = query_row \<or> row_admissible row) rows \<Longrightarrow> list_all dns_row_holds rows \<Longrightarrow>
     list_all uri_corpus_row_holds rows"
  using admissible_row_holds query_row_holds by (induction rows) auto

subsection \<open>Properties\<close>

text \<open>
  Every name of the DNS corpus behaves in a URI as it does alone: in each of six shapes of URI with the name as its
  host the verdict is the corpus's verdict for the bare name, no constraint of the corpus matches as a URI, and no
  URI that holds the name elsewhere than in its host, or has an address or nothing for a host, ever matches.
\<close>

theorem uri_corpus_holds: "list_all uri_corpus_row_holds name_matching_fixtures"
  unfolding name_matching_fixtures_def list_all_append
  by (intro conjI query_rows_hold [OF chromium_admissible] rows_hold [OF labels_admissible] rows_hold [OF idn_prefix_admissible]
      rows_hold [OF wildcards_admissible] rows_hold [OF absolute_admissible] rows_hold [OF long_admissible] dns_rows_hold)

end
