(* ===== verification/Debug_Format.thy ===== *)
theory Debug_Format
  imports Diagnostics
begin

text \<open>
  The \<open>Debug\<close> rendering of an event, \<^verbatim>\<open>diagnostic.rs\<close>: \<open>write!(f, "{:?}", self.to_string())\<close>, which is the standard
  library's \<open>Debug\<close> of a string. A string is its UTF-8 bytes; the characters are taken off the front the way
  \<open>str::chars\<close> does, and each is replaced by \<open>char::escape_debug\<close>. The two tables of the Unicode standard that
  function consults are the fields of \<open>unicode_tables\<close>, about which nothing is assumed.
\<close>

subsection \<open>UTF-8\<close>

definition is_scalar :: "nat \<Rightarrow> bool" where
  "is_scalar c \<longleftrightarrow> c < 0xD800 \<or> 0xE000 \<le> c \<and> c < 0x110000"

definition utf8_encode :: "nat \<Rightarrow> string" where
  "utf8_encode c = map char_of
     (if c < 0x80 then [c]
      else if c < 0x800 then [0xC0 + c div 0x40, 0x80 + c mod 0x40]
      else if c < 0x10000 then [0xE0 + c div 0x1000, 0x80 + c div 0x40 mod 0x40, 0x80 + c mod 0x40]
      else [0xF0 + c div 0x40000, 0x80 + c div 0x1000 mod 0x40, 0x80 + c div 0x40 mod 0x40, 0x80 + c mod 0x40])"

definition utf8 :: "nat list \<Rightarrow> string" where
  "utf8 cs = concat (map utf8_encode cs)"

text \<open>How many bytes a character takes, by its first.\<close>

definition utf8_width :: "nat \<Rightarrow> nat" where
  "utf8_width b = (if b < 0x80 then 1 else if b < 0xE0 then 2 else if b < 0xF0 then 3 else 4)"

definition code_point :: "string \<Rightarrow> nat" where
  "code_point s =
     (case map of_char s of
        [x] \<Rightarrow> x
      | [x, y] \<Rightarrow> (x mod 0x20) * 0x40 + y mod 0x40
      | [x, y, z] \<Rightarrow> (x mod 0x20) * 0x1000 + ((y mod 0x40) * 0x40 + z mod 0x40)
      | [x, y, z, w] \<Rightarrow> (x mod 0x8) * 0x40000 + (((y mod 0x40) * 0x40 + z mod 0x40) * 0x40 + w mod 0x40)
      | _ \<Rightarrow> 0)"

function str_chars :: "string \<Rightarrow> string list" where
  "str_chars [] = []"
| "str_chars (b # bs) = take (utf8_width (of_char b)) (b # bs) # str_chars (drop (utf8_width (of_char b)) (b # bs))"
  by pat_completeness auto
termination
  by (relation "measure length") (auto simp: utf8_width_def)

subsection \<open>Escapes\<close>

record unicode_tables =
  grapheme_extended :: "nat \<Rightarrow> bool"
  is_printable :: "nat \<Rightarrow> bool"

definition hex_digit :: "nat \<Rightarrow> char" where
  "hex_digit n = char_of (if n < 10 then 48 + n else 87 + n)"

fun hex :: "nat \<Rightarrow> string" where
  "hex n = (if n < 16 then [hex_digit n] else hex (n div 16) @ [hex_digit (n mod 16)])"

declare hex.simps [simp del]

definition escape_unicode :: "nat \<Rightarrow> string" where
  "escape_unicode c = CHR 0x5C # ''u{'' @ hex c @ ''}''"

definition escape_debug :: "unicode_tables \<Rightarrow> string \<Rightarrow> string" where
  "escape_debug tables s =
     (let c = code_point s
      in if c = 0 then [CHR 0x5C, CHR ''0'']
         else if c = 9 then [CHR 0x5C, CHR ''t'']
         else if c = 13 then [CHR 0x5C, CHR ''r'']
         else if c = 10 then [CHR 0x5C, CHR ''n'']
         else if c = 0x5C then [CHR 0x5C, CHR 0x5C]
         else if c = 0x22 then [CHR 0x5C, CHR 0x22]
         else if grapheme_extended tables c then escape_unicode c
         else if is_printable tables c then s
         else escape_unicode c)"

definition str_debug :: "unicode_tables \<Rightarrow> string \<Rightarrow> string" where
  "str_debug tables s = CHR 0x22 # concat (map (escape_debug tables) (str_chars s)) @ [CHR 0x22]"

definition VerificationDiagnostic_debug :: "unicode_tables \<Rightarrow> asn1_library \<Rightarrow> VerificationDiagnostic \<Rightarrow> string" where
  "VerificationDiagnostic_debug tables lib self = str_debug tables (diagnostic_display lib self)"

subsection \<open>Reading it back\<close>

definition hex_value :: "string \<Rightarrow> nat" where
  "hex_value s = foldl (\<lambda>v d. 16 * v + (let n = of_char d in if n < 58 then n - 48 else n - 87)) 0 s"

function (sequential) read_body :: "string \<Rightarrow> string option" where
  "read_body [] = None"
| "read_body [b] = (if b = CHR 0x22 then Some [] else None)"
| "read_body (b # e # rest) =
     (if b = CHR 0x22 then None
      else if b \<noteq> CHR 0x5C then map_option (Cons b) (read_body (e # rest))
      else if e = CHR ''0'' then map_option (Cons (CHR 0x00)) (read_body rest)
      else if e = CHR ''t'' then map_option (Cons (CHR 0x09)) (read_body rest)
      else if e = CHR ''r'' then map_option (Cons (CHR 0x0D)) (read_body rest)
      else if e = CHR ''n'' then map_option (Cons (CHR 0x0A)) (read_body rest)
      else if e = CHR 0x5C \<or> e = CHR 0x22 then map_option (Cons e) (read_body rest)
      else if e = CHR ''u'' then
        (case dropWhile (\<lambda>d. d \<noteq> CHR ''}'') rest of
           [] \<Rightarrow> None
         | _ # after \<Rightarrow>
             map_option ((@) (utf8_encode (hex_value (tl (takeWhile (\<lambda>d. d \<noteq> CHR ''}'') rest))))) (read_body after))
      else None)"
  by pat_completeness auto
termination
proof (relation "measure length", simp_all)
  fix rest after :: string and d :: char
  assume "dropWhile (\<lambda>d. d \<noteq> CHR ''}'') rest = d # after"
  then have "length (d # after) \<le> length rest" by (metis length_dropWhile_le)
  then show "length after < Suc (Suc (length rest))" by simp
qed

definition read_debug :: "string \<Rightarrow> string option" where
  "read_debug s = (case s of b # rest \<Rightarrow> if b = CHR 0x22 then read_body rest else None | [] \<Rightarrow> None)"

subsection \<open>Characters and their encoding\<close>

lemma of_char_small: "n < 256 \<Longrightarrow> of_char (char_of n :: char) = (n :: nat)"
  by simp

lemma base64_digits:
  "c div 0x1000 * 0x1000 + (c div 0x40 mod 0x40 * 0x40 + c mod 0x40) = (c :: nat)"
  "c div 0x40000 * 0x40000 + (c div 0x1000 mod 0x40 * 0x1000 + (c div 0x40 mod 0x40 * 0x40 + c mod 0x40)) = c"
proof -
  have d: "c div 0x1000 = c div 0x40 div 0x40" "c div 0x40000 = c div 0x1000 div 0x40"
    by (simp_all add: div_mult2_eq [symmetric])
  show one: "c div 0x1000 * 0x1000 + (c div 0x40 mod 0x40 * 0x40 + c mod 0x40) = c"
    using div_mult_mod_eq [of c "0x40"] div_mult_mod_eq [of "c div 0x40" "0x40"] unfolding d(1) by linarith
  show "c div 0x40000 * 0x40000 + (c div 0x1000 mod 0x40 * 0x1000 + (c div 0x40 mod 0x40 * 0x40 + c mod 0x40)) = c"
    using one div_mult_mod_eq [of "c div 0x1000" "0x40"] unfolding d(2) by linarith
qed

lemma lead_and_continuation:
  "x < 0x20 \<Longrightarrow> (0xC0 + x) mod 0x20 = (x :: nat)" "x < 0x10 \<Longrightarrow> (0xE0 + x) mod 0x20 = x"
  "x < 0x8 \<Longrightarrow> (0xF0 + x) mod 0x8 = x" "y < 0x40 \<Longrightarrow> (0x80 + y) mod 0x40 = (y :: nat)"
  using mod_mult_self1 [of x 6 "0x20"] mod_mult_self1 [of x 7 "0x20"] mod_mult_self1 [of x 30 "0x8"]
    mod_mult_self1 [of y 2 "0x40"] by (simp_all add: add.commute)

lemma utf8_cases:
  assumes "c < 0x110000"
  obtains (one) "c < 0x80" "utf8_encode c = [char_of c]"
  | (two) x y where "0x80 \<le> c" "utf8_encode c = [char_of (0xC0 + x), char_of (0x80 + y)]" "x < 0x20" "y < 0x40" "c = x * 0x40 + y"
  | (three) x y z where "0x80 \<le> c" "utf8_encode c = [char_of (0xE0 + x), char_of (0x80 + y), char_of (0x80 + z)]"
      "x < 0x10" "y < 0x40" "z < 0x40" "c = x * 0x1000 + (y * 0x40 + z)"
  | (four) x y z w where "0x80 \<le> c"
      "utf8_encode c = [char_of (0xF0 + x), char_of (0x80 + y), char_of (0x80 + z), char_of (0x80 + w)]"
      "x < 0x8" "y < 0x40" "z < 0x40" "w < 0x40" "c = x * 0x40000 + (y * 0x1000 + (z * 0x40 + w))"
proof -
  consider "c < 0x80" | "0x80 \<le> c" "c < 0x800" | "0x800 \<le> c" "c < 0x10000" | "0x10000 \<le> c" by linarith
  then show thesis
  proof cases
    case 1 then show ?thesis using one by (simp add: utf8_encode_def)
  next
    case 2
    then show ?thesis by (intro two [of "c div 0x40" "c mod 0x40"]) (auto simp: utf8_encode_def)
  next
    case 3
    then show ?thesis
      by (intro three [of "c div 0x1000" "c div 0x40 mod 0x40" "c mod 0x40"])
        (auto simp: utf8_encode_def base64_digits)
  next
    case 4
    then show ?thesis using assms
      by (intro four [of "c div 0x40000" "c div 0x1000 mod 0x40" "c div 0x40 mod 0x40" "c mod 0x40"])
        (auto simp: utf8_encode_def base64_digits)
  qed
qed

lemma code_point_encode:
  assumes "c < 0x110000"
  shows "code_point (utf8_encode c) = c"
  using assms
  by (cases rule: utf8_cases) (simp_all add: code_point_def lead_and_continuation)

lemma str_chars_encode:
  assumes "c < 0x110000"
  shows "str_chars (utf8_encode c @ rest) = utf8_encode c # str_chars rest"
  using assms
  by (cases rule: utf8_cases) (simp_all add: utf8_width_def)

lemma str_chars_utf8: "\<forall>c \<in> set cs. c < 0x110000 \<Longrightarrow> str_chars (utf8 cs) = map utf8_encode cs"
  by (induction cs) (simp_all add: utf8_def str_chars_encode)

lemma hex_digit_facts:
  assumes "n < 16"
  shows "hex_digit n \<noteq> CHR ''}''" "hex_digit n \<noteq> CHR 10"
    "(let d = of_char (hex_digit n) in if d < 58 then d - 48 else d - 87) = n"
proof -
  have d: "of_char (hex_digit n) = (if n < 10 then 48 + n else 87 + n)" using assms by (simp add: hex_digit_def)
  show "hex_digit n \<noteq> CHR ''}''" "hex_digit n \<noteq> CHR 10" using assms d by (auto split: if_splits)
  show "(let d = of_char (hex_digit n) in if d < 58 then d - 48 else d - 87) = n" using assms unfolding d by simp
qed

lemma hex_chars: "d \<in> set (hex n) \<Longrightarrow> d \<noteq> CHR ''}'' \<and> d \<noteq> CHR 10"
proof (induction n rule: hex.induct)
  case (1 n)
  then show ?case
    using hex_digit_facts(1,2) [of n] hex_digit_facts(1,2) [of "n mod 16"]
    by (cases "n < 16") (auto simp: hex.simps [of n])
qed

lemma hex_value_hex: "hex_value (hex n) = n"
proof (induction n rule: hex.induct)
  case (1 n)
  then show ?case
    using hex_digit_facts(3) [of n] hex_digit_facts(3) [of "n mod 16"]
    by (cases "n < 16") (simp_all add: hex_value_def hex.simps [of n])
qed

subsection \<open>What the rendering keeps\<close>

lemma char_of_inject: "m < 256 \<Longrightarrow> n < 256 \<Longrightarrow> (char_of m :: char) = char_of n \<longleftrightarrow> m = (n :: nat)"
  by (metis of_char_small)

lemma encode_avoids:
  assumes "c < 0x110000" "b < 0x80" "c \<noteq> b"
  shows "char_of b \<notin> set (utf8_encode c)"
  using assms(1) by (cases rule: utf8_cases) (use assms(2,3) in \<open>simp_all add: char_of_inject\<close>)

lemma encode_ascii: "c < 0x80 \<Longrightarrow> utf8_encode c = [char_of c]"
  by (simp add: utf8_encode_def)

lemma escaped_chars:
  "char_of (0 :: nat) = CHR 0x00" "char_of (9 :: nat) = CHR 0x09" "char_of (13 :: nat) = CHR 0x0D"
  "char_of (10 :: nat) = CHR 10" "char_of (0x5C :: nat) = CHR 0x5C" "char_of (0x22 :: nat) = CHR 0x22"
  by code_simp+

lemma append_single: "(@) [a] = Cons a"
  by (rule ext) simp

lemma read_plain:
  assumes "\<forall>b \<in> set s. b \<noteq> CHR 0x22 \<and> b \<noteq> CHR 0x5C" "rest \<noteq> []"
  shows "read_body (s @ rest) = map_option ((@) s) (read_body rest)"
  using assms(1)
proof (induction s)
  case Nil
  then show ?case by (simp add: option.map_ident)
next
  case (Cons b s)
  moreover obtain e r where "s @ rest = e # r" using assms(2) by (cases "s @ rest") auto
  ultimately show ?case by (simp add: option.map_comp comp_def)
qed

lemma read_unicode_escape: "read_body (escape_unicode c @ rest) = map_option ((@) (utf8_encode c)) (read_body rest)"
proof -
  have "takeWhile (\<lambda>d. d \<noteq> CHR ''}'') (CHR ''{'' # hex c @ CHR ''}'' # rest) = CHR ''{'' # hex c"
    "dropWhile (\<lambda>d. d \<noteq> CHR ''}'') (CHR ''{'' # hex c @ CHR ''}'' # rest) = CHR ''}'' # rest"
    using hex_chars by (simp_all add: takeWhile_append dropWhile_append)
  then show ?thesis by (simp add: escape_unicode_def hex_value_hex)
qed

lemma read_escape:
  assumes c: "c < 0x110000" and "rest \<noteq> []"
  shows "read_body (escape_debug tables (utf8_encode c) @ rest) = map_option ((@) (utf8_encode c)) (read_body rest)"
proof (cases "c \<in> {0, 9, 13, 10, 0x5C, 0x22}")
  case True
  then show ?thesis unfolding escape_debug_def code_point_encode [OF c] Let_def
    by (auto simp: encode_ascii escaped_chars append_single)
next
  case False
  have "char_of (0x22 :: nat) \<notin> set (utf8_encode c)" "char_of (0x5C :: nat) \<notin> set (utf8_encode c)"
    using False by (simp_all add: encode_avoids [OF c])
  then have "\<forall>b \<in> set (utf8_encode c). b \<noteq> CHR 0x22 \<and> b \<noteq> CHR 0x5C" by (auto simp: escaped_chars)
  from read_plain [OF this assms(2)] False show ?thesis
    by (auto simp: escape_debug_def code_point_encode [OF c] read_unicode_escape Let_def)
qed

lemma read_escapes:
  assumes "\<forall>c \<in> set cs. c < 0x110000"
  shows "read_body (concat (map (escape_debug tables) (map utf8_encode cs)) @ [CHR 0x22]) = Some (utf8 cs)"
  using assms
proof (induction cs)
  case (Cons c cs)
  then show ?case
    using read_escape [of c "concat (map (escape_debug tables) (map utf8_encode cs)) @ [CHR 0x22]" tables]
    by (simp add: utf8_def)
qed (simp add: utf8_def)

lemma escape_single_line:
  assumes "c < 0x110000"
  shows "single_line (escape_debug tables (utf8_encode c))"
proof (cases "c = 10")
  case True
  then show ?thesis by (simp add: escape_debug_def code_point_encode)
next
  case False
  have "char_of (10 :: nat) \<notin> set (utf8_encode c)" by (rule encode_avoids [OF assms _ False]) simp
  then have "single_line (utf8_encode c)" by (simp add: single_line_def escaped_chars)
  moreover have "single_line (escape_unicode c)" using hex_chars by (auto simp: escape_unicode_def single_line_def)
  ultimately show ?thesis by (simp add: escape_debug_def code_point_encode [OF assms] Let_def)
qed

lemma single_line_concat: "\<forall>s \<in> set ss. single_line s \<Longrightarrow> single_line (concat ss)"
  by (induction ss) simp_all

text \<open>
  C28. The \<open>Debug\<close> rendering of an event loses nothing and takes one line: whatever Unicode's tables call printable, from
  the quoted and escaped text the \<open>Display\<close> text can be read back exactly, and even an event whose
  certificates or failure reason carry line breaks is rendered without one. (Every Rust string is the encoding
  of some scalar values, which is the hypothesis.)
\<close>

theorem debug_roundtrip:
  assumes "diagnostic_display lib d = utf8 cs" "\<forall>c \<in> set cs. is_scalar c"
  shows "read_debug (VerificationDiagnostic_debug tables lib d) = Some (diagnostic_display lib d) \<and>
    single_line (VerificationDiagnostic_debug tables lib d)"
proof -
  have small: "\<forall>c \<in> set cs. c < 0x110000" using assms(2) by (fastforce simp: is_scalar_def)
  have debug: "VerificationDiagnostic_debug tables lib d =
      CHR 0x22 # concat (map (escape_debug tables) (map utf8_encode cs)) @ [CHR 0x22]"
    by (simp add: VerificationDiagnostic_debug_def str_debug_def assms(1) str_chars_utf8 [OF small] comp_def)
  have "single_line (concat (map (escape_debug tables) (map utf8_encode cs)))"
    using small escape_single_line by (intro single_line_concat) auto
  then show ?thesis using read_escapes [OF small] unfolding debug assms(1) by (simp add: read_debug_def)
qed

text \<open>ASCII is its own encoding.\<close>

lemma ascii_utf8: "list_all (\<lambda>b. \<not> digit7 b) s \<Longrightarrow> utf8 (map of_char s) = s \<and> (\<forall>c \<in> set (map of_char s). is_scalar c)"
proof (induction s)
  case (Cons b s)
  have "of_char b < (0x80 :: nat)" using Cons.prems by (cases b) simp
  then show ?case using Cons by (simp add: utf8_def encode_ascii is_scalar_def)
qed (simp add: utf8_def)

text \<open>A failure reason over two lines, with quotation marks.\<close>

definition quoting_event :: VerificationDiagnostic where
  "quoting_event = chain_fails_to_meet_policy [sample_certificate ''leaf'' ''root'']
     (PolicyFailureReason_new (''first'' @ [CHR 10, CHR 0x22] @ ''second'' @ [CHR 0x22]))"

theorem debug_roundtrip_witness:
  "\<exists>debug. read_debug debug = Some (diagnostic_display (\<lparr>lib_oid2sn = Map.empty, lib_to_id_string = (\<lambda>_. []),
       lib_oid_to_string = (\<lambda>_. [])\<rparr>) quoting_event) \<and> single_line debug"
proof -
  let ?lib = "\<lparr>lib_oid2sn = Map.empty, lib_to_id_string = (\<lambda>_. []), lib_oid_to_string = (\<lambda>_. [])\<rparr>"
  have "list_all (\<lambda>b. \<not> digit7 b) (diagnostic_display ?lib quoting_event)" by code_simp
  from ascii_utf8 [OF this] show ?thesis
    using debug_roundtrip [of ?lib quoting_event _ "\<lparr>grapheme_extended = (\<lambda>_. False), is_printable = (\<lambda>c. 0x20 \<le> c)\<rparr>"]
    by metis
qed

end
