(* ===== verification/Testkit_Der.thy ===== *)
theory Testkit_Der
  imports Certificates
begin

text \<open>
  \<^verbatim>\<open>x509-validator-testkit/src/raw.rs\<close>: the DER writer of the test kit, for extensions the certificate
  generator cannot express. The generator's extension type is third-party code, so the two
  operations used on it are the fields of a record. The writer is related to a reader of definite
  DER lengths in their minimal form, which is written from X.690 and not from the sources.
\<close>

subsection \<open>The code\<close>

definition der_tlv :: "byte \<Rightarrow> bytes \<Rightarrow> bytes" where
  "der_tlv tag contents =
     (let len = length contents
      in [tag] @
         (if len < 0x80 then [word_of_nat len]
          else if len < 0x100 then [0x81, word_of_nat len]
          else [0x82, word_of_nat (drop_bit 8 len), word_of_nat (len AND 0xff)]) @
         contents)"

datatype RawGeneralName = RawGeneralName (raw_bytes: bytes)

definition raw_primitive :: "byte \<Rightarrow> bytes \<Rightarrow> RawGeneralName" where
  "raw_primitive tag_number contents = RawGeneralName (der_tlv (0x80 OR tag_number) contents)"

definition raw_uri :: "bytes \<Rightarrow> RawGeneralName" where "raw_uri value = raw_primitive 6 value"

definition raw_dns :: "bytes \<Rightarrow> RawGeneralName" where "raw_dns value = raw_primitive 2 value"

definition raw_ip :: "bytes \<Rightarrow> RawGeneralName" where "raw_ip value = raw_primitive 7 value"

definition raw_rfc822 :: "bytes \<Rightarrow> RawGeneralName" where "raw_rfc822 value = raw_primitive 1 value"

definition raw_registered_id :: RawGeneralName where
  "raw_registered_id = raw_primitive 8 [0x2a, 0x01, 0x01]"

definition raw_other_name :: RawGeneralName where
  "raw_other_name =
     (let contents = der_tlv 0x06 [0x2a, 0x01, 0x01] @ der_tlv 0xa0 (der_tlv 0x05 [])
      in RawGeneralName (der_tlv 0xa0 contents))"

definition raw_x400_address :: RawGeneralName where
  "raw_x400_address = RawGeneralName (der_tlv 0xa3 (der_tlv 0x05 []))"

definition raw_edi_party_name :: RawGeneralName where
  "raw_edi_party_name = RawGeneralName (der_tlv 0xa5 (der_tlv 0x05 []))"

definition general_subtree :: "RawGeneralName \<Rightarrow> bytes" where
  "general_subtree name = der_tlv 0x30 (raw_bytes name)"

text \<open>\<open>rcgen::CustomExtension\<close>.\<close>

record 'ext rcgen_extensions =
  from_oid_content :: "oid \<Rightarrow> bytes \<Rightarrow> 'ext"
  set_criticality :: "'ext \<Rightarrow> bool \<Rightarrow> 'ext"

definition NAME_CONSTRAINTS_OID :: oid where "NAME_CONSTRAINTS_OID = [2, 5, 29, 30]"

definition SUBJECT_ALT_NAME_OID :: oid where "SUBJECT_ALT_NAME_OID = [2, 5, 29, 17]"

definition raw_name_constraints_extension ::
  "'ext rcgen_extensions \<Rightarrow> RawGeneralName list \<Rightarrow> RawGeneralName list \<Rightarrow> 'ext" where
  "raw_name_constraints_extension rcgen permitted excluded =
     (let body =
        (if permitted \<noteq> [] then der_tlv 0xa0 (concat (map general_subtree permitted)) else []) @
        (if excluded \<noteq> [] then der_tlv 0xa1 (concat (map general_subtree excluded)) else []);
        extension = from_oid_content rcgen NAME_CONSTRAINTS_OID (der_tlv 0x30 body)
      in set_criticality rcgen extension True)"

definition raw_subject_alt_name_extension :: "'ext rcgen_extensions \<Rightarrow> RawGeneralName list \<Rightarrow> 'ext" where
  "raw_subject_alt_name_extension rcgen names =
     (let contents = concat (map raw_bytes names);
        extension = from_oid_content rcgen SUBJECT_ALT_NAME_OID (der_tlv 0x30 contents)
      in set_criticality rcgen extension True)"

definition broken_name_constraints_extension :: "'ext rcgen_extensions \<Rightarrow> 'ext" where
  "broken_name_constraints_extension rcgen =
     set_criticality rcgen (from_oid_content rcgen NAME_CONSTRAINTS_OID [1, 2, 3, 4, 5, 6, 7, 8, 9]) True"

definition broken_subject_alt_name_extension :: "'ext rcgen_extensions \<Rightarrow> 'ext" where
  "broken_subject_alt_name_extension rcgen =
     set_criticality rcgen (from_oid_content rcgen SUBJECT_ALT_NAME_OID [1, 2, 3, 4, 5, 6, 7, 8, 9]) True"

definition weird_critical_extension :: "'ext rcgen_extensions \<Rightarrow> 'ext" where
  "weird_critical_extension rcgen =
     set_criticality rcgen (from_oid_content rcgen [1, 2, 3, 4, 5] [1, 2, 3, 4, 5]) True"

subsection \<open>Reading DER\<close>

text \<open>A reader returns the tag, the contents and the bytes that follow.\<close>

definition der_contents :: "byte \<Rightarrow> nat \<Rightarrow> bytes \<Rightarrow> (byte \<times> bytes \<times> bytes) option" where
  "der_contents tag n bs = (if n \<le> length bs then Some (tag, take n bs, drop n bs) else None)"

fun der_read :: "bytes \<Rightarrow> (byte \<times> bytes \<times> bytes) option" where
  "der_read (tag # l # bs) =
     (if l < 0x80 then der_contents tag (unat l) bs
      else if l = 0x81 then
        (case bs of
           n # bs' \<Rightarrow> if n < 0x80 then None else der_contents tag (unat n) bs'
         | _ \<Rightarrow> None)
      else if l = 0x82 then
        (case bs of
           hi # lo # bs' \<Rightarrow> if hi = 0 then None else der_contents tag (unat hi * 256 + unat lo) bs'
         | _ \<Rightarrow> None)
      else None)"
| "der_read _ = None"

lemma der_read_shorter: "der_read bs = Some (t, c, rest) \<Longrightarrow> length rest < length bs"
  by (induction bs rule: der_read.induct)
    (auto simp: der_contents_def split: if_splits list.splits)

function der_read_all :: "bytes \<Rightarrow> (byte \<times> bytes) list option" where
  "der_read_all bs =
     (if bs = [] then Some []
      else case der_read bs of
        None \<Rightarrow> None
      | Some (tag, contents, rest) \<Rightarrow> map_option (Cons (tag, contents)) (der_read_all rest))"
  by pat_completeness auto
termination
  by (relation "measure length") (auto dest: der_read_shorter)

declare der_read_all.simps [simp del]

definition read_subtrees :: "bytes \<Rightarrow> bytes list option" where
  "read_subtrees bs = do {
     xs \<leftarrow> der_read_all bs;
     if list_all (\<lambda>(tag, _). tag = 0x30) xs then Some (map snd xs) else None }"

definition read_sequence :: "bytes \<Rightarrow> (byte \<times> bytes) list option" where
  "read_sequence bs = do {
     (tag, contents, rest) \<leftarrow> der_read bs;
     if tag = 0x30 \<and> rest = [] then der_read_all contents else None }"

text \<open>\<open>SEQUENCE { [0] permittedSubtrees OPTIONAL, [1] excludedSubtrees OPTIONAL }\<close>.\<close>

definition read_name_constraints :: "bytes \<Rightarrow> (bytes list \<times> bytes list) option" where
  "read_name_constraints bs = do {
     fields \<leftarrow> read_sequence bs;
     case fields of
       [] \<Rightarrow> Some ([], [])
     | [(tag, c)] \<Rightarrow>
         if tag = 0xa0 then map_option (\<lambda>p. (p, [])) (read_subtrees c)
         else if tag = 0xa1 then map_option (Pair []) (read_subtrees c)
         else None
     | [(tag, c), (tag', c')] \<Rightarrow>
         if tag = 0xa0 \<and> tag' = 0xa1
         then do { p \<leftarrow> read_subtrees c; e \<leftarrow> read_subtrees c'; Some (p, e) }
         else None
     | _ \<Rightarrow> None }"

subsection \<open>Writing and reading\<close>

lemma der_tlv_header:
  "der_tlv tag c =
     (if length c < 128 then tag # word_of_nat (length c) # c
      else if length c < 256 then tag # 0x81 # word_of_nat (length c) # c
      else tag # 0x82 # word_of_nat (length c div 256) # word_of_nat (length c mod 256) # c)"
proof -
  have "length c AND 0xff = length c mod 256"
    using take_bit_eq_mask [of 8 "length c"] by (simp add: take_bit_eq_mod mask_eq_exp_minus_1)
  then show ?thesis by (simp add: der_tlv_def Let_def drop_bit_eq_div)
qed

lemma word_of_nat_byte_zero_iff: "n < 256 \<Longrightarrow> (word_of_nat n :: byte) = 0 \<longleftrightarrow> n = 0"
  by (simp add: unat_eq_zero [symmetric] unat_of_nat)

lemma der_read_tlv:
  assumes "length c < 65536"
  shows "der_read (der_tlv tag c @ rest) = Some (tag, c, rest)"
  using assms
  by (auto simp: der_tlv_header der_contents_def word_less_nat_alt unat_of_nat word_of_nat_byte_zero_iff)

lemma length_der_tlv: "length (der_tlv tag c) \<ge> length c + 2"
  by (simp add: der_tlv_header)

lemma der_read_all_tlvs:
  "list_all (\<lambda>(t, c). length c < 65536) xs \<Longrightarrow>
     der_read_all (concat (map (\<lambda>(t, c). der_tlv t c) xs)) = Some xs"
proof (induction xs)
  case (Cons x xs)
  obtain t c where x: "x = (t, c)" by force
  have "der_tlv t c \<noteq> []" by (simp add: der_tlv_header)
  then show ?case using Cons
    by (subst der_read_all.simps) (simp add: x der_read_tlv)
qed (simp add: der_read_all.simps)

lemmas der_read_all_one = der_read_all_tlvs [of "[(t, c)]" for t c, simplified]
lemmas der_read_all_two = der_read_all_tlvs [of "[(t, c), (t', c')]" for t c t' c', simplified]

lemma length_member_concat: "x \<in> set xs \<Longrightarrow> length x \<le> length (concat xs)"
  by (induction xs) auto

lemma read_subtrees_written:
  assumes "length (concat (map general_subtree ns)) < 65536"
  shows "read_subtrees (concat (map general_subtree ns)) = Some (map raw_bytes ns)"
proof -
  let ?xs = "map (\<lambda>n. (0x30, raw_bytes n)) ns"
  have "length (raw_bytes n) < 65536" if "n \<in> set ns" for n
    using that assms length_member_concat [of "general_subtree n" "map general_subtree ns"]
      length_der_tlv [of "raw_bytes n" "0x30"] by (simp add: general_subtree_def)
  then have "der_read_all (concat (map (\<lambda>(t, c). der_tlv t c) ?xs)) = Some ?xs"
    by (intro der_read_all_tlvs) (simp add: list_all_iff)
  moreover have "map (\<lambda>(t, c). der_tlv t c) ?xs = map general_subtree ns"
    by (simp add: general_subtree_def)
  ultimately have "der_read_all (concat (map general_subtree ns)) = Some ?xs" by (simp only:)
  then show ?thesis by (simp add: read_subtrees_def list_all_iff comp_def)
qed

lemma read_sequence_written:
  "length c < 65536 \<Longrightarrow> read_sequence (der_tlv 0x30 c) = der_read_all c"
  using der_read_tlv [of c "0x30" "[]"] by (simp add: read_sequence_def)

text \<open>The contents of the nameConstraints extension that is written.\<close>

definition constraints_body :: "RawGeneralName list \<Rightarrow> RawGeneralName list \<Rightarrow> bytes" where
  "constraints_body permitted excluded =
     (if permitted \<noteq> [] then der_tlv 0xa0 (concat (map general_subtree permitted)) else []) @
     (if excluded \<noteq> [] then der_tlv 0xa1 (concat (map general_subtree excluded)) else [])"

lemma read_name_constraints_written:
  assumes "length (constraints_body p e) < 65536"
  shows "read_name_constraints (der_tlv 0x30 (constraints_body p e)) = Some (map raw_bytes p, map raw_bytes e)"
proof -
  let ?p = "concat (map general_subtree p)" and ?e = "concat (map general_subtree e)"
  have p: "p \<noteq> [] \<Longrightarrow> length ?p < 65536" and e: "e \<noteq> [] \<Longrightarrow> length ?e < 65536"
    using assms length_der_tlv [of ?p "0xa0"] length_der_tlv [of ?e "0xa1"]
    by (auto simp: constraints_body_def split: if_splits)
  have "der_read_all (constraints_body p e) =
      Some ((if p \<noteq> [] then [(0xa0, ?p)] else []) @ (if e \<noteq> [] then [(0xa1, ?e)] else []))"
    using p e by (auto simp: constraints_body_def der_read_all_one der_read_all_two der_read_all.simps [of "[]"])
  then show ?thesis
    using p e by (auto simp: read_name_constraints_def read_sequence_written [OF assms] read_subtrees_written)
qed

subsection \<open>Properties\<close>

text \<open>
  The test kit's DER writer is read back exactly by a strict DER reader, with any bytes after it,
  as long as the contents have fewer than 65536 bytes; so every length is written in its minimal
  form.
\<close>

theorem der_tlv_roundtrip:
  assumes "length contents < 65536"
  shows "der_read (der_tlv tag contents @ rest) = Some (tag, contents, rest)"
  by (rule der_read_tlv [OF assms])

theorem der_tlv_roundtrip_witness:
  "der_read (der_tlv 0x30 (replicate 300 7) @ [1, 2]) = Some (0x30, replicate 300 7, [1, 2])"
  using der_tlv_roundtrip [of "replicate 300 7"] by simp

text \<open>
  C40. Contents of 65536 bytes or more are written with a truncated length: the two length bytes hold
  the length modulo 65536, and no strict reader recovers the contents.
\<close>

theorem der_tlv_truncates_length:
  assumes "65536 \<le> length contents"
  shows "\<exists>hi lo. der_tlv tag contents = [tag, 0x82, hi, lo] @ contents \<and>
           unat hi * 256 + unat lo = length contents mod 65536 \<and>
           der_read (der_tlv tag contents) \<noteq> Some (tag, contents, [])"
proof -
  let ?hi = "word_of_nat (length contents div 256) :: byte" and ?lo = "word_of_nat (length contents mod 256) :: byte"
  have "length contents mod 65536 = (length contents div 256 mod 256) * 256 + length contents mod 256"
    using mod_mult2_eq [of "length contents" 256 256] by simp
  then have len: "unat ?hi * 256 + unat ?lo = length contents mod 65536" by (simp add: unat_of_nat)
  then have "unat ?hi * 256 + unat ?lo < length contents" using assms mod_less_divisor [of 65536] by auto
  then show ?thesis
    using assms len by (intro exI [of _ ?hi] exI [of _ ?lo]) (simp add: der_tlv_header der_contents_def)
qed

theorem der_tlv_truncates_length_witness:
  "der_read (der_tlv 0x04 (replicate 65536 0)) \<noteq> Some (0x04, replicate 65536 0, [])"
  using der_tlv_truncates_length [of "replicate 65536 0" "0x04"] by auto

text \<open>
  The hand-built nameConstraints extension is critical, carries the nameConstraints OID, and
  decodes to the permitted and the excluded names it was given, in order, a list that is empty being
  left out; the hand-built subjectAltName extension is critical and carries its names in order.
\<close>

theorem raw_extensions_roundtrip:
  assumes "length (constraints_body permitted excluded) < 65536"
    and "length (concat (map raw_bytes names)) < 65536"
  shows "(\<exists>content.
      raw_name_constraints_extension rcgen permitted excluded =
        set_criticality rcgen (from_oid_content rcgen [2, 5, 29, 30] content) True \<and>
      read_name_constraints content = Some (map raw_bytes permitted, map raw_bytes excluded)) \<and>
    (\<exists>content.
      raw_subject_alt_name_extension rcgen names =
        set_criticality rcgen (from_oid_content rcgen [2, 5, 29, 17] content) True \<and>
      der_read content = Some (0x30, concat (map raw_bytes names), []))"
  using read_name_constraints_written [OF assms(1)] der_read_tlv [OF assms(2), of "0x30" "[]"]
  by (auto simp: raw_name_constraints_extension_def raw_subject_alt_name_extension_def constraints_body_def
      NAME_CONSTRAINTS_OID_def SUBJECT_ALT_NAME_OID_def Let_def)

definition extension_triples :: "(oid \<times> bytes \<times> bool) rcgen_extensions" where
  "extension_triples =
     \<lparr>from_oid_content = (\<lambda>oid content. (oid, content, False)),
      set_criticality = (\<lambda>(oid, content, _) critical. (oid, content, critical))\<rparr>"

theorem raw_extensions_roundtrip_witness:
  "\<exists>content.
     raw_name_constraints_extension extension_triples [raw_dns (ascii ''example.com'')] [raw_ip [10, 0, 0, 0, 255, 0, 0, 0]]
       = ([2, 5, 29, 30], content, True) \<and>
     read_name_constraints content =
       Some ([raw_bytes (raw_dns (ascii ''example.com''))], [raw_bytes (raw_ip [10, 0, 0, 0, 255, 0, 0, 0])])"
proof -
  have "length (constraints_body [raw_dns (ascii ''example.com'')] [raw_ip [10, 0, 0, 0, 255, 0, 0, 0]]) < 65536"
    "length (concat (map raw_bytes [])) < 65536"
    by (simp_all add: constraints_body_def general_subtree_def raw_dns_def raw_ip_def raw_primitive_def
        der_tlv_header ascii_def)
  then show ?thesis
    using raw_extensions_roundtrip [of "[raw_dns (ascii ''example.com'')]" "[raw_ip [10, 0, 0, 0, 255, 0, 0, 0]]" "[]"
        extension_triples]
    by (auto simp: extension_triples_def)
qed

end
