(* ===== verification/Testkit_Certificates.thy ===== *)
theory Testkit_Certificates
  imports Testkit_Der
begin

text \<open>
  \<^verbatim>\<open>x509-validator-testkit\<close>: \<^verbatim>\<open>ca.rs\<close>, \<^verbatim>\<open>leaf.rs\<close>, and \<^verbatim>\<open>constraints.rs\<close>, the builders of the
  certificates the repository tests and benchmarks itself with.

  The certificate generator rcgen is third-party code: its parameter struct is a record of the public
  fields the test kit sets, and its operations are the fields of the record \<open>rcgen\<close>, with key pairs,
  names and extensions as type parameters. A failed \<open>expect\<close> is a panic. \<open>KeyPair::generate()\<close> is not a
  function; where a builder calls it once its result is the argument \<open>fresh\<close>, and where it is called
  several times \<open>fresh n\<close> is the result of the n-th call. A closure that configures the parameters is a
  function on them. Times are Unix timestamps in seconds.
\<close>

subsection \<open>The generator's types\<close>

datatype PathLen = Unconstrained | Constrained "8 word"

datatype IsCa = NoCa | IsCa PathLen

datatype KeyIdMethod = DefaultKeyIdMethod | PreSpecified bytes

datatype SanType = SanDnsName string | SanRfc822Name string | SanIpAddress bytes

datatype ExtendedKeyUsagePurpose =
    PurposeAny | PurposeServerAuth | PurposeClientAuth | PurposeCodeSigning | PurposeEmailProtection
  | PurposeTimeStamping | PurposeOcspSigning | PurposeOther oid

datatype KeyUsagePurpose =
    KeyDigitalSignature | KeyContentCommitment | KeyKeyEncipherment | KeyDataEncipherment | KeyKeyAgreement
  | KeyCertSign | KeyCrlSign | KeyEncipherOnly | KeyDecipherOnly

record ('dn, 'ext) CertificateParams =
  distinguished_name :: 'dn
  params_not_before :: int
  params_not_after :: int
  is_ca :: IsCa
  use_authority_key_identifier_extension :: bool
  key_identifier_method :: KeyIdMethod
  subject_alt_names :: "SanType list"
  key_usages :: "KeyUsagePurpose list"
  extended_key_usages :: "ExtendedKeyUsagePurpose list"
  custom_extensions :: "'ext list"

record ('dn, 'ext, 'key) rcgen =
  rc_default :: "('dn, 'ext) CertificateParams"
  rc_params_new :: "string list \<Rightarrow> ('dn, 'ext) CertificateParams option"
  rc_date_time_ymd :: "int \<Rightarrow> nat \<Rightarrow> nat \<Rightarrow> int"
  rc_dn_new :: 'dn
  rc_dn_push_common_name :: "'dn \<Rightarrow> string \<Rightarrow> 'dn"
  rc_extensions :: "'ext rcgen_extensions"
  rc_is_ia5 :: "string \<Rightarrow> bool"                      \<comment> \<open>\<open>Ia5String::try_from\<close> succeeds\<close>
  rc_self_signed :: "('dn, 'ext) CertificateParams \<Rightarrow> 'key \<Rightarrow> bytes option"
  rc_signed_by :: "('dn, 'ext) CertificateParams \<Rightarrow> 'key \<Rightarrow> ('dn, 'ext) CertificateParams \<times> 'key \<Rightarrow> bytes option"
  rc_key_identifier :: "('dn, 'ext) CertificateParams \<Rightarrow> 'key \<Rightarrow> bytes"
  rc_subject_public_key_info :: "'key \<Rightarrow> bytes"
  rc_serialize_pem :: "'key \<Rightarrow> string"
  rc_from_pem :: "string \<Rightarrow> 'key option"

subsection \<open>Authorities\<close>

record ('dn, 'ext, 'key) Ca =
  ca_der :: bytes
  ca_params :: "('dn, 'ext) CertificateParams"
  ca_key_pair :: 'key

definition ca_issuer :: "('dn, 'ext, 'key) Ca \<Rightarrow> ('dn, 'ext) CertificateParams \<times> 'key" where
  "ca_issuer self = (ca_params self, ca_key_pair self)"

definition public_key_der :: "('dn, 'ext, 'key) rcgen \<Rightarrow> ('dn, 'ext, 'key) Ca \<Rightarrow> bytes" where
  "public_key_der rc self = rc_subject_public_key_info rc (ca_key_pair self)"

definition copy_of_key_pair :: "('dn, 'ext, 'key) rcgen \<Rightarrow> ('dn, 'ext, 'key) Ca \<Rightarrow> 'key may_panic" where
  "copy_of_key_pair rc self = rc_from_pem rc (rc_serialize_pem rc (ca_key_pair self))"

definition cross_signed_by ::
  "('dn, 'ext, 'key) rcgen \<Rightarrow> ('dn, 'ext, 'key) Ca \<Rightarrow> ('dn, 'ext, 'key) Ca \<Rightarrow> ('dn, 'ext, 'key) Ca may_panic" where
  "cross_signed_by rc self issuer = do {
     let params = (ca_params self)\<lparr>use_authority_key_identifier_extension := True\<rparr>;
     key_pair \<leftarrow> copy_of_key_pair rc self;
     der \<leftarrow> rc_signed_by rc params key_pair (ca_issuer issuer);
     Some \<lparr>ca_der = der, ca_params = params, ca_key_pair = key_pair\<rparr> }"

definition ca_key_identifier :: "('dn, 'ext, 'key) rcgen \<Rightarrow> ('dn, 'ext, 'key) Ca \<Rightarrow> bytes" where
  "ca_key_identifier rc self = rc_key_identifier rc (ca_params self) (ca_key_pair self)"

definition base_params :: "('dn, 'ext, 'key) rcgen \<Rightarrow> string \<Rightarrow> ('dn, 'ext) CertificateParams" where
  "base_params rc subject_cn =
     (rc_default rc)
       \<lparr>distinguished_name := rc_dn_push_common_name rc (rc_dn_new rc) subject_cn,
        params_not_before := 0 + 1000,
        params_not_after := 0 + 2000\<rparr>"

text \<open>The \<open>match\<close> on a path length that the builders repeat.\<close>

definition is_ca_with :: "8 word option \<Rightarrow> IsCa" where
  "is_ca_with max_path_len =
     IsCa (case max_path_len of Some n \<Rightarrow> Constrained n | None \<Rightarrow> Unconstrained)"

definition signing_identity ::
  "('dn, 'ext, 'key) rcgen \<Rightarrow> string \<Rightarrow> 'key \<Rightarrow> bytes option \<Rightarrow> ('dn, 'ext, 'key) Ca" where
  "signing_identity rc subject_cn key_pair authority_key_id =
     (let params = (base_params rc subject_cn)\<lparr>is_ca := IsCa Unconstrained\<rparr>;
          params = (case authority_key_id of
                      Some bytes \<Rightarrow> params\<lparr>key_identifier_method := PreSpecified bytes\<rparr>
                    | None \<Rightarrow> params)
      in \<lparr>ca_der = [], ca_params = params, ca_key_pair = key_pair\<rparr>)"

definition self_signed_ca_with ::
  "('dn, 'ext, 'key) rcgen \<Rightarrow> string \<Rightarrow> (('dn, 'ext) CertificateParams \<Rightarrow> ('dn, 'ext) CertificateParams) \<Rightarrow>
   'key may_panic \<Rightarrow> ('dn, 'ext, 'key) Ca may_panic" where
  "self_signed_ca_with rc subject_cn configure fresh = do {
     let params = (base_params rc subject_cn)\<lparr>is_ca := IsCa Unconstrained\<rparr>;
     let params = configure params;
     key_pair \<leftarrow> fresh;
     der \<leftarrow> rc_self_signed rc params key_pair;
     Some \<lparr>ca_der = der, ca_params = params, ca_key_pair = key_pair\<rparr> }"

definition self_signed_ca ::
  "('dn, 'ext, 'key) rcgen \<Rightarrow> string \<Rightarrow> 'key may_panic \<Rightarrow> bytes may_panic" where
  "self_signed_ca rc subject_cn fresh = map_option ca_der (self_signed_ca_with rc subject_cn id fresh)"

definition issue_ca ::
  "('dn, 'ext, 'key) rcgen \<Rightarrow> string \<Rightarrow> ('dn, 'ext, 'key) Ca \<Rightarrow> 8 word option \<Rightarrow>
   (('dn, 'ext) CertificateParams \<Rightarrow> ('dn, 'ext) CertificateParams) \<Rightarrow> 'key may_panic \<Rightarrow>
   ('dn, 'ext, 'key) Ca may_panic" where
  "issue_ca rc subject_cn issuer max_path_len configure fresh = do {
     let params = (base_params rc subject_cn)\<lparr>is_ca := is_ca_with max_path_len\<rparr>;
     let params = configure params;
     key_pair \<leftarrow> fresh;
     der \<leftarrow> rc_signed_by rc params key_pair (ca_issuer issuer);
     Some \<lparr>ca_der = der, ca_params = params, ca_key_pair = key_pair\<rparr> }"

subsection \<open>Key identifiers\<close>

definition BASIC_CONSTRAINTS_OID :: oid where "BASIC_CONSTRAINTS_OID = [2, 5, 29, 19]"

definition manual_basic_constraints_ca :: "'ext rcgen_extensions \<Rightarrow> 'ext" where
  "manual_basic_constraints_ca ops =
     (let contents = der_tlv 0x30 (der_tlv 0x01 [0xff]);
          extension = from_oid_content ops BASIC_CONSTRAINTS_OID contents
      in set_criticality ops extension True)"

datatype Ski = Derived | Exactly bytes | Absent

definition apply_ski ::
  "('dn, 'ext, 'key) rcgen \<Rightarrow> ('dn, 'ext) CertificateParams \<Rightarrow> Ski \<Rightarrow> bool \<Rightarrow> ('dn, 'ext) CertificateParams" where
  "apply_ski rc params ski for_ca =
     (case ski of
        Derived \<Rightarrow> params
      | Exactly bytes \<Rightarrow> params\<lparr>key_identifier_method := PreSpecified bytes\<rparr>
      | Absent \<Rightarrow>
          if for_ca
          then params\<lparr>is_ca := NoCa,
                 custom_extensions := custom_extensions params @ [manual_basic_constraints_ca (rc_extensions rc)]\<rparr>
          else params)"

definition issue_ca_with_key_and_name ::
  "('dn, 'ext, 'key) rcgen \<Rightarrow> string \<Rightarrow> ('dn, 'ext, 'key) Ca \<Rightarrow> 'key \<Rightarrow> 8 word option \<Rightarrow> Ski \<Rightarrow> bool \<Rightarrow>
   (('dn, 'ext) CertificateParams \<Rightarrow> ('dn, 'ext) CertificateParams) \<Rightarrow> ('dn, 'ext, 'key) Ca may_panic" where
  "issue_ca_with_key_and_name rc subject_cn issuer key_pair max_path_len ski include_aki configure = do {
     let params = (base_params rc subject_cn)
       \<lparr>is_ca := is_ca_with max_path_len, use_authority_key_identifier_extension := include_aki\<rparr>;
     let params = apply_ski rc params ski True;
     let params = configure params;
     der \<leftarrow> rc_signed_by rc params key_pair (ca_issuer issuer);
     Some \<lparr>ca_der = der, ca_params = params, ca_key_pair = key_pair\<rparr> }"

definition issue_ca_with_key_ids ::
  "('dn, 'ext, 'key) rcgen \<Rightarrow> string \<Rightarrow> ('dn, 'ext, 'key) Ca \<Rightarrow> 8 word option \<Rightarrow> Ski \<Rightarrow> bool \<Rightarrow>
   'key may_panic \<Rightarrow> ('dn, 'ext, 'key) Ca may_panic" where
  "issue_ca_with_key_ids rc subject_cn issuer max_path_len ski include_aki fresh = do {
     let params = (base_params rc subject_cn)
       \<lparr>is_ca := is_ca_with max_path_len, use_authority_key_identifier_extension := include_aki\<rparr>;
     let params = apply_ski rc params ski True;
     key_pair \<leftarrow> fresh;
     der \<leftarrow> rc_signed_by rc params key_pair (ca_issuer issuer);
     Some \<lparr>ca_der = der, ca_params = params, ca_key_pair = key_pair\<rparr> }"

definition issue_ca_with_key ::
  "('dn, 'ext, 'key) rcgen \<Rightarrow> string \<Rightarrow> ('dn, 'ext, 'key) Ca \<Rightarrow> 'key \<Rightarrow> Ski \<Rightarrow> bool \<Rightarrow>
   (('dn, 'ext) CertificateParams \<Rightarrow> ('dn, 'ext) CertificateParams) \<Rightarrow> ('dn, 'ext, 'key) Ca may_panic" where
  "issue_ca_with_key rc subject_cn issuer key_pair ski include_aki configure = do {
     let params = (base_params rc subject_cn)
       \<lparr>is_ca := IsCa Unconstrained, use_authority_key_identifier_extension := include_aki\<rparr>;
     let params = apply_ski rc params ski True;
     let params = configure params;
     der \<leftarrow> rc_signed_by rc params key_pair (ca_issuer issuer);
     Some \<lparr>ca_der = der, ca_params = params, ca_key_pair = key_pair\<rparr> }"

definition self_signed_ca_with_key_ids ::
  "('dn, 'ext, 'key) rcgen \<Rightarrow> string \<Rightarrow> 'key option \<Rightarrow> Ski \<Rightarrow> 'key may_panic \<Rightarrow> ('dn, 'ext, 'key) Ca may_panic" where
  "self_signed_ca_with_key_ids rc subject_cn key_pair ski fresh = do {
     let params = (base_params rc subject_cn)\<lparr>is_ca := IsCa Unconstrained\<rparr>;
     let params = apply_ski rc params ski True;
     key_pair \<leftarrow> (case key_pair of Some k \<Rightarrow> Some k | None \<Rightarrow> fresh);
     der \<leftarrow> rc_self_signed rc params key_pair;
     Some \<lparr>ca_der = der, ca_params = params, ca_key_pair = key_pair\<rparr> }"

definition issue_self_issued_ca ::
  "('dn, 'ext, 'key) rcgen \<Rightarrow> ('dn, 'ext, 'key) Ca \<Rightarrow> 8 word option \<Rightarrow> 'key may_panic \<Rightarrow>
   ('dn, 'ext, 'key) Ca may_panic" where
  "issue_self_issued_ca rc issuer max_path_len fresh = do {
     let params = (rc_default rc)
       \<lparr>distinguished_name := distinguished_name (ca_params issuer),
        params_not_before := params_not_before (ca_params issuer),
        params_not_after := params_not_after (ca_params issuer),
        is_ca := is_ca_with max_path_len\<rparr>;
     key_pair \<leftarrow> fresh;
     der \<leftarrow> rc_signed_by rc params key_pair (ca_issuer issuer);
     Some \<lparr>ca_der = der, ca_params = params, ca_key_pair = key_pair\<rparr> }"

subsection \<open>Specifications\<close>

record 'key CaSpec =
  ca_subject_cn :: string
  ca_spec_key_pair :: "'key option"
  ca_not_before :: "int option"
  ca_not_after :: "int option"
  ca_path_len :: "8 word option"
  ca_ski :: Ski
  ca_include_aki :: bool

definition CaSpec_new :: "string \<Rightarrow> 'key CaSpec" where
  "CaSpec_new subject_cn =
     \<lparr>ca_subject_cn = subject_cn, ca_spec_key_pair = None, ca_not_before = None, ca_not_after = None,
      ca_path_len = None, ca_ski = Derived, ca_include_aki = False\<rparr>"

definition ca_with_key_pair :: "'key CaSpec \<Rightarrow> 'key \<Rightarrow> 'key CaSpec" where
  "ca_with_key_pair self key_pair = self\<lparr>ca_spec_key_pair := Some key_pair\<rparr>"

definition ca_with_validity :: "'key CaSpec \<Rightarrow> int \<Rightarrow> int \<Rightarrow> 'key CaSpec" where
  "ca_with_validity self not_before not_after =
     self\<lparr>ca_not_before := Some not_before, ca_not_after := Some not_after\<rparr>"

definition ca_with_path_len :: "'key CaSpec \<Rightarrow> 8 word option \<Rightarrow> 'key CaSpec" where
  "ca_with_path_len self path_len = self\<lparr>ca_path_len := path_len\<rparr>"

definition ca_with_ski :: "'key CaSpec \<Rightarrow> Ski \<Rightarrow> 'key CaSpec" where
  "ca_with_ski self ski = self\<lparr>ca_ski := ski\<rparr>"

definition ca_with_aki :: "'key CaSpec \<Rightarrow> bool \<Rightarrow> 'key CaSpec" where
  "ca_with_aki self include_aki = self\<lparr>ca_include_aki := include_aki\<rparr>"

definition CaSpec_build ::
  "('dn, 'ext, 'key) rcgen \<Rightarrow> 'key CaSpec \<Rightarrow> 'key may_panic \<Rightarrow> (('dn, 'ext) CertificateParams \<times> 'key) may_panic" where
  "CaSpec_build rc self fresh = do {
     let params = (base_params rc (ca_subject_cn self))
       \<lparr>is_ca := is_ca_with (ca_path_len self),
        use_authority_key_identifier_extension := ca_include_aki self\<rparr>;
     let params = (case ca_not_before self of Some t \<Rightarrow> params\<lparr>params_not_before := t\<rparr> | None \<Rightarrow> params);
     let params = (case ca_not_after self of Some t \<Rightarrow> params\<lparr>params_not_after := t\<rparr> | None \<Rightarrow> params);
     let params = apply_ski rc params (ca_ski self) True;
     key_pair \<leftarrow> (case ca_spec_key_pair self of Some k \<Rightarrow> Some k | None \<Rightarrow> fresh);
     Some (params, key_pair) }"

definition CaSpec_self_signed ::
  "('dn, 'ext, 'key) rcgen \<Rightarrow> 'key CaSpec \<Rightarrow> 'key may_panic \<Rightarrow> ('dn, 'ext, 'key) Ca may_panic" where
  "CaSpec_self_signed rc self fresh = do {
     (params, key_pair) \<leftarrow> CaSpec_build rc self fresh;
     der \<leftarrow> rc_self_signed rc params key_pair;
     Some \<lparr>ca_der = der, ca_params = params, ca_key_pair = key_pair\<rparr> }"

definition CaSpec_signed_by ::
  "('dn, 'ext, 'key) rcgen \<Rightarrow> 'key CaSpec \<Rightarrow> ('dn, 'ext, 'key) Ca \<Rightarrow> 'key may_panic \<Rightarrow> ('dn, 'ext, 'key) Ca may_panic" where
  "CaSpec_signed_by rc self issuer fresh = do {
     (params, key_pair) \<leftarrow> CaSpec_build rc self fresh;
     der \<leftarrow> rc_signed_by rc params key_pair (ca_issuer issuer);
     Some \<lparr>ca_der = der, ca_params = params, ca_key_pair = key_pair\<rparr> }"

text \<open>\<open>Ia5String::try_from(name).expect(..)\<close> for each name.\<close>

definition ia5_names :: "('dn, 'ext, 'key) rcgen \<Rightarrow> (string \<Rightarrow> SanType) \<Rightarrow> string list \<Rightarrow> SanType list may_panic" where
  "ia5_names rc san names = those (map (\<lambda>name. if rc_is_ia5 rc name then Some (san name) else panic) names)"

definition issue_leaf_with ::
  "('dn, 'ext, 'key) rcgen \<Rightarrow> string \<Rightarrow> string list \<Rightarrow> ('dn, 'ext, 'key) Ca \<Rightarrow>
   (('dn, 'ext) CertificateParams \<Rightarrow> ('dn, 'ext) CertificateParams) \<Rightarrow> 'key may_panic \<Rightarrow> bytes may_panic" where
  "issue_leaf_with rc subject_cn dns_sans issuer configure fresh = do {
     let params = base_params rc subject_cn;
     sans \<leftarrow> ia5_names rc SanDnsName dns_sans;
     let params = configure (params\<lparr>subject_alt_names := sans\<rparr>);
     key_pair \<leftarrow> fresh;
     rc_signed_by rc params key_pair (ca_issuer issuer) }"

definition issue_leaf ::
  "('dn, 'ext, 'key) rcgen \<Rightarrow> string \<Rightarrow> string list \<Rightarrow> ('dn, 'ext, 'key) Ca \<Rightarrow> 'key may_panic \<Rightarrow> bytes may_panic" where
  "issue_leaf rc subject_cn dns_sans issuer fresh = issue_leaf_with rc subject_cn dns_sans issuer id fresh"

definition issue_leaf_with_ip_sans ::
  "('dn, 'ext, 'key) rcgen \<Rightarrow> string \<Rightarrow> bytes list \<Rightarrow> ('dn, 'ext, 'key) Ca \<Rightarrow> 'key may_panic \<Rightarrow> bytes may_panic" where
  "issue_leaf_with_ip_sans rc subject_cn ip_sans issuer fresh = do {
     let params = (base_params rc subject_cn)\<lparr>subject_alt_names := map SanIpAddress ip_sans\<rparr>;
     key_pair \<leftarrow> fresh;
     rc_signed_by rc params key_pair (ca_issuer issuer) }"

definition issue_leaf_with_email_sans ::
  "('dn, 'ext, 'key) rcgen \<Rightarrow> string \<Rightarrow> string list \<Rightarrow> ('dn, 'ext, 'key) Ca \<Rightarrow> 'key may_panic \<Rightarrow> bytes may_panic" where
  "issue_leaf_with_email_sans rc subject_cn email_sans issuer fresh = do {
     let params = base_params rc subject_cn;
     sans \<leftarrow> ia5_names rc SanRfc822Name email_sans;
     let params = params\<lparr>subject_alt_names := sans\<rparr>;
     key_pair \<leftarrow> fresh;
     rc_signed_by rc params key_pair (ca_issuer issuer) }"

definition issue_leaf_with_dn ::
  "('dn, 'ext, 'key) rcgen \<Rightarrow> 'dn \<Rightarrow> ('dn, 'ext, 'key) Ca \<Rightarrow>
   (('dn, 'ext) CertificateParams \<Rightarrow> ('dn, 'ext) CertificateParams) \<Rightarrow> 'key may_panic \<Rightarrow> bytes may_panic" where
  "issue_leaf_with_dn rc dn issuer configure fresh = do {
     let params = configure ((base_params rc [])\<lparr>distinguished_name := dn\<rparr>);
     key_pair \<leftarrow> fresh;
     rc_signed_by rc params key_pair (ca_issuer issuer) }"

definition issue_leaf_with_aki ::
  "('dn, 'ext, 'key) rcgen \<Rightarrow> string \<Rightarrow> string list \<Rightarrow> ('dn, 'ext, 'key) Ca \<Rightarrow> bool \<Rightarrow> 'key may_panic \<Rightarrow> bytes may_panic" where
  "issue_leaf_with_aki rc subject_cn dns_sans issuer include_aki fresh =
     issue_leaf_with rc subject_cn dns_sans issuer
       (\<lambda>params. params\<lparr>use_authority_key_identifier_extension := include_aki\<rparr>) fresh"

record 'key LeafSpec =
  leaf_subject_cn :: string
  leaf_spec_key_pair :: "'key option"
  leaf_not_before :: "int option"
  leaf_not_after :: "int option"
  leaf_dns_sans :: "string list"
  leaf_include_aki :: bool
  leaf_critical_extension :: "(oid \<times> bytes) option"
  leaf_extended_key_usages :: "ExtendedKeyUsagePurpose list"

definition LeafSpec_new :: "string \<Rightarrow> 'key LeafSpec" where
  "LeafSpec_new subject_cn =
     \<lparr>leaf_subject_cn = subject_cn, leaf_spec_key_pair = None, leaf_not_before = None, leaf_not_after = None,
      leaf_dns_sans = [], leaf_include_aki = False, leaf_critical_extension = None, leaf_extended_key_usages = []\<rparr>"

definition leaf_with_key_pair :: "'key LeafSpec \<Rightarrow> 'key \<Rightarrow> 'key LeafSpec" where
  "leaf_with_key_pair self key_pair = self\<lparr>leaf_spec_key_pair := Some key_pair\<rparr>"

definition leaf_with_validity :: "'key LeafSpec \<Rightarrow> int \<Rightarrow> int \<Rightarrow> 'key LeafSpec" where
  "leaf_with_validity self not_before not_after =
     self\<lparr>leaf_not_before := Some not_before, leaf_not_after := Some not_after\<rparr>"

definition leaf_with_dns_sans :: "'key LeafSpec \<Rightarrow> string list \<Rightarrow> 'key LeafSpec" where
  "leaf_with_dns_sans self dns_sans = self\<lparr>leaf_dns_sans := dns_sans\<rparr>"

definition leaf_with_aki :: "'key LeafSpec \<Rightarrow> bool \<Rightarrow> 'key LeafSpec" where
  "leaf_with_aki self include_aki = self\<lparr>leaf_include_aki := include_aki\<rparr>"

definition leaf_with_extended_key_usages :: "'key LeafSpec \<Rightarrow> ExtendedKeyUsagePurpose list \<Rightarrow> 'key LeafSpec" where
  "leaf_with_extended_key_usages self purposes_named = self\<lparr>leaf_extended_key_usages := purposes_named\<rparr>"

definition leaf_with_critical_extension :: "'key LeafSpec \<Rightarrow> oid \<Rightarrow> bytes \<Rightarrow> 'key LeafSpec" where
  "leaf_with_critical_extension self oid value = self\<lparr>leaf_critical_extension := Some (oid, value)\<rparr>"

definition LeafSpec_build ::
  "('dn, 'ext, 'key) rcgen \<Rightarrow> 'key LeafSpec \<Rightarrow> bool \<Rightarrow> 'key may_panic \<Rightarrow>
   (('dn, 'ext) CertificateParams \<times> 'key) may_panic" where
  "LeafSpec_build rc self for_ca fresh = do {
     let params = (base_params rc (leaf_subject_cn self))
       \<lparr>use_authority_key_identifier_extension := leaf_include_aki self\<rparr>;
     sans \<leftarrow> ia5_names rc SanDnsName (leaf_dns_sans self);
     let params = params\<lparr>subject_alt_names := sans\<rparr>;
     let params = (case leaf_not_before self of Some t \<Rightarrow> params\<lparr>params_not_before := t\<rparr> | None \<Rightarrow> params);
     let params = (case leaf_not_after self of Some t \<Rightarrow> params\<lparr>params_not_after := t\<rparr> | None \<Rightarrow> params);
     let params = (if for_ca then params\<lparr>is_ca := IsCa Unconstrained\<rparr> else params);
     let params = params\<lparr>extended_key_usages := leaf_extended_key_usages self\<rparr>;
     let params =
       (case leaf_critical_extension self of
          Some (oid, value) \<Rightarrow>
            let ext = set_criticality (rc_extensions rc) (from_oid_content (rc_extensions rc) oid value) True
            in params\<lparr>custom_extensions := custom_extensions params @ [ext]\<rparr>
        | None \<Rightarrow> params);
     key_pair \<leftarrow> (case leaf_spec_key_pair self of Some k \<Rightarrow> Some k | None \<Rightarrow> fresh);
     Some (params, key_pair) }"

definition LeafSpec_signed_by ::
  "('dn, 'ext, 'key) rcgen \<Rightarrow> 'key LeafSpec \<Rightarrow> ('dn, 'ext, 'key) Ca \<Rightarrow> 'key may_panic \<Rightarrow> bytes may_panic" where
  "LeafSpec_signed_by rc self issuer fresh = do {
     (params, key_pair) \<leftarrow> LeafSpec_build rc self False fresh;
     rc_signed_by rc params key_pair (ca_issuer issuer) }"

definition LeafSpec_self_signed ::
  "('dn, 'ext, 'key) rcgen \<Rightarrow> 'key LeafSpec \<Rightarrow> 'key may_panic \<Rightarrow> bytes may_panic" where
  "LeafSpec_self_signed rc self fresh = do {
     (params, key_pair) \<leftarrow> LeafSpec_build rc self True fresh;
     rc_self_signed rc params key_pair }"

definition free_self_signed :: "('dn, 'ext, 'key) rcgen \<Rightarrow> 'key \<Rightarrow> bytes may_panic" where
  "free_self_signed rc key_pair = rc_self_signed rc (rc_default rc) key_pair"

subsection \<open>Name constraints\<close>

datatype CidrSubnet = CidrV4 bytes bytes | CidrV6 bytes bytes

datatype 'dn RcSubtree = RcDnsName string | RcIpAddress CidrSubnet | RcDirectoryName 'dn

record 'dn RcNameConstraints =
  rc_permitted_subtrees :: "'dn RcSubtree list"
  rc_excluded_subtrees :: "'dn RcSubtree list"

definition dns_subtree :: "string \<Rightarrow> 'dn RcSubtree" where
  "dns_subtree name = RcDnsName name"

definition ipv4_subtree :: "bytes \<Rightarrow> bytes \<Rightarrow> 'dn RcSubtree" where
  "ipv4_subtree network netmask = RcIpAddress (CidrV4 network netmask)"

definition ipv6_subtree :: "bytes \<Rightarrow> bytes \<Rightarrow> 'dn RcSubtree" where
  "ipv6_subtree network netmask = RcIpAddress (CidrV6 network netmask)"

definition directory_name_subtree :: "('dn, 'ext, 'key) rcgen \<Rightarrow> string \<Rightarrow> 'dn RcSubtree" where
  "directory_name_subtree rc common_name =
     (let dn = rc_dn_push_common_name rc (rc_dn_new rc) common_name in RcDirectoryName dn)"

definition name_constraints :: "'dn RcSubtree list \<Rightarrow> 'dn RcSubtree list \<Rightarrow> 'dn RcNameConstraints" where
  "name_constraints permitted excluded =
     \<lparr>rc_permitted_subtrees = permitted, rc_excluded_subtrees = excluded\<rparr>"

subsection \<open>What the builders produce\<close>

lemma CaSpec_build_Some:
  assumes "CaSpec_build rc spec fresh = Some (params, key)"
  shows "distinguished_name params = rc_dn_push_common_name rc (rc_dn_new rc) (ca_subject_cn spec)"
    and "params_not_before params = (case ca_not_before spec of Some t \<Rightarrow> t | None \<Rightarrow> 1000)"
    and "params_not_after params = (case ca_not_after spec of Some t \<Rightarrow> t | None \<Rightarrow> 2000)"
    and "is_ca params = (if ca_ski spec = Absent then NoCa else is_ca_with (ca_path_len spec))"
    and "use_authority_key_identifier_extension params = ca_include_aki spec"
    and "key_identifier_method params =
      (case ca_ski spec of Exactly b \<Rightarrow> PreSpecified b | _ \<Rightarrow> key_identifier_method (rc_default rc))"
    and "custom_extensions params = custom_extensions (rc_default rc) @
      (if ca_ski spec = Absent then [manual_basic_constraints_ca (rc_extensions rc)] else [])"
    and "Some key = (case ca_spec_key_pair spec of Some k \<Rightarrow> Some k | None \<Rightarrow> fresh)"
  using assms
  by (auto simp: CaSpec_build_def base_params_def apply_ski_def Let_def
      split: Option.bind_splits option.splits Ski.splits)

lemma CaSpec_signed_by_Some:
  assumes "CaSpec_signed_by rc spec issuer fresh = Some c"
  shows "CaSpec_build rc spec fresh = Some (ca_params c, ca_key_pair c)"
    and "rc_signed_by rc (ca_params c) (ca_key_pair c) (ca_issuer issuer) = Some (ca_der c)"
  using assms by (auto simp: CaSpec_signed_by_def split: Option.bind_splits)

lemma CaSpec_self_signed_Some:
  assumes "CaSpec_self_signed rc spec fresh = Some c"
  shows "CaSpec_build rc spec fresh = Some (ca_params c, ca_key_pair c)"
    and "rc_self_signed rc (ca_params c) (ca_key_pair c) = Some (ca_der c)"
  using assms by (auto simp: CaSpec_self_signed_def split: Option.bind_splits)

text \<open>A generator for the witnesses: the DER of a certificate is its key, followed by the issuer's.\<close>

definition sample_rcgen :: "(string, oid \<times> bytes \<times> bool, nat) rcgen" where
  "sample_rcgen =
     (let params =
        \<lparr>distinguished_name = [], params_not_before = 0, params_not_after = 0, is_ca = NoCa,
         use_authority_key_identifier_extension = False, key_identifier_method = DefaultKeyIdMethod,
         subject_alt_names = [], key_usages = [], extended_key_usages = [], custom_extensions = []\<rparr>
      in
     \<lparr>rc_default = params, rc_params_new = (\<lambda>_. Some params), rc_date_time_ymd = (\<lambda>y m d. (y - 1970) * 31556952),
      rc_dn_new = [], rc_dn_push_common_name = (@),
      rc_extensions = extension_triples,
      rc_is_ia5 = (\<lambda>_. True),
      rc_self_signed = (\<lambda>_ key. Some [of_nat key]),
      rc_signed_by = (\<lambda>_ key issuer. Some [of_nat key, of_nat (snd issuer)]),
      rc_key_identifier = (\<lambda>_ key. [of_nat key]),
      rc_subject_public_key_info = (\<lambda>key. [of_nat key]),
      rc_serialize_pem = (\<lambda>key. replicate key CHR ''k''), rc_from_pem = (\<lambda>pem. Some (length pem))\<rparr>)"

subsection \<open>Properties\<close>

text \<open>
  A certificate authority without a subject key identifier cannot have a path length in the test
  kit: the builder's \<open>path_len\<close> is discarded, silently, because the generator is told to make a
  non-CA and the basicConstraints extension attached by hand is always \<open>cA = TRUE\<close> without
  pathLenConstraint, whatever was requested.
\<close>

theorem absent_ski_discards_path_len:
  "CaSpec_build rc (ca_with_path_len (ca_with_ski spec Absent) (Some n)) fresh =
     CaSpec_build rc (ca_with_path_len (ca_with_ski spec Absent) None) fresh \<and>
   manual_basic_constraints_ca ops =
     set_criticality ops (from_oid_content ops [2, 5, 29, 19] [0x30, 3, 0x01, 1, 0xff]) True"
  by (simp add: CaSpec_build_def ca_with_path_len_def ca_with_ski_def apply_ski_def base_params_def Let_def
      manual_basic_constraints_ca_def der_tlv_def BASIC_CONSTRAINTS_OID_def split: option.splits)

end
