(* ===== verification/Example_Issuers.thy ===== *)
theory Example_Issuers
  imports Testkit_Certificates
begin

text \<open>
  \<^verbatim>\<open>examples\<close>: the functions that issue the certificates the example programs validate, over the model of the
  certificate generator in \<open>Testkit_Certificates\<close>. \<open>fresh n\<close> is the result of the n-th \<open>KeyPair::generate()\<close> of the
  program, \<open>fresh alg n\<close> of the n-th \<open>generate_for\<close> for the algorithm \<open>alg\<close>. A builder returns the parameters it
  signed with, where the program keeps them, and the DER.
\<close>

definition push_common_name ::
  "('dn, 'ext, 'key) rcgen \<Rightarrow> ('dn, 'ext) CertificateParams \<Rightarrow> string \<Rightarrow> ('dn, 'ext) CertificateParams" where
  "push_common_name rc params common_name =
     params\<lparr>distinguished_name := rc_dn_push_common_name rc (distinguished_name params) common_name\<rparr>"

subsection \<open>pinned\_root\<close>

definition issue_internal_service ::
  "('dn, 'ext, 'key) rcgen \<Rightarrow> (nat \<Rightarrow> 'key may_panic) \<Rightarrow> (bytes \<times> bytes) may_panic" where
  "issue_internal_service rc fresh = do {
     ca_params \<leftarrow> rc_params_new rc [];
     let ca_params = push_common_name rc ca_params ''Example Corp Internal CA'';
     let ca_params = ca_params\<lparr>is_ca := IsCa (Constrained 0), key_usages := [KeyCertSign, KeyCrlSign]\<rparr>;
     ca_key \<leftarrow> fresh 0;
     ca_der \<leftarrow> rc_self_signed rc ca_params ca_key;
     let issuer = (ca_params, ca_key);
     leaf_params \<leftarrow> rc_params_new rc [''service.internal''];
     let leaf_params = push_common_name rc leaf_params ''service.internal'';
     let leaf_params = leaf_params\<lparr>extended_key_usages := [PurposeServerAuth]\<rparr>;
     leaf_key \<leftarrow> fresh 1;
     leaf_der \<leftarrow> rc_signed_by rc leaf_params leaf_key issuer;
     Some (ca_der, leaf_der) }"

subsection \<open>client\_certificate and diagnostics\<close>

text \<open>\<open>client_ca()\<close>, and \<open>ca(common_name)\<close> of \<^verbatim>\<open>diagnostics.rs\<close>, which differs in the name only.\<close>

definition diagnostics_ca ::
  "('dn, 'ext, 'key) rcgen \<Rightarrow> string \<Rightarrow> 'key may_panic \<Rightarrow> (('dn, 'ext) CertificateParams \<times> 'key \<times> bytes) may_panic" where
  "diagnostics_ca rc common_name fresh = do {
     params \<leftarrow> rc_params_new rc [];
     let params = push_common_name rc params common_name;
     let params = params\<lparr>is_ca := IsCa (Constrained 0), key_usages := [KeyCertSign, KeyCrlSign]\<rparr>;
     key \<leftarrow> fresh;
     der \<leftarrow> rc_self_signed rc params key;
     Some (params, key, der) }"

definition client_ca ::
  "('dn, 'ext, 'key) rcgen \<Rightarrow> 'key may_panic \<Rightarrow> (('dn, 'ext) CertificateParams \<times> 'key \<times> bytes) may_panic" where
  "client_ca rc fresh = diagnostics_ca rc ''Example Corp Client CA'' fresh"

definition issue_client ::
  "('dn, 'ext, 'key) rcgen \<Rightarrow> string \<Rightarrow> ExtendedKeyUsagePurpose \<Rightarrow> ('dn, 'ext) CertificateParams \<Rightarrow> 'key \<Rightarrow>
   'key may_panic \<Rightarrow> bytes may_panic" where
  "issue_client rc common_name purpose signer_params signer_key fresh = do {
     params \<leftarrow> rc_params_new rc [];
     let params = push_common_name rc params common_name;
     let params = params\<lparr>extended_key_usages := [purpose]\<rparr>;
     key \<leftarrow> fresh;
     rc_signed_by rc params key (signer_params, signer_key) }"

definition client_credentials ::
  "('dn, 'ext, 'key) rcgen \<Rightarrow> (nat \<Rightarrow> 'key may_panic) \<Rightarrow> (bytes \<times> (string \<times> bytes) list) may_panic" where
  "client_credentials rc fresh = do {
     (ca_params, ca_key, ca_der) \<leftarrow> client_ca rc (fresh 0);
     client \<leftarrow> issue_client rc ''alice@example.com'' PurposeClientAuth ca_params ca_key (fresh 1);
     server \<leftarrow> issue_client rc ''service.internal'' PurposeServerAuth ca_params ca_key (fresh 2);
     Some (ca_der, [(''clientAuth'', client), (''serverAuth'', server)]) }"

text \<open>The certificates of \<^verbatim>\<open>diagnostics.rs\<close>: an unrelated root, and a leaf from a CA that is not trusted.\<close>

definition diagnostics_certificates ::
  "('dn, 'ext, 'key) rcgen \<Rightarrow> (nat \<Rightarrow> 'key may_panic) \<Rightarrow> (bytes \<times> bytes) may_panic" where
  "diagnostics_certificates rc fresh = do {
     (ca_params, ca_key, _) \<leftarrow> diagnostics_ca rc ''Example Issuing CA'' (fresh 0);
     (_, _, unrelated_der) \<leftarrow> diagnostics_ca rc ''Unrelated Root CA'' (fresh 1);
     leaf_params \<leftarrow> rc_params_new rc [''service.example''];
     let leaf_params = push_common_name rc leaf_params ''service.example'';
     leaf_key \<leftarrow> fresh 2;
     leaf_der \<leftarrow> rc_signed_by rc leaf_params leaf_key (ca_params, ca_key);
     Some (unrelated_der, leaf_der) }"

subsection \<open>custom\_crypto\_backend\<close>

datatype SignatureAlgorithm = PKCS_ECDSA_P256_SHA256 | PKCS_ECDSA_P384_SHA384 | PKCS_ED25519

definition chain_signed_with ::
  "('dn, 'ext, 'key) rcgen \<Rightarrow> (SignatureAlgorithm \<Rightarrow> nat \<Rightarrow> 'key may_panic) \<Rightarrow> SignatureAlgorithm \<Rightarrow>
   (bytes \<times> bytes) may_panic" where
  "chain_signed_with rc fresh algorithm = do {
     ca_params \<leftarrow> rc_params_new rc [];
     let ca_params = push_common_name rc ca_params ''Example Root CA'';
     let ca_params = ca_params
       \<lparr>is_ca := IsCa (Constrained 0), key_usages := [KeyCertSign, KeyCrlSign],
        params_not_before := rc_date_time_ymd rc 2020 1 1, params_not_after := rc_date_time_ymd rc 2100 1 1\<rparr>;
     ca_key \<leftarrow> fresh algorithm 0;
     ca_der \<leftarrow> rc_self_signed rc ca_params ca_key;
     leaf_params \<leftarrow> rc_params_new rc [''service.example''];
     let leaf_params = push_common_name rc leaf_params ''service.example'';
     let leaf_params = leaf_params
       \<lparr>params_not_before := rc_date_time_ymd rc 2020 1 1, params_not_after := rc_date_time_ymd rc 2100 1 1\<rparr>;
     leaf_key \<leftarrow> fresh algorithm 1;
     leaf_der \<leftarrow> rc_signed_by rc leaf_params leaf_key (ca_params, ca_key);
     Some (ca_der, leaf_der) }"

definition signed_chains ::
  "('dn, 'ext, 'key) rcgen \<Rightarrow> (SignatureAlgorithm \<Rightarrow> nat \<Rightarrow> 'key may_panic) \<Rightarrow>
   (string \<times> bytes \<times> bytes) list may_panic" where
  "signed_chains rc fresh =
     those (map (\<lambda>(name, algorithm). map_option (\<lambda>ders. (name, ders)) (chain_signed_with rc fresh algorithm))
       [(''ECDSA P-256 / SHA-256'', PKCS_ECDSA_P256_SHA256), (''ECDSA P-384 / SHA-384'', PKCS_ECDSA_P384_SHA384),
        (''Ed25519'', PKCS_ED25519)])"

end
