(* ===== verification/Jws_Header.thy ===== *)
theory Jws_Header
  imports Std_Net
begin

text \<open>
  \<^verbatim>\<open>examples/apple_x5c.rs\<close>: \<open>x5c_chain\<close>, which takes the certificates out of the header of a signed message. The
  decoders of the base64 crate are arguments, \<open>None\<close> being a decoding error. A \<open>str\<close> is its UTF-8 bytes: every
  character searched for is ASCII, and on valid UTF-8 a match of bytes is a match of characters.
\<close>

subsection \<open>Searching and trimming\<close>

lemma split_once_length:
  "split_once pat s = Some (before, after) \<Longrightarrow> pat \<noteq> [] \<Longrightarrow> length after < length s"
  by (induction s arbitrary: before after) (auto split: if_splits)

text \<open>\<open>str::split\<close> with a string pattern.\<close>

function split_str :: "'a list \<Rightarrow> 'a list \<Rightarrow> 'a list list" where
  "split_str pat s =
     (if pat = [] then [s]
      else case split_once pat s of
             None \<Rightarrow> [s]
           | Some (before, after) \<Rightarrow> before # split_str pat after)"
  by auto

termination
  by (relation "measure (length \<circ> snd)") (auto dest: split_once_length)

declare split_str.simps [simp del]

text \<open>The UTF-8 encodings of the characters of Unicode's \<open>White_Space\<close>.\<close>

definition white_space :: "bytes list" where
  "white_space =
     map (\<lambda>b. [b]) [9, 10, 11, 12, 13, 32] @ [[0xC2, 0x85], [0xC2, 0xA0], [0xE1, 0x9A, 0x80]] @
     map (\<lambda>b. [0xE2, 0x80, b])
       [0x80, 0x81, 0x82, 0x83, 0x84, 0x85, 0x86, 0x87, 0x88, 0x89, 0x8A, 0xA8, 0xA9, 0xAF] @
     [[0xE2, 0x81, 0x9F], [0xE3, 0x80, 0x80]]"

lemma find_prefix: "find (\<lambda>w. w \<noteq> [] \<and> prefix w s) ws = Some w \<Longrightarrow> length (drop (length w) s) < length s"
  by (auto simp: find_Some_iff prefix_def)

text \<open>Removing leading occurrences of the (non-empty) patterns \<open>ws\<close>.\<close>

function strip_front :: "'a list list \<Rightarrow> 'a list \<Rightarrow> 'a list" where
  "strip_front ws s =
     (case find (\<lambda>w. w \<noteq> [] \<and> prefix w s) ws of
        None \<Rightarrow> s
      | Some w \<Rightarrow> strip_front ws (drop (length w) s))"
  by auto

termination
  by (relation "measure (length \<circ> snd)") (simp_all add: find_prefix del: length_drop)

declare strip_front.simps [simp del]

definition trim :: "bytes \<Rightarrow> bytes" where
  "trim s = rev (strip_front (map rev white_space) (rev (strip_front white_space s)))"

text \<open>\<open>trim_matches\<close> with a character.\<close>

definition trim_matches :: "'a \<Rightarrow> 'a list \<Rightarrow> 'a list" where
  "trim_matches c s = rev (dropWhile (\<lambda>x. x = c) (rev (dropWhile (\<lambda>x. x = c) s)))"

subsection \<open>The header\<close>

definition x5c_claim :: bytes where
  "x5c_claim = [0x22, 0x78, 0x35, 0x63, 0x22, 0x3A, 0x5B]"    \<comment> \<open>\<^verbatim>\<open>"x5c":[\<close>\<close>

definition x5c_chain ::
  "(bytes \<Rightarrow> bytes option) \<Rightarrow> (bytes \<Rightarrow> bytes option) \<Rightarrow> bytes \<Rightarrow> bytes list may_panic" where
  "x5c_chain url_decode std_decode jws = do {
     header \<leftarrow> index_at (split_on 0x2E jws) 0;
     header \<leftarrow> url_decode (trim header);
     header \<leftarrow> (if utf8_valid header then Some header else panic);
     claim \<leftarrow> index_at (split_str x5c_claim header) 1;
     entries \<leftarrow> index_at (split_on 0x5D claim) 0;
     those (map (\<lambda>entry. std_decode (trim_matches 0x22 (trim entry))) (split_on 0x2C entries)) }"

subsection \<open>Where the pieces are\<close>

lemma split_once_first:
  assumes "pat \<noteq> []" "\<not> sublist pat (before @ butlast pat)"
  shows "split_once pat (before @ pat @ after) = Some (before, after)"
  using assms(2)
proof (induction before)
  case Nil
  then show ?case using assms(1) by (cases pat) auto
next
  case (Cons x before)
  have "\<not> prefix pat (x # before @ pat @ after)"
  proof
    assume "prefix pat (x # before @ pat @ after)"
    moreover have "x # before @ pat @ after = (x # before @ butlast pat) @ last pat # after"
      using append_butlast_last_id [OF assms(1)] by (metis append.assoc append_Cons append_Nil)
    ultimately obtain us where "prefix pat (x # before @ butlast pat) \<or> pat = (x # before @ butlast pat) @ us"
      by (metis prefix_append)
    moreover have "us = []" if "pat = (x # before @ butlast pat) @ us"
      using arg_cong [OF that, of length] assms(1) by (cases us) auto
    ultimately have "prefix pat (x # before @ butlast pat)" by auto
    then show False using Cons.prems by (simp add: prefix_imp_sublist)
  qed
  moreover have "\<not> sublist pat (before @ butlast pat)"
    using Cons.prems by (auto simp: sublist_Cons_right)
  ultimately show ?case using Cons.IH by simp
qed

text \<open>A character outside the pattern shields what stands before it.\<close>

lemma split_once_shielded:
  assumes "pat \<noteq> []" "\<not> sublist pat u" "c \<notin> set pat"
  shows "split_once pat (u @ c # v) = map_option (\<lambda>(b, a). (u @ c # b, a)) (split_once pat v)"
  using assms(2)
proof (induction u)
  case Nil
  have "\<not> prefix pat (c # v)" using assms(1,3) by (cases pat) auto
  then show ?case by simp
next
  case (Cons x u)
  have "\<not> prefix pat (x # u @ c # v)"
  proof
    assume "prefix pat (x # u @ c # v)"
    then have "prefix pat (x # u)"
      using assms(3) by (auto simp: prefix_append prefix_Cons [of _ c] simp flip: append_Cons)
    then show False using Cons.prems by (simp add: prefix_imp_sublist)
  qed
  then show ?case using Cons by (auto simp: sublist_Cons_right option.map_comp comp_def case_prod_beta)
qed

lemma split_str_first:
  assumes "pat \<noteq> []" "\<not> sublist pat (before @ butlast pat)"
  shows "split_str pat (before @ pat @ after) = before # split_str pat after"
  using assms by (simp add: split_str.simps [of pat "before @ pat @ after"] split_once_first)

lemma split_str_shielded:
  assumes "pat \<noteq> []" "\<not> sublist pat u" "c \<notin> set pat"
  shows "\<exists>v' rest. split_str pat (u @ c # v) = (u @ c # v') # rest"
  using assms by (simp add: split_str.simps [of pat "u @ c # v"] split_once_shielded split: option.split)

lemma split_on_join:
  "xs \<noteq> [] \<Longrightarrow> list_all (\<lambda>x. sep \<notin> set x) xs \<Longrightarrow> split_on sep (join_with [sep] xs) = xs"
  by (induction "[sep]" xs rule: join_with.induct) auto

text \<open>Printable ASCII is never trimmed.\<close>

definition graphic :: "byte \<Rightarrow> bool" where
  "graphic b \<longleftrightarrow> 0x21 \<le> b \<and> b \<le> 0x7E"

lemma strip_front_graphic:
  assumes "list_all graphic s" "list_all (\<lambda>w. w \<noteq> [] \<and> \<not> graphic (hd w)) ws"
  shows "strip_front ws s = s"
proof -
  have "\<not> prefix w s" if "w \<in> set ws" for w
    using assms that by (cases w) (auto simp: list_all_iff prefix_def)
  then have "find (\<lambda>w. w \<noteq> [] \<and> prefix w s) ws = None" by (simp add: find_None_iff)
  then show ?thesis by (simp add: strip_front.simps)
qed

lemma trim_graphic: "list_all graphic s \<Longrightarrow> trim s = s"
  by (simp add: trim_def strip_front_graphic white_space_def graphic_def)

lemma dropWhile_not_leading: "c \<notin> set xs \<Longrightarrow> xs \<noteq> [] \<Longrightarrow> dropWhile (\<lambda>x. x = c) (xs @ ys) = xs @ ys"
  by (cases xs) auto

lemma trim_matches_quoted: "c \<notin> set s \<Longrightarrow> trim_matches c (c # s @ [c]) = s"
  using dropWhile_not_leading [of c s "[c]"] dropWhile_not_leading [of c "rev s" "[]"]
  by (cases "s = []") (auto simp: trim_matches_def)

subsection \<open>Properties\<close>

text \<open>What is documented of an encoding: decoding undoes it, and its output stays in its alphabet.\<close>

definition codec :: "(bytes \<Rightarrow> bytes) \<Rightarrow> (bytes \<Rightarrow> bytes option) \<Rightarrow> (byte \<Rightarrow> bool) \<Rightarrow> bool" where
  "codec encode decode alphabet \<longleftrightarrow> (\<forall>bs. decode (encode bs) = Some bs \<and> list_all alphabet (encode bs))"

definition base64_char :: "byte \<Rightarrow> bool" where
  "base64_char b \<longleftrightarrow> is_ascii_alphanumeric b \<or> b = 0x2B \<or> b = 0x2F \<or> b = 0x3D"

definition base64url_char :: "byte \<Rightarrow> bool" where
  "base64url_char b \<longleftrightarrow> is_ascii_alphanumeric b \<or> b = 0x2D \<or> b = 0x5F"

definition x5c_entries :: "(bytes \<Rightarrow> bytes) \<Rightarrow> bytes list \<Rightarrow> bytes" where
  "x5c_entries encode ders = join_with [0x2C] (map (\<lambda>der. 0x22 # encode der @ [0x22]) ders)"

definition x5c_header :: "(bytes \<Rightarrow> bytes) \<Rightarrow> bytes \<Rightarrow> bytes list \<Rightarrow> bytes \<Rightarrow> bytes" where
  "x5c_header encode before ders after = before @ x5c_claim @ x5c_entries encode ders @ 0x5D # after"

lemmas alphabet_defs =
  base64_char_def base64url_char_def graphic_def is_ascii_alphanumeric_def is_ascii_digit_def
  is_ascii_uppercase_def is_ascii_lowercase_def

lemma base64_char_graphic: "base64_char b \<Longrightarrow> graphic b" "base64url_char b \<Longrightarrow> graphic b"
  by (auto simp: alphabet_defs word_le_nat_alt)

lemma base64_char_excludes:
  "\<not> base64_char 0x22" "\<not> base64_char 0x2C" "\<not> base64_char 0x3A" "\<not> base64_char 0x5D" "\<not> base64url_char 0x2E"
  by (simp_all add: alphabet_defs)

lemma entries_excludes:
  assumes "\<And>der. list_all base64_char (encode der)" "c \<noteq> 0x22" "c \<noteq> 0x2C" "\<not> base64_char c"
  shows "c \<notin> set (x5c_entries encode ders)"
  using assms set_join_with [of "[0x2C]" "map (\<lambda>der. 0x22 # encode der @ [0x22]) ders"]
  by (fastforce simp: x5c_entries_def list_all_iff)

lemma claim_not_in_entries:
  assumes "0x3A \<notin> set (x5c_entries encode ders)"
  shows "\<not> sublist x5c_claim (x5c_entries encode ders)"
  using assms set_mono_sublist by (fastforce simp: x5c_claim_def)

text \<open>
  C25. The example that takes its certificates from a signed message gets them back: when the first claim
  named \<open>x5c\<close> of the header lists the certificates as quoted base64 strings, the header being base64url, then
  \<open>x5c_chain\<close> returns exactly those certificates in order, whatever else the header and the message hold, for
  any two encodings whose decoders undo them and whose output stays in the documented alphabets.
\<close>

theorem x5c_chain_roundtrip:
  assumes url: "codec url_encode url_decode base64url_char" and std: "codec std_encode std_decode base64_char"
    and first: "\<not> sublist x5c_claim (before @ butlast x5c_claim)" and "ders \<noteq> []"
    and utf8: "utf8_valid (x5c_header std_encode before ders after)"
  shows "x5c_chain url_decode std_decode (url_encode (x5c_header std_encode before ders after) @ 0x2E # payload) =
    Some ders"
proof -
  let ?header = "x5c_header std_encode before ders after" and ?entries = "x5c_entries std_encode ders"
  have u: "url_decode (url_encode bs) = Some bs" "list_all base64url_char (url_encode bs)"
    and s: "std_decode (std_encode bs) = Some bs" "list_all base64_char (std_encode bs)" for bs
    using url std by (simp_all add: codec_def)
  have nodot: "0x2E \<notin> set (url_encode ?header)" and "trim (url_encode ?header) = url_encode ?header"
    using u(2) [of ?header] base64_char_graphic(2) base64_char_excludes(5)
    by (auto simp: list_all_iff intro!: trim_graphic)
  moreover have no: "0x3A \<notin> set ?entries" "0x5D \<notin> set ?entries"
    by (rule entries_excludes; simp add: s(2) base64_char_excludes)+
  obtain v rest where "split_str x5c_claim (?entries @ 0x5D # after) = (?entries @ 0x5D # v) # rest"
    using split_str_shielded [OF _ claim_not_in_entries [OF no(1)], where c = "0x5D" and v = after]
    by (auto simp: x5c_claim_def)
  then have "index_at (split_str x5c_claim ?header) 1 = Some (?entries @ 0x5D # v)"
    using split_str_first [OF _ first] by (simp add: x5c_header_def x5c_claim_def index_at_def)
  moreover have "split_on 0x2C ?entries = map (\<lambda>der. 0x22 # std_encode der @ [0x22]) ders"
    using \<open>ders \<noteq> []\<close> s(2) base64_char_excludes(2) unfolding x5c_entries_def
    by (intro split_on_join) (auto simp: list_all_iff)
  moreover have "std_decode (trim_matches 0x22 (trim (0x22 # std_encode der @ [0x22]))) = Some der" for der
  proof -
    have "trim (0x22 # std_encode der @ [0x22]) = 0x22 # std_encode der @ [0x22]"
      using s(2) [of der] base64_char_graphic(1) by (intro trim_graphic) (auto simp: list_all_iff graphic_def)
    moreover have "0x22 \<notin> set (std_encode der)" using s(2) [of der] base64_char_excludes(1) by (auto simp: list_all_iff)
    ultimately show ?thesis by (simp add: trim_matches_quoted s(1))
  qed
  moreover have "those (map Some ders) = Some ders" by (induction ders) auto
  ultimately show ?thesis
    using no utf8 by (simp add: x5c_chain_def index_at_def u(1) comp_def)
qed

text \<open>A codec for the witness: two letters from \<open>a\<close> to \<open>p\<close> for every byte.\<close>

definition letters_encode :: "bytes \<Rightarrow> bytes" where
  "letters_encode bs = concat (map (\<lambda>b. [0x61 + b div 16, 0x61 + b mod 16]) bs)"

fun letters_decode :: "bytes \<Rightarrow> bytes option" where
  "letters_decode [] = Some []"
| "letters_decode [x] = None"
| "letters_decode (x # y # bs) = map_option (\<lambda>ds. (16 * (x - 0x61) + (y - 0x61)) # ds) (letters_decode bs)"

lemma letter_bounds:
  "is_ascii_lowercase (0x61 + b div 16)" "is_ascii_lowercase (0x61 + b mod 16)" for b :: byte
proof -
  have "all_bytes (\<lambda>b. is_ascii_lowercase (0x61 + b div 16) \<and> is_ascii_lowercase (0x61 + b mod 16))" by code_simp
  then show "is_ascii_lowercase (0x61 + b div 16)" "is_ascii_lowercase (0x61 + b mod 16)"
    by (auto dest: all_bytesD [where b = b])
qed

lemma letters_codec:
  "codec letters_encode letters_decode base64url_char" "codec letters_encode letters_decode base64_char"
proof -
  have "letters_decode (letters_encode bs) = Some bs" for bs
    by (induction bs) (simp_all add: letters_encode_def mult_div_mod_eq)
  then show "codec letters_encode letters_decode base64url_char" "codec letters_encode letters_decode base64_char"
    using letter_bounds
    by (auto simp: codec_def letters_encode_def list_all_iff base64url_char_def base64_char_def is_ascii_alphanumeric_def)
qed

theorem x5c_chain_roundtrip_witness:
  "x5c_chain letters_decode letters_decode
     (letters_encode (x5c_header letters_encode (ascii ''{'') [[1, 2], [3]] (ascii ''}'')) @ 0x2E # ascii ''payload'') =
   Some [[1, 2], [3]]"
proof (rule x5c_chain_roundtrip [OF letters_codec])
  show "\<not> sublist x5c_claim (ascii ''{'' @ butlast x5c_claim)" by code_simp
  show "utf8_valid (x5c_header letters_encode (ascii ''{'') [[1, 2], [3]] (ascii ''}''))" by code_simp
qed simp

end
