(* ===== verification/Examples.thy ===== *)
theory Examples
  imports Tls_Validation Openssl_Backend Example_Issuers Jws_Header
begin

text \<open>
  \<^verbatim>\<open>examples\<close>: the programs that show how the crate is used. Each \<open>main\<close> is a function of its
  environment to the lines it prints, \<open>None\<close> being a panic of one of its \<open>expect\<close>s. What the programs
  take from other crates is part of the environment: the certificate parser, the platform's trust
  store and the clock, which stands still during a run; the certificate generator is the record of
  \<open>Testkit_Certificates\<close>, and the base64 decoders are functions. \<^verbatim>\<open>custom_crypto_backend.rs\<close> has its backend in \<open>Openssl_Backend\<close>.
\<close>

subsection \<open>What the programs share\<close>

record example_env =
  env_from_der :: "bytes \<Rightarrow> nom_err + bytes \<times> certificate"
  env_invalid_certificate :: x509_error
  env_library :: asn1_library
  env_features :: crate_features
  env_aws_lc_rs :: signature_crate
  env_ring :: signature_crate
  env_rust_crypto :: rust_crypto_crates
  env_native_errors :: "string list"      \<comment> \<open>\<open>load_native_certs().errors\<close>\<close>
  env_native_certs :: "bytes list"        \<comment> \<open>\<open>load_native_certs().certs\<close>\<close>
  env_now :: int

definition example_parse :: "example_env \<Rightarrow> bytes \<Rightarrow> certificate may_panic" where
  "example_parse env der =
     (case parse (env_from_der env) (env_invalid_certificate env) der of Inr c \<Rightarrow> Some c | Inl _ \<Rightarrow> panic)"

text \<open>\<open>CertificateStore::from_iter(ders.iter().map(|der| parse(der)))\<close>.\<close>

definition example_store :: "example_env \<Rightarrow> bytes list \<Rightarrow> CertificateStore may_panic" where
  "example_store env ders = map_option store_from_iter (those (map (example_parse env) ders))"

definition native_roots :: "example_env \<Rightarrow> bytes list may_panic" where
  "native_roots env = (if env_native_errors env = [] then Some (env_native_certs env) else panic)"

definition example_validator :: "example_env \<Rightarrow> CertificateStore \<Rightarrow> ValidationPolicy \<Rightarrow> Validator" where
  "example_validator env =
     Validator_with_policy (env_features env) (env_aws_lc_rs env) (env_ring env) (env_rust_crypto env)
       (env_library env)"

text \<open>The em dash of the messages, in UTF-8, and left-aligned padding.\<close>

definition em_dash :: string where
  "em_dash = map char_of [0xE2, 0x80, 0x94 :: nat]"

definition pad_right :: "nat \<Rightarrow> string \<Rightarrow> string" where
  "pad_right n s = s @ replicate (n - length s) CHR '' ''"

subsection \<open>webpki\<close>

definition webpki_policy :: "example_env \<Rightarrow> string \<Rightarrow> ValidationPolicy" where
  "webpki_policy env hostname =
     policy_macro (PlainItem (RFC5280Policy_policy (RFC5280Policy_new (env_now env))))
       [PlainItem (EkuPolicy_policy (env_library env) EkuPolicy_server_auth),
        PlainItem (ServerIdentityPolicy_policy (ServerIdentityPolicy_new (Some (ascii hostname)) None))]"

definition webpki_verdict :: "ChainValidationResult \<Rightarrow> string" where
  "webpki_verdict result =
     (case result of
        Inr chain \<Rightarrow> ''accepted '' @ em_dash @ '' '' @ decimal (length (validated_iter chain)) @ '' certificates''
      | Inl [] \<Rightarrow> ''rejected '' @ em_dash @ '' no chain reached a trusted root''
      | Inl (failed # _) \<Rightarrow> ''rejected '' @ em_dash @ '' '' @ PolicyFailure_display failed)"

definition webpki_line ::
  "example_env \<Rightarrow> certificate \<Rightarrow> CertificateStore \<Rightarrow> bytes list \<Rightarrow> string \<Rightarrow> string may_panic" where
  "webpki_line env leaf intermediates native hostname = do {
     roots \<leftarrow> example_store env native;
     let policy = webpki_policy env hostname;
     let validator = example_validator env roots policy;
     result \<leftarrow> validate validator leaf intermediates;
     Some (pad_right 16 hostname @ '' '' @ webpki_verdict result) }"

definition webpki_main :: "example_env \<Rightarrow> bytes \<Rightarrow> bytes list \<Rightarrow> string list may_panic" where
  "webpki_main env LEAF INTERMEDIATES = do {
     leaf \<leftarrow> example_parse env LEAF;
     intermediates \<leftarrow> example_store env INTERMEDIATES;
     native \<leftarrow> native_roots env;
     those (map (webpki_line env leaf intermediates native) [''example.com'', ''attacker.test'']) }"

subsection \<open>pinned\_root\<close>

definition pinned_policy :: "example_env \<Rightarrow> ValidationPolicy" where
  "pinned_policy env =
     policy_macro (PlainItem (RFC5280Policy_policy (RFC5280Policy_new (env_now env))))
       [PlainItem (ServerIdentityPolicy_policy (ServerIdentityPolicy_new (Some (ascii ''service.internal'')) None))]"

definition pinned_verdict :: "ChainValidationResult \<Rightarrow> string" where
  "pinned_verdict result =
     (case result of
        Inr _ \<Rightarrow> ''accepted''
      | Inl [] \<Rightarrow> ''rejected '' @ em_dash @ '' no chain reached a trusted root''
      | Inl (failed # _) \<Rightarrow> ''rejected '' @ em_dash @ '' '' @ PolicyFailure_display failed)"

definition pinned_line :: "example_env \<Rightarrow> certificate \<Rightarrow> string \<times> CertificateStore \<Rightarrow> string may_panic" where
  "pinned_line env leaf entry = do {
     let (name, roots) = entry;
     result \<leftarrow> validate (example_validator env roots (pinned_policy env)) leaf CertificateStore_new;
     Some (pad_right 24 name @ '' '' @ pinned_verdict result) }"

definition pinned_main ::
  "example_env \<Rightarrow> ('dn, 'ext, 'key) rcgen \<Rightarrow> (nat \<Rightarrow> 'key may_panic) \<Rightarrow> string list may_panic" where
  "pinned_main env rc fresh = do {
     (anchor_der, leaf_der) \<leftarrow> issue_internal_service rc fresh;
     leaf \<leftarrow> example_parse env leaf_der;
     pinned \<leftarrow> example_store env [anchor_der];
     native \<leftarrow> native_roots env;
     public \<leftarrow> example_store env native;
     those (map (pinned_line env leaf)
       [(''pinned corporate root'', pinned), (''platform trust store'', public)]) }"

subsection \<open>client\_certificate\<close>

definition rsplit_once :: "string \<Rightarrow> string \<Rightarrow> (string \<times> string) option" where
  "rsplit_once pat s = map_option (\<lambda>(tail, front). (rev front, rev tail)) (split_once (rev pat) (rev s))"

definition client_policy :: "example_env \<Rightarrow> ValidationPolicy" where
  "client_policy env =
     policy_macro (PlainItem (RFC5280Policy_policy (RFC5280Policy_new (env_now env))))
       [PlainItem (EkuPolicy_policy (env_library env) EkuPolicy_client_auth)]"

definition client_verdict :: "ChainValidationResult \<Rightarrow> string may_panic" where
  "client_verdict result =
     (case result of
        Inr chain \<Rightarrow> do {
          leaf \<leftarrow> validated_leaf chain;
          Some (''accepted '' @ em_dash @ '' caller is '' @ name_display (tbs_subject leaf)) }
      | Inl [] \<Rightarrow> Some (''rejected '' @ em_dash @ '' no chain reached a trusted root'')
      | Inl (failed # _) \<Rightarrow>
          let reason = PolicyFailure_display failed;
              summary = (case rsplit_once ''} '' reason of Some (_, tail) \<Rightarrow> tail | None \<Rightarrow> reason)
          in Some (''rejected '' @ em_dash @ '' '' @ summary))"

definition client_line :: "example_env \<Rightarrow> bytes \<Rightarrow> string \<times> bytes \<Rightarrow> string may_panic" where
  "client_line env anchor_der credential = do {
     let (purpose, der) = credential;
     client \<leftarrow> example_parse env der;
     roots \<leftarrow> example_store env [anchor_der];
     result \<leftarrow> validate (example_validator env roots (client_policy env)) client CertificateStore_new;
     verdict \<leftarrow> client_verdict result;
     Some (pad_right 12 purpose @ '' '' @ verdict) }"

definition client_main ::
  "example_env \<Rightarrow> ('dn, 'ext, 'key) rcgen \<Rightarrow> (nat \<Rightarrow> 'key may_panic) \<Rightarrow> string list may_panic" where
  "client_main env rc fresh = do {
     (anchor_der, credentials) \<leftarrow> client_credentials rc fresh;
     those (map (client_line env anchor_der) credentials) }"

subsection \<open>apple\_x5c and diagnostics\<close>

definition SIGNED_DATE :: int where "SIGNED_DATE = 1672956154"

definition apple_validate ::
  "example_env \<Rightarrow> bytes list \<Rightarrow> bytes \<Rightarrow> ChainValidationResult may_panic" where
  "apple_validate env x5c TRUSTED_ROOT = do {
     leaf_der \<leftarrow> index_at x5c 0;
     leaf \<leftarrow> example_parse env leaf_der;
     rest \<leftarrow> slice_from x5c 1;
     intermediates \<leftarrow> example_store env rest;
     roots \<leftarrow> example_store env [TRUSTED_ROOT];
     validate (example_validator env roots (RFC5280Policy_policy (RFC5280Policy_new SIGNED_DATE)))
       leaf intermediates }"

definition apple_report :: "ChainValidationResult \<Rightarrow> string list may_panic" where
  "apple_report result =
     (case result of
        Inr chain \<Rightarrow> do {
          leaf \<leftarrow> validated_leaf chain;
          Some ([''accepted:''] @
            map (\<lambda>certificate. ''  '' @ name_display (tbs_subject certificate)) (validated_iter chain) @
            [[], ''leaf public key: '' @ decimal (length (spki_raw (tbs_subject_pki leaf))) @ '' bytes of DER'']) }
      | Inl [] \<Rightarrow> Some [''rejected: no chain reached the trusted root'']
      | Inl failures \<Rightarrow> Some (''rejected:'' # map (\<lambda>failed. ''  '' @ PolicyFailure_display failed) failures))"

definition apple_main ::
  "example_env \<Rightarrow> (bytes \<Rightarrow> bytes option) \<Rightarrow> (bytes \<Rightarrow> bytes option) \<Rightarrow> bytes \<Rightarrow> bytes \<Rightarrow> string list may_panic" where
  "apple_main env url_decode std_decode SIGNED_TRANSACTION TRUSTED_ROOT = do {
     x5c \<leftarrow> x5c_chain url_decode std_decode SIGNED_TRANSACTION;
     result \<leftarrow> apple_validate env x5c TRUSTED_ROOT;
     report \<leftarrow> apple_report result;
     Some ((''x5c carries '' @ decimal (length x5c) @ '' certificates'') # report) }"

definition diagnostics_main ::
  "example_env \<Rightarrow> ('dn, 'ext, 'key) rcgen \<Rightarrow> (nat \<Rightarrow> 'key may_panic) \<Rightarrow> string list may_panic" where
  "diagnostics_main env rc fresh = do {
     (unrelated_der, leaf_der) \<leftarrow> diagnostics_certificates rc fresh;
     leaf \<leftarrow> example_parse env leaf_der;
     roots \<leftarrow> example_store env [unrelated_der];
     let validator = example_validator env roots (RFC5280Policy_policy (RFC5280Policy_new (env_now env)));
     (result, events) \<leftarrow> validate_with_diagnostics validator leaf CertificateStore_new;
     let trace = map (diagnostic_display (env_library env)) events;
     let verdict =
       (case result of
          Inr chain \<Rightarrow> [[], ''accepted '' @ em_dash @ '' '' @ decimal (length (validated_iter chain)) @ '' certificates'']
        | Inl [] \<Rightarrow> [[], ''rejected '' @ em_dash @ '' no chain reached a trusted root, so no policy ran'']
        | Inl failures \<Rightarrow>
            [[], ''rejected:''] @ map (\<lambda>failed. ''  '' @ PolicyFailure_display failed) failures);
     Some ([decimal (length trace) @ '' events:''] @
       map (\<lambda>(step, event). ''  '' @ decimal (step + 1) @ ''. '' @ event) (enumerate 0 trace) @ verdict) }"

subsection \<open>custom\_crypto\_backend\<close>

definition openssl_verdict :: "ChainValidationResult \<Rightarrow> string" where
  "openssl_verdict result =
     (case result of
        Inr _ \<Rightarrow> ''verified by OpenSSL''
      | Inl [] \<Rightarrow> ''no chain to a trusted root''
      | Inl (failed # _) \<Rightarrow> ''rejected '' @ em_dash @ '' '' @ PolicyFailure_display failed)"

definition openssl_line ::
  "example_env \<Rightarrow> ('key, 'verifier) openssl \<Rightarrow> string \<times> bytes \<times> bytes \<Rightarrow> string may_panic" where
  "openssl_line env ssl entry = do {
     let (name, anchor_der, leaf_der) = entry;
     leaf \<leftarrow> example_parse env leaf_der;
     roots \<leftarrow> example_store env [anchor_der];
     result \<leftarrow> validate (openssl_validator ssl (env_library env) roots (env_now env)) leaf CertificateStore_new;
     Some (pad_right 24 name @ '' '' @ openssl_verdict result) }"

definition openssl_sha1_line :: "example_env \<Rightarrow> string" where
  "openssl_sha1_line env =
     (case signature_scheme (env_library env) \<lparr>alg_algorithm = OID_PKCS1_SHA1WITHRSA, alg_parameters = None\<rparr> of
        Inr _ \<Rightarrow> ''sha1WithRSA           accepted''
      | Inl e \<Rightarrow> ''sha1WithRSA           refused by the backend '' @ em_dash @ '' '' @ CryptoError_display e)"

definition openssl_main ::
  "example_env \<Rightarrow> ('k, 'verifier) openssl \<Rightarrow> ('dn, 'ext, 'key) rcgen \<Rightarrow>
   (SignatureAlgorithm \<Rightarrow> nat \<Rightarrow> 'key may_panic) \<Rightarrow> string list may_panic" where
  "openssl_main env ssl rc fresh = do {
     issued \<leftarrow> signed_chains rc fresh;
     lines \<leftarrow> those (map (openssl_line env ssl) issued);
     Some (lines @ [[], openssl_sha1_line env]) }"

subsection \<open>Contracts\<close>

definition single_backend :: "crate_features \<Rightarrow> bool" where
  "single_backend f \<longleftrightarrow>
     length (filter (\<lambda>b. b) [feature_aws_lc f, feature_ring f, feature_rust_crypto f]) = 1"

lemma default_provider_returns:
  "single_backend f \<Longrightarrow> default_provider f aws_lc_rs ring_krate rc lib a k m s \<noteq> None"
  by (auto simp: single_backend_def default_provider_def aws_lc_backend.verify_returns
      ring_backend.verify_returns rust_crypto_backend.verify_returns simp del: not_None_eq split: if_splits)

lemma example_validator_simps [simp]:
  "root_certificates (example_validator env roots policy) = roots"
  "validator_policy (example_validator env roots policy) = policy"
  by (simp_all add: example_validator_def Validator_with_policy_def Validator_with_policy_and_backend_def)

lemma example_contract:
  assumes "single_backend (env_features env)" "policy_total policy"
  shows "validator_contract (example_validator env roots policy)"
  using assms default_provider_returns
  by unfold_locales
    (simp_all add: example_validator_def Validator_with_policy_def Validator_with_policy_and_backend_def
      del: not_None_eq)

interpretation eku_identity: policy_contract_pair
    "EkuPolicy_policy lib p" "eku_ok p"
    "ServerIdentityPolicy_policy (ServerIdentityPolicy_new hostname ip)"
    "\<lambda>cs. leaf_identity_ok hostname ip (hd cs)" for lib p hostname ip
  by (rule policy_contract_pair.intro)
    (rule server_identity.policy_contract_axioms eku.policy_contract_axioms)+

interpretation rfc5280_eku_identity: policy_contract_pair
    "RFC5280Policy_policy (RFC5280Policy_new t)" "\<lambda>cs. rfc5280_ok cs \<and> expiry_ok t cs"
    "Tuple2 (EkuPolicy_policy lib p) (ServerIdentityPolicy_policy (ServerIdentityPolicy_new hostname ip))"
    "\<lambda>cs. eku_ok p cs \<and> leaf_identity_ok hostname ip (hd cs)" for t lib p hostname ip
  by (rule policy_contract_pair.intro) (rule rfc5280.policy_contract_axioms eku_identity.both)+

interpretation rfc5280_identity: policy_contract_pair
    "RFC5280Policy_policy (RFC5280Policy_new t)" "\<lambda>cs. rfc5280_ok cs \<and> expiry_ok t cs"
    "ServerIdentityPolicy_policy (ServerIdentityPolicy_new hostname ip)"
    "\<lambda>cs. leaf_identity_ok hostname ip (hd cs)" for t hostname ip
  by (rule policy_contract_pair.intro)
    (rule rfc5280.policy_contract_axioms server_identity.policy_contract_axioms)+

lemma webpki_contract:
  "policy_contract (webpki_policy env hostname)
     (\<lambda>cs. (rfc5280_ok cs \<and> expiry_ok (env_now env) cs) \<and> eku_ok EkuPolicy_server_auth cs \<and>
        leaf_identity_ok (Some (ascii hostname)) None (hd cs))"
  using rfc5280_eku_identity.both by (simp add: webpki_policy_def policy_single_def)

lemma pinned_contract:
  "policy_contract (pinned_policy env)
     (\<lambda>cs. (rfc5280_ok cs \<and> expiry_ok (env_now env) cs) \<and>
        leaf_identity_ok (Some (ascii ''service.internal'')) None (hd cs))"
  using rfc5280_identity.both by (simp add: pinned_policy_def policy_single_def)

lemma client_contract:
  "policy_contract (client_policy env)
     (\<lambda>cs. (rfc5280_ok cs \<and> expiry_ok (env_now env) cs) \<and> eku_ok EkuPolicy_client_auth cs)"
  using rfc5280_eku.both by (simp add: client_policy_def policy_single_def)

text \<open>A chain validated against a store built from certificates ends in one of them.\<close>

lemma anchor_in_store:
  assumes "validate V leaf ints = Some (Ok v)" "root_certificates V = store_from_iter rs"
  shows "\<exists>r \<in> set rs. validated_root v = Some r"
proof -
  have t: "trust_path V ints leaf (vc_certificates v)" by (rule validate_Ok_path(2) [OF assms(1)])
  then have "vc_certificates v \<noteq> []" by (rule trust_path_not_Nil)
  moreover have "last (vc_certificates v) \<in> set rs"
    using t assms(2)
    by (auto simp: trust_path_def linked_def find_by_subject_from_iter split: if_splits)
  ultimately show ?thesis by (simp add: validated_root_def slice_last_def)
qed

lemma example_store_one:
  "example_store env [der] = (case example_parse env der of None \<Rightarrow> None | Some c \<Rightarrow> Some (store_from_iter [c]))"
  by (simp add: example_store_def split: option.splits)

subsection \<open>A concrete environment\<close>

text \<open>Certificates are named by their DER; every signature verifies; one backend is enabled.\<close>

definition sample_env :: example_env where
  "sample_env =
     \<lparr>env_from_der = (\<lambda>der.
        if der = [0] then Ok ([], sample_ca ''root'' ''root'')
        else if der = [1, 0] then Ok ([], sample_certificate ''service.internal'' ''root'')
        else Err NomIncomplete),
      env_invalid_certificate = X509Error ''invalid certificate'',
      env_library = sample_library,
      env_features = \<lparr>feature_aws_lc = True, feature_ring = False, feature_rust_crypto = False\<rparr>,
      env_aws_lc_rs = \<lparr>unparsed_public_key_verify = (\<lambda>_ _ _ _. True)\<rparr>,
      env_ring = \<lparr>unparsed_public_key_verify = (\<lambda>_ _ _ _. True)\<rparr>,
      env_rust_crypto = permissive_rsa,
      env_native_errors = [], env_native_certs = [], env_now = 150\<rparr>"

lemma pinned_main_sample:
  "pinned_main sample_env sample_rcgen Some =
     Some [pad_right 24 ''pinned corporate root'' @ '' accepted'',
       pad_right 24 ''platform trust store'' @ '' rejected '' @ em_dash @ '' no chain reached a trusted root'']"
  by code_simp

lemma sample_env_backend: "single_backend (env_features sample_env)"
  by (simp add: sample_env_def single_backend_def)

subsection \<open>Properties\<close>

text \<open>The verdicts tell acceptance from rejection by their first word.\<close>

lemma accepted_prefix:
  "prefix (pad_right n s @ '' accepted'') (pad_right n s @ '' '' @ webpki_verdict r) \<longleftrightarrow> (\<exists>v. r = Inr v)"
  by (auto simp: webpki_verdict_def split: sum.splits list.splits)

lemma client_accepted_prefix:
  "client_verdict r = Some verdict \<Longrightarrow>
     prefix (pad_right n s @ '' accepted'') (pad_right n s @ '' '' @ verdict) \<longleftrightarrow> (\<exists>v. r = Inr v)"
  by (auto simp: client_verdict_def Let_def split: sum.splits list.splits Option.bind_splits)

text \<open>
  The browser-style example prints a line for every host, and the line says \<open>accepted\<close> exactly
  when the leaf has no unhandled critical extension and a path of trust reaches the platform's roots
  that obeys RFC 5280 at the current time, allows server authentication, and names that host; so
  for the same chain the two hosts can get different verdicts only through the leaf's names.
\<close>

theorem webpki_line_verdict:
  assumes "single_backend (env_features env)" "example_store env native = Some roots"
  shows "\<exists>line. webpki_line env leaf ints native hostname = Some line \<and>
    (prefix (pad_right 16 hostname @ '' accepted'') line \<longleftrightarrow>
     handled_critical (example_validator env roots (webpki_policy env hostname)) leaf \<and>
     (\<exists>cs. trust_path (example_validator env roots (webpki_policy env hostname)) ints leaf cs \<and>
        rfc5280_ok cs \<and> expiry_ok (env_now env) cs \<and> eku_ok EkuPolicy_server_auth cs \<and>
        leaf_identity_ok (Some (ascii hostname)) None leaf))"
proof -
  let ?V = "example_validator env roots (webpki_policy env hostname)"
  have c: "validator_contract ?V"
    by (rule example_contract [OF assms(1) policy_contract.total [OF webpki_contract]])
  obtain r where r: "validate ?V leaf ints = Some r"
    using validator_contract.returns_inner [OF c] by (fastforce simp: validate_def)
  have "hd cs = leaf" "cs \<noteq> []" if "trust_path ?V ints leaf cs" for cs
    using that trust_path_not_Nil by (auto simp: trust_path_def)
  then have "(\<exists>v. r = Inr v) \<longleftrightarrow> handled_critical ?V leaf \<and>
      (\<exists>cs. trust_path ?V ints leaf cs \<and> rfc5280_ok cs \<and> expiry_ok (env_now env) cs \<and>
        eku_ok EkuPolicy_server_auth cs \<and> leaf_identity_ok (Some (ascii hostname)) None leaf)"
    using success_iff [OF c, of leaf ints] policy_contract.verdict [OF webpki_contract] r
    by (auto 0 4)
  then show ?thesis using r assms(2) accepted_prefix by (simp add: webpki_line_def)
qed

theorem webpki_line_verdict_witness:
  "\<exists>line. webpki_line sample_env (sample_certificate ''service.internal'' ''root'') CertificateStore_new [[0]]
     ''service.internal'' = Some line"
proof -
  have "example_store sample_env [[0]] = Some (store_from_iter [sample_ca ''root'' ''root''])"
    by (simp add: example_store_one example_parse_def parse_def sample_env_def)
  then show ?thesis using webpki_line_verdict [OF sample_env_backend] by blast
qed

text \<open>
  C22. Pinning means pinning: if the pinned-root example reports the internal service as accepted, then
  the chain it found starts with the service's certificate, ends in the corporate CA itself, and the
  certificate names the service. A certificate from any other CA cannot satisfy the check.
\<close>

theorem pinned_root_is_the_anchor:
  assumes "pinned_main env rc fresh = Some lines"
    and "hd lines = pad_right 24 ''pinned corporate root'' @ '' accepted''"
  shows "\<exists>anchor_der leaf_der ca leaf cs. issue_internal_service rc fresh = Some (anchor_der, leaf_der) \<and>
    example_parse env anchor_der = Some ca \<and> example_parse env leaf_der = Some leaf \<and>
    trust_path (example_validator env (store_from_iter [ca]) (pinned_policy env)) CertificateStore_new leaf cs \<and>
    hd cs = leaf \<and> last cs = ca \<and> leaf_identity_ok (Some (ascii ''service.internal'')) None leaf"
proof -
  from assms(1) obtain anchor_der leaf_der leaf ca where
      p: "issue_internal_service rc fresh = Some (anchor_der, leaf_der)"
        "example_parse env leaf_der = Some leaf" "example_parse env anchor_der = Some ca"
    and l: "pinned_line env leaf (''pinned corporate root'', store_from_iter [ca]) = Some (hd lines)"
    by (auto simp: pinned_main_def example_store_one split: Option.bind_splits option.splits)
  let ?V = "example_validator env (store_from_iter [ca]) (pinned_policy env)"
  obtain r where r: "validate ?V leaf CertificateStore_new = Some r" "pinned_verdict r = ''accepted''"
    using l assms(2) by (auto simp: pinned_line_def split: Option.bind_splits)
  then obtain v where "r = Inr v" by (auto simp: pinned_verdict_def split: sum.splits list.splits)
  with r(1) have v: "validate ?V leaf CertificateStore_new = Some (Ok v)" by simp
  note path = validate_Ok_path [OF v]
  have "vc_certificates v \<noteq> []" by (rule trust_path_not_Nil [OF path(2)])
  moreover have "hd (vc_certificates v) = leaf" using path(2) by (auto simp: trust_path_def)
  moreover have "last (vc_certificates v) = ca"
    using anchor_in_store [OF v, of "[ca]"] \<open>vc_certificates v \<noteq> []\<close> by (simp add: validated_root_def slice_last_def)
  moreover have "leaf_identity_ok (Some (ascii ''service.internal'')) None (hd (vc_certificates v))"
    using policy_contract.verdict [OF pinned_contract \<open>vc_certificates v \<noteq> []\<close>] path(3) by simp
  ultimately show ?thesis using p path(2) by (intro exI conjI) simp_all
qed

theorem pinned_root_is_the_anchor_witness:
  "\<exists>anchor_der leaf_der ca leaf cs. issue_internal_service sample_rcgen Some = Some (anchor_der, leaf_der) \<and>
     example_parse sample_env anchor_der = Some ca \<and> hd cs = leaf \<and> last cs = ca \<and>
     leaf_identity_ok (Some (ascii ''service.internal'')) None leaf"
  using pinned_root_is_the_anchor [OF pinned_main_sample] by fastforce

text \<open>
  A well-formed credential issued for another purpose is refused: the client-certificate example
  never reports as accepted a certificate whose extendedKeyUsage names purposes but not
  clientAuth, whoever issued it.
\<close>

theorem wrong_purpose_refused:
  assumes "client_line env anchor_der (purpose, der) = Some line"
    and "example_parse env der = Some client"
    and "tbs_extended_key_usage client = Ok (Some usage)" "client_auth_oid \<notin> purposes usage"
    and "ext_extended_key_usage client \<noteq> Ok None"
  shows "\<not> prefix (pad_right 12 purpose @ '' accepted'') line"
proof
  assume acc: "prefix (pad_right 12 purpose @ '' accepted'') line"
  from assms(1,2) obtain roots r verdict where
    r: "validate (example_validator env roots (client_policy env)) client CertificateStore_new = Some r"
      "client_verdict r = Some verdict" "line = pad_right 12 purpose @ '' '' @ verdict"
    by (auto simp: client_line_def split: Option.bind_splits)
  then obtain v where "r = Inr v" using acc client_accepted_prefix by blast
  with r(1) have "validate (example_validator env roots (client_policy env)) client CertificateStore_new = Some (Ok v)"
    by simp
  note path = validate_Ok_path [OF this]
  have ne: "vc_certificates v \<noteq> []" by (rule trust_path_not_Nil [OF path(2)])
  have "hd (vc_certificates v) = client" using path(2) by (auto simp: trust_path_def)
  moreover have "eku_ok EkuPolicy_client_auth (vc_certificates v)"
    using policy_contract.verdict [OF client_contract ne] path(3) by simp
  ultimately have "eku_satisfied EkuPolicy_client_auth client"
    using ne by (cases "vc_certificates v")
      (auto simp: eku_ok_def EkuPolicy_client_auth_def EkuPolicy_new_def EkuPolicy_key_purposes_def)
  then show False
    using assms(3-5)
    by (auto simp: eku_satisfied_def EkuPolicy_client_auth_def EkuPolicy_new_def EkuPolicy_key_purposes_def)
qed

text \<open>A credential for server authentication only, from the trusted CA.\<close>

definition server_usage :: ExtendedKeyUsage where
  "server_usage =
     \<lparr>eku_any = False, eku_server_auth = True, eku_client_auth = False, eku_code_signing = False,
      eku_email_protection = False, eku_time_stamping = False, eku_ocsp_signing = False, eku_other = []\<rparr>"

lemma purposes_server_usage: "purposes server_usage = {server_auth_oid}"
  unfolding purposes_def server_usage_def ExtendedKeyUsage.select_convs by simp

definition server_credential :: certificate where
  "server_credential =
     (sample_certificate ''service.internal'' ''root'')
       \<lparr>ext_extended_key_usage := Ok (Some \<lparr>ext_oid = extended_key_usage_oid, ext_critical = False, ext_value = [0x30, 0x01],
          ext_parsed = UninspectedExtension\<rparr>),
        tbs_extended_key_usage := Ok (Some server_usage)\<rparr>"

definition credential_env :: example_env where
  "credential_env = sample_env\<lparr>env_from_der := (\<lambda>der.
     if der = [0] then Ok ([], sample_ca ''root'' ''root'') else Ok ([], server_credential))\<rparr>"

lemma server_credential_line:
  "client_line credential_env [0] (''serverAuth'', ascii ''server'') =
     Some (''serverAuth   rejected '' @ em_dash @
       '' certificate certificate names none of the accepted extended key usages '')"
  by code_simp

theorem wrong_purpose_refused_witness:
  "\<not> prefix (pad_right 12 ''serverAuth'' @ '' accepted'')
     (''serverAuth   rejected '' @ em_dash @
       '' certificate certificate names none of the accepted extended key usages '')"
proof -
  have "example_parse credential_env (ascii ''server'') = Some server_credential"
    by (simp add: example_parse_def parse_def credential_env_def sample_env_def ascii_def)
  then show ?thesis
    by (rule wrong_purpose_refused [OF server_credential_line, where usage = server_usage])
      (simp_all add: server_credential_def purposes_server_usage client_auth_oid_def server_auth_oid_def)
qed

text \<open>Below the root, a chain is made of the leaf and of certificates of the intermediate store.\<close>

lemma path_within:
  assumes "trust_path V (store_from_iter rest) leaf cs"
  shows "set (butlast cs) \<subseteq> set (leaf # rest)"
proof
  fix c
  assume "c \<in> set (butlast cs)"
  then obtain i where i: "i < length (butlast cs)" "c = butlast cs ! i" by (auto simp: in_set_conv_nth)
  with assms have long: "hd cs = leaf" "linked V (store_from_iter rest) (butlast cs)" by (auto simp: trust_path_def)
  show "c \<in> set (leaf # rest)"
  proof (cases i)
    case 0
    have "cs \<noteq> []" using i(1) by auto
    then show ?thesis using 0 i long(1) by (simp add: nth_butlast hd_conv_nth)
  next
    case (Suc j)
    then show ?thesis using i long(2) by (auto simp: linked_def find_by_subject_from_iter)
  qed
qed

text \<open>
  C24. Of the certificates a signed message carries, none is trusted. If the example reports its chain as accepted, then
  the chain it reports, name by name, is the one its validator returned: it starts with the first certificate of
  the message's \<open>x5c\<close> claim, goes through further certificates of that claim only, and ends in the root the program holds, not
  one the message brought; each certificate below the root is signed by the next as the backend checks it; and
  the chain obeys RFC 5280 and was valid when the message was signed.
\<close>

theorem x5c_chain_reaches_held_root:
  assumes "apple_main env url_decode std_decode jws held_root = Some lines" "lines ! 1 = ''accepted:''"
  shows "\<exists>x5c root leaf rest v V.
    x5c_chain url_decode std_decode jws = Some x5c \<and> example_parse env held_root = Some root \<and>
    index_at x5c 0 \<bind> example_parse env = Some leaf \<and> those (map (example_parse env) (tl x5c)) = Some rest \<and>
    V = example_validator env (store_from_iter [root]) (RFC5280Policy_policy (RFC5280Policy_new SIGNED_DATE)) \<and>
    validate V leaf (store_from_iter rest) = Some (Ok v) \<and>
    take (length (vc_certificates v)) (drop 2 lines) =
      map (\<lambda>certificate. ''  '' @ name_display (tbs_subject certificate)) (vc_certificates v) \<and>
    trust_path V (store_from_iter rest) leaf (vc_certificates v) \<and> last (vc_certificates v) = root \<and>
    set (butlast (vc_certificates v)) \<subseteq> set (leaf # rest) \<and>
    (\<forall>i. Suc i < length (vc_certificates v) \<longrightarrow>
       default_provider (env_features env) (env_aws_lc_rs env) (env_ring env) (env_rust_crypto env) (env_library env)
         (cert_signature_algorithm (vc_certificates v ! i)) (tbs_subject_pki (vc_certificates v ! Suc i))
         (tbs_raw (vc_certificates v ! i)) (cert_signature_value (vc_certificates v ! i)) = Some (Ok ())) \<and>
    rfc5280_ok (vc_certificates v) \<and> expiry_ok SIGNED_DATE (vc_certificates v)"
proof -
  from assms(1) obtain x5c r report where x: "x5c_chain url_decode std_decode jws = Some x5c"
    and r: "apple_validate env x5c held_root = Some r" "apple_report r = Some report"
    and l: "lines = (''x5c carries '' @ decimal (length x5c) @ '' certificates'') # report"
    by (auto simp: apple_main_def split: Option.bind_splits)
  from l r(2) assms(2) obtain v where ok: "r = Ok v"
    by (auto simp: apple_report_def split: sum.splits list.splits Option.bind_splits)
  with r(1) obtain leaf rest root where p: "index_at x5c 0 \<bind> example_parse env = Some leaf"
      "example_parse env held_root = Some root" "those (map (example_parse env) (tl x5c)) = Some rest"
    and v: "validate (example_validator env (store_from_iter [root])
      (RFC5280Policy_policy (RFC5280Policy_new SIGNED_DATE))) leaf (store_from_iter rest) = Some (Ok v)"
    by (auto simp: apple_validate_def example_store_one example_store_def slice_from_def drop_Suc split: Option.bind_splits option.splits if_splits)
  let ?V = "example_validator env (store_from_iter [root]) (RFC5280Policy_policy (RFC5280Policy_new SIGNED_DATE))"
  note path = validate_Ok_path [OF v]
  have ne: "vc_certificates v \<noteq> []" by (rule trust_path_not_Nil [OF path(2)])
  have lines: "take (length (vc_certificates v)) (drop 2 lines) =
      map (\<lambda>certificate. ''  '' @ name_display (tbs_subject certificate)) (vc_certificates v)"
    using l r(2) ok by (auto simp: apple_report_def validated_iter_def numeral_2_eq_2 split: Option.bind_splits)
  have root: "last (vc_certificates v) = root"
    using anchor_in_store [OF v, of "[root]"] ne by (simp add: validated_root_def slice_last_def)
  have inner: "set (butlast (vc_certificates v)) \<subseteq> set (leaf # rest)" by (rule path_within [OF path(2)])
  have signed: "default_provider (env_features env) (env_aws_lc_rs env) (env_ring env) (env_rust_crypto env) (env_library env)
         (cert_signature_algorithm (vc_certificates v ! i)) (tbs_subject_pki (vc_certificates v ! Suc i))
         (tbs_raw (vc_certificates v ! i)) (cert_signature_value (vc_certificates v ! i)) = Some (Ok ())"
    if "Suc i < length (vc_certificates v)" for i
    using trust_path_link [OF path(2) that]
    by (simp add: signed_by_def example_validator_def Validator_with_policy_def Validator_with_policy_and_backend_def)
  have "rfc5280_ok (vc_certificates v) \<and> expiry_ok SIGNED_DATE (vc_certificates v)"
    using rfc5280.verdict [OF ne] path(3) by simp
  with x p v lines path(2) root inner signed show ?thesis by blast
qed

text \<open>A message whose \<open>x5c\<close> claim brings a leaf and a root of its own; the DER \<open>[0]\<close> is the held root.\<close>

definition x5c_env :: example_env where
  "x5c_env = sample_env\<lparr>env_from_der := (\<lambda>der.
     if der = [0] then Ok ([], (sample_ca ''root'' ''root'')\<lparr>tbs_not_after := 2000000000\<rparr>)
     else if der = [1] then Ok ([], (sample_certificate ''signer'' ''root'')\<lparr>tbs_not_after := 2000000000\<rparr>)
     else if der = [2] then Ok ([], (sample_ca ''impostor'' ''impostor'')\<lparr>tbs_not_after := 2000000000\<rparr>)
     else Err NomIncomplete)\<rparr>"

definition x5c_message :: bytes where
  "x5c_message = letters_encode (x5c_header letters_encode (ascii ''{'') [[1], [2]] (ascii ''}'')) @ 0x2E # ascii ''payload''"

lemma x5c_message_report:
  "apple_main x5c_env letters_decode letters_decode x5c_message [0] =
     Some [''x5c carries 2 certificates'', ''accepted:'', ''  CN=signer'', ''  CN=root'', [],
       ''leaf public key: 6 bytes of DER'']"
  by code_simp

theorem x5c_chain_reaches_held_root_witness:
  "\<exists>root rest leaf v. example_parse x5c_env [0] = Some root \<and>
     validate (example_validator x5c_env (store_from_iter [root]) (RFC5280Policy_policy (RFC5280Policy_new SIGNED_DATE))) leaf
       (store_from_iter rest) = Some (Ok v) \<and> last (vc_certificates v) = root \<and> expiry_ok SIGNED_DATE (vc_certificates v)"
  using x5c_chain_reaches_held_root [OF x5c_message_report] by auto

end
