(* ===== verification/Bench_Fixtures.thy ===== *)
theory Bench_Fixtures
  imports Testkit_Certificates Chains
begin

text \<open>
  \<^verbatim>\<open>x509-validator-testkit\<close>: \<^verbatim>\<open>parse.rs\<close> and \<^verbatim>\<open>bench_fixtures.rs\<close>, the certificate sets the benchmarks validate.
  \<open>fresh alg n\<close> is the key pair of the n-th call of the generator for the algorithm \<open>alg\<close> (None when it
  fails, a panic), and \<open>cert\<close> is the test kit's \<open>parse::cert\<close>. A set is built in two stages: the
  authorities the function binds with \<open>let\<close>, a record of their own here, and the struct of parsed certificates
  it returns. The \<open>OnceLock\<close> that keeps the result, and the accessors that read it, are in \<open>Fixture_Cells\<close>.
\<close>

subsection \<open>Parsing\<close>

definition testkit_cert :: "(bytes \<Rightarrow> nom_err + bytes \<times> certificate) \<Rightarrow> x509_error \<Rightarrow> bytes \<Rightarrow> certificate may_panic" where
  "testkit_cert from_der invalid der =
     (case parse from_der invalid der of Inr c \<Rightarrow> Some c | Inl _ \<Rightarrow> panic)"

definition chain_of ::
  "(bytes \<Rightarrow> nom_err + bytes \<times> certificate) \<Rightarrow> x509_error \<Rightarrow> bytes list \<Rightarrow> UnverifiedCertificateChain may_panic" where
  "chain_of from_der invalid ders = do {
     certs \<leftarrow> those (map (testkit_cert from_der invalid) ders);
     UnverifiedCertificateChain_new certs }"

subsection \<open>The sets\<close>

definition REFERENCE_TIME :: int where "REFERENCE_TIME = 1700000000"

definition days :: "int \<Rightarrow> int" where "days n = n * 86400"

datatype KeyAlg = P256 | P384

definition ca_key :: "(KeyAlg \<Rightarrow> nat \<Rightarrow> 'key may_panic) \<Rightarrow> nat \<Rightarrow> 'key may_panic" where
  "ca_key fresh n = fresh P384 n"

record CurveChain =
  curve_root :: certificate
  curve_intermediate :: certificate
  curve_leaf :: certificate

record ('dn, 'ext, 'key) curve_authorities =
  built_root :: "('dn, 'ext, 'key) Ca"
  built_intermediate :: "('dn, 'ext, 'key) Ca"
  built_leaf :: bytes

definition issue_p256_chain ::
  "('dn, 'ext, 'key) rcgen \<Rightarrow> (KeyAlg \<Rightarrow> nat \<Rightarrow> 'key may_panic) \<Rightarrow> ('dn, 'ext, 'key) curve_authorities may_panic" where
  "issue_p256_chain rc fresh = do {
     let now = REFERENCE_TIME;
     root_key \<leftarrow> fresh P256 0;
     root \<leftarrow> CaSpec_self_signed rc
       (ca_with_validity (ca_with_key_pair (CaSpec_new ''Benchmark P-256 Root CA'') root_key)
         (now - days 365) (now + days 3650)) panic;
     intermediate_key \<leftarrow> fresh P256 1;
     intermediate \<leftarrow> CaSpec_signed_by rc
       (ca_with_aki (ca_with_path_len
         (ca_with_validity (ca_with_key_pair (CaSpec_new ''Benchmark P-256 Intermediate CA'') intermediate_key)
           (now - days 365) (now + days (5 * 365))) (Some 0)) True) root panic;
     leaf \<leftarrow> LeafSpec_signed_by rc
       (leaf_with_aki (leaf_with_validity
         (leaf_with_dns_sans (LeafSpec_new ''p256.example'') [''p256.example''])
         (now - days 365) (now + days 365)) True) intermediate (fresh P256 2);
     Some \<lparr>built_root = root, built_intermediate = intermediate, built_leaf = leaf\<rparr> }"

definition build_p256_chain ::
  "('dn, 'ext, 'key) rcgen \<Rightarrow> (bytes \<Rightarrow> certificate may_panic) \<Rightarrow> (KeyAlg \<Rightarrow> nat \<Rightarrow> 'key may_panic) \<Rightarrow>
   CurveChain may_panic" where
  "build_p256_chain rc cert fresh = do {
     set \<leftarrow> issue_p256_chain rc fresh;
     root \<leftarrow> cert (ca_der (built_root set));
     intermediate \<leftarrow> cert (ca_der (built_intermediate set));
     leaf \<leftarrow> cert (built_leaf set);
     Some \<lparr>curve_root = root, curve_intermediate = intermediate, curve_leaf = leaf\<rparr> }"

record Parity =
  parity_ca1 :: certificate
  parity_ca1_cross_signed_by_ca2 :: certificate
  parity_ca1_with_alternative_private_key :: certificate
  parity_ca2 :: certificate
  parity_ca2_cross_signed_by_ca1 :: certificate
  parity_intermediate1 :: certificate
  parity_intermediate1_without_ski_aki :: certificate
  parity_intermediate1_with_incorrect_ski_aki :: certificate
  parity_localhost_leaf :: certificate
  parity_isolated_self_signed :: certificate
  parity_isolated_self_signed_weird_critical :: certificate

record ('dn, 'ext, 'key) parity_authorities =
  ca1 :: "('dn, 'ext, 'key) Ca"
  ca2 :: "('dn, 'ext, 'key) Ca"
  ca1_cross :: "('dn, 'ext, 'key) Ca"
  ca2_cross :: "('dn, 'ext, 'key) Ca"
  ca1_alternative :: "('dn, 'ext, 'key) Ca"
  intermediate1 :: "('dn, 'ext, 'key) Ca"
  intermediate1_without_ski_aki :: "('dn, 'ext, 'key) Ca"
  intermediate1_with_incorrect_ski_aki :: "('dn, 'ext, 'key) Ca"
  localhost_leaf :: bytes
  isolated_self_signed :: bytes
  isolated_self_signed_weird_critical :: bytes

text \<open>The three shapes of authority the set is made of.\<close>

definition parity_root_spec :: "string \<Rightarrow> 'key \<Rightarrow> 'key CaSpec" where
  "parity_root_spec cn key =
     ca_with_validity (ca_with_key_pair (CaSpec_new cn) key)
       (REFERENCE_TIME - days 365) (REFERENCE_TIME + days 3650)"

definition parity_cross_spec :: "string \<Rightarrow> 'key \<Rightarrow> 'key CaSpec" where
  "parity_cross_spec cn key =
     ca_with_aki (ca_with_validity (ca_with_key_pair (CaSpec_new cn) key)
       (REFERENCE_TIME - days 365) (REFERENCE_TIME + days 365)) True"

definition parity_intermediate_spec :: "'key \<Rightarrow> 'key CaSpec" where
  "parity_intermediate_spec key =
     ca_with_path_len
       (ca_with_validity (ca_with_key_pair (CaSpec_new ''Benchmark Test Intermediate CA 1'') key)
         (REFERENCE_TIME - days 365) (REFERENCE_TIME + days (5 * 365))) (Some 1)"

definition parity_leaf_spec :: "string \<Rightarrow> 'key LeafSpec" where
  "parity_leaf_spec cn =
     leaf_with_validity (LeafSpec_new cn) (REFERENCE_TIME - days 365) (REFERENCE_TIME + days 365)"

definition issue_parity ::
  "('dn, 'ext, 'key) rcgen \<Rightarrow> (KeyAlg \<Rightarrow> nat \<Rightarrow> 'key may_panic) \<Rightarrow> ('dn, 'ext, 'key) parity_authorities may_panic" where
  "issue_parity rc fresh = do {
     ca1_key \<leftarrow> ca_key fresh 0;
     ca1 \<leftarrow> CaSpec_self_signed rc (parity_root_spec ''Benchmark Test CA 1'' ca1_key) panic;
     ca2_key \<leftarrow> ca_key fresh 1;
     ca2 \<leftarrow> CaSpec_self_signed rc (parity_root_spec ''Benchmark Test CA 2'' ca2_key) panic;
     ca1_copy \<leftarrow> copy_of_key_pair rc ca1;
     ca1_cross \<leftarrow> CaSpec_signed_by rc (parity_cross_spec ''Benchmark Test CA 1'' ca1_copy) ca2 panic;
     ca2_copy \<leftarrow> copy_of_key_pair rc ca2;
     ca2_cross \<leftarrow> CaSpec_signed_by rc (parity_cross_spec ''Benchmark Test CA 2'' ca2_copy) ca1 panic;
     alternative_key \<leftarrow> ca_key fresh 2;
     ca1_alternative \<leftarrow> CaSpec_self_signed rc (parity_root_spec ''Benchmark Test CA 1'' alternative_key) panic;
     intermediate_key \<leftarrow> fresh P256 0;
     intermediate1 \<leftarrow> CaSpec_signed_by rc (ca_with_aki (parity_intermediate_spec intermediate_key) True) ca1 panic;
     copy1 \<leftarrow> copy_of_key_pair rc intermediate1;
     without_ids \<leftarrow>
       CaSpec_signed_by rc (ca_with_aki (ca_with_ski (parity_intermediate_spec copy1) Absent) False) ca1 panic;
     copy2 \<leftarrow> copy_of_key_pair rc intermediate1;
     incorrect_ids \<leftarrow>
       CaSpec_signed_by rc
         (ca_with_aki (ca_with_ski (parity_intermediate_spec copy2) (Exactly (ca_key_identifier rc ca2))) True)
         ca2 panic;
     leaf \<leftarrow>
       LeafSpec_signed_by rc
         (leaf_with_aki (leaf_with_dns_sans (parity_leaf_spec ''localhost'') [''localhost'']) True)
         intermediate1 (fresh P256 1);
     isolated \<leftarrow> LeafSpec_self_signed rc (parity_leaf_spec ''Isolated Self-Signed Cert'') (fresh P256 2);
     weird \<leftarrow>
       LeafSpec_self_signed rc
         (leaf_with_critical_extension (parity_leaf_spec ''Isolated Self-Signed Cert'') [1, 2, 3, 4, 5] [1, 2, 3, 4, 5])
         (fresh P256 3);
     Some
       \<lparr>ca1 = ca1, ca2 = ca2, ca1_cross = ca1_cross, ca2_cross = ca2_cross, ca1_alternative = ca1_alternative,
        intermediate1 = intermediate1, intermediate1_without_ski_aki = without_ids,
        intermediate1_with_incorrect_ski_aki = incorrect_ids, localhost_leaf = leaf,
        isolated_self_signed = isolated, isolated_self_signed_weird_critical = weird\<rparr> }"

definition build_parity ::
  "('dn, 'ext, 'key) rcgen \<Rightarrow> (bytes \<Rightarrow> certificate may_panic) \<Rightarrow> (KeyAlg \<Rightarrow> nat \<Rightarrow> 'key may_panic) \<Rightarrow>
   Parity may_panic" where
  "build_parity rc cert fresh = do {
     set \<leftarrow> issue_parity rc fresh;
     c1 \<leftarrow> cert (ca_der (ca1 set));
     c1_cross \<leftarrow> cert (ca_der (ca1_cross set));
     c1_alternative \<leftarrow> cert (ca_der (ca1_alternative set));
     c2 \<leftarrow> cert (ca_der (ca2 set));
     c2_cross \<leftarrow> cert (ca_der (ca2_cross set));
     i1 \<leftarrow> cert (ca_der (intermediate1 set));
     i1_without \<leftarrow> cert (ca_der (intermediate1_without_ski_aki set));
     i1_incorrect \<leftarrow> cert (ca_der (intermediate1_with_incorrect_ski_aki set));
     leaf \<leftarrow> cert (localhost_leaf set);
     isolated \<leftarrow> cert (isolated_self_signed set);
     weird \<leftarrow> cert (isolated_self_signed_weird_critical set);
     Some
       \<lparr>parity_ca1 = c1, parity_ca1_cross_signed_by_ca2 = c1_cross,
        parity_ca1_with_alternative_private_key = c1_alternative, parity_ca2 = c2,
        parity_ca2_cross_signed_by_ca1 = c2_cross, parity_intermediate1 = i1,
        parity_intermediate1_without_ski_aki = i1_without,
        parity_intermediate1_with_incorrect_ski_aki = i1_incorrect, parity_localhost_leaf = leaf,
        parity_isolated_self_signed = isolated, parity_isolated_self_signed_weird_critical = weird\<rparr> }"

subsection \<open>What the parity set holds\<close>

lemmas parity_spec_defs =
  parity_root_spec_def parity_cross_spec_def parity_intermediate_spec_def ca_with_validity_def ca_with_key_pair_def
  ca_with_aki_def ca_with_path_len_def ca_with_ski_def CaSpec_new_def days_def REFERENCE_TIME_def

definition valid_at :: "int \<Rightarrow> ('dn, 'ext, 'key) Ca \<Rightarrow> bool" where
  "valid_at t auth \<longleftrightarrow> params_not_before (ca_params auth) \<le> t \<and> t \<le> params_not_after (ca_params auth)"

definition issued_by ::
  "('dn, 'ext, 'key) rcgen \<Rightarrow> ('dn, 'ext, 'key) Ca \<Rightarrow> ('dn, 'ext, 'key) Ca \<Rightarrow> bool" where
  "issued_by rc auth issuer \<longleftrightarrow>
     rc_signed_by rc (ca_params auth) (ca_key_pair auth) (ca_issuer issuer) = Some (ca_der auth)"

definition covers :: "int \<Rightarrow> 'key CaSpec \<Rightarrow> bool" where
  "covers t spec \<longleftrightarrow>
     (case (ca_not_before spec, ca_not_after spec) of (Some b, Some e) \<Rightarrow> b \<le> t \<and> t \<le> e | _ \<Rightarrow> False)"

lemma built_valid_at:
  assumes "CaSpec_build rc spec fresh = Some (ca_params auth, ca_key_pair auth)" "covers t spec"
  shows "valid_at t auth"
  using CaSpec_build_Some(2,3) [OF assms(1)] assms(2)
  by (auto simp: valid_at_def covers_def split: option.splits)

lemma parity_specs_cover [simp]:
  "covers REFERENCE_TIME (parity_root_spec cn k)"
  "covers REFERENCE_TIME (parity_cross_spec cn k)"
  "covers REFERENCE_TIME (parity_intermediate_spec k)"
  "covers t (ca_with_aki spec b) = covers t spec"
  "covers t (ca_with_ski spec ski) = covers t spec"
  by (simp_all add: parity_spec_defs covers_def)

lemma CaSpec_signed_by_issued: "CaSpec_signed_by rc spec issuer fresh = Some auth \<Longrightarrow> issued_by rc auth issuer"
  by (simp add: CaSpec_signed_by_Some(2) issued_by_def)

lemma CaSpec_signed_by_valid:
  "CaSpec_signed_by rc spec issuer fresh = Some auth \<Longrightarrow> covers t spec \<Longrightarrow> valid_at t auth"
  by (blast dest: CaSpec_signed_by_Some(1) built_valid_at)

lemma CaSpec_self_signed_valid:
  "CaSpec_self_signed rc spec fresh = Some auth \<Longrightarrow> covers t spec \<Longrightarrow> valid_at t auth"
  by (blast dest: CaSpec_self_signed_Some(1) built_valid_at)

lemma issue_parity_steps:
  assumes "issue_parity rc fresh = Some s"
  obtains k1 k2 c1 c2 k3 k4 d1 d2 where
    "CaSpec_self_signed rc (parity_root_spec ''Benchmark Test CA 1'' k1) panic = Some (ca1 s)"
    "CaSpec_self_signed rc (parity_root_spec ''Benchmark Test CA 2'' k2) panic = Some (ca2 s)"
    "CaSpec_signed_by rc (parity_cross_spec ''Benchmark Test CA 1'' c1) (ca2 s) panic = Some (ca1_cross s)"
    "CaSpec_signed_by rc (parity_cross_spec ''Benchmark Test CA 2'' c2) (ca1 s) panic = Some (ca2_cross s)"
    "CaSpec_self_signed rc (parity_root_spec ''Benchmark Test CA 1'' k3) panic = Some (ca1_alternative s)"
    "CaSpec_signed_by rc (ca_with_aki (parity_intermediate_spec k4) True) (ca1 s) panic = Some (intermediate1 s)"
    "CaSpec_signed_by rc (ca_with_aki (ca_with_ski (parity_intermediate_spec d1) Absent) False) (ca1 s) panic =
       Some (intermediate1_without_ski_aki s)"
    "CaSpec_signed_by rc
       (ca_with_aki (ca_with_ski (parity_intermediate_spec d2) (Exactly (ca_key_identifier rc (ca2 s)))) True)
       (ca2 s) panic = Some (intermediate1_with_incorrect_ski_aki s)"
  using assms by (auto simp: issue_parity_def bind_eq_Some_conv)

definition same_subject :: "('dn, 'ext, 'key) Ca \<Rightarrow> ('dn, 'ext, 'key) Ca \<Rightarrow> bool" where
  "same_subject a b \<longleftrightarrow> distinguished_name (ca_params a) = distinguished_name (ca_params b)"

lemma issue_parity_issuers:
  assumes "issue_parity rc fresh = Some s"
  shows "issued_by rc (ca1_cross s) (ca2 s)" "issued_by rc (ca2_cross s) (ca1 s)"
    "issued_by rc (intermediate1 s) (ca1 s)" "issued_by rc (intermediate1_without_ski_aki s) (ca1 s)"
    "issued_by rc (intermediate1_with_incorrect_ski_aki s) (ca2 s)"
  by (rule issue_parity_steps [OF assms], rule CaSpec_signed_by_issued, assumption)+

lemma issue_parity_valid:
  assumes "issue_parity rc fresh = Some s"
  shows "valid_at REFERENCE_TIME (ca1 s)" "valid_at REFERENCE_TIME (ca2 s)" "valid_at REFERENCE_TIME (ca1_alternative s)"
    "valid_at REFERENCE_TIME (ca1_cross s)" "valid_at REFERENCE_TIME (ca2_cross s)"
    "valid_at REFERENCE_TIME (intermediate1 s)" "valid_at REFERENCE_TIME (intermediate1_without_ski_aki s)"
    "valid_at REFERENCE_TIME (intermediate1_with_incorrect_ski_aki s)"
  by (rule issue_parity_steps [OF assms],
      ((rule CaSpec_self_signed_valid, assumption, simp; fail) |
       (rule CaSpec_signed_by_valid, assumption, simp; fail)))+

lemma issue_parity_subjects:
  assumes "issue_parity rc fresh = Some s"
  shows "same_subject (ca1_cross s) (ca1 s)" "same_subject (ca2_cross s) (ca2 s)"
    "same_subject (ca1_alternative s) (ca1 s)"
    "same_subject (intermediate1_without_ski_aki s) (intermediate1 s)"
    "same_subject (intermediate1_with_incorrect_ski_aki s) (intermediate1 s)"
  by (rule issue_parity_steps [OF assms],
      simp add: same_subject_def parity_spec_defs
        CaSpec_build_Some(1) [OF CaSpec_signed_by_Some(1)] CaSpec_build_Some(1) [OF CaSpec_self_signed_Some(1)])+

lemma issue_parity_identifiers:
  assumes "issue_parity rc fresh = Some s"
  shows "key_identifier_method (ca_params (intermediate1_with_incorrect_ski_aki s)) =
      PreSpecified (ca_key_identifier rc (ca2 s))"
    and "is_ca (ca_params (intermediate1_without_ski_aki s)) = NoCa"
    and "is_ca (ca_params (intermediate1 s)) = IsCa (Constrained 1)"
  by (rule issue_parity_steps [OF assms],
      simp add: CaSpec_build_Some [OF CaSpec_signed_by_Some(1)] parity_spec_defs is_ca_with_def)+

definition sample_fresh :: "KeyAlg \<Rightarrow> nat \<Rightarrow> nat may_panic" where
  "sample_fresh alg n = Some (case alg of P256 \<Rightarrow> 10 + n | P384 \<Rightarrow> n)"

subsection \<open>Properties\<close>

text \<open>
  The parity set of the benchmarks, whatever the generator returns: every authority in it is valid at
  the pinned reference time; each cross-signed root and each variant of the intermediate carries the
  subject of the certificate it stands in for, is issued by the authority the fixture describes, and
  the variant with the ``incorrect'' identifiers is in fact issued by the second root, and not, as its
  comment has it, by the first, with its subject key identifier pinned to that root's own.
\<close>

theorem parity_set_shape:
  assumes "build_parity rc cert fresh = Some p"
  shows "\<exists>s. issue_parity rc fresh = Some s \<and>
    cert (ca_der (intermediate1 s)) = Some (parity_intermediate1 p) \<and>
    cert (ca_der (intermediate1_with_incorrect_ski_aki s)) =
      Some (parity_intermediate1_with_incorrect_ski_aki p) \<and>
    list_all (valid_at REFERENCE_TIME)
      [ca1 s, ca2 s, ca1_cross s, ca2_cross s, ca1_alternative s, intermediate1 s,
       intermediate1_without_ski_aki s, intermediate1_with_incorrect_ski_aki s] \<and>
    same_subject (ca1_cross s) (ca1 s) \<and> issued_by rc (ca1_cross s) (ca2 s) \<and>
    same_subject (ca2_cross s) (ca2 s) \<and> issued_by rc (ca2_cross s) (ca1 s) \<and>
    same_subject (ca1_alternative s) (ca1 s) \<and>
    issued_by rc (intermediate1 s) (ca1 s) \<and>
    same_subject (intermediate1_without_ski_aki s) (intermediate1 s) \<and>
    issued_by rc (intermediate1_without_ski_aki s) (ca1 s) \<and>
    is_ca (ca_params (intermediate1_without_ski_aki s)) = NoCa \<and>
    same_subject (intermediate1_with_incorrect_ski_aki s) (intermediate1 s) \<and>
    issued_by rc (intermediate1_with_incorrect_ski_aki s) (ca2 s) \<and>
    key_identifier_method (ca_params (intermediate1_with_incorrect_ski_aki s)) =
      PreSpecified (ca_key_identifier rc (ca2 s))"
proof -
  obtain s where s: "issue_parity rc fresh = Some s"
    "cert (ca_der (intermediate1 s)) = Some (parity_intermediate1 p)"
    "cert (ca_der (intermediate1_with_incorrect_ski_aki s)) =
       Some (parity_intermediate1_with_incorrect_ski_aki p)"
    using assms by (auto simp: build_parity_def bind_eq_Some_conv)
  show ?thesis
    by (intro exI [of _ s])
      (simp add: s issue_parity_valid [OF s(1)] issue_parity_issuers [OF s(1)]
        issue_parity_subjects [OF s(1)] issue_parity_identifiers [OF s(1)])
qed

theorem parity_set_shape_witness:
  "build_parity sample_rcgen (\<lambda>_. Some (sample_certificate ''subject'' ''issuer'')) sample_fresh \<noteq> None \<and>
   (\<exists>s. issue_parity sample_rcgen sample_fresh = Some s \<and>
     valid_at REFERENCE_TIME (ca2 s) \<and> issued_by sample_rcgen (intermediate1_with_incorrect_ski_aki s) (ca2 s))"
proof -
  have "build_parity sample_rcgen (\<lambda>_. Some (sample_certificate ''subject'' ''issuer'')) sample_fresh \<noteq> None" by code_simp
  then obtain p where p: "build_parity sample_rcgen (\<lambda>_. Some (sample_certificate ''subject'' ''issuer'')) sample_fresh = Some p" by auto
  from parity_set_shape [OF p] p show ?thesis by auto
qed

end
