(* ===== verification/Bench_Support.thy ===== *)
theory Bench_Support
  imports Tls_Validation Openssl_Backend Bench_Fixtures
begin

text \<open>
  The library half of the benchmark crates, \<^verbatim>\<open>x509-validator-bench/compare/src/lib.rs\<close> and \<^verbatim>\<open>signatures.rs\<close> and
  \<^verbatim>\<open>measure/src/lib.rs\<close>, and the vendored chain of \<^verbatim>\<open>x509-validator-testkit/src/real_chain.rs\<close>: the backends under
  comparison, the two policies that steer the search in a scenario, and the pre-signed samples. What conditional
  compilation leaves out is a function of the enabled features, and \<open>None\<close> is its \<open>compile_error!\<close>. The
  bytes a certificate is compared by, its \<open>AsRef<[u8]>\<close>, belong to the parser and are an argument.
\<close>

subsection \<open>Backends\<close>

record Backend =
  backend_name :: string
  provider :: signature_verifier

definition Backend_fmt :: "Backend \<Rightarrow> string" where
  "Backend_fmt self = backend_name self"

definition BACKENDS ::
  "crate_features \<Rightarrow> signature_crate \<Rightarrow> signature_crate \<Rightarrow> rust_crypto_crates \<Rightarrow> asn1_library \<Rightarrow> Backend list" where
  "BACKENDS f aws_lc_rs ring_krate rc lib =
     (if feature_aws_lc f then [\<lparr>backend_name = ''aws_lc'', provider = AwsLc aws_lc_rs lib\<rparr>] else []) @
     (if feature_ring f then [\<lparr>backend_name = ''ring'', provider = Ring ring_krate lib\<rparr>] else []) @
     (if feature_rust_crypto f then [\<lparr>backend_name = ''rust_crypto'', provider = RustCrypto rc lib\<rparr>] else [])"

definition DEFAULT_BACKEND ::
  "crate_features \<Rightarrow> signature_crate \<Rightarrow> signature_crate \<Rightarrow> rust_crypto_crates \<Rightarrow> asn1_library \<Rightarrow> Backend option" where
  "DEFAULT_BACKEND f aws_lc_rs ring_krate rc lib =
     (if feature_aws_lc f then Some \<lparr>backend_name = ''aws_lc'', provider = AwsLc aws_lc_rs lib\<rparr>
      else if feature_ring f \<and> \<not> feature_aws_lc f then Some \<lparr>backend_name = ''ring'', provider = Ring ring_krate lib\<rparr>
      else if feature_rust_crypto f \<and> \<not> feature_aws_lc f \<and> \<not> feature_ring f
      then Some \<lparr>backend_name = ''rust_crypto'', provider = RustCrypto rc lib\<rparr>
      else None)"

definition BACKEND ::
  "crate_features \<Rightarrow> signature_crate \<Rightarrow> signature_crate \<Rightarrow> rust_crypto_crates \<Rightarrow> asn1_library \<Rightarrow>
   signature_verifier option" where
  "BACKEND f aws_lc_rs ring_krate rc lib =
     (if feature_aws_lc f then Some (AwsLc aws_lc_rs lib)
      else if feature_ring f \<and> \<not> feature_aws_lc f then Some (Ring ring_krate lib)
      else if feature_rust_crypto f \<and> \<not> feature_aws_lc f \<and> \<not> feature_ring f then Some (RustCrypto rc lib)
      else None)"

subsection \<open>Policies\<close>

record FailIfCertInChain =
  forbidden :: bytes
  inner :: RFC5280Policy

definition FailIfCertInChain_new :: "bytes \<Rightarrow> int \<Rightarrow> FailIfCertInChain" where
  "FailIfCertInChain_new forbid at = \<lparr>forbidden = forbid, inner = RFC5280Policy_new at\<rparr>"

definition FailIfCertInChain_policy :: "(certificate \<Rightarrow> bytes) \<Rightarrow> FailIfCertInChain \<Rightarrow> ValidationPolicy" where
  "FailIfCertInChain_policy as_ref self =
     \<lparr>verifying_critical_extensions = [basic_constraints_oid],
      chain_meets_policy_requirements = (\<lambda>chain.
        if list_ex (\<lambda>cert. as_ref cert = forbidden self) (chain_iter chain)
        then Some (Err (PolicyFailureReason_new ''chain contains forbidden certificate''))
        else chain_meets_policy_requirements (RFC5280Policy_policy (inner self)) chain)\<rparr>"

definition IgnoreBasicConstraints :: ValidationPolicy where
  "IgnoreBasicConstraints =
     \<lparr>verifying_critical_extensions = [basic_constraints_oid],
      chain_meets_policy_requirements = (\<lambda>_. Some (Ok ()))\<rparr>"

subsection \<open>Signed samples\<close>

record SignedSample =
  label :: string
  sample_alg :: AlgorithmIdentifier
  spki :: SubjectPublicKeyInfo
  message :: bytes
  signature :: bytes

definition SignedSample_fmt :: "SignedSample \<Rightarrow> string" where
  "SignedSample_fmt self = label self"

definition sample_from_self_signed ::
  "('dn, 'ext, 'key) rcgen \<Rightarrow> (bytes \<Rightarrow> nom_err + bytes \<times> certificate) \<Rightarrow> string \<Rightarrow> 'key \<Rightarrow> SignedSample may_panic" where
  "sample_from_self_signed rc from_der lbl key_pair = do {
     der \<leftarrow> rc_self_signed rc (rc_default rc) key_pair;
     certificate \<leftarrow> (case from_der der of Inr (_, c) \<Rightarrow> Some c | Inl _ \<Rightarrow> panic);
     Some \<lparr>label = lbl, sample_alg = cert_signature_algorithm certificate, spki = tbs_subject_pki certificate,
       message = tbs_raw certificate, signature = cert_signature_value certificate\<rparr> }"

text \<open>
  The keys: \<open>None\<close> is a failed \<open>expect\<close>. \<open>rsa_key n\<close> stands for generating an RSA key of \<open>n\<close> bits and encoding it as
  PKCS#8, and \<open>try_from\<close> for the generator's reading of it.
\<close>

definition rsa_key_pair ::
  "(nat \<Rightarrow> bytes may_panic) \<Rightarrow> (bytes \<Rightarrow> 'key may_panic) \<Rightarrow> nat \<Rightarrow> 'key may_panic" where
  "rsa_key_pair rsa_key try_from bits = rsa_key bits \<bind> try_from"

definition build_corpus ::
  "('dn, 'ext, 'key) rcgen \<Rightarrow> (bytes \<Rightarrow> nom_err + bytes \<times> certificate) \<Rightarrow> 'key may_panic \<Rightarrow> 'key may_panic \<Rightarrow>
   'key may_panic \<Rightarrow> (nat \<Rightarrow> bytes may_panic) \<Rightarrow> (bytes \<Rightarrow> 'key may_panic) \<Rightarrow> SignedSample list may_panic" where
  "build_corpus rc from_der p256_key p384_key ed25519_key rsa_key try_from =
     those (map (\<lambda>(lbl, key). key \<bind> sample_from_self_signed rc from_der lbl)
       ([(''ecdsa_p256_sha256'', p256_key), (''ecdsa_p384_sha384'', p384_key), (''ed25519'', ed25519_key)] @
        map (\<lambda>(lbl, bits). (lbl, rsa_key_pair rsa_key try_from bits)) [(''rsa_2048_sha256'', 2048), (''rsa_4096_sha256'', 4096)]))"

text \<open>The DER encoders of asn1-rs are arguments.\<close>

definition algorithm_der ::
  "(oid \<Rightarrow> bytes option) \<Rightarrow> (asn1_any \<Rightarrow> bytes option) \<Rightarrow> (bytes \<Rightarrow> bytes option) \<Rightarrow> AlgorithmIdentifier \<Rightarrow>
   bytes option" where
  "algorithm_der oid_der parameters_der sequence_der algorithm = do {
     content \<leftarrow> oid_der (alg_algorithm algorithm);
     content \<leftarrow> (case alg_parameters algorithm of
       Some p \<Rightarrow> map_option (\<lambda>der. content @ der) (parameters_der p)
     | None \<Rightarrow> Some content);
     sequence_der content }"

subsection \<open>The vendored chain\<close>

definition APPLE_SIGNED_DATE :: int where "APPLE_SIGNED_DATE = 1758579965"

record apple_chain =
  apple_leaf :: certificate
  apple_intermediate :: certificate
  apple_root :: certificate

definition parse_static :: "(bytes \<Rightarrow> nom_err + bytes \<times> certificate) \<Rightarrow> bytes \<Rightarrow> certificate may_panic" where
  "parse_static from_der der = (case from_der der of Inr (_, c) \<Rightarrow> Some c | Inl _ \<Rightarrow> panic)"

definition apple_chain_init ::
  "(bytes \<Rightarrow> nom_err + bytes \<times> certificate) \<Rightarrow> bytes \<Rightarrow> bytes \<Rightarrow> bytes \<Rightarrow> apple_chain may_panic" where
  "apple_chain_init from_der LEAF_DER INTERMEDIATE_DER ROOT_DER = do {
     leaf \<leftarrow> parse_static from_der LEAF_DER;
     intermediate \<leftarrow> parse_static from_der INTERMEDIATE_DER;
     root \<leftarrow> parse_static from_der ROOT_DER;
     Some \<lparr>apple_leaf = leaf, apple_intermediate = intermediate, apple_root = root\<rparr> }"

subsection \<open>Contracts\<close>

lemma default_backend_is_first:
  "DEFAULT_BACKEND f a r rc lib = slice_first (BACKENDS f a r rc lib)"
  "BACKEND f a r rc lib = map_option provider (slice_first (BACKENDS f a r rc lib))"
  by (simp_all add: DEFAULT_BACKEND_def BACKEND_def BACKENDS_def slice_first_def)

lemma backends_return: "b \<in> set (BACKENDS f a r rc lib) \<Longrightarrow> provider b alg k m s \<noteq> None"
  using aws_lc_backend.verify_returns [of a lib alg k m s] ring_backend.verify_returns [of r lib alg k m s]
    rust_crypto_backend.verify_returns [of rc lib alg k m s]
  by (auto simp: BACKENDS_def split: if_splits)

interpretation fail_if: policy_contract "FailIfCertInChain_policy as_ref (FailIfCertInChain_new forbid t)"
    "\<lambda>cs. list_all (\<lambda>c. as_ref c \<noteq> forbid) cs \<and> rfc5280_ok cs \<and> expiry_ok t cs" for as_ref forbid t
proof
  fix cs :: "certificate list"
  assume cs: "cs \<noteq> []"
  let ?chain = "\<lparr>uc_certificates = cs\<rparr>"
  show "chain_meets_policy_requirements (FailIfCertInChain_policy as_ref (FailIfCertInChain_new forbid t)) ?chain \<noteq> None"
    using rfc5280.returns [OF cs] by (simp add: FailIfCertInChain_policy_def FailIfCertInChain_new_def)
  show "accepts (FailIfCertInChain_policy as_ref (FailIfCertInChain_new forbid t)) ?chain \<longleftrightarrow>
      list_all (\<lambda>c. as_ref c \<noteq> forbid) cs \<and> rfc5280_ok cs \<and> expiry_ok t cs"
    using rfc5280.verdict [OF cs]
    by (auto simp: accepts_def FailIfCertInChain_policy_def FailIfCertInChain_new_def chain_iter_def
        list_ex_iff list_all_iff)
qed

interpretation ignore: policy_contract IgnoreBasicConstraints "\<lambda>_. True"
  by unfold_locales (simp_all add: IgnoreBasicConstraints_def accepts_def)

lemma backend_contract:
  assumes "b \<in> set (BACKENDS f a r rc lib)" "policy_total policy"
  shows "validator_contract (Validator_with_policy_and_backend roots policy (provider b))"
  using assms backends_return
  by unfold_locales (simp_all add: Validator_with_policy_and_backend_def del: not_None_eq)

subsection \<open>Properties\<close>

text \<open>
  The policy that forces the search past the shortest path does so: on every backend of the comparison,
  validation returns, and it succeeds exactly when the leaf is admissible and there is a path of trust that
  avoids the forbidden certificate and obeys RFC 5280; the chain returned does not contain that certificate.
\<close>

theorem forbidden_certificate_avoided:
  assumes "b \<in> set (BACKENDS f aws_lc_rs ring_krate rc lib)"
    and V: "V = Validator_with_policy_and_backend roots
      (FailIfCertInChain_policy as_ref (FailIfCertInChain_new forbid t)) (provider b)"
  shows "\<exists>result. validate V leaf ints = Some result \<and>
    ((\<exists>v. result = Ok v) \<longleftrightarrow> handled_critical V leaf \<and>
       (\<exists>cs. trust_path V ints leaf cs \<and> list_all (\<lambda>c. as_ref c \<noteq> forbid) cs \<and> rfc5280_ok cs \<and> expiry_ok t cs)) \<and>
    (\<forall>v. result = Ok v \<longrightarrow> list_all (\<lambda>c. as_ref c \<noteq> forbid) (vc_certificates v))"
proof -
  have c: "validator_contract V" unfolding V by (rule backend_contract [OF assms(1) fail_if.total])
  have policy: "validator_policy V = FailIfCertInChain_policy as_ref (FailIfCertInChain_new forbid t)"
    by (simp add: V Validator_with_policy_and_backend_def)
  obtain result where r: "validate V leaf ints = Some result"
    using validator_contract.returns_inner [OF c] by (fastforce simp: validate_def)
  have verdict: "accepts (validator_policy V) \<lparr>uc_certificates = cs\<rparr> \<longleftrightarrow>
      list_all (\<lambda>c. as_ref c \<noteq> forbid) cs \<and> rfc5280_ok cs \<and> expiry_ok t cs" if "trust_path V ints leaf cs" for cs
    unfolding policy by (rule fail_if.verdict [OF trust_path_not_Nil [OF that]])
  have "(\<exists>v. result = Ok v) \<longleftrightarrow> handled_critical V leaf \<and>
      (\<exists>cs. trust_path V ints leaf cs \<and> list_all (\<lambda>c. as_ref c \<noteq> forbid) cs \<and> rfc5280_ok cs \<and> expiry_ok t cs)"
    using success_iff [OF c, of leaf ints] verdict r by auto
  moreover have "list_all (\<lambda>c. as_ref c \<noteq> forbid) (vc_certificates v)" if "result = Ok v" for v
    using validate_Ok_path [of V leaf ints v] verdict r that by simp
  ultimately show ?thesis using r by blast
qed

text \<open>Two roots of one name, the first of them forbidden: the search goes on to the second.\<close>

definition permissive_crate :: signature_crate where
  "permissive_crate = \<lparr>unparsed_public_key_verify = (\<lambda>_ _ _ _. True)\<rparr>"

definition scenario_backend :: Backend where
  "scenario_backend = \<lparr>backend_name = ''aws_lc'', provider = AwsLc permissive_crate sample_library\<rparr>"

definition scenario :: Validator where
  "scenario = Validator_with_policy_and_backend (store_from_iter [sample_root, sample_root\<lparr>tbs_raw := [1]\<rparr>])
     (FailIfCertInChain_policy tbs_raw (FailIfCertInChain_new (tbs_raw sample_root) 150)) (provider scenario_backend)"

lemma scenario_result:
  "validate scenario sample_leaf CertificateStore_new = Some (Ok \<lparr>vc_certificates = [sample_leaf, sample_root\<lparr>tbs_raw := [1]\<rparr>]\<rparr>)"
  by code_simp

theorem forbidden_certificate_avoided_witness:
  "\<exists>v. validate scenario sample_leaf CertificateStore_new = Some (Ok v) \<and>
     list_all (\<lambda>c. tbs_raw c \<noteq> tbs_raw sample_root) (vc_certificates v)"
proof -
  have "scenario_backend \<in> set (BACKENDS \<lparr>feature_aws_lc = True, feature_ring = False, feature_rust_crypto = False\<rparr>
      permissive_crate permissive_crate permissive_rsa sample_library)"
    by (simp add: BACKENDS_def scenario_backend_def)
  from forbidden_certificate_avoided [OF this scenario_def, of sample_leaf CertificateStore_new]
  show ?thesis using scenario_result by auto
qed

end
