(* ===== verification/Generated_Chains.thy ===== *)
theory Generated_Chains
  imports Bench_Support
begin

text \<open>
  From the parameters handed to the certificate generator to the verdict of the validator. The generator
  (rcgen), the parser (x509-parser) and the signature primitives are third-party; what they are documented to do
  for each other is stated here, as three named conditions on the records that stand for them:
  the parser reads back what the generator was told to write, the backend accepts what the generator signed, and
  names with different common names differ. Under them the chains of the benchmarks validate.
\<close>

subsection \<open>What is relied on\<close>

text \<open>How the parser presents a distinguished name and a public key.\<close>

record ('dn, 'key) readings =
  read_name :: "'dn \<Rightarrow> x509_name"
  read_key :: "'key \<Rightarrow> SubjectPublicKeyInfo"

definition read_san :: "SanType \<Rightarrow> GeneralName" where
  "read_san san =
     (case san of
        SanDnsName s \<Rightarrow> DNSName (ascii s)
      | SanRfc822Name s \<Rightarrow> RFC822Name (ascii s)
      | SanIpAddress octets \<Rightarrow> IPAddress octets)"

definition read_basic_constraints :: "IsCa \<Rightarrow> BasicConstraints option" where
  "read_basic_constraints is =
     (case is of
        NoCa \<Rightarrow> None
      | IsCa Unconstrained \<Rightarrow> Some \<lparr>ca = True, path_len_constraint = None\<rparr>
      | IsCa (Constrained n) \<Rightarrow> Some \<lparr>ca = True, path_len_constraint = Some (ucast n)\<rparr>)"

definition read_purposes :: "ExtendedKeyUsagePurpose list \<Rightarrow> ExtendedKeyUsage" where
  "read_purposes ps =
     \<lparr>eku_any = (PurposeAny \<in> set ps), eku_server_auth = (PurposeServerAuth \<in> set ps),
      eku_client_auth = (PurposeClientAuth \<in> set ps), eku_code_signing = (PurposeCodeSigning \<in> set ps),
      eku_email_protection = (PurposeEmailProtection \<in> set ps), eku_time_stamping = (PurposeTimeStamping \<in> set ps),
      eku_ocsp_signing = (PurposeOcspSigning \<in> set ps),
      eku_other = []\<rparr>"

text \<open>
  The extendedKeyUsage extension: absent where no purpose was given, and for purposes given by name, each once, present,
  not empty and with the flags of exactly those purposes. Of purposes given as other identifiers nothing is assumed.
\<close>

definition named_purposes :: "ExtendedKeyUsagePurpose list \<Rightarrow> bool" where
  "named_purposes ps \<longleftrightarrow> distinct ps \<and> list_all (\<lambda>p. case p of PurposeOther _ \<Rightarrow> False | _ \<Rightarrow> True) ps"

definition reads_purposes :: "ExtendedKeyUsagePurpose list \<Rightarrow> certificate \<Rightarrow> bool" where
  "reads_purposes ps c \<longleftrightarrow>
     (if ps = [] then ext_extended_key_usage c = Ok None
      else named_purposes ps \<longrightarrow> tbs_extended_key_usage c = Ok (Some (read_purposes ps)) \<and>
        (case ext_extended_key_usage c of Inr (Some ext) \<Rightarrow> ext_value ext \<noteq> [0x30, 0x00] | _ \<Rightarrow> False))"

definition critical_oids :: "certificate \<Rightarrow> oid set" where
  "critical_oids c = ext_oid ` {ext \<in> set (tbs_extensions c). ext_critical ext}"

text \<open>
  A certificate issued for \<open>params\<close> and \<open>key\<close> in the name of \<open>issuer_dn\<close>: the fields every certificate has, and, where no
  extension was attached by hand, the extensions. Of those basicConstraints and keyUsage are
  critical; they are present for an authority and for a non-empty key usage.
\<close>

definition reads_base ::
  "('dn, 'key) readings \<Rightarrow> ('dn, 'ext) CertificateParams \<Rightarrow> 'key \<Rightarrow> 'dn \<Rightarrow> certificate \<Rightarrow> bool" where
  "reads_base rd params key issuer_dn c \<longleftrightarrow>
     tbs_version c = V3 \<and>
     tbs_subject c = read_name rd (distinguished_name params) \<and> tbs_issuer c = read_name rd issuer_dn \<and>
     tbs_not_before c = params_not_before params \<and> tbs_not_after c = params_not_after params \<and>
     tbs_subject_pki c = read_key rd key"

definition reads_extensions :: "('dn, 'ext) CertificateParams \<Rightarrow> certificate \<Rightarrow> bool" where
  "reads_extensions params c \<longleftrightarrow>
     tbs_basic_constraints c = Ok (read_basic_constraints (Testkit_Certificates.is_ca params)) \<and>
     tbs_name_constraints c = Ok None \<and>
     tbs_subject_alternative_name c =
       Ok (if subject_alt_names params = [] then None else Some (map read_san (subject_alt_names params))) \<and>
     reads_purposes (extended_key_usages params) c \<and>
     critical_oids c =
       (if Testkit_Certificates.is_ca params = NoCa then {} else {basic_constraints_oid}) \<union>
       (if key_usages params = [] then {} else {key_usage_oid})"

definition reads_as ::
  "('dn, 'key) readings \<Rightarrow> ('dn, 'ext) CertificateParams \<Rightarrow> 'key \<Rightarrow> 'dn \<Rightarrow> certificate \<Rightarrow> bool" where
  "reads_as rd params key issuer_dn c \<longleftrightarrow> reads_base rd params key issuer_dn c \<and> reads_extensions params c"

lemmas reads_as_defs = reads_as_def reads_base_def reads_extensions_def

text \<open>The parameters the conditions are about have a common name; the plain ones have no extension attached by hand.\<close>

definition named_params :: "('dn, 'ext, 'key) rcgen \<Rightarrow> ('dn, 'ext) CertificateParams \<Rightarrow> bool" where
  "named_params rc params \<longleftrightarrow> (\<exists>dn cn. distinguished_name params = rc_dn_push_common_name rc dn cn)"

definition plain_params :: "('dn, 'ext, 'key) rcgen \<Rightarrow> ('dn, 'ext) CertificateParams \<Rightarrow> bool" where
  "plain_params rc params \<longleftrightarrow> custom_extensions params = [] \<and> named_params rc params"

definition parser_reads_back ::
  "('dn, 'ext, 'key) rcgen \<Rightarrow> (bytes \<Rightarrow> nom_err + bytes \<times> certificate) \<Rightarrow> ('dn, 'key) readings \<Rightarrow> bool" where
  "parser_reads_back rc from_der rd \<longleftrightarrow>
     (\<forall>params key der. named_params rc params \<longrightarrow> rc_self_signed rc params key = Some der \<longrightarrow>
        (\<exists>rest c. from_der der = Ok (rest, c) \<and> reads_base rd params key (distinguished_name params) c \<and>
           (custom_extensions params = [] \<longrightarrow> reads_extensions params c))) \<and>
     (\<forall>params key issuer der. named_params rc params \<longrightarrow> rc_signed_by rc params key issuer = Some der \<longrightarrow>
        (\<exists>rest c. from_der der = Ok (rest, c) \<and> reads_base rd params key (distinguished_name (fst issuer)) c \<and>
           (custom_extensions params = [] \<longrightarrow> reads_extensions params c)))"

definition backend_accepts_signed ::
  "('dn, 'ext, 'key) rcgen \<Rightarrow> (bytes \<Rightarrow> nom_err + bytes \<times> certificate) \<Rightarrow> ('dn, 'key) readings \<Rightarrow>
   signature_verifier \<Rightarrow> bool" where
  "backend_accepts_signed rc from_der rd verify \<longleftrightarrow>
     (\<forall>params key issuer der rest c. rc_signed_by rc params key issuer = Some der \<longrightarrow> from_der der = Ok (rest, c) \<longrightarrow>
        verify (cert_signature_algorithm c) (read_key rd (snd issuer)) (tbs_raw c) (cert_signature_value c) =
          Some (Ok ()))"

definition names_tell_apart :: "('dn, 'ext, 'key) rcgen \<Rightarrow> ('dn, 'key) readings \<Rightarrow> bool" where
  "names_tell_apart rc rd \<longleftrightarrow>
     (\<forall>dn dn' cn cn'. name_raw (read_name rd (rc_dn_push_common_name rc dn cn)) =
        name_raw (read_name rd (rc_dn_push_common_name rc dn' cn')) \<longrightarrow> cn = cn')"

subsection \<open>Stores with one path through them\<close>

lemma linked_Cons2:
  "linked V store (a # b # cs) \<longleftrightarrow>
     b \<in> set (find_by_subject store (issuer_key a)) \<and> signed_by V a b \<and> handled_critical V b \<and> linked V store (b # cs)"
  by (auto simp: linked_def nth_Cons split: nat.splits)

lemma find_in_singleton: "c \<in> set (find_by_subject (store_from_iter [x]) k) \<longleftrightarrow> c = x \<and> k = subject_key x"
  by (auto simp: find_by_subject_from_iter)

lemma find_in_empty: "find_by_subject CertificateStore_new k = []"
  using find_by_subject_from_iter [of "[]" k] by (simp add: store_from_iter_def)

lemma sole_path_validates:
  assumes "validator_contract V" "handled_critical V leaf"
    and sole: "\<And>cs. trust_path V ints leaf cs \<longleftrightarrow> cs = path"
    and "accepts (validator_policy V) \<lparr>uc_certificates = path\<rparr>"
  shows "validate V leaf ints = Some (Ok \<lparr>vc_certificates = path\<rparr>)"
proof -
  have "\<exists>v. validate V leaf ints = Some (Ok v)"
    using success_iff [OF assms(1), of leaf ints] assms(2,4) sole by blast
  then obtain v where v: "validate V leaf ints = Some (Ok v)" by blast
  then have "vc_certificates v = path" using validate_Ok_path(2) [OF v] sole by blast
  with v show ?thesis by (cases v) simp
qed

lemma refused_paths_reported:
  assumes "validator_contract V" "handled_critical V leaf" "trust_path V ints leaf path"
    and refused: "\<And>cs. trust_path V ints leaf cs \<Longrightarrow> \<not> accepts (validator_policy V) \<lparr>uc_certificates = cs\<rparr>"
  shows "\<exists>f fs. validate V leaf ints = Some (Err (f # fs))"
proof -
  obtain r where r: "validate V leaf ints = Some r"
    using validator_contract.returns_inner [OF assms(1)] by (fastforce simp: validate_def)
  obtain fs where fs: "r = Err fs" using r refused validate_Ok_path(2,3) by (cases r) blast+
  then have "first_accepted V (candidate_chains V ints leaf) [] = Some (Err fs)"
    using validate_result [OF r] assms(2) by simp
  then have "map pf_chain fs = map (\<lambda>cs. \<lparr>uc_certificates = cs\<rparr>) (candidate_chains V ints leaf)"
    using first_accepted_Err by fastforce
  moreover have "candidate_chains V ints leaf \<noteq> []"
    using assms(3) candidate_chains_iff [of path V ints leaf] by auto
  ultimately obtain f fs' where "fs = f # fs'" by (cases fs) auto
  then show ?thesis using r fs by blast
qed

lemma no_path_rejects:
  assumes "validator_contract V" "handled_critical V leaf" "\<And>cs. \<not> trust_path V ints leaf cs"
  shows "validate V leaf ints = Some (Err [])"
proof -
  have "candidate_chains V ints leaf = []"
    using assms(3) candidate_chains_iff [of _ V ints leaf] by (metis last_in_set)
  then show ?thesis using validator_contract.scan [OF assms(1), of leaf ints] assms(2) by simp
qed

text \<open>A path that starts with a certificate the root store does not hold, taken apart at both ends.\<close>

lemma trust_path_ends:
  assumes "trust_path V ints leaf cs" "leaf \<notin> set (find_by_subject (root_certificates V) (subject_key leaf))"
  obtains q root where "cs = leaf # q @ [root]" "no_repeated_identity (leaf # q @ [root])" "linked V ints (leaf # q)"
    "root \<in> set (find_by_subject (root_certificates V) (issuer_key (last (leaf # q))))"
proof -
  have t: "2 \<le> length cs" "hd cs = leaf" "no_repeated_identity cs" "linked V ints (butlast cs)"
    "linked V (root_certificates V) [last (butlast cs), last cs]"
    using assms by (auto simp: trust_path_def)
  obtain q' root where q': "cs = q' @ [root]" using t(1) by (cases cs rule: rev_cases) auto
  then obtain q where q: "q' = leaf # q" using t(1,2) by (cases q') auto
  show thesis
    using that [of q root] t(3-5) unfolding q' q by (simp add: linked_Cons2)
qed

lemma trust_path_build:
  assumes "no_repeated_identity (leaf # q @ [root])" "linked V ints (leaf # q)"
    "linked V (root_certificates V) [last (leaf # q), root]"
  shows "trust_path V ints leaf (leaf # q @ [root])"
  using assms unfolding trust_path_def by (simp add: butlast_append)

lemma not_same_identity: "subject_key a \<noteq> subject_key b \<Longrightarrow> \<not> has_same_identity_as a b"
  by (auto simp: has_same_identity_as_def subject_key_def)

lemma two_tier_path:
  assumes roots: "root_certificates V = store_from_iter [root]"
    and link: "issuer_key leaf = subject_key root" "signed_by V leaf root" "handled_critical V root"
    and apart: "subject_key leaf \<noteq> subject_key root"
  shows "trust_path V CertificateStore_new leaf cs \<longleftrightarrow> cs = [leaf, root]"
proof
  assume "trust_path V CertificateStore_new leaf cs"
  moreover have "leaf \<notin> set (find_by_subject (root_certificates V) (subject_key leaf))"
    using apart unfolding roots find_in_singleton by blast
  ultimately obtain q r where q: "cs = leaf # q @ [r]" "linked V CertificateStore_new (leaf # q)"
    "r \<in> set (find_by_subject (root_certificates V) (issuer_key (last (leaf # q))))"
    by (rule trust_path_ends)
  from q(2) have "q = []" by (cases q) (simp_all add: linked_Cons2 find_in_empty)
  with q show "cs = [leaf, root]" unfolding roots find_in_singleton by simp
next
  have "trust_path V CertificateStore_new leaf (leaf # [] @ [root])"
    by (rule trust_path_build)
      (simp_all add: no_repeated_identity_def not_same_identity apart linked_Cons2 roots find_in_singleton link)
  then show "cs = [leaf, root] \<Longrightarrow> trust_path V CertificateStore_new leaf cs" by simp
qed

lemma three_tier_path:
  assumes roots: "root_certificates V = store_from_iter [root]"
    and link: "issuer_key leaf = subject_key mid" "signed_by V leaf mid" "handled_critical V mid"
      "issuer_key mid = subject_key root" "signed_by V mid root" "handled_critical V root"
    and apart: "subject_key leaf \<noteq> subject_key mid" "subject_key mid \<noteq> subject_key root"
      "subject_key leaf \<noteq> subject_key root"
  shows "trust_path V (store_from_iter [mid]) leaf cs \<longleftrightarrow> cs = [leaf, mid, root]"
proof
  assume "trust_path V (store_from_iter [mid]) leaf cs"
  moreover have "leaf \<notin> set (find_by_subject (root_certificates V) (subject_key leaf))"
    using apart(3) unfolding roots find_in_singleton by blast
  ultimately obtain q r where q: "cs = leaf # q @ [r]" "no_repeated_identity (leaf # q @ [r])"
    "linked V (store_from_iter [mid]) (leaf # q)"
    "r \<in> set (find_by_subject (root_certificates V) (issuer_key (last (leaf # q))))"
    by (rule trust_path_ends)
  have r: "r = root" "issuer_key (last (leaf # q)) = subject_key root"
    using q(4) unfolding roots find_in_singleton by blast+
  have "q \<noteq> []" using r(2) link(1) apart(2) by auto
  then obtain x xs where x: "q = x # xs" by (cases q) auto
  have "x = mid" using q(3) unfolding x linked_Cons2 find_in_singleton by blast
  moreover have "xs = []"
  proof (cases xs)
    case (Cons y ys)
    then have "y = mid" using q(3) unfolding x Cons linked_Cons2 find_in_singleton by blast
    then show ?thesis using q(2) unfolding x Cons \<open>x = mid\<close> by (simp add: no_repeated_identity_def)
  qed
  ultimately show "cs = [leaf, mid, root]" using q(1) r(1) x by simp
next
  have "trust_path V (store_from_iter [mid]) leaf (leaf # [mid] @ [root])"
    by (rule trust_path_build)
      (simp_all add: no_repeated_identity_def not_same_identity apart linked_Cons2 roots find_in_singleton link)
  then show "cs = [leaf, mid, root] \<Longrightarrow> trust_path V (store_from_iter [mid]) leaf cs" by simp
qed

subsection \<open>What a generated certificate is good for\<close>

lemma testkit_cert_Some: "testkit_cert from_der invalid der = Some c \<Longrightarrow> \<exists>rest. from_der der = Ok (rest, c)"
  by (auto simp: testkit_cert_def parse_def split: sum.splits prod.splits)

text \<open>What the generator signs is parsed, and read back.\<close>

lemma self_signed_read:
  assumes "parser_reads_back rc from_der rd" "named_params rc params" "rc_self_signed rc params key = Some der"
  obtains c where "testkit_cert from_der invalid der = Some c" "reads_base rd params key (distinguished_name params) c"
    "custom_extensions params = [] \<Longrightarrow> reads_as rd params key (distinguished_name params) c"
proof -
  obtain rest c where "from_der der = Ok (rest, c)" "reads_base rd params key (distinguished_name params) c"
    "custom_extensions params = [] \<longrightarrow> reads_extensions params c"
    using assms unfolding parser_reads_back_def by blast
  then show thesis using that [of c] by (simp add: testkit_cert_def parse_def reads_as_def)
qed

lemma signed_by_read:
  assumes "parser_reads_back rc from_der rd" "named_params rc params" "rc_signed_by rc params key issuer = Some der"
  obtains c where "testkit_cert from_der invalid der = Some c" "reads_base rd params key (distinguished_name (fst issuer)) c"
    "custom_extensions params = [] \<Longrightarrow> reads_as rd params key (distinguished_name (fst issuer)) c"
proof -
  obtain rest c where "from_der der = Ok (rest, c)" "reads_base rd params key (distinguished_name (fst issuer)) c"
    "custom_extensions params = [] \<longrightarrow> reads_extensions params c"
    using assms unfolding parser_reads_back_def by blast
  then show thesis using that [of c] by (simp add: testkit_cert_def parse_def reads_as_def)
qed

lemma self_signed_reads:
  assumes "parser_reads_back rc from_der rd" "plain_params rc params"
    and "rc_self_signed rc params key = Some der" "testkit_cert from_der invalid der = Some c"
  shows "reads_as rd params key (distinguished_name params) c"
  using assms self_signed_read [OF assms(1) _ assms(3), of invalid] unfolding plain_params_def by fastforce

lemma signed_by_reads:
  assumes "parser_reads_back rc from_der rd" "plain_params rc params"
    and "rc_signed_by rc params key issuer = Some der" "testkit_cert from_der invalid der = Some c"
  shows "reads_as rd params key (distinguished_name (fst issuer)) c"
  using assms signed_by_read [OF assms(1) _ assms(3), of invalid] unfolding plain_params_def by fastforce

lemma signed_by_verifies:
  assumes "backend_accepts_signed rc from_der rd (crypto V)"
    and "rc_signed_by rc params key issuer = Some der" "testkit_cert from_der invalid der = Some c"
    and "reads_as rd issuer_params (snd issuer) dn signer"
  shows "signed_by V c signer"
  using assms testkit_cert_Some [OF assms(3)] unfolding backend_accepts_signed_def signed_by_def reads_as_def reads_base_def by metis

lemma reads_as_handled:
  assumes "reads_as rd params key dn c"
    and "handles (validator_policy V) basic_constraints_oid" "handles (validator_policy V) key_usage_oid"
  shows "handled_critical V c"
proof -
  have "critical_oids c \<subseteq> {basic_constraints_oid, key_usage_oid}" using assms(1) by (simp add: reads_as_defs)
  then show ?thesis using assms(2,3) by (auto simp: handled_critical_def critical_oids_def)
qed

lemma reads_as_keys:
  "reads_as rd params key dn c \<Longrightarrow> subject_key c = name_raw (read_name rd (distinguished_name params))"
  "reads_as rd params key dn c \<Longrightarrow> issuer_key c = name_raw (read_name rd dn)"
  by (simp_all add: reads_as_defs subject_key_def issuer_key_def)

lemma reads_as_authority:
  assumes "reads_as rd params key dn c" "Testkit_Certificates.is_ca params = IsCa n"
  shows "Rfc5280_Basic.is_ca c" "path_length_at_least c 0"
    "n = Unconstrained \<Longrightarrow> path_length_at_least c m"
  using assms
  by (auto simp: reads_as_defs Rfc5280_Basic.is_ca_def path_length_at_least_def read_basic_constraints_def
      split: PathLen.splits)

lemma generated_rfc5280_ok:
  assumes "\<forall>c \<in> set (leaf # cs). \<exists>params key dn. reads_as rd params key dn c"
    and "basic_constraints_ok (leaf # cs)"
  shows "rfc5280_ok (leaf # cs)"
proof -
  have r: "tbs_version c = V3 \<and> tbs_name_constraints c = Ok None" if "c \<in> set (leaf # cs)" for c
    using assms(1) that unfolding reads_as_defs by blast
  have "issuer_constrains ((leaf # cs) ! i) ds" if "i < length (leaf # cs)" for i ds
    using r [OF nth_mem [OF that]] unfolding issuer_constrains_def by (simp only: sum.case option.case)
  then have "name_constraints_ok (leaf # cs)"
    unfolding name_constraints_ok_def by (metis atLeastLessThan_iff hd_conv_nth length_greater_0_conv list.distinct(1))
  then show ?thesis using r assms(2) by (simp add: rfc5280_ok_def version_ok_def)
qed

lemma two_tier_basic_constraints:
  assumes "reads_as rd pr kr dr root" "Testkit_Certificates.is_ca pr = IsCa n"
  shows "basic_constraints_ok [leaf, root]"
  using reads_as_authority [OF assms] by (simp add: basic_constraints_ok_def less_Suc_eq)

lemma three_tier_basic_constraints:
  assumes "reads_as rd pr kr dr root" "Testkit_Certificates.is_ca pr = IsCa Unconstrained"
    and "reads_as rd pm km dm mid" "Testkit_Certificates.is_ca pm = IsCa n"
  shows "basic_constraints_ok [leaf, mid, root]"
  using reads_as_authority [OF assms(1,2)] reads_as_authority [OF assms(3,4)]
  by (auto simp: basic_constraints_ok_def less_Suc_eq)

lemma common_names_apart:
  assumes "names_tell_apart rc rd" "distinguished_name p = rc_dn_push_common_name rc dn cn"
    "distinguished_name p' = rc_dn_push_common_name rc dn' cn'" "cn \<noteq> cn'"
  shows "name_raw (read_name rd (distinguished_name p)) \<noteq> name_raw (read_name rd (distinguished_name p'))"
  using assms unfolding names_tell_apart_def by metis

lemma generated_two_tier:
  assumes V: "validator_contract V" "root_certificates V = store_from_iter [root]"
      "handles (validator_policy V) basic_constraints_oid" "handles (validator_policy V) key_usage_oid"
    and reads: "reads_as rd pr kr dr root" "reads_as rd pl kl (distinguished_name pr) leaf"
    and signs: "signed_by V leaf root"
    and apart: "name_raw (read_name rd (distinguished_name pl)) \<noteq> name_raw (read_name rd (distinguished_name pr))"
  shows "accepts (validator_policy V) \<lparr>uc_certificates = [leaf, root]\<rparr> \<Longrightarrow>
      validate V leaf CertificateStore_new = Some (Ok \<lparr>vc_certificates = [leaf, root]\<rparr>)"
    and "\<not> accepts (validator_policy V) \<lparr>uc_certificates = [leaf, root]\<rparr> \<Longrightarrow>
      \<exists>f fs. validate V leaf CertificateStore_new = Some (Err (f # fs))"
proof -
  note leaf_handled = reads_as_handled [OF reads(2) V(3,4)]
  have path: "trust_path V CertificateStore_new leaf cs \<longleftrightarrow> cs = [leaf, root]" for cs
    by (rule two_tier_path [OF V(2)])
      (simp_all add: signs reads_as_handled [OF _ V(3,4)] reads reads_as_keys [OF reads(1)] reads_as_keys [OF reads(2)]
        apart reads_as_handled [OF reads(1) V(3,4)])
  show "accepts (validator_policy V) \<lparr>uc_certificates = [leaf, root]\<rparr> \<Longrightarrow>
      validate V leaf CertificateStore_new = Some (Ok \<lparr>vc_certificates = [leaf, root]\<rparr>)"
    by (rule sole_path_validates [OF V(1) leaf_handled path])
  show "\<not> accepts (validator_policy V) \<lparr>uc_certificates = [leaf, root]\<rparr> \<Longrightarrow>
      \<exists>f fs. validate V leaf CertificateStore_new = Some (Err (f # fs))"
    by (rule refused_paths_reported [OF V(1) leaf_handled]) (simp_all add: path)
qed

lemma generated_three_tier:
  assumes V: "validator_contract V" "root_certificates V = store_from_iter [root]"
      "handles (validator_policy V) basic_constraints_oid" "handles (validator_policy V) key_usage_oid"
    and reads: "reads_as rd pr kr dr root" "reads_as rd pm km (distinguished_name pr) mid"
      "reads_as rd pl kl (distinguished_name pm) leaf"
    and signs: "signed_by V mid root" "signed_by V leaf mid"
    and apart: "distinct (map (\<lambda>p. name_raw (read_name rd (distinguished_name p))) [pl, pm, pr])"
  shows "accepts (validator_policy V) \<lparr>uc_certificates = [leaf, mid, root]\<rparr> \<Longrightarrow>
      validate V leaf (store_from_iter [mid]) = Some (Ok \<lparr>vc_certificates = [leaf, mid, root]\<rparr>)"
    and "\<not> accepts (validator_policy V) \<lparr>uc_certificates = [leaf, mid, root]\<rparr> \<Longrightarrow>
      \<exists>f fs. validate V leaf (store_from_iter [mid]) = Some (Err (f # fs))"
proof -
  note leaf_handled = reads_as_handled [OF reads(3) V(3,4)]
  have path: "trust_path V (store_from_iter [mid]) leaf cs \<longleftrightarrow> cs = [leaf, mid, root]" for cs
    by (rule three_tier_path [OF V(2)])
      (use apart in \<open>simp_all add: signs reads_as_handled [OF reads(1) V(3,4)] reads_as_handled [OF reads(2) V(3,4)]
        reads_as_keys [OF reads(1)] reads_as_keys [OF reads(2)] reads_as_keys [OF reads(3)] eq_sym_conv\<close>)
  show "accepts (validator_policy V) \<lparr>uc_certificates = [leaf, mid, root]\<rparr> \<Longrightarrow>
      validate V leaf (store_from_iter [mid]) = Some (Ok \<lparr>vc_certificates = [leaf, mid, root]\<rparr>)"
    by (rule sole_path_validates [OF V(1) leaf_handled path])
  show "\<not> accepts (validator_policy V) \<lparr>uc_certificates = [leaf, mid, root]\<rparr> \<Longrightarrow>
      \<exists>f fs. validate V leaf (store_from_iter [mid]) = Some (Err (f # fs))"
    by (rule refused_paths_reported [OF V(1) leaf_handled]) (simp_all add: path)
qed

lemma LeafSpec_build_Some:
  assumes "LeafSpec_build rc spec False fresh = Some (params, key)"
  shows "distinguished_name params = rc_dn_push_common_name rc (rc_dn_new rc) (leaf_subject_cn spec)"
    and "params_not_before params = (case leaf_not_before spec of Some t \<Rightarrow> t | None \<Rightarrow> 1000)"
    and "params_not_after params = (case leaf_not_after spec of Some t \<Rightarrow> t | None \<Rightarrow> 2000)"
    and "leaf_critical_extension spec = None \<Longrightarrow> custom_extensions params = custom_extensions (rc_default rc)"
  using assms
  by (auto simp: LeafSpec_build_def base_params_def Let_def split: Option.bind_splits option.splits prod.splits)

lemma rfc5280_handles:
  "handles (RFC5280Policy_policy (RFC5280Policy_new t)) basic_constraints_oid"
  "handles (RFC5280Policy_policy (RFC5280Policy_new t)) key_usage_oid"
  by (simp_all add: handles_def RFC5280Policy_policy_def RFC5280Policy_new_def BasicConstraintsPolicy_def)

lemma backend_validator_simps [simp]:
  "root_certificates (Validator_with_policy_and_backend roots policy verify) = roots"
  "validator_policy (Validator_with_policy_and_backend roots policy verify) = policy"
  "crypto (Validator_with_policy_and_backend roots policy verify) = verify"
  by (simp_all add: Validator_with_policy_and_backend_def)

text \<open>A root and an intermediate from the specifications of the test kit, and a leaf, as they are parsed.\<close>

lemma issued_three_tier:
  assumes "parser_reads_back rc from_der rd" "names_tell_apart rc rd" "custom_extensions (rc_default rc) = []"
    and V: "validator_contract V" "root_certificates V = store_from_iter [root]"
      "validator_policy V = RFC5280Policy_policy (RFC5280Policy_new t)"
    and backend: "backend_accepts_signed rc from_der rd (crypto V)"
    and built: "CaSpec_self_signed rc root_spec panic = Some root_ca" "CaSpec_signed_by rc mid_spec root_ca panic = Some mid_ca"
      "LeafSpec_signed_by rc leaf_spec mid_ca fresh = Some leaf_der"
    and parsed: "testkit_cert from_der invalid (ca_der root_ca) = Some root"
      "testkit_cert from_der invalid (ca_der mid_ca) = Some mid" "testkit_cert from_der invalid leaf_der = Some leaf"
    and plain: "ca_ski root_spec \<noteq> Absent" "ca_path_len root_spec = None" "ca_ski mid_spec \<noteq> Absent"
      "leaf_critical_extension leaf_spec = None"
    and cns: "distinct [leaf_subject_cn leaf_spec, ca_subject_cn mid_spec, ca_subject_cn root_spec]"
    and times: "ca_not_before root_spec = Some b1" "ca_not_after root_spec = Some e1"
      "ca_not_before mid_spec = Some b2" "ca_not_after mid_spec = Some e2"
      "leaf_not_before leaf_spec = Some b3" "leaf_not_after leaf_spec = Some e3"
  shows "b1 \<le> t \<and> t \<le> e1 \<and> b2 \<le> t \<and> t \<le> e2 \<and> b3 \<le> t \<and> t \<le> e3 \<Longrightarrow>
      validate V leaf (store_from_iter [mid]) = Some (Ok \<lparr>vc_certificates = [leaf, mid, root]\<rparr>)"
    and "\<not> (b1 \<le> t \<and> t \<le> e1 \<and> b2 \<le> t \<and> t \<le> e2 \<and> b3 \<le> t \<and> t \<le> e3) \<Longrightarrow>
      \<exists>f fs. validate V leaf (store_from_iter [mid]) = Some (Err (f # fs))"
proof -
  note root = CaSpec_self_signed_Some [OF built(1)]
  note mid = CaSpec_signed_by_Some [OF built(2)]
  obtain pl kl where leaf: "LeafSpec_build rc leaf_spec False fresh = Some (pl, kl)"
      "rc_signed_by rc pl kl (ca_issuer mid_ca) = Some leaf_der"
    using built(3) by (auto simp: LeafSpec_signed_by_def split: Option.bind_splits)
  note rp = CaSpec_build_Some [OF root(1)] and mp = CaSpec_build_Some [OF mid(1)] and lp = LeafSpec_build_Some [OF leaf(1)]
  have plain_all: "plain_params rc (ca_params root_ca)" "plain_params rc (ca_params mid_ca)" "plain_params rc pl"
    using plain assms(3) rp(1,7) mp(1,7) lp(1,4) unfolding plain_params_def named_params_def by auto
  note reads = self_signed_reads [OF assms(1) plain_all(1) root(2) parsed(1)]
    signed_by_reads [OF assms(1) plain_all(2) mid(2) parsed(2), unfolded ca_issuer_def fst_conv]
    signed_by_reads [OF assms(1) plain_all(3) leaf(2) parsed(3), unfolded ca_issuer_def fst_conv]
  have signs: "signed_by V mid root" "signed_by V leaf mid"
    using signed_by_verifies [OF backend mid(2) parsed(2)] signed_by_verifies [OF backend leaf(2) parsed(3)] reads(1,2)
    by (auto simp: ca_issuer_def)
  have apart: "distinct (map (\<lambda>p. name_raw (read_name rd (distinguished_name p))) [pl, ca_params mid_ca, ca_params root_ca])"
    using cns common_names_apart [OF assms(2) lp(1) mp(1)] common_names_apart [OF assms(2) lp(1) rp(1)]
      common_names_apart [OF assms(2) mp(1) rp(1)] by auto
  have ca: "Testkit_Certificates.is_ca (ca_params root_ca) = IsCa Unconstrained"
    "\<exists>n. Testkit_Certificates.is_ca (ca_params mid_ca) = IsCa n"
    using rp(4) mp(4) plain by (auto simp: is_ca_with_def)
  have ok: "rfc5280_ok [leaf, mid, root]"
    using reads three_tier_basic_constraints [OF reads(1) ca(1) reads(2)] ca(2) generated_rfc5280_ok [of leaf "[mid, root]" rd]
    by fastforce
  have at: "expiry_ok t [leaf, mid, root] \<longleftrightarrow> b1 \<le> t \<and> t \<le> e1 \<and> b2 \<le> t \<and> t \<le> e2 \<and> b3 \<le> t \<and> t \<le> e3"
    using reads rp(2,3) mp(2,3) lp(2,3) times by (auto simp: expiry_ok_def reads_as_defs)
  note tier = generated_three_tier [OF V(1,2) _ _ reads signs apart]
  show "b1 \<le> t \<and> t \<le> e1 \<and> b2 \<le> t \<and> t \<le> e2 \<and> b3 \<le> t \<and> t \<le> e3 \<Longrightarrow>
      validate V leaf (store_from_iter [mid]) = Some (Ok \<lparr>vc_certificates = [leaf, mid, root]\<rparr>)"
    and "\<not> (b1 \<le> t \<and> t \<le> e1 \<and> b2 \<le> t \<and> t \<le> e2 \<and> b3 \<le> t \<and> t \<le> e3) \<Longrightarrow>
      \<exists>f fs. validate V leaf (store_from_iter [mid]) = Some (Err (f # fs))"
    using tier rfc5280_accepts(1) [of "[leaf, mid, root]" t] ok at unfolding V(3) by (simp_all add: rfc5280_handles)
qed

subsection \<open>A generator and a parser that agree\<close>

text \<open>
  The generator keeps a register of what it may be asked to sign, and the DER of a certificate is the number
  of its entry; the parser looks the entry up. Names are strings and keys are numbers.
\<close>

type_synonym sample_params = "(string, oid \<times> bytes \<times> bool) CertificateParams"

type_synonym sample_entry = "sample_params \<times> nat \<times> (sample_params \<times> nat) option"

definition register_number :: "sample_entry list \<Rightarrow> sample_entry \<Rightarrow> bytes option" where
  "register_number reg entry =
     (if length reg \<le> 256 then map_option (\<lambda>i. [of_nat i]) (position (\<lambda>e. e = entry) reg) else None)"

definition register_rcgen :: "sample_entry list \<Rightarrow> (string, oid \<times> bytes \<times> bool, nat) rcgen" where
  "register_rcgen reg =
     sample_rcgen
       \<lparr>rc_dn_push_common_name := (\<lambda>_ cn. cn),
        rc_default := (rc_default sample_rcgen)\<lparr>params_not_after := 1000000\<rparr>,
        rc_params_new := (\<lambda>names. Some ((rc_default sample_rcgen)
          \<lparr>params_not_after := 1000000, subject_alt_names := map SanDnsName names\<rparr>)),
        rc_self_signed := (\<lambda>params key. register_number reg (params, key, None)),
        rc_signed_by := (\<lambda>params key issuer. register_number reg (params, key, Some issuer))\<rparr>"

definition register_readings :: "(string, nat) readings" where
  "register_readings =
     \<lparr>read_name = sample_name,
      read_key = (\<lambda>key. \<lparr>spki_algorithm = sample_algorithm, spki_subject_public_key = [of_nat key], spki_raw = [of_nat key]\<rparr>)\<rparr>"

definition flag_extension :: "oid \<Rightarrow> bool \<Rightarrow> X509Extension" where
  "flag_extension oid critical =
     \<lparr>ext_oid = oid, ext_critical = critical, ext_value = [0x30, 0x01], ext_parsed = UninspectedExtension\<rparr>"

definition register_certificate :: "sample_entry \<Rightarrow> certificate" where
  "register_certificate entry =
     (let (params, key, issuer) = entry;
          subject = distinguished_name params;
          issuer_name = (case issuer of None \<Rightarrow> subject | Some (p, _) \<Rightarrow> distinguished_name p)
      in (sample_certificate subject issuer_name)
        \<lparr>tbs_not_before := params_not_before params, tbs_not_after := params_not_after params,
         tbs_subject_pki := read_key register_readings key,
         tbs_basic_constraints := Ok (read_basic_constraints (Testkit_Certificates.is_ca params)),
         tbs_subject_alternative_name :=
           Ok (if subject_alt_names params = [] then None else Some (map read_san (subject_alt_names params))),
         ext_extended_key_usage :=
           Ok (if extended_key_usages params = [] then None else Some (flag_extension extended_key_usage_oid False)),
         tbs_extended_key_usage := Ok (Some (read_purposes (extended_key_usages params))),
         tbs_extensions :=
           (if Testkit_Certificates.is_ca params = NoCa then [] else [flag_extension basic_constraints_oid True]) @
           (if key_usages params = [] then [] else [flag_extension key_usage_oid True])\<rparr>)"

definition register_from_der :: "sample_entry list \<Rightarrow> bytes \<Rightarrow> nom_err + bytes \<times> certificate" where
  "register_from_der reg der =
     (case der of
        [b] \<Rightarrow> if unat b < length reg then Ok ([], register_certificate (reg ! unat b)) else Err NomIncomplete
      | _ \<Rightarrow> Err NomIncomplete)"

lemma register_from_number:
  assumes "register_number reg entry = Some der"
  shows "register_from_der reg der = Ok ([], register_certificate entry)"
proof -
  obtain i where i: "position (\<lambda>e. e = entry) reg = Some i" "der = [of_nat i]" "length reg \<le> 256"
    using assms by (auto simp: register_number_def split: if_splits)
  then have "i < length reg" "reg ! i = entry" by (auto simp: position_Some_iff)
  moreover from this(1) i(3) have "unat (of_nat i :: 8 word) = i" by (simp add: unat_of_nat)
  ultimately show ?thesis by (simp add: register_from_der_def i(2))
qed

lemma register_critical:
  "critical_oids (register_certificate (params, key, issuer)) =
     (if Testkit_Certificates.is_ca params = NoCa then {} else {basic_constraints_oid}) \<union>
     (if key_usages params = [] then {} else {key_usage_oid})"
  unfolding critical_oids_def set_filter [symmetric] by (simp add: register_certificate_def flag_extension_def Let_def)

lemma register_certificate_reads:
  "reads_as register_readings params key
     (case issuer of None \<Rightarrow> distinguished_name params | Some (p, _) \<Rightarrow> distinguished_name p)
     (register_certificate (params, key, issuer))"
  unfolding reads_as_defs register_critical
  by (intro conjI; simp add: register_certificate_def register_readings_def sample_certificate_def reads_purposes_def
      flag_extension_def Let_def split: option.splits)

lemma register_reads_back: "parser_reads_back (register_rcgen reg) (register_from_der reg) register_readings"
  unfolding parser_reads_back_def
proof (intro conjI allI impI)
  fix params key der
  assume "rc_self_signed (register_rcgen reg) params key = Some der"
  then have "register_number reg (params, key, None) = Some der" by (simp add: register_rcgen_def)
  from register_from_number [OF this] register_certificate_reads [of params key None]
  show "\<exists>rest c. register_from_der reg der = Ok (rest, c) \<and>
      reads_base register_readings params key (distinguished_name params) c \<and>
      (custom_extensions params = [] \<longrightarrow> reads_extensions params c)" by (simp add: reads_as_def)
next
  fix params key issuer der
  assume "rc_signed_by (register_rcgen reg) params key issuer = Some der"
  then have "register_number reg (params, key, Some issuer) = Some der" by (simp add: register_rcgen_def)
  from register_from_number [OF this] register_certificate_reads [of params key "Some issuer"]
  show "\<exists>rest c. register_from_der reg der = Ok (rest, c) \<and>
      reads_base register_readings params key (distinguished_name (fst issuer)) c \<and>
      (custom_extensions params = [] \<longrightarrow> reads_extensions params c)" by (cases issuer) (simp add: reads_as_def)
qed

lemma ascii_inject: "ascii s = ascii t \<longleftrightarrow> s = t"
proof -
  have "inj (of_char :: char \<Rightarrow> 8 word)"
  proof (rule injI)
    fix a b :: char
    assume "(of_char a :: 8 word) = of_char b"
    then have "(word_of_nat (of_char a) :: 8 word) = word_of_nat (of_char b)" by (simp add: of_nat_of_char)
    then have "(of_char a :: nat) mod 2 ^ 8 = of_char b mod 2 ^ 8" by (simp only: word_of_nat_eq_iff take_bit_eq_mod) simp
    then show "a = b" by simp
  qed
  then show ?thesis by (simp add: ascii_def inj_map_eq_map)
qed

lemma register_names: "names_tell_apart (register_rcgen reg) register_readings"
  by (simp add: names_tell_apart_def register_rcgen_def register_readings_def sample_name_def ascii_inject)

lemma register_algorithm: "cert_signature_algorithm (register_certificate entry) = sample_algorithm"
  by (simp add: register_certificate_def sample_certificate_def case_prod_unfold Let_def)

lemma register_backend:
  assumes "\<And>k m s. verify sample_algorithm k m s = Some (Ok ())"
  shows "backend_accepts_signed (register_rcgen reg) (register_from_der reg) register_readings verify"
proof -
  have "cert_signature_algorithm c = sample_algorithm" if "register_from_der reg der = Ok (rest, c)" for der rest c
    using that by (auto simp: register_from_der_def register_algorithm split: list.splits if_splits)
  then show ?thesis using assms unfolding backend_accepts_signed_def by metis
qed

lemma register_scenario_backend:
  "backend_accepts_signed (register_rcgen reg) (register_from_der reg) register_readings (provider scenario_backend)"
  by (rule register_backend)
    (simp add: scenario_backend_def AwsLc_def backend_verify_signature_def permissive_crate_def sample_algorithm_def
      verification_algorithm_def oid_defs backend_algorithm_def)

lemma scenario_backend_listed:
  "scenario_backend \<in> set (BACKENDS \<lparr>feature_aws_lc = True, feature_ring = False, feature_rust_crypto = False\<rparr>
     permissive_crate permissive_crate permissive_rsa sample_library)"
  by (simp add: BACKENDS_def scenario_backend_def)

lemma register_default: "custom_extensions (rc_default (register_rcgen reg)) = []"
  by (simp add: register_rcgen_def sample_rcgen_def Let_def)

subsection \<open>The fixtures of the benchmarks\<close>

lemma p256_fixture_validates:
  assumes "parser_reads_back rc from_der rd" "names_tell_apart rc rd" "custom_extensions (rc_default rc) = []"
    and backend: "b \<in> set (BACKENDS f aws_lc_rs ring_krate rcr lib)" "backend_accepts_signed rc from_der rd (provider b)"
    and built: "build_p256_chain rc (testkit_cert from_der invalid) fresh = Some c"
    and V: "V = Validator_with_policy_and_backend (store_from_iter [curve_root c])
      (RFC5280Policy_policy (RFC5280Policy_new t)) (provider b)"
  shows "(REFERENCE_TIME - days 365 \<le> t \<and> t \<le> REFERENCE_TIME + days 365 \<longrightarrow>
      validate V (curve_leaf c) (store_from_iter [curve_intermediate c]) =
        Some (Ok \<lparr>vc_certificates = [curve_leaf c, curve_intermediate c, curve_root c]\<rparr>)) \<and>
    (\<not> (REFERENCE_TIME - days 365 \<le> t \<and> t \<le> REFERENCE_TIME + days 365) \<longrightarrow>
      (\<exists>f fs. validate V (curve_leaf c) (store_from_iter [curve_intermediate c]) = Some (Err (f # fs))))"
proof -
  have contract: "validator_contract V" unfolding V by (rule backend_contract [OF backend(1) rfc5280.total])
  obtain k1 k2 root mid leaf where issued:
      "CaSpec_self_signed rc
        (ca_with_validity (ca_with_key_pair (CaSpec_new ''Benchmark P-256 Root CA'') k1)
          (REFERENCE_TIME - days 365) (REFERENCE_TIME + days 3650)) panic = Some root"
      "CaSpec_signed_by rc
        (ca_with_aki (ca_with_path_len
          (ca_with_validity (ca_with_key_pair (CaSpec_new ''Benchmark P-256 Intermediate CA'') k2)
            (REFERENCE_TIME - days 365) (REFERENCE_TIME + days (5 * 365))) (Some 0)) True) root panic = Some mid"
      "LeafSpec_signed_by rc
        (leaf_with_aki (leaf_with_validity
          (leaf_with_dns_sans (LeafSpec_new ''p256.example'') [''p256.example''])
          (REFERENCE_TIME - days 365) (REFERENCE_TIME + days 365)) True) mid (fresh P256 2) = Some leaf"
    and parsed: "testkit_cert from_der invalid (ca_der root) = Some (curve_root c)"
      "testkit_cert from_der invalid (ca_der mid) = Some (curve_intermediate c)"
      "testkit_cert from_der invalid leaf = Some (curve_leaf c)"
    using built by (auto simp: build_p256_chain_def issue_p256_chain_def bind_eq_Some_conv)
  note spec_defs = parity_spec_defs leaf_with_aki_def leaf_with_validity_def leaf_with_dns_sans_def LeafSpec_new_def
  note tier = issued_three_tier [OF assms(1-3) contract _ _ _ issued parsed]
  show ?thesis
    using backend(2) tier [of t] by (simp add: V spec_defs)
qed

text \<open>
  The P-256 fixture of the benchmarks is a chain the validator accepts. Whatever keys are drawn, on every backend that
  accepts what the generator signs, validation of the fixture's leaf against its root and its
  intermediate returns that very chain at every moment within a year of the reference time, and at every
  other moment it is refused with a policy failure. Relied on: the parser reads back what
  the generator was told, different common names stay different, and the default parameters carry no extra extension.
\<close>

theorem p256_chain_validates:
  assumes "parser_reads_back rc from_der rd" "names_tell_apart rc rd" "custom_extensions (rc_default rc) = []"
    and backend: "b \<in> set (BACKENDS f aws_lc_rs ring_krate rcr lib)" "backend_accepts_signed rc from_der rd (provider b)"
    and built: "build_p256_chain rc (testkit_cert from_der invalid) fresh = Some c"
    and V: "V = Validator_with_policy_and_backend (store_from_iter [curve_root c])
      (RFC5280Policy_policy (RFC5280Policy_new t)) (provider b)"
  shows "(REFERENCE_TIME - days 365 \<le> t \<and> t \<le> REFERENCE_TIME + days 365 \<longrightarrow>
      validate V (curve_leaf c) (store_from_iter [curve_intermediate c]) =
        Some (Ok \<lparr>vc_certificates = [curve_leaf c, curve_intermediate c, curve_root c]\<rparr>)) \<and>
    (\<not> (REFERENCE_TIME - days 365 \<le> t \<and> t \<le> REFERENCE_TIME + days 365) \<longrightarrow>
      (\<exists>f fs. validate V (curve_leaf c) (store_from_iter [curve_intermediate c]) = Some (Err (f # fs))))"
  by (rule p256_fixture_validates [OF assms])

text \<open>The fixture, from the register of its three certificates.\<close>

definition p256_register :: "sample_entry list" where
  "p256_register =
     (let rc = register_rcgen [];
          root = the (CaSpec_build rc (ca_with_validity (CaSpec_new ''Benchmark P-256 Root CA'')
            (REFERENCE_TIME - days 365) (REFERENCE_TIME + days 3650)) (Some 10));
          mid = the (CaSpec_build rc (ca_with_aki (ca_with_path_len
            (ca_with_validity (CaSpec_new ''Benchmark P-256 Intermediate CA'')
              (REFERENCE_TIME - days 365) (REFERENCE_TIME + days (5 * 365))) (Some 0)) True) (Some 11));
          leaf = the (LeafSpec_build rc (leaf_with_aki (leaf_with_validity
            (leaf_with_dns_sans (LeafSpec_new ''p256.example'') [''p256.example''])
            (REFERENCE_TIME - days 365) (REFERENCE_TIME + days 365)) True) False (Some 12))
      in [(fst root, snd root, None), (fst mid, snd mid, Some root), (fst leaf, snd leaf, Some mid)])"

lemma p256_register_builds:
  "build_p256_chain (register_rcgen p256_register) (testkit_cert (register_from_der p256_register) (X509Error [])) sample_fresh =
     Some \<lparr>curve_root = register_certificate (p256_register ! 0), curve_intermediate = register_certificate (p256_register ! 1),
       curve_leaf = register_certificate (p256_register ! 2)\<rparr>"
  by code_simp

theorem p256_chain_validates_witness:
  "\<exists>root mid leaf. validate (Validator_with_policy_and_backend (store_from_iter [root])
       (RFC5280Policy_policy (RFC5280Policy_new REFERENCE_TIME)) (provider scenario_backend)) leaf (store_from_iter [mid]) =
     Some (Ok \<lparr>vc_certificates = [leaf, mid, root]\<rparr>)"
proof -
  note fixture = p256_chain_validates [OF register_reads_back register_names register_default scenario_backend_listed
    register_scenario_backend p256_register_builds refl]
  show ?thesis using fixture [of REFERENCE_TIME] by (auto simp: days_def)
qed

text \<open>
  The benchmarks' own chain, the \<open>localhost\<close> leaf under the intermediate and the first root of the parity set, is one the
  validator accepts at the reference time, on every backend of the comparison.
\<close>

theorem parity_leaf_validates:
  assumes "parser_reads_back rc from_der rd" "names_tell_apart rc rd" "custom_extensions (rc_default rc) = []"
    and backend: "b \<in> set (BACKENDS f aws_lc_rs ring_krate rcr lib)" "backend_accepts_signed rc from_der rd (provider b)"
    and built: "build_parity rc (testkit_cert from_der invalid) fresh = Some p"
    and V: "V = Validator_with_policy_and_backend (store_from_iter [parity_ca1 p])
      (RFC5280Policy_policy (RFC5280Policy_new REFERENCE_TIME)) (provider b)"
  shows "validate V (parity_localhost_leaf p) (store_from_iter [parity_intermediate1 p]) =
    Some (Ok \<lparr>vc_certificates = [parity_localhost_leaf p, parity_intermediate1 p, parity_ca1 p]\<rparr>)"
proof -
  have contract: "validator_contract V" unfolding V by (rule backend_contract [OF backend(1) rfc5280.total])
  obtain s where s: "issue_parity rc fresh = Some s"
    and parsed: "testkit_cert from_der invalid (ca_der (ca1 s)) = Some (parity_ca1 p)"
      "testkit_cert from_der invalid (ca_der (intermediate1 s)) = Some (parity_intermediate1 p)"
      "testkit_cert from_der invalid (localhost_leaf s) = Some (parity_localhost_leaf p)"
    using built by (auto simp: build_parity_def bind_eq_Some_conv)
  obtain k1 k2 where issued: "CaSpec_self_signed rc (parity_root_spec ''Benchmark Test CA 1'' k1) panic = Some (ca1 s)"
      "CaSpec_signed_by rc (ca_with_aki (parity_intermediate_spec k2) True) (ca1 s) panic = Some (intermediate1 s)"
      "LeafSpec_signed_by rc (leaf_with_aki (leaf_with_dns_sans (parity_leaf_spec ''localhost'') [''localhost'']) True)
         (intermediate1 s) (fresh P256 1) = Some (localhost_leaf s)"
    using s by (auto simp: issue_parity_def bind_eq_Some_conv)
  note spec_defs = parity_spec_defs parity_leaf_spec_def leaf_with_aki_def leaf_with_validity_def leaf_with_dns_sans_def
    LeafSpec_new_def
  show ?thesis
    using backend(2) issued_three_tier(1) [OF assms(1-3) contract _ _ _ issued parsed, of REFERENCE_TIME]
    by (simp add: V spec_defs)
qed

end
