(* ===== verification/Example_Verdicts.thy ===== *)
theory Example_Verdicts
  imports Examples Generated_Chains
begin

text \<open>
  The programs under \<^verbatim>\<open>examples\<close>, run to the end: under the conditions of \<open>Generated_Chains\<close> on the generator, the parser and the
  backend, each prints what its documentation announces.
\<close>

subsection \<open>What the programs are run with\<close>

text \<open>\<open>CertificateParams::new\<close>, which turns a name that is not an IP address into a dNSName.\<close>

definition params_new_documented :: "('dn, 'ext, 'key) rcgen \<Rightarrow> bool" where
  "params_new_documented rc \<longleftrightarrow>
     (\<forall>names params. rc_params_new rc names = Some params \<longrightarrow> list_all (\<lambda>n. IpAddress_parse (ascii n) = None) names \<longrightarrow>
        params = (rc_default rc)\<lparr>subject_alt_names := map SanDnsName names\<rparr>)"

text \<open>What the programs are run with, beside what the generator, the parser and the backend promise.\<close>

definition example_setting :: "example_env \<Rightarrow> ('dn, 'ext, 'key) rcgen \<Rightarrow> ('dn, 'key) readings \<Rightarrow> bool" where
  "example_setting env rc rd \<longleftrightarrow>
     parser_reads_back rc (env_from_der env) rd \<and> names_tell_apart rc rd \<and> params_new_documented rc \<and>
     custom_extensions (rc_default rc) = [] \<and> extended_key_usages (rc_default rc) = [] \<and>
     params_not_before (rc_default rc) \<le> env_now env \<and> env_now env \<le> params_not_after (rc_default rc) \<and>
     single_backend (env_features env) \<and>
     backend_accepts_signed rc (env_from_der env) rd
       (default_provider (env_features env) (env_aws_lc_rs env) (env_ring env) (env_rust_crypto env) (env_library env))"

lemma example_parse_testkit: "example_parse env = testkit_cert (env_from_der env) (env_invalid_certificate env)"
  by (rule ext) (simp add: example_parse_def testkit_cert_def)

lemma example_validator_crypto [simp]:
  "crypto (example_validator env roots policy) =
     default_provider (env_features env) (env_aws_lc_rs env) (env_ring env) (env_rust_crypto env) (env_library env)"
  by (simp add: example_validator_def Validator_with_policy_def)

lemma self_signed_parses:
  assumes "example_setting env rc rd" "plain_params rc params" "rc_self_signed rc params key = Some der"
  obtains c where "example_parse env der = Some c" "reads_as rd params key (distinguished_name params) c"
  using assms self_signed_read unfolding example_setting_def example_parse_testkit plain_params_def by metis

lemma signed_by_parses:
  assumes "example_setting env rc rd" "plain_params rc params" "rc_signed_by rc params key issuer = Some der"
  obtains c where "example_parse env der = Some c" "reads_as rd params key (distinguished_name (fst issuer)) c"
  using assms signed_by_read unfolding example_setting_def example_parse_testkit plain_params_def by metis

lemma example_signed_by:
  assumes "example_setting env rc rd" "rc_signed_by rc params key issuer = Some der" "example_parse env der = Some c"
    and "reads_as rd issuer_params (snd issuer) dn signer"
  shows "signed_by (example_validator env roots policy) c signer"
  by (rule signed_by_verifies [OF _ assms(2) assms(3) [unfolded example_parse_testkit] assms(4)])
    (use assms(1) in \<open>simp add: example_setting_def\<close>)

text \<open>The leaf's issuer is not among the roots, and neither is the leaf.\<close>

lemma unknown_issuer_rejected:
  assumes "validator_contract V" "handled_critical V leaf"
    and "find_by_subject (root_certificates V) (subject_key leaf) = []" "find_by_subject (root_certificates V) (issuer_key leaf) = []"
  shows "validate V leaf CertificateStore_new = Some (Err [])"
proof (rule no_path_rejects [OF assms(1,2)], rule notI)
  fix cs assume "trust_path V CertificateStore_new leaf cs"
  then obtain q root where q: "linked V CertificateStore_new (leaf # q)"
      "root \<in> set (find_by_subject (root_certificates V) (issuer_key (last (leaf # q))))"
    by (elim trust_path_ends) (auto simp: assms(3))
  from q(1) have "q = []" by (cases q) (simp_all add: linked_Cons2 find_in_empty)
  with q(2) assms(4) show False by simp
qed

lemma issued_params:
  assumes "params_new_documented rc" "custom_extensions (rc_default rc) = []" "rc_params_new rc hosts = Some params"
    and "list_all (\<lambda>n. IpAddress_parse (ascii n) = None) hosts"
  shows "plain_params rc ((push_common_name rc params cn)\<lparr>is_ca := authority, key_usages := usages\<rparr>)"
    and "plain_params rc ((push_common_name rc params cn)\<lparr>extended_key_usages := ekus\<rparr>)"
    and "plain_params rc (push_common_name rc params cn)"
    and "distinguished_name (push_common_name rc params cn) =
      rc_dn_push_common_name rc (distinguished_name (rc_default rc)) cn"
    and "params_not_before (push_common_name rc params cn) = params_not_before (rc_default rc)"
    and "params_not_after (push_common_name rc params cn) = params_not_after (rc_default rc)"
    and "subject_alt_names (push_common_name rc params cn) = map SanDnsName hosts"
    and "extended_key_usages (push_common_name rc params cn) = extended_key_usages (rc_default rc)"
proof -
  have "params = (rc_default rc)\<lparr>subject_alt_names := map SanDnsName hosts\<rparr>"
    using assms(1,3,4) unfolding params_new_documented_def by blast
  then show "plain_params rc ((push_common_name rc params cn)\<lparr>is_ca := authority, key_usages := usages\<rparr>)"
    "plain_params rc ((push_common_name rc params cn)\<lparr>extended_key_usages := ekus\<rparr>)"
    "plain_params rc (push_common_name rc params cn)"
    "distinguished_name (push_common_name rc params cn) =
      rc_dn_push_common_name rc (distinguished_name (rc_default rc)) cn"
    "params_not_before (push_common_name rc params cn) = params_not_before (rc_default rc)"
    "params_not_after (push_common_name rc params cn) = params_not_after (rc_default rc)"
    "subject_alt_names (push_common_name rc params cn) = map SanDnsName hosts"
    "extended_key_usages (push_common_name rc params cn) = extended_key_usages (rc_default rc)"
    using assms(2) by (auto simp: plain_params_def named_params_def push_common_name_def)
qed

lemma service_names_not_ip:
  "IpAddress_parse (ascii ''service.internal'') = None" "IpAddress_parse (ascii ''service.example'') = None"
  by code_simp+

lemma policies_handle:
  "handles (pinned_policy env) basic_constraints_oid" "handles (pinned_policy env) key_usage_oid"
  "handles (client_policy env) basic_constraints_oid" "handles (client_policy env) key_usage_oid"
  using rfc5280_handles [of "env_now env"]
  by (simp_all add: pinned_policy_def client_policy_def policy_single_def handles_def Tuple2_def)

text \<open>The name the programs give a certificate: the generator's default name with the common name replaced.\<close>

definition issued_name :: "('dn, 'ext, 'key) rcgen \<Rightarrow> ('dn, 'key) readings \<Rightarrow> string \<Rightarrow> bytes" where
  "issued_name rc rd cn = name_raw (read_name rd (rc_dn_push_common_name rc (distinguished_name (rc_default rc)) cn))"

lemma service_identity:
  assumes "reads_as rd params key dn leaf" "subject_alt_names params = [SanDnsName ''service.internal'']"
  shows "leaf_identity_ok (Some (ascii ''service.internal'')) None leaf"
proof -
  have "match_hostname (PreparedServerHostname_new (ascii ''service.internal'')) (ascii ''service.internal'') = Some True"
    by code_simp
  then have "host_matches (ascii ''service.internal'') (ascii ''service.internal'')" unfolding match_hostname_new by simp
  then show ?thesis using assms by (simp add: reads_as_defs leaf_identity_ok_def read_san_def)
qed

lemma two_tier_rfc5280:
  fixes cp lp :: "('dn, 'ext) CertificateParams"
  assumes "reads_as rd cp ck cd anchor" "reads_as rd lp lk ld leaf" "Testkit_Certificates.is_ca cp = IsCa n"
    and "params_not_before cp \<le> t" "t \<le> params_not_after cp" "params_not_before lp \<le> t" "t \<le> params_not_after lp"
  shows "rfc5280_ok [leaf, anchor]" "expiry_ok t [leaf, anchor]"
proof -
  show "rfc5280_ok [leaf, anchor]"
    using assms(1,2) two_tier_basic_constraints [OF assms(1,3)] generated_rfc5280_ok [of leaf "[anchor]" rd] by fastforce
  show "expiry_ok t [leaf, anchor]" using assms by (simp add: reads_as_defs expiry_ok_def)
qed

text \<open>A certificate authority and a certificate from it, as every example issues and parses them.\<close>

lemma example_pair:
  assumes setting: "example_setting env rc rd"
    and cp: "rc_params_new rc [] = Some p0"
      "cp = (push_common_name rc p0 ca_cn)\<lparr>is_ca := IsCa (Constrained 0), key_usages := usages\<rparr>"
    and lp: "rc_params_new rc hosts = Some p1" "list_all (\<lambda>n. IpAddress_parse (ascii n) = None) hosts"
      "lp = (push_common_name rc p1 leaf_cn)\<lparr>extended_key_usages := ekus\<rparr>"
    and signs: "rc_self_signed rc cp ck = Some anchor_der" "rc_signed_by rc lp lk (cp, ck) = Some leaf_der"
    and "leaf_cn \<noteq> ca_cn"
  obtains c l where "example_parse env anchor_der = Some c" "example_parse env leaf_der = Some l"
    "reads_as rd lp lk (distinguished_name cp) l" "rfc5280_ok [l, c]" "expiry_ok (env_now env) [l, c]"
    "ext_extended_key_usage c = Ok None" "subject_key c = issued_name rc rd ca_cn" "subject_key l = issued_name rc rd leaf_cn" "issuer_key l = issued_name rc rd ca_cn"
    "\<And>policy. policy_total policy \<Longrightarrow> handles policy basic_constraints_oid \<Longrightarrow> handles policy key_usage_oid \<Longrightarrow>
       accepts policy \<lparr>uc_certificates = [l, c]\<rparr> \<Longrightarrow>
       validate (example_validator env (store_from_iter [c]) policy) l CertificateStore_new =
         Some (Ok \<lparr>vc_certificates = [l, c]\<rparr>)"
    "\<And>policy. policy_total policy \<Longrightarrow> handles policy basic_constraints_oid \<Longrightarrow> handles policy key_usage_oid \<Longrightarrow>
       \<not> accepts policy \<lparr>uc_certificates = [l, c]\<rparr> \<Longrightarrow>
       \<exists>f fs. validate (example_validator env (store_from_iter [c]) policy) l CertificateStore_new = Some (Err (f # fs))"
proof -
  have s: "params_new_documented rc" "custom_extensions (rc_default rc) = []" "names_tell_apart rc rd"
    "single_backend (env_features env)" "params_not_before (rc_default rc) \<le> env_now env"
    "env_now env \<le> params_not_after (rc_default rc)" "extended_key_usages (rc_default rc) = []"
    using setting by (simp_all add: example_setting_def)
  have no_hosts: "list_all (\<lambda>n. IpAddress_parse (ascii n) = None) []" by simp
  note cps = issued_params [OF s(1,2) cp(1) no_hosts] and lps = issued_params [OF s(1,2) lp(1,2)]
  have plain: "plain_params rc cp" "plain_params rc lp" unfolding cp(2) lp(3) by (rule cps(1) lps(2))+
  have dns: "distinguished_name cp = rc_dn_push_common_name rc (distinguished_name (rc_default rc)) ca_cn"
    "distinguished_name lp = rc_dn_push_common_name rc (distinguished_name (rc_default rc)) leaf_cn"
    by (simp_all add: cp(2) lp(3) cps(4) lps(4))
  obtain c where c: "example_parse env anchor_der = Some c" "reads_as rd cp ck (distinguished_name cp) c"
    by (rule self_signed_parses [OF setting plain(1) signs(1)])
  obtain l where l: "example_parse env leaf_der = Some l" "reads_as rd lp lk (distinguished_name cp) l"
    using signed_by_parses [OF setting plain(2) signs(2)] by auto
  have sb: "signed_by (example_validator env roots policy) l c" for roots policy
    using example_signed_by [OF setting signs(2) l(1)] c(2) by auto
  have ok: "rfc5280_ok [l, c]" "expiry_ok (env_now env) [l, c]"
    by (rule two_tier_rfc5280 [OF c(2) l(2)]; use s(5,6) in \<open>simp add: cp(2) lp(3) cps(5,6) lps(5,6)\<close>)+
  have apart: "name_raw (read_name rd (distinguished_name lp)) \<noteq> name_raw (read_name rd (distinguished_name cp))"
    by (rule common_names_apart [OF s(3) dns(2,1) assms(9)])
  note tier = generated_two_tier [OF example_contract [OF s(4)] _ _ _ c(2) l(2) sb apart, where roots1 = "store_from_iter [c]"]
  have "ext_extended_key_usage c = Ok None"
    using c(2) s(7) by (simp add: reads_as_defs reads_purposes_def cp(2) cps(8))
  then show thesis
    by (rule that [OF c(1) l ok]) (simp_all add: reads_as_keys [OF c(2)] reads_as_keys [OF l(2)] dns issued_name_def tier)
qed

lemma example_store_those:
  "those (map (example_parse env) ders) = Some cs \<Longrightarrow> example_store env ders = Some (store_from_iter cs)"
  by (simp add: example_store_def)

text \<open>
  C23. The pinned-root example prints what its documentation announces. Run with a single
  backend, on a machine whose trust store loads and does not know the two names the program issues
  certificates for, and once its certificates have been issued, it accepts the internal service against the
  pinned root and rejects the same certificate against the platform's roots because no chain reaches one of them.
\<close>

theorem pinned_main_prints:
  assumes setting: "example_setting env rc rd"
    and issued: "issue_internal_service rc fresh = Some (anchor_der, leaf_der)"
    and native: "native_roots env = Some native" "those (map (example_parse env) native) = Some public"
      "\<forall>c \<in> set public. subject_key c \<notin> {issued_name rc rd ''Example Corp Internal CA'', issued_name rc rd ''service.internal''}"
  shows "pinned_main env rc fresh =
    Some [pad_right 24 ''pinned corporate root'' @ '' accepted'',
      pad_right 24 ''platform trust store'' @ '' rejected '' @ em_dash @ '' no chain reached a trusted root'']"
proof -
  from issued obtain p0 p1 ck lk cp where new: "rc_params_new rc [] = Some p0" "rc_params_new rc [''service.internal''] = Some p1"
    and cp: "cp = (push_common_name rc p0 ''Example Corp Internal CA'')
      \<lparr>is_ca := IsCa (Constrained 0), key_usages := [KeyCertSign, KeyCrlSign]\<rparr>"
    and signs: "rc_self_signed rc cp ck = Some anchor_der"
      "rc_signed_by rc ((push_common_name rc p1 ''service.internal'')\<lparr>extended_key_usages := [PurposeServerAuth]\<rparr>) lk
        (cp, ck) = Some leaf_der"
    by (auto simp: issue_internal_service_def bind_eq_Some_conv Let_def)
  have hosts: "list_all (\<lambda>n. IpAddress_parse (ascii n) = None) [''service.internal'']" by (simp add: service_names_not_ip)
  have s: "params_new_documented rc" "custom_extensions (rc_default rc) = []" "single_backend (env_features env)"
    using setting by (simp_all add: example_setting_def)
  obtain c l where pair: "example_parse env anchor_der = Some c" "example_parse env leaf_der = Some l"
    and reads: "reads_as rd ((push_common_name rc p1 ''service.internal'')\<lparr>extended_key_usages := [PurposeServerAuth]\<rparr>) lk
        (distinguished_name cp) l"
    and ok: "rfc5280_ok [l, c]" "expiry_ok (env_now env) [l, c]"
    and keys: "subject_key l = issued_name rc rd ''service.internal''" "issuer_key l = issued_name rc rd ''Example Corp Internal CA''"
    and sound: "\<And>policy. policy_total policy \<Longrightarrow> handles policy basic_constraints_oid \<Longrightarrow> handles policy key_usage_oid \<Longrightarrow>
       accepts policy \<lparr>uc_certificates = [l, c]\<rparr> \<Longrightarrow>
       validate (example_validator env (store_from_iter [c]) policy) l CertificateStore_new =
         Some (Ok \<lparr>vc_certificates = [l, c]\<rparr>)"
    by (rule example_pair [OF setting new(1) cp new(2) hosts refl signs]) simp_all
  note contract = pinned_contract [of env]
  have "leaf_identity_ok (Some (ascii ''service.internal'')) None l"
    by (rule service_identity [OF reads]) (simp add: issued_params [OF s(1,2) new(2) hosts])
  then have "accepts (pinned_policy env) \<lparr>uc_certificates = [l, c]\<rparr>"
    using policy_contract.verdict [OF contract, of "[l, c]"] ok by simp
  then have pinned: "validate (example_validator env (store_from_iter [c]) (pinned_policy env)) l CertificateStore_new =
      Some (Ok \<lparr>vc_certificates = [l, c]\<rparr>)"
    by (rule sound [OF policy_contract.total [OF contract] policies_handle(1,2)])
  let ?P = "example_validator env (store_from_iter public) (pinned_policy env)"
  have unknown: "validate ?P l CertificateStore_new = Some (Err [])"
  proof (rule unknown_issuer_rejected [OF example_contract [OF s(3) policy_contract.total [OF contract]]])
    show "handled_critical ?P l" by (rule reads_as_handled [OF reads]) (simp_all add: policies_handle)
  qed (use native(3) in \<open>auto simp: keys find_by_subject_from_iter filter_empty_conv\<close>)
  show ?thesis
    by (simp add: pinned_main_def issued pair example_store_one native(1) example_store_those [OF native(2)] pinned_line_def
        pinned unknown pinned_verdict_def)
qed

lemma purposes_read:
  "purposes (read_purposes [PurposeClientAuth]) = {client_auth_oid}"
  "purposes (read_purposes [PurposeServerAuth]) = {server_auth_oid}"
  by (simp_all add: purposes_def read_purposes_def)

lemma client_auth_satisfied:
  assumes "reads_as rd params key dn c" "extended_key_usages params = [purpose]" "purpose \<in> {PurposeClientAuth, PurposeServerAuth}"
    and "ext_extended_key_usage issuer = Ok None"
  shows "eku_ok EkuPolicy_client_auth [c, issuer] \<longleftrightarrow> purpose = PurposeClientAuth"
proof -
  have "reads_purposes [purpose] c" using assms(1,2) by (simp add: reads_as_defs)
  moreover have "named_purposes [purpose]" using assms(3) by (auto simp: named_purposes_def)
  ultimately obtain ext where "ext_extended_key_usage c = Ok (Some ext)" "ext_value ext \<noteq> [0x30, 0x00]"
    "tbs_extended_key_usage c = Ok (Some (read_purposes [purpose]))"
    by (auto simp: reads_purposes_def split: sum.splits option.splits)
  then show ?thesis using assms(3,4)
    by (auto simp: eku_ok_def eku_satisfied_def purposes_read EkuPolicy_client_auth_def EkuPolicy_new_def
        EkuPolicy_key_purposes_def client_auth_oid_def server_auth_oid_def)
qed

lemma client_line_issued:
  assumes setting: "example_setting env rc rd"
    and ca: "client_ca rc fresh = Some (cp, ck, anchor_der)"
    and client: "issue_client rc cn purpose cp ck fresh' = Some der"
    and "cn \<noteq> ''Example Corp Client CA''" "purpose \<in> {PurposeClientAuth, PurposeServerAuth}"
  shows "purpose = PurposeClientAuth \<Longrightarrow> client_line env anchor_der (text, der) =
      Some (pad_right 12 text @ '' accepted '' @ em_dash @ '' caller is '' @
        name_display (read_name rd (rc_dn_push_common_name rc (distinguished_name (rc_default rc)) cn)))"
    and "purpose = PurposeServerAuth \<Longrightarrow> \<exists>reason. client_line env anchor_der (text, der) =
      Some (pad_right 12 text @ '' rejected '' @ em_dash @ '' '' @ reason)"
proof -
  from ca obtain p0 where p0: "rc_params_new rc [] = Some p0"
      "cp = (push_common_name rc p0 ''Example Corp Client CA'')
        \<lparr>is_ca := IsCa (Constrained 0), key_usages := [KeyCertSign, KeyCrlSign]\<rparr>"
      "rc_self_signed rc cp ck = Some anchor_der"
    by (auto simp: client_ca_def diagnostics_ca_def bind_eq_Some_conv Let_def)
  from client p0(1) obtain lk where lk:
      "rc_signed_by rc ((push_common_name rc p0 cn)\<lparr>extended_key_usages := [purpose]\<rparr>) lk (cp, ck) = Some der"
    by (auto simp: issue_client_def bind_eq_Some_conv Let_def)
  have hosts: "list_all (\<lambda>n. IpAddress_parse (ascii n) = None) []" by simp
  have s: "params_new_documented rc" "custom_extensions (rc_default rc) = []"
    using setting by (simp_all add: example_setting_def)
  note contract = client_contract [of env]
  obtain c l where pair: "example_parse env anchor_der = Some c" "example_parse env der = Some l"
    and reads: "reads_as rd ((push_common_name rc p0 cn)\<lparr>extended_key_usages := [purpose]\<rparr>) lk (distinguished_name cp) l"
    and ok: "rfc5280_ok [l, c]" "expiry_ok (env_now env) [l, c]" "ext_extended_key_usage c = Ok None"
    and verdict: "accepts (client_policy env) \<lparr>uc_certificates = [l, c]\<rparr> \<Longrightarrow>
       validate (example_validator env (store_from_iter [c]) (client_policy env)) l CertificateStore_new =
         Some (Ok \<lparr>vc_certificates = [l, c]\<rparr>)"
      "\<not> accepts (client_policy env) \<lparr>uc_certificates = [l, c]\<rparr> \<Longrightarrow> \<exists>f fs.
       validate (example_validator env (store_from_iter [c]) (client_policy env)) l CertificateStore_new = Some (Err (f # fs))"
    by (rule example_pair [OF setting p0(1,2) p0(1) hosts refl p0(3) lk assms(4)])
      (simp_all add: policy_contract.total [OF contract] policies_handle)
  have eku: "eku_ok EkuPolicy_client_auth [l, c] \<longleftrightarrow> purpose = PurposeClientAuth"
    by (rule client_auth_satisfied [OF reads _ assms(5) ok(3)]) simp
  have accepts: "accepts (client_policy env) \<lparr>uc_certificates = [l, c]\<rparr> \<longleftrightarrow> purpose = PurposeClientAuth"
    using policy_contract.verdict [OF contract, of "[l, c]"] ok eku by simp
  have subject: "tbs_subject l = read_name rd (rc_dn_push_common_name rc (distinguished_name (rc_default rc)) cn)"
    using reads issued_params(4) [OF s p0(1) hosts] by (simp add: reads_as_defs)
  show "purpose = PurposeClientAuth \<Longrightarrow> client_line env anchor_der (text, der) =
      Some (pad_right 12 text @ '' accepted '' @ em_dash @ '' caller is '' @
        name_display (read_name rd (rc_dn_push_common_name rc (distinguished_name (rc_default rc)) cn)))"
    using verdict(1) accepts
    by (simp add: client_line_def pair example_store_one client_verdict_def validated_leaf_def subject)
  show "\<exists>reason. client_line env anchor_der (text, der) = Some (pad_right 12 text @ '' rejected '' @ em_dash @ '' '' @ reason)"
    if server: "purpose = PurposeServerAuth"
  proof -
    obtain f fs where "validate (example_validator env (store_from_iter [c]) (client_policy env)) l CertificateStore_new =
        Some (Err (f # fs))"
      using verdict(2) accepts server by auto
    then show ?thesis by (simp add: client_line_def pair example_store_one client_verdict_def Let_def)
  qed
qed

text \<open>
  The client-certificate example prints what its documentation announces: once its
  certificates have been issued, the credential for client authentication is accepted under the caller's
  name, and the well-formed credential for server authentication, from the same CA, is refused by the policy.
\<close>

theorem client_main_prints:
  assumes "example_setting env rc rd" "client_credentials rc fresh = Some issued"
  shows "\<exists>reason. client_main env rc fresh =
    Some [''clientAuth   accepted '' @ em_dash @ '' caller is '' @
        name_display (read_name rd (rc_dn_push_common_name rc (distinguished_name (rc_default rc)) ''alice@example.com'')),
      ''serverAuth   rejected '' @ em_dash @ '' '' @ reason]"
proof -
  from assms(2) obtain cp ck anchor_der alice service where ca: "client_ca rc (fresh 0) = Some (cp, ck, anchor_der)"
    and issue: "issue_client rc ''alice@example.com'' PurposeClientAuth cp ck (fresh 1) = Some alice"
      "issue_client rc ''service.internal'' PurposeServerAuth cp ck (fresh 2) = Some service"
    and creds: "issued = (anchor_der, [(''clientAuth'', alice), (''serverAuth'', service)])"
    by (auto simp: client_credentials_def bind_eq_Some_conv)
  show ?thesis
    using client_line_issued(1) [OF assms(1) ca issue(1), of "''clientAuth''"]
      client_line_issued(2) [OF assms(1) ca issue(2), of "''serverAuth''"]
    by (fastforce simp: client_main_def assms(2) creds pad_right_def numeral_eq_Suc)
qed

text \<open>The search that finds nobody, event by event.\<close>

lemma unknown_issuer_trace:
  assumes "handled_critical V leaf"
    and "find_by_subject (root_certificates V) (subject_key leaf) = []" "find_by_subject (root_certificates V) (issuer_key leaf) = []"
  shows "validate_with_diagnostics V leaf CertificateStore_new =
    Some (Err [], [searching_for_issuer_of_partial_chain [leaf], could_not_validate_leaf_certificate leaf])"
proof -
  have "\<not> has_unhandled_critical_extensions leaf (validator_policy V)" using assms(1) by (simp add: handled_critical_iff)
  then show ?thesis using assms(2,3)
    by (simp add: validate_with_diagnostics_def validate_inner_def search_loop.simps(2)
        sort_by_suitability_for_issuing_def find_in_empty Let_def)
qed

text \<open>
  The diagnostics example prints what its documentation announces: once its
  certificates have been issued, the trace is the search for an issuer of the leaf and its failure, no policy is
  consulted, and the verdict is that no chain reached a trusted root.
\<close>

theorem diagnostics_main_prints:
  assumes setting: "example_setting env rc rd" and issued: "diagnostics_certificates rc fresh = Some (unrelated_der, leaf_der)"
  shows "\<exists>leaf. example_parse env leaf_der = Some leaf \<and>
    diagnostics_main env rc fresh =
      Some [''2 events:'',
        ''  1. '' @ diagnostic_display (env_library env) (searching_for_issuer_of_partial_chain [leaf]),
        ''  2. '' @ diagnostic_display (env_library env) (could_not_validate_leaf_certificate leaf),
        [], ''rejected '' @ em_dash @ '' no chain reached a trusted root, so no policy ran'']"
proof -
  have s: "params_new_documented rc" "custom_extensions (rc_default rc) = []" "names_tell_apart rc rd"
    using setting by (simp_all add: example_setting_def)
  have hosts: "list_all (\<lambda>n. IpAddress_parse (ascii n) = None) []"
    "list_all (\<lambda>n. IpAddress_parse (ascii n) = None) [''service.example'']" by (simp_all add: service_names_not_ip)
  from issued obtain p0 p1 ck uk lk where new: "rc_params_new rc [] = Some p0" "rc_params_new rc [''service.example''] = Some p1"
    and signs: "rc_self_signed rc ((push_common_name rc p0 ''Unrelated Root CA'')
        \<lparr>is_ca := IsCa (Constrained 0), key_usages := [KeyCertSign, KeyCrlSign]\<rparr>) uk = Some unrelated_der"
      "rc_signed_by rc (push_common_name rc p1 ''service.example'') lk ((push_common_name rc p0 ''Example Issuing CA'')
        \<lparr>is_ca := IsCa (Constrained 0), key_usages := [KeyCertSign, KeyCrlSign]\<rparr>, ck) = Some leaf_der"
    by (auto simp: diagnostics_certificates_def diagnostics_ca_def bind_eq_Some_conv Let_def)
  note ca = issued_params [OF s(1,2) new(1) hosts(1)] and service = issued_params [OF s(1,2) new(2) hosts(2)]
  obtain u where u: "example_parse env unrelated_der = Some u" "subject_key u = issued_name rc rd ''Unrelated Root CA''"
    by (rule self_signed_parses [OF setting ca(1) signs(1)]) (auto dest: reads_as_keys simp: ca(4) issued_name_def)
  obtain l where l: "example_parse env leaf_der = Some l"
    "reads_as rd (push_common_name rc p1 ''service.example'') lk
      (rc_dn_push_common_name rc (distinguished_name (rc_default rc)) ''Example Issuing CA'') l"
    using signed_by_parses [OF setting service(3) signs(2)] by (auto simp: ca(4))
  have keys: "subject_key l \<noteq> subject_key u" "issuer_key l \<noteq> subject_key u"
    using s(3) unfolding u(2) reads_as_keys [OF l(2)] issued_name_def service(4) names_tell_apart_def by fastforce+
  let ?V = "example_validator env (store_from_iter [u]) (RFC5280Policy_policy (RFC5280Policy_new (env_now env)))"
  have "handled_critical ?V l" by (rule reads_as_handled [OF l(2)]) (simp_all add: rfc5280_handles)
  then have "validate_with_diagnostics ?V l CertificateStore_new =
      Some (Err [], [searching_for_issuer_of_partial_chain [l], could_not_validate_leaf_certificate l])"
    by (rule unknown_issuer_trace) (use keys in \<open>auto simp: find_by_subject_from_iter\<close>)
  moreover have "decimal (Suc 0) = ''1''" "decimal (Suc (Suc 0)) = ''2''" by code_simp+
  ultimately show ?thesis
    by (simp add: l(1) diagnostics_main_def issued example_store_one u(1) Let_def)
qed

text \<open>The chains of the custom-backend example, which have a validity of their own.\<close>

lemma openssl_line_issued:
  assumes "parser_reads_back rc (env_from_der env) rd" "names_tell_apart rc rd" "params_new_documented rc"
      "custom_extensions (rc_default rc) = []"
    and backend: "backend_accepts_signed rc (env_from_der env) rd (OpenSsl ssl (env_library env))"
    and now: "rc_date_time_ymd rc 2020 1 1 \<le> env_now env" "env_now env \<le> rc_date_time_ymd rc 2100 1 1"
    and issued: "chain_signed_with rc fresh algorithm = Some (anchor_der, leaf_der)"
  shows "openssl_line env ssl (text, anchor_der, leaf_der) = Some (pad_right 24 text @ '' verified by OpenSSL'')"
proof -
  obtain p0 p1 ck lk cp lp where new: "rc_params_new rc [] = Some p0" "rc_params_new rc [''service.example''] = Some p1"
    and cp: "cp = (push_common_name rc p0 ''Example Root CA'')
      \<lparr>is_ca := IsCa (Constrained 0), key_usages := [KeyCertSign, KeyCrlSign],
       params_not_before := rc_date_time_ymd rc 2020 1 1, params_not_after := rc_date_time_ymd rc 2100 1 1\<rparr>"
    and lp: "lp = (push_common_name rc p1 ''service.example'')
      \<lparr>params_not_before := rc_date_time_ymd rc 2020 1 1, params_not_after := rc_date_time_ymd rc 2100 1 1\<rparr>"
    and signs: "rc_self_signed rc cp ck = Some anchor_der" "rc_signed_by rc lp lk (cp, ck) = Some leaf_der"
    using issued by (auto simp: chain_signed_with_def bind_eq_Some_conv Let_def)
  have hosts: "list_all (\<lambda>n. IpAddress_parse (ascii n) = None) []"
    "list_all (\<lambda>n. IpAddress_parse (ascii n) = None) [''service.example'']" by (simp_all add: service_names_not_ip)
  note cps = issued_params [OF assms(3,4) new(1) hosts(1)] and lps = issued_params [OF assms(3,4) new(2) hosts(2)]
  have plain: "plain_params rc cp" "plain_params rc lp"
    using cps(3) [of "''Example Root CA''"] lps(3) [of "''service.example''"] by (simp_all add: plain_params_def named_params_def cp lp)
  obtain c l where c: "testkit_cert (env_from_der env) (env_invalid_certificate env) anchor_der = Some c"
    and l: "testkit_cert (env_from_der env) (env_invalid_certificate env) leaf_der = Some l"
    using self_signed_read [OF assms(1) _ signs(1)] signed_by_read [OF assms(1) _ signs(2)] plain unfolding plain_params_def by metis
  note reads = self_signed_reads [OF assms(1) plain(1) signs(1) c] signed_by_reads [OF assms(1) plain(2) signs(2) l, unfolded fst_conv]
  let ?V = "openssl_validator ssl (env_library env) (store_from_iter [c]) (env_now env)"
  have V: "root_certificates ?V = store_from_iter [c]" "crypto ?V = OpenSsl ssl (env_library env)"
    "validator_policy ?V = RFC5280Policy_policy (RFC5280Policy_new (env_now env))" by (simp_all add: openssl_validator_def)
  have "signed_by ?V l c" using signed_by_verifies [OF backend [folded V(2)] signs(2) l] reads(1) by auto
  moreover have "name_raw (read_name rd (distinguished_name lp)) \<noteq> name_raw (read_name rd (distinguished_name cp))"
    by (rule common_names_apart [OF assms(2), of lp _ "''service.example''" cp _ "''Example Root CA''"])
      (simp add: lp lps(4), simp add: cp cps(4), simp)
  moreover have "rfc5280_ok [l, c]" "expiry_ok (env_now env) [l, c]"
    by (rule two_tier_rfc5280 [OF reads]; use now in \<open>simp add: cp lp\<close>)+
  ultimately have "validate ?V l CertificateStore_new = Some (Ok \<lparr>vc_certificates = [l, c]\<rparr>)"
    using rfc5280_accepts(1) [of "[l, c]" "env_now env"]
    by (intro generated_two_tier(1) [OF openssl_rfc5280.validator_contract_axioms V(1) _ _ reads])
      (simp_all add: V(3) rfc5280_handles)
  then show ?thesis
    by (simp add: openssl_line_def example_parse_testkit c l example_store_one openssl_verdict_def)
qed

text \<open>
  The custom-backend example prints what its documentation announces: the three chains verify through
  the plugged-in library, and SHA-1 is refused by the backend itself.
\<close>

theorem openssl_main_prints:
  assumes "parser_reads_back rc (env_from_der env) rd" "names_tell_apart rc rd" "params_new_documented rc"
      "custom_extensions (rc_default rc) = []"
    and "backend_accepts_signed rc (env_from_der env) rd (OpenSsl ssl (env_library env))"
    and "rc_date_time_ymd rc 2020 1 1 \<le> env_now env" "env_now env \<le> rc_date_time_ymd rc 2100 1 1"
    and issued: "signed_chains rc fresh = Some issued"
  shows "openssl_main env ssl rc fresh =
    Some [pad_right 24 ''ECDSA P-256 / SHA-256'' @ '' verified by OpenSSL'',
      pad_right 24 ''ECDSA P-384 / SHA-384'' @ '' verified by OpenSSL'',
      pad_right 24 ''Ed25519'' @ '' verified by OpenSSL'', [],
      ''sha1WithRSA           refused by the backend '' @ em_dash @ '' invalid key encoding: unsupported: '' @
        lib_oid_to_string (env_library env) OID_PKCS1_SHA1WITHRSA]"
proof -
  obtain a1 l1 a2 l2 a3 l3 where chains: "chain_signed_with rc fresh PKCS_ECDSA_P256_SHA256 = Some (a1, l1)"
      "chain_signed_with rc fresh PKCS_ECDSA_P384_SHA384 = Some (a2, l2)" "chain_signed_with rc fresh PKCS_ED25519 = Some (a3, l3)"
    and "issued = [(''ECDSA P-256 / SHA-256'', a1, l1), (''ECDSA P-384 / SHA-384'', a2, l2), (''Ed25519'', a3, l3)]"
    using issued by (auto simp: signed_chains_def split: option.splits)
  moreover note line = openssl_line_issued [OF assms(1-7)]
  ultimately show ?thesis
    by (simp add: openssl_main_def issued line [OF chains(1)] line [OF chains(2)] line [OF chains(3)] openssl_sha1_line_def
        signature_scheme_def oid_defs CryptoError_display_def)
qed

text \<open>The programs, run with the register of what they issue; the machine trusts one root.\<close>

definition registered_ca :: "string \<Rightarrow> sample_params" where
  "registered_ca cn =
     (push_common_name (register_rcgen []) (the (rc_params_new (register_rcgen []) [])) cn)
       \<lparr>is_ca := IsCa (Constrained 0), key_usages := [KeyCertSign, KeyCrlSign]\<rparr>"

definition registered_leaf :: "string \<Rightarrow> string list \<Rightarrow> ExtendedKeyUsagePurpose list \<Rightarrow> sample_params" where
  "registered_leaf cn hosts ekus =
     (push_common_name (register_rcgen []) (the (rc_params_new (register_rcgen []) hosts)) cn)\<lparr>extended_key_usages := ekus\<rparr>"

definition example_register :: "sample_entry list" where
  "example_register =
     [(registered_ca ''Example Corp Internal CA'', 0, None),
      (registered_leaf ''service.internal'' [''service.internal''] [PurposeServerAuth], 1,
        Some (registered_ca ''Example Corp Internal CA'', 0)),
      (registered_ca ''Example Corp Client CA'', 0, None),
      (registered_leaf ''alice@example.com'' [] [PurposeClientAuth], 1, Some (registered_ca ''Example Corp Client CA'', 0)),
      (registered_leaf ''service.internal'' [] [PurposeServerAuth], 2, Some (registered_ca ''Example Corp Client CA'', 0)),
      (registered_ca ''Platform Root'', 9, None),
      (registered_ca ''Example Issuing CA'', 0, None), (registered_ca ''Unrelated Root CA'', 1, None),
      (registered_leaf ''service.example'' [''service.example''] [], 2, Some (registered_ca ''Example Issuing CA'', 0))]"

definition register_env :: example_env where
  "register_env = sample_env\<lparr>env_from_der := register_from_der example_register, env_native_certs := [[5]]\<rparr>"

lemma register_setting: "example_setting register_env (register_rcgen example_register) register_readings"
proof -
  have "params_new_documented (register_rcgen reg)" for reg
    by (auto simp: params_new_documented_def register_rcgen_def)
  moreover have "backend_accepts_signed (register_rcgen reg) (register_from_der reg) register_readings
      (default_provider (env_features register_env) (env_aws_lc_rs register_env) (env_ring register_env)
        (env_rust_crypto register_env) (env_library register_env))" for reg
    using register_scenario_backend [of reg]
    by (simp add: default_provider_def register_env_def sample_env_def scenario_backend_def permissive_crate_def)
  moreover have "single_backend (env_features register_env)" by (simp add: register_env_def sample_env_backend)
  ultimately show ?thesis
    by (simp add: example_setting_def register_names register_default register_env_def register_reads_back)
      (simp add: sample_env_def register_rcgen_def sample_rcgen_def Let_def)
qed

theorem pinned_main_prints_witness:
  "pinned_main register_env (register_rcgen example_register) Some =
     Some [pad_right 24 ''pinned corporate root'' @ '' accepted'',
       pad_right 24 ''platform trust store'' @ '' rejected '' @ em_dash @ '' no chain reached a trusted root'']"
proof (rule pinned_main_prints [OF register_setting])
  show "issue_internal_service (register_rcgen example_register) Some = Some ([0], [1])" by code_simp
  show "native_roots register_env = Some [[5]]" by code_simp
  show "those (map (example_parse register_env) [[5]]) = Some [register_certificate (example_register ! 5)]" by code_simp
  show "\<forall>c \<in> set [register_certificate (example_register ! 5)]. subject_key c \<notin>
      {issued_name (register_rcgen example_register) register_readings ''Example Corp Internal CA'',
       issued_name (register_rcgen example_register) register_readings ''service.internal''}"
    by code_simp
qed

theorem client_main_prints_witness:
  "\<exists>reason. client_main register_env (register_rcgen example_register) Some =
     Some [''clientAuth   accepted '' @ em_dash @ '' caller is CN=alice@example.com'',
       ''serverAuth   rejected '' @ em_dash @ '' '' @ reason]"
proof -
  have "client_credentials (register_rcgen example_register) Some = Some ([2], [(''clientAuth'', [3]), (''serverAuth'', [4])])"
    by code_simp
  from client_main_prints [OF register_setting this] show ?thesis
    by (simp add: register_readings_def register_rcgen_def sample_name_def)
qed

theorem diagnostics_main_prints_witness:
  "diagnostics_main register_env (register_rcgen example_register) Some =
     Some [''2 events:'',
       ''  1. '' @ diagnostic_display sample_library
         (searching_for_issuer_of_partial_chain [register_certificate (example_register ! 8)]),
       ''  2. '' @ diagnostic_display sample_library
         (could_not_validate_leaf_certificate (register_certificate (example_register ! 8))),
       [], ''rejected '' @ em_dash @ '' no chain reached a trusted root, so no policy ran'']"
proof -
  have "diagnostics_certificates (register_rcgen example_register) Some = Some ([7], [8])" by code_simp
  moreover have "example_parse register_env [8] = Some (register_certificate (example_register ! 8))" by code_simp
  moreover have "env_library register_env = sample_library" by (simp add: register_env_def sample_env_def)
  ultimately show ?thesis using diagnostics_main_prints [OF register_setting] by fastforce
qed

end
