(* ===== verification/Chain_Tests.thy ===== *)
theory Chain_Tests
  imports Generated_Chains "HOL-Library.Countable"
begin

text \<open>
  The unit tests the repository keeps beside its chains and its erased policies (\<^verbatim>\<open>unverified_chain.rs\<close>, \<^verbatim>\<open>validated_chain.rs\<close>,
  \<^verbatim>\<open>any_policy.rs\<close>), as functions of the certificate generator and the parser, with the proof that they pass for every generator and
  parser that keep their promises. A test is a computation that panics where an assertion fails; \<open>fresh n\<close> is the n-th
  key pair it draws.
\<close>

definition rust_assert :: "bool \<Rightarrow> unit may_panic" where
  "rust_assert b = (if b then Some () else panic)"

lemma rust_assert_simps [simp]:
  "rust_assert b = Some () \<longleftrightarrow> b" "rust_assert b \<bind> f = (if b then f () else panic)"
  by (simp_all add: rust_assert_def)

definition subject_string :: "certificate \<Rightarrow> string" where
  "subject_string c = name_display (tbs_subject c)"

subsection \<open>unverified\_chain.rs\<close>

definition leaf_intermediate_root ::
  "('dn, 'ext, 'key) rcgen \<Rightarrow> (bytes \<Rightarrow> certificate may_panic) \<Rightarrow> (nat \<Rightarrow> 'key may_panic) \<Rightarrow> certificate list may_panic" where
  "leaf_intermediate_root rc cert fresh = do {
     root \<leftarrow> self_signed_ca_with rc ''Root'' id (fresh 0);
     intermediate \<leftarrow> issue_ca rc ''Intermediate'' root None id (fresh 1);
     leaf \<leftarrow> issue_leaf rc ''leaf.example.com'' [''leaf.example.com''] intermediate (fresh 2);
     leaf \<leftarrow> cert leaf;
     intermediate \<leftarrow> cert (ca_der intermediate);
     root \<leftarrow> cert (ca_der root);
     Some [leaf, intermediate, root] }"

definition leaf_is_the_first_certificate :: "certificate list may_panic \<Rightarrow> unit may_panic" where
  "leaf_is_the_first_certificate certificates = do {
     certs \<leftarrow> certificates;
     chain \<leftarrow> UnverifiedCertificateChain_new certs;
     leaf \<leftarrow> chain_leaf chain;
     rust_assert (subject_string leaf = ''CN=leaf.example.com'') }"

definition indexing_walks_from_leaf_to_root :: "certificate list may_panic \<Rightarrow> unit may_panic" where
  "indexing_walks_from_leaf_to_root certificates = do {
     certs \<leftarrow> certificates;
     chain \<leftarrow> UnverifiedCertificateChain_new certs;
     first \<leftarrow> chain_index chain 0;
     rust_assert (subject_string first = ''CN=leaf.example.com'');
     second \<leftarrow> chain_index chain 1;
     rust_assert (subject_string second = ''CN=Intermediate'');
     third \<leftarrow> chain_index chain 2;
     rust_assert (subject_string third = ''CN=Root'') }"

fun issued_by_successor :: "UnverifiedCertificateChain \<Rightarrow> nat list \<Rightarrow> unit may_panic" where
  "issued_by_successor chain [] = Some ()"
| "issued_by_successor chain (i # indices) = do {
     subject \<leftarrow> chain_index chain i;
     issuer \<leftarrow> chain_index chain (i + 1);
     rust_assert (issuer_key subject = subject_key issuer);
     issued_by_successor chain indices }"

definition each_certificate_is_issued_by_its_successor :: "certificate list may_panic \<Rightarrow> unit may_panic" where
  "each_certificate_is_issued_by_its_successor certificates = do {
     certs \<leftarrow> certificates;
     chain \<leftarrow> UnverifiedCertificateChain_new certs;
     issued_by_successor chain [0..<chain_len chain - 1] }"

definition iter_yields_every_certificate_in_index_order :: "certificate list may_panic \<Rightarrow> unit may_panic" where
  "iter_yields_every_certificate_in_index_order certificates = do {
     certs \<leftarrow> certificates;
     chain \<leftarrow> UnverifiedCertificateChain_new certs;
     let subjects = map subject_string (chain_iter chain);
     rust_assert (subjects = [''CN=leaf.example.com'', ''CN=Intermediate'', ''CN=Root'']);
     rust_assert (length subjects = chain_len chain) }"

definition a_chain_is_never_empty ::
  "('dn, 'ext, 'key) rcgen \<Rightarrow> (bytes \<Rightarrow> certificate may_panic) \<Rightarrow> 'key may_panic \<Rightarrow> unit may_panic" where
  "a_chain_is_never_empty rc cert fresh = do {
     root \<leftarrow> self_signed_ca_with rc ''Root'' id fresh;
     root \<leftarrow> cert (ca_der root);
     chain \<leftarrow> UnverifiedCertificateChain_new [root];
     rust_assert (chain_len chain = 1);
     rust_assert (\<not> chain_is_empty chain);
     leaf \<leftarrow> chain_leaf chain;
     rust_assert (subject_string leaf = ''CN=Root'') }"

text \<open>The two tests that must panic.\<close>

definition constructing_an_empty_chain :: "unit may_panic" where
  "constructing_an_empty_chain = do {
     _ \<leftarrow> UnverifiedCertificateChain_new [];
     Some () }"

definition indexing_past_the_end :: "certificate list may_panic \<Rightarrow> unit may_panic" where
  "indexing_past_the_end certificates = do {
     certs \<leftarrow> certificates;
     chain \<leftarrow> UnverifiedCertificateChain_new certs;
     _ \<leftarrow> chain_index chain 3;
     Some () }"

subsection \<open>validated\_chain.rs\<close>

definition leaf_and_root_are_the_two_ends_of_the_chain :: "certificate list may_panic \<Rightarrow> unit may_panic" where
  "leaf_and_root_are_the_two_ends_of_the_chain certificates = do {
     certs \<leftarrow> certificates;
     chain \<leftarrow> ValidatedCertificateChain_new_unchecked certs;
     leaf \<leftarrow> validated_leaf chain;
     rust_assert (subject_string leaf = ''CN=leaf.example.com'');
     root \<leftarrow> validated_root chain;
     rust_assert (subject_string root = ''CN=Root'') }"

definition root_is_the_self_signed_end_not_the_leaf :: "certificate list may_panic \<Rightarrow> unit may_panic" where
  "root_is_the_self_signed_end_not_the_leaf certificates = do {
     certs \<leftarrow> certificates;
     chain \<leftarrow> ValidatedCertificateChain_new_unchecked certs;
     root \<leftarrow> validated_root chain;
     rust_assert (subject_key root = issuer_key root);
     leaf \<leftarrow> validated_leaf chain;
     rust_assert (subject_key leaf \<noteq> issuer_key leaf) }"

definition iter_yields_the_chain_leaf_first :: "certificate list may_panic \<Rightarrow> unit may_panic" where
  "iter_yields_the_chain_leaf_first certificates = do {
     certs \<leftarrow> certificates;
     chain \<leftarrow> ValidatedCertificateChain_new_unchecked certs;
     let subjects = map subject_string (validated_iter chain);
     rust_assert (subjects = [''CN=leaf.example.com'', ''CN=Intermediate'', ''CN=Root'']) }"

definition a_single_certificate_is_both_leaf_and_root ::
  "('dn, 'ext, 'key) rcgen \<Rightarrow> (bytes \<Rightarrow> certificate may_panic) \<Rightarrow> 'key may_panic \<Rightarrow> unit may_panic" where
  "a_single_certificate_is_both_leaf_and_root rc cert fresh = do {
     root \<leftarrow> self_signed_ca_with rc ''Root'' id fresh;
     root \<leftarrow> cert (ca_der root);
     chain \<leftarrow> ValidatedCertificateChain_new_unchecked [root];
     first \<leftarrow> validated_leaf chain;
     rust_assert (subject_string first = ''CN=Root'');
     end_cert \<leftarrow> validated_root chain;
     rust_assert (subject_string end_cert = ''CN=Root'');
     rust_assert (has_same_identity_as first end_cert) }"

definition new_unchecked_performs_no_validation ::
  "('dn, 'ext, 'key) rcgen \<Rightarrow> (bytes \<Rightarrow> certificate may_panic) \<Rightarrow> (nat \<Rightarrow> 'key may_panic) \<Rightarrow> unit may_panic" where
  "new_unchecked_performs_no_validation rc cert fresh = do {
     a \<leftarrow> self_signed_ca_with rc ''A'' id (fresh 0);
     a \<leftarrow> cert (ca_der a);
     b \<leftarrow> self_signed_ca_with rc ''B'' id (fresh 1);
     b \<leftarrow> cert (ca_der b);
     chain \<leftarrow> ValidatedCertificateChain_new_unchecked [a, b];
     leaf \<leftarrow> validated_leaf chain;
     root \<leftarrow> validated_root chain;
     rust_assert (issuer_key leaf \<noteq> subject_key root) }"

definition constructing_an_empty_validated_chain :: "unit may_panic" where
  "constructing_an_empty_validated_chain = do {
     _ \<leftarrow> ValidatedCertificateChain_new_unchecked [];
     Some () }"

subsection \<open>any\_policy.rs\<close>

record StubPolicy =
  stub_extensions :: "oid list"
  stub_result :: PolicyEvaluationResult

definition StubPolicy_meets :: StubPolicy where
  "StubPolicy_meets = \<lparr>stub_extensions = [], stub_result = Ok ()\<rparr>"

definition StubPolicy_fails :: "string \<Rightarrow> StubPolicy" where
  "StubPolicy_fails reason = \<lparr>stub_extensions = [], stub_result = Err (PolicyFailureReason_new reason)\<rparr>"

definition StubPolicy_verifying :: "oid list \<Rightarrow> StubPolicy" where
  "StubPolicy_verifying extensions = \<lparr>stub_extensions = extensions, stub_result = Ok ()\<rparr>"

definition StubPolicy_policy :: "StubPolicy \<Rightarrow> ValidationPolicy" where
  "StubPolicy_policy self =
     \<lparr>verifying_critical_extensions = stub_extensions self,
      chain_meets_policy_requirements = (\<lambda>_. Some (stub_result self))\<rparr>"

definition erasure_preserves_the_failure_reason_verbatim ::
  "('dn, 'ext, 'key) rcgen \<Rightarrow> (bytes \<Rightarrow> certificate may_panic) \<Rightarrow> 'key may_panic \<Rightarrow> unit may_panic" where
  "erasure_preserves_the_failure_reason_verbatim rc cert fresh = do {
     der \<leftarrow> self_signed_ca rc ''root'' fresh;
     root \<leftarrow> cert der;
     chain \<leftarrow> UnverifiedCertificateChain_new [root];
     let policy = AnyPolicy (StubPolicy_policy (StubPolicy_fails ''leaf is not a server certificate''));
     verdict \<leftarrow> chain_meets_policy_requirements policy chain;
     rust_assert (verdict = Err (PolicyFailureReason_new ''leaf is not a server certificate'')) }"

definition erasure_preserves_the_extension_list_and_its_order :: "unit may_panic" where
  "erasure_preserves_the_extension_list_and_its_order =
     (let extensions = [basic_constraints_oid, key_usage_oid, name_constraints_oid];
          policy = AnyPolicy (StubPolicy_policy (StubPolicy_verifying extensions))
      in rust_assert (verifying_critical_extensions policy = extensions))"

definition erased_policies_of_different_concrete_types_share_one_type ::
  "('dn, 'ext, 'key) rcgen \<Rightarrow> (bytes \<Rightarrow> certificate may_panic) \<Rightarrow> 'key may_panic \<Rightarrow> unit may_panic" where
  "erased_policies_of_different_concrete_types_share_one_type rc cert fresh = do {
     der \<leftarrow> self_signed_ca rc ''root'' fresh;
     root \<leftarrow> cert der;
     chain \<leftarrow> UnverifiedCertificateChain_new [root];
     let policies =
       [AnyPolicy (StubPolicy_policy StubPolicy_meets),
        AnyPolicy (AnyPolicy (StubPolicy_policy (StubPolicy_fails ''no'')))];
     results \<leftarrow> those (map (\<lambda>p. chain_meets_policy_requirements p chain) policies);
     rust_assert (results = [Ok (), Err (PolicyFailureReason_new ''no'')]) }"

subsection \<open>What the tests rely on\<close>

text \<open>
  Beside the conditions of \<open>Generated_Chains\<close>: the generator signs parameters that have a common name, a
  name of one common name is displayed as such, and ASCII text is accepted as an alternative name.
\<close>

definition testkit_setting ::
  "('dn, 'ext, 'key) rcgen \<Rightarrow> (bytes \<Rightarrow> nom_err + bytes \<times> certificate) \<Rightarrow> ('dn, 'key) readings \<Rightarrow> bool" where
  "testkit_setting rc from_der rd \<longleftrightarrow>
     parser_reads_back rc from_der rd \<and> names_tell_apart rc rd \<and>
     (\<forall>params key issuer. named_params rc params \<longrightarrow>
        rc_self_signed rc params key \<noteq> None \<and> rc_signed_by rc params key issuer \<noteq> None) \<and>
     (\<forall>cn. name_display (read_name rd (rc_dn_push_common_name rc (rc_dn_new rc) cn)) = ''CN='' @ cn) \<and>
     (\<forall>s. list_all (\<lambda>b. \<not> digit7 b) s \<longrightarrow> rc_is_ia5 rc s)"

lemma settingD:
  assumes "testkit_setting rc from_der rd"
  shows "parser_reads_back rc from_der rd" "names_tell_apart rc rd"
    and "named_params rc params \<Longrightarrow> \<exists>der. rc_self_signed rc params key = Some der"
    and "named_params rc params \<Longrightarrow> \<exists>der. rc_signed_by rc params key issuer = Some der"
    and "name_display (read_name rd (rc_dn_push_common_name rc (rc_dn_new rc) cn)) = ''CN='' @ cn"
    and "list_all (\<lambda>b. \<not> digit7 b) s \<Longrightarrow> rc_is_ia5 rc s"
  using assms unfolding testkit_setting_def by blast+

lemma base_params_named: "named_params rc (base_params rc cn)" "named_params rc ((base_params rc cn)\<lparr>is_ca := a\<rparr>)"
  "named_params rc ((base_params rc cn)\<lparr>subject_alt_names := sans\<rparr>)"
  by (auto simp: named_params_def base_params_def)

lemma base_params_name [simp]:
  "distinguished_name (base_params rc cn) = rc_dn_push_common_name rc (rc_dn_new rc) cn"
  by (simp add: base_params_def)

text \<open>The name of a certificate of the test kit, as the parser presents it.\<close>

definition kit_name :: "('dn, 'ext, 'key) rcgen \<Rightarrow> ('dn, 'key) readings \<Rightarrow> string \<Rightarrow> x509_name" where
  "kit_name rc rd cn = read_name rd (rc_dn_push_common_name rc (rc_dn_new rc) cn)"

lemma kit_name_apart: "names_tell_apart rc rd \<Longrightarrow> name_raw (kit_name rc rd cn) = name_raw (kit_name rc rd cn') \<longleftrightarrow> cn = cn'"
  unfolding names_tell_apart_def kit_name_def by blast

lemma self_signed_ca_cert:
  assumes "testkit_setting rc from_der rd" "fresh \<noteq> None"
  obtains auth c where "self_signed_ca_with rc cn id fresh = Some auth" "testkit_cert from_der invalid (ca_der auth) = Some c"
    "distinguished_name (ca_params auth) = rc_dn_push_common_name rc (rc_dn_new rc) cn"
    "tbs_subject c = kit_name rc rd cn" "tbs_issuer c = kit_name rc rd cn"
proof -
  let ?p = "(base_params rc cn)\<lparr>is_ca := IsCa Unconstrained\<rparr>"
  obtain key where key: "fresh = Some key" using assms(2) by auto
  obtain der where der: "rc_self_signed rc ?p key = Some der"
    using settingD(3) [OF assms(1) base_params_named(2)] by blast
  obtain c where "testkit_cert from_der invalid der = Some c" "reads_base rd ?p key (distinguished_name ?p) c"
    by (rule self_signed_read [OF settingD(1) [OF assms(1)] base_params_named(2) der])
  then show thesis
    using that [of "\<lparr>ca_der = der, ca_params = ?p, ca_key_pair = key\<rparr>" c]
    by (simp add: self_signed_ca_with_def key der reads_base_def kit_name_def)
qed

lemma issued_cert:
  assumes "testkit_setting rc from_der rd" "named_params rc params"
  obtains der c where "rc_signed_by rc params key (ca_issuer issuer) = Some der" "testkit_cert from_der invalid der = Some c"
    "reads_base rd params key (distinguished_name (ca_params issuer)) c"
proof -
  obtain der where der: "rc_signed_by rc params key (ca_issuer issuer) = Some der"
    using settingD(4) [OF assms] by blast
  show thesis
    by (rule signed_by_read [OF settingD(1) [OF assms(1)] assms(2) der, of invalid]) (simp add: that [OF der] ca_issuer_def)
qed

lemma leaf_intermediate_root_certs:
  assumes set: "testkit_setting rc from_der rd" and fresh: "\<And>n. fresh n \<noteq> None"
  obtains l m r where "leaf_intermediate_root rc (testkit_cert from_der invalid) fresh = Some [l, m, r]"
    "tbs_subject l = kit_name rc rd ''leaf.example.com''" "tbs_issuer l = kit_name rc rd ''Intermediate''"
    "tbs_subject m = kit_name rc rd ''Intermediate''" "tbs_issuer m = kit_name rc rd ''Root''"
    "tbs_subject r = kit_name rc rd ''Root''" "tbs_issuer r = kit_name rc rd ''Root''"
proof -
  obtain root r where root: "self_signed_ca_with rc ''Root'' id (fresh 0) = Some root"
      "testkit_cert from_der invalid (ca_der root) = Some r"
      "distinguished_name (ca_params root) = rc_dn_push_common_name rc (rc_dn_new rc) ''Root''"
      "tbs_subject r = kit_name rc rd ''Root''" "tbs_issuer r = kit_name rc rd ''Root''"
    by (rule self_signed_ca_cert [OF set fresh])
  obtain k1 k2 where k: "fresh 1 = Some k1" "fresh 2 = Some k2" using fresh [of 1] fresh [of 2] by auto
  let ?mp = "(base_params rc ''Intermediate'')\<lparr>is_ca := is_ca_with None\<rparr>"
  obtain md m where mid: "rc_signed_by rc ?mp k1 (ca_issuer root) = Some md" "testkit_cert from_der invalid md = Some m"
      "reads_base rd ?mp k1 (distinguished_name (ca_params root)) m"
    by (rule issued_cert [OF set base_params_named(2)])
  let ?mid = "\<lparr>ca_der = md, ca_params = ?mp, ca_key_pair = k1\<rparr>"
  have issue_mid: "issue_ca rc ''Intermediate'' root None id (fresh (Suc 0)) = Some ?mid" using k mid(1) by (simp add: issue_ca_def)
  let ?lp = "(base_params rc ''leaf.example.com'')\<lparr>subject_alt_names := [SanDnsName ''leaf.example.com'']\<rparr>"
  obtain ld l where leaf: "rc_signed_by rc ?lp k2 (ca_issuer ?mid) = Some ld" "testkit_cert from_der invalid ld = Some l"
      "reads_base rd ?lp k2 (distinguished_name (ca_params ?mid)) l"
    by (rule issued_cert [OF set base_params_named(3)])
  have "rc_is_ia5 rc ''leaf.example.com''" by (rule settingD(6) [OF set]) simp
  then have issue_leaf: "issue_leaf rc ''leaf.example.com'' [''leaf.example.com''] ?mid (fresh 2) = Some ld"
    using k leaf(1) by (simp add: issue_leaf_def issue_leaf_with_def ia5_names_def)
  show thesis
    using that [of l m r] root mid(2,3) leaf(2,3)
    by (simp add: leaf_intermediate_root_def issue_mid issue_leaf reads_base_def kit_name_def)
qed

text \<open>
  The unit tests of the two chain types, as the repository states them, pass for every generator and parser
  that keep their promises, and the tests that must panic do.
\<close>

theorem chain_unit_tests_pass:
  assumes set: "testkit_setting rc from_der rd" and fresh: "\<forall>n. fresh n \<noteq> None"
    and certs: "certs = leaf_intermediate_root rc (testkit_cert from_der invalid) fresh"
  shows "leaf_is_the_first_certificate certs = Some () \<and> indexing_walks_from_leaf_to_root certs = Some () \<and>
    each_certificate_is_issued_by_its_successor certs = Some () \<and>
    iter_yields_every_certificate_in_index_order certs = Some () \<and>
    a_chain_is_never_empty rc (testkit_cert from_der invalid) (fresh 0) = Some () \<and>
    constructing_an_empty_chain = panic \<and> certs \<noteq> panic \<and> indexing_past_the_end certs = panic \<and>
    leaf_and_root_are_the_two_ends_of_the_chain certs = Some () \<and>
    root_is_the_self_signed_end_not_the_leaf certs = Some () \<and> iter_yields_the_chain_leaf_first certs = Some () \<and>
    a_single_certificate_is_both_leaf_and_root rc (testkit_cert from_der invalid) (fresh 0) = Some () \<and>
    new_unchecked_performs_no_validation rc (testkit_cert from_der invalid) fresh = Some () \<and>
    constructing_an_empty_validated_chain = panic"
proof -
  note apart = kit_name_apart [OF settingD(2) [OF set]]
  have shown: "name_display (kit_name rc rd cn) = ''CN='' @ cn" for cn
    using settingD(5) [OF set, of cn] by (simp add: kit_name_def)
  have f: "\<And>n. fresh n \<noteq> None" using fresh by blast
  obtain l m r where c: "certs = Some [l, m, r]"
      "tbs_subject l = kit_name rc rd ''leaf.example.com''" "tbs_issuer l = kit_name rc rd ''Intermediate''"
      "tbs_subject m = kit_name rc rd ''Intermediate''" "tbs_issuer m = kit_name rc rd ''Root''"
      "tbs_subject r = kit_name rc rd ''Root''" "tbs_issuer r = kit_name rc rd ''Root''"
    unfolding certs by (rule leaf_intermediate_root_certs [OF set f])
  obtain auth root where root: "self_signed_ca_with rc ''Root'' id (fresh 0) = Some auth"
      "testkit_cert from_der invalid (ca_der auth) = Some root" "tbs_subject root = kit_name rc rd ''Root''"
    by (rule self_signed_ca_cert [OF set f])
  obtain aa a where a: "self_signed_ca_with rc ''A'' id (fresh 0) = Some aa" "testkit_cert from_der invalid (ca_der aa) = Some a"
      "tbs_issuer a = kit_name rc rd ''A''"
    by (rule self_signed_ca_cert [OF set f])
  obtain bb b where b: "self_signed_ca_with rc ''B'' id (fresh (Suc 0)) = Some bb" "testkit_cert from_der invalid (ca_der bb) = Some b"
      "tbs_subject b = kit_name rc rd ''B''"
    by (rule self_signed_ca_cert [OF set f])
  note accessors = chain_leaf_def chain_index_def chain_len_def chain_iter_def chain_is_empty_def validated_leaf_def
    validated_root_def validated_iter_def subject_string_def subject_key_def issuer_key_def index_at_def slice_last_def
  show ?thesis
    unfolding c(1)
    by (intro conjI; simp add: c(2-) root a b shown apart accessors upt_rec
        leaf_is_the_first_certificate_def indexing_walks_from_leaf_to_root_def each_certificate_is_issued_by_its_successor_def
        iter_yields_every_certificate_in_index_order_def a_chain_is_never_empty_def constructing_an_empty_chain_def
        indexing_past_the_end_def leaf_and_root_are_the_two_ends_of_the_chain_def root_is_the_self_signed_end_not_the_leaf_def
        iter_yields_the_chain_leaf_first_def a_single_certificate_is_both_leaf_and_root_def
        new_unchecked_performs_no_validation_def constructing_an_empty_validated_chain_def
        UnverifiedCertificateChain_new_def ValidatedCertificateChain_new_unchecked_def)
qed

text \<open>
  The unit tests of policy erasure pass, whatever the generator makes of the certificate they are run on.
\<close>

theorem erasure_unit_tests_pass:
  assumes "testkit_setting rc from_der rd" "fresh \<noteq> None"
  shows "erasure_preserves_the_failure_reason_verbatim rc (testkit_cert from_der invalid) fresh = Some () \<and>
    erasure_preserves_the_extension_list_and_its_order = Some () \<and>
    erased_policies_of_different_concrete_types_share_one_type rc (testkit_cert from_der invalid) fresh = Some ()"
proof -
  obtain auth c where "self_signed_ca_with rc ''root'' id fresh = Some auth" "testkit_cert from_der invalid (ca_der auth) = Some c"
    by (rule self_signed_ca_cert [OF assms])
  then show ?thesis
    by (simp add: self_signed_ca_def erasure_preserves_the_failure_reason_verbatim_def
        erasure_preserves_the_extension_list_and_its_order_def erased_policies_of_different_concrete_types_share_one_type_def
        AnyPolicy_def StubPolicy_policy_def StubPolicy_fails_def StubPolicy_verifying_def StubPolicy_meets_def)
qed

subsection \<open>A generator that signs everything\<close>

text \<open>
  The promises can be kept: the DER of a certificate is as long as the number of its parameters, key
  and issuer in an enumeration of all of them, and the parser looks that number up.
\<close>

instance PathLen :: countable
  by countable_datatype

instance IsCa :: countable
  by countable_datatype

instance KeyIdMethod :: countable
  by countable_datatype

instance SanType :: countable
  by countable_datatype

instance ExtendedKeyUsagePurpose :: countable
  by countable_datatype

instance KeyUsagePurpose :: countable
  by countable_datatype

definition params_fields ::
  "sample_params \<Rightarrow> string \<times> int \<times> int \<times> IsCa \<times> bool \<times> KeyIdMethod \<times> SanType list \<times> KeyUsagePurpose list \<times>
     ExtendedKeyUsagePurpose list \<times> (oid \<times> bytes \<times> bool) list" where
  "params_fields p =
     (distinguished_name p, params_not_before p, params_not_after p, Testkit_Certificates.is_ca p,
      use_authority_key_identifier_extension p, key_identifier_method p, subject_alt_names p, key_usages p,
      extended_key_usages p, custom_extensions p)"

definition entry_fields where
  "entry_fields entry =
     (params_fields (fst entry), fst (snd entry), map_option (\<lambda>(p, k). (params_fields p, k :: nat)) (snd (snd entry)))"

lemma inj_params_fields: "inj params_fields"
  by (rule injI) (simp add: params_fields_def)

lemma inj_entry_fields: "inj (entry_fields :: sample_entry \<Rightarrow> _)"
proof (rule injI)
  fix x y :: sample_entry
  assume "entry_fields x = entry_fields y"
  moreover have "map_option (\<lambda>(p, k). (params_fields p, k :: nat)) a = map_option (\<lambda>(p, k). (params_fields p, k)) b \<Longrightarrow> a = b" for a b
    using injD [OF inj_params_fields] by (cases a; cases b) auto
  ultimately show "x = y"
    using injD [OF inj_params_fields] by (auto simp: entry_fields_def prod_eq_iff)
qed

definition entry_der :: "sample_entry \<Rightarrow> bytes" where
  "entry_der entry = replicate (to_nat (entry_fields entry)) 0"

definition der_entry :: "bytes \<Rightarrow> sample_entry" where
  "der_entry der = inv entry_fields (from_nat (length der))"

lemma der_entry_der [simp]: "der_entry (entry_der e) = e"
  by (simp add: der_entry_def entry_der_def inv_f_f [OF inj_entry_fields])

definition total_rcgen :: "(string, oid \<times> bytes \<times> bool, nat) rcgen" where
  "total_rcgen =
     (register_rcgen [])
       \<lparr>rc_self_signed := (\<lambda>params key. Some (entry_der (params, key, None))),
        rc_signed_by := (\<lambda>params key issuer. Some (entry_der (params, key, Some issuer)))\<rparr>"

definition curve_parameters :: asn1_any where
  "curve_parameters =
     \<lparr>any_raw = [], any_as_oid = Some OID_NIST_EC_P384, any_pss_hash_algorithm_oid = None\<rparr>"

definition total_readings :: "(string, nat) readings" where
  "total_readings =
     \<lparr>read_name = sample_name,
      read_key = (\<lambda>key. \<lparr>spki_algorithm = \<lparr>alg_algorithm = [1, 2], alg_parameters = Some curve_parameters\<rparr>,
        spki_subject_public_key = [of_nat key], spki_raw = [0x2a, 0x86, 0x48, 0xce, 0x3d, 0x03, 0x01, 0x07, of_nat key]\<rparr>)\<rparr>"

definition total_certificate :: "sample_entry \<Rightarrow> certificate" where
  "total_certificate entry =
     (let c = register_certificate entry
      in c\<lparr>tbs_subject_pki := read_key total_readings (fst (snd entry)),
           tbs_extensions := tbs_extensions c @ map (\<lambda>(oid, _, critical). flag_extension oid critical) (custom_extensions (fst entry))\<rparr>)"

definition total_from_der :: "bytes \<Rightarrow> nom_err + bytes \<times> certificate" where
  "total_from_der der = Ok ([], total_certificate (der_entry der))"

lemma total_certificate_base:
  "reads_base total_readings params key
     (case issuer of None \<Rightarrow> distinguished_name params | Some (p, _) \<Rightarrow> distinguished_name p)
     (total_certificate (params, key, issuer))"
  using register_certificate_reads [of params key issuer]
  by (simp add: reads_as_defs total_certificate_def total_readings_def register_readings_def Let_def)

lemma total_certificate_extensions:
  "custom_extensions params = [] \<Longrightarrow> reads_extensions params (total_certificate (params, key, issuer))"
  using register_certificate_reads [of params key issuer]
  by (simp add: reads_as_defs reads_purposes_def critical_oids_def total_certificate_def Let_def)

lemma total_setting: "testkit_setting total_rcgen total_from_der total_readings"
proof -
  have "parser_reads_back total_rcgen total_from_der total_readings"
    unfolding parser_reads_back_def
    using total_certificate_base [where issuer = None] total_certificate_base [where issuer = "Some (_, _)"] total_certificate_extensions
    by (auto simp: total_rcgen_def total_from_der_def)
  moreover have "names_tell_apart total_rcgen total_readings"
    by (simp add: names_tell_apart_def total_rcgen_def register_rcgen_def total_readings_def sample_name_def ascii_inject)
  moreover have "rc_is_ia5 total_rcgen s" for s
    by (simp add: total_rcgen_def register_rcgen_def sample_rcgen_def Let_def)
  ultimately show ?thesis
    by (simp add: testkit_setting_def) (simp add: total_rcgen_def register_rcgen_def total_readings_def sample_name_def)
qed

theorem chain_unit_tests_pass_witness:
  "root_is_the_self_signed_end_not_the_leaf
     (leaf_intermediate_root total_rcgen (testkit_cert total_from_der (X509Error [])) Some) = Some ()"
  using chain_unit_tests_pass [OF total_setting _ refl, of Some "X509Error []"] by simp

end
