(* ===== verification/Crypto_Tests.thy ===== *)
theory Crypto_Tests
  imports Chain_Tests
begin

text \<open>
  The unit tests of \<^verbatim>\<open>crypto/mod.rs\<close>, \<^verbatim>\<open>crypto/backend.rs\<close> and the three backends, in the manner of \<open>Chain_Tests\<close>. Key pairs and the
  ASN.1 reader are arguments; what is relied on is stated of the primitives, so that the proofs show
  that each backend sends each kind of signature to the right one.
\<close>

subsection \<open>crypto/mod.rs\<close>

definition algorithm_and_spki ::
  "('dn, 'ext, 'key) rcgen \<Rightarrow> (bytes \<Rightarrow> certificate may_panic) \<Rightarrow> 'key may_panic \<Rightarrow>
   (AlgorithmIdentifier \<times> SubjectPublicKeyInfo) may_panic" where
  "algorithm_and_spki rc cert fresh = do {
     key_pair \<leftarrow> fresh;
     der \<leftarrow> rc_self_signed rc (rc_default rc) key_pair;
     certificate \<leftarrow> cert der;
     Some (cert_signature_algorithm certificate, tbs_subject_pki certificate) }"

definition TaggedVerifier :: "asn1_library \<Rightarrow> signature_verifier" where
  "TaggedVerifier lib = (\<lambda>algorithm _ _ _.
     Some (Err (InvalidKey (lib_oid_to_string lib (alg_algorithm algorithm) @ ''-was-called''))))"

definition FailureVerifier :: signature_verifier where
  "FailureVerifier = (\<lambda>_ _ _ _. Some (Err VerificationFailed))"

definition verify_signature_receives_the_signature_algorithm ::
  "asn1_library \<Rightarrow> (AlgorithmIdentifier \<times> SubjectPublicKeyInfo) may_panic \<Rightarrow> unit may_panic" where
  "verify_signature_receives_the_signature_algorithm lib values = do {
     (algorithm, spki) \<leftarrow> values;
     result \<leftarrow> TaggedVerifier lib algorithm spki (ascii ''message'') (ascii ''signature'');
     case result of
       Inl (InvalidKey msg) \<Rightarrow> rust_assert (msg = lib_oid_to_string lib (alg_algorithm algorithm) @ ''-was-called'')
     | _ \<Rightarrow> panic }"

definition verify_signature_propagates_verification_failure ::
  "(AlgorithmIdentifier \<times> SubjectPublicKeyInfo) may_panic \<Rightarrow> unit may_panic" where
  "verify_signature_propagates_verification_failure values = do {
     (algorithm, spki) \<leftarrow> values;
     result \<leftarrow> FailureVerifier algorithm spki (ascii ''message'') (ascii ''signature'');
     rust_assert (result = Err VerificationFailed) }"

definition absent_parameters_yield_no_digest :: "unit may_panic" where
  "absent_parameters_yield_no_digest = rust_assert (rsa_pss_digest_bits None = None)"

definition undecodable_parameters_yield_no_digest :: "(bytes \<Rightarrow> asn1_any option) \<Rightarrow> unit may_panic" where
  "undecodable_parameters_yield_no_digest any_from_der = do {
     params \<leftarrow> any_from_der [0x05, 0x00];
     rust_assert (rsa_pss_digest_bits (Some params) = None) }"

definition pss_params_der :: "bytes \<Rightarrow> bytes" where
  "pss_params_der oid_der =
     (let algorithm_identifier = [0x30, of_nat (length oid_der)] @ oid_der;
          tagged = [0xa0, of_nat (length algorithm_identifier)] @ algorithm_identifier
      in [0x30, of_nat (length tagged)] @ tagged)"

definition sha2_oid_der :: "byte \<Rightarrow> bytes" where
  "sha2_oid_der last_octet = [0x06, 0x09, 0x60, 0x86, 0x48, 0x01, 0x65, 0x03, 0x04, 0x02, last_octet]"

fun sha2_digest_rows :: "(bytes \<Rightarrow> asn1_any option) \<Rightarrow> (byte \<times> int) list \<Rightarrow> unit may_panic" where
  "sha2_digest_rows any_from_der [] = Some ()"
| "sha2_digest_rows any_from_der ((last_octet, expected) # rows) = do {
     params \<leftarrow> any_from_der (pss_params_der (sha2_oid_der last_octet));
     rust_assert (rsa_pss_digest_bits (Some params) = Some expected);
     sha2_digest_rows any_from_der rows }"

definition sha2_hash_algorithms_yield_their_digest_size :: "(bytes \<Rightarrow> asn1_any option) \<Rightarrow> unit may_panic" where
  "sha2_hash_algorithms_yield_their_digest_size any_from_der =
     sha2_digest_rows any_from_der [(0x01, 256), (0x02, 384), (0x03, 512)]"

definition sha1_oid_der :: bytes where
  "sha1_oid_der = [0x06, 0x05, 0x2b, 0x0e, 0x03, 0x02, 0x1a]"

definition non_sha2_hash_algorithm_yields_no_digest :: "(bytes \<Rightarrow> asn1_any option) \<Rightarrow> unit may_panic" where
  "non_sha2_hash_algorithm_yields_no_digest any_from_der = do {
     params \<leftarrow> any_from_der (pss_params_der sha1_oid_der);
     rust_assert (rsa_pss_digest_bits (Some params) = None) }"

subsection \<open>crypto/backend.rs\<close>

text \<open>Its \<open>pss_params\<close> builds the same bytes, for the last octet of the OID.\<close>

definition pss_params :: "byte \<Rightarrow> bytes" where
  "pss_params last_octet =
     (let oid = [0x06, 0x09, 0x60, 0x86, 0x48, 0x01, 0x65, 0x03, 0x04, 0x02, last_octet];
          algorithm_identifier = concat [[0x30, of_nat (length oid)], oid];
          tagged = concat [[0xa0, of_nat (length algorithm_identifier)], algorithm_identifier]
      in concat [[0x30, of_nat (length tagged)], tagged])"

fun pss_algorithm_rows :: "(bytes \<Rightarrow> asn1_any option) \<Rightarrow> (byte \<times> VerificationAlgorithm) list \<Rightarrow> unit may_panic" where
  "pss_algorithm_rows any_from_der [] = Some ()"
| "pss_algorithm_rows any_from_der ((last_octet, expected) # rows) = do {
     params \<leftarrow> any_from_der (pss_params last_octet);
     rust_assert (rsa_pss_algorithm (Some params) = Some expected);
     pss_algorithm_rows any_from_der rows }"

definition rsa_pss_parameters_select_the_matching_digest :: "(bytes \<Rightarrow> asn1_any option) \<Rightarrow> unit may_panic" where
  "rsa_pss_parameters_select_the_matching_digest any_from_der = do {
     pss_algorithm_rows any_from_der [(0x01, RsaPssSha256), (0x02, RsaPssSha384), (0x03, RsaPssSha512)];
     rust_assert (rsa_pss_algorithm None = None) }"

subsection \<open>The tests the backends share\<close>

definition round_trip_verifies ::
  "signature_verifier \<Rightarrow> ('dn, 'ext, 'key) rcgen \<Rightarrow> (bytes \<Rightarrow> certificate may_panic) \<Rightarrow> 'key may_panic \<Rightarrow> unit may_panic" where
  "round_trip_verifies backend rc cert fresh = do {
     key_pair \<leftarrow> fresh;
     der \<leftarrow> free_self_signed rc key_pair;
     certificate \<leftarrow> cert der;
     result \<leftarrow> backend (cert_signature_algorithm certificate) (tbs_subject_pki certificate) (tbs_raw certificate)
       (cert_signature_value certificate);
     rust_assert (result = Ok ()) }"

definition tampered_message_fails ::
  "signature_verifier \<Rightarrow> ('dn, 'ext, 'key) rcgen \<Rightarrow> (bytes \<Rightarrow> certificate may_panic) \<Rightarrow> 'key may_panic \<Rightarrow> unit may_panic" where
  "tampered_message_fails backend rc cert fresh = do {
     key_pair \<leftarrow> fresh;
     der \<leftarrow> free_self_signed rc key_pair;
     certificate \<leftarrow> cert der;
     result \<leftarrow> backend (cert_signature_algorithm certificate) (tbs_subject_pki certificate) (ascii ''tampered message'')
       (cert_signature_value certificate);
     rust_assert (result = Err VerificationFailed) }"

definition is_invalid_key :: "CryptoError + 'a \<Rightarrow> bool" where
  "is_invalid_key result = (case result of Inl (InvalidKey _) \<Rightarrow> True | _ \<Rightarrow> False)"

definition algorithm_is_rejected ::
  "oid \<Rightarrow> signature_verifier \<Rightarrow> ('dn, 'ext, 'key) rcgen \<Rightarrow> (bytes \<Rightarrow> certificate may_panic) \<Rightarrow> 'key may_panic \<Rightarrow>
   unit may_panic" where
  "algorithm_is_rejected oid backend rc cert fresh = do {
     let algorithm = \<lparr>alg_algorithm = oid, alg_parameters = None\<rparr>;
     key_pair \<leftarrow> fresh;
     der \<leftarrow> free_self_signed rc key_pair;
     certificate \<leftarrow> cert der;
     result \<leftarrow> backend algorithm (tbs_subject_pki certificate) (ascii ''message'') (ascii ''signature'');
     rust_assert (is_invalid_key result) }"

definition OID_SIG_ED448 :: oid where "OID_SIG_ED448 = [1, 3, 101, 113]"

subsection \<open>The backends\<close>

definition aws_lc_tests ::
  "signature_crate \<Rightarrow> asn1_library \<Rightarrow> ('dn, 'ext, 'key) rcgen \<Rightarrow> (bytes \<Rightarrow> certificate may_panic) \<Rightarrow> 'key may_panic \<Rightarrow>
   unit may_panic" where
  "aws_lc_tests krate lib rc cert fresh = do {
     round_trip_verifies (AwsLc krate lib) rc cert fresh;
     tampered_message_fails (AwsLc krate lib) rc cert fresh;
     algorithm_is_rejected OID_SIG_ED448 (AwsLc krate lib) rc cert fresh }"

definition ring_tests ::
  "signature_crate \<Rightarrow> asn1_library \<Rightarrow> ('dn, 'ext, 'key) rcgen \<Rightarrow> (bytes \<Rightarrow> certificate may_panic) \<Rightarrow> 'key may_panic \<Rightarrow>
   unit may_panic" where
  "ring_tests krate lib rc cert fresh = do {
     round_trip_verifies (Ring krate lib) rc cert fresh;
     tampered_message_fails (Ring krate lib) rc cert fresh;
     algorithm_is_rejected OID_SIG_ED448 (Ring krate lib) rc cert fresh;
     algorithm_is_rejected OID_SIG_ECDSA_WITH_SHA512 (Ring krate lib) rc cert fresh }"

definition rust_crypto_tests ::
  "rust_crypto_crates \<Rightarrow> asn1_library \<Rightarrow> ('dn, 'ext, 'key) rcgen \<Rightarrow> (bytes \<Rightarrow> certificate may_panic) \<Rightarrow> 'key may_panic \<Rightarrow>
   unit may_panic" where
  "rust_crypto_tests rcr lib rc cert fresh = do {
     round_trip_verifies (RustCrypto rcr lib) rc cert fresh;
     tampered_message_fails (RustCrypto rcr lib) rc cert fresh;
     algorithm_is_rejected OID_SIG_ED448 (RustCrypto rcr lib) rc cert fresh;
     algorithm_is_rejected OID_SIG_ECDSA_WITH_SHA512 (RustCrypto rcr lib) rc cert fresh }"

text \<open>The algorithms a key pair is made for, with the PKCS#8 encoding of one RSA key of 2048 bits.\<close>

datatype TestAlgorithm =
  PKCS_RSA_SHA256 | PKCS_RSA_SHA384 | PKCS_RSA_SHA512 | TEST_ECDSA_P384_SHA384 | TEST_ED25519

definition assert_round_trip ::
  "rust_crypto_crates \<Rightarrow> asn1_library \<Rightarrow> ('dn, 'ext, 'key) rcgen \<Rightarrow> (bytes \<Rightarrow> certificate may_panic) \<Rightarrow>
   (TestAlgorithm \<Rightarrow> 'key may_panic) \<Rightarrow> TestAlgorithm \<Rightarrow> unit may_panic" where
  "assert_round_trip rcr lib rc cert generate_for algorithm =
     round_trip_verifies (RustCrypto rcr lib) rc cert (generate_for algorithm)"

definition test_rsa_key_pair ::
  "bytes may_panic \<Rightarrow> (bytes \<Rightarrow> TestAlgorithm \<Rightarrow> 'key may_panic) \<Rightarrow> TestAlgorithm \<Rightarrow> 'key may_panic" where
  "test_rsa_key_pair pkcs8_der from_pkcs8_der_and_sign_algo algorithm = do {
     der \<leftarrow> pkcs8_der;
     from_pkcs8_der_and_sign_algo der algorithm }"

definition rust_crypto_round_trips ::
  "rust_crypto_crates \<Rightarrow> asn1_library \<Rightarrow> ('dn, 'ext, 'key) rcgen \<Rightarrow> (bytes \<Rightarrow> certificate may_panic) \<Rightarrow>
   (TestAlgorithm \<Rightarrow> 'key may_panic) \<Rightarrow> bytes may_panic \<Rightarrow> (bytes \<Rightarrow> TestAlgorithm \<Rightarrow> 'key may_panic) \<Rightarrow> unit may_panic" where
  "rust_crypto_round_trips rcr lib rc cert generate_for pkcs8_der from_pkcs8 = do {
     assert_round_trip rcr lib rc cert (test_rsa_key_pair pkcs8_der from_pkcs8) PKCS_RSA_SHA256;
     assert_round_trip rcr lib rc cert (test_rsa_key_pair pkcs8_der from_pkcs8) PKCS_RSA_SHA384;
     assert_round_trip rcr lib rc cert (test_rsa_key_pair pkcs8_der from_pkcs8) PKCS_RSA_SHA512;
     assert_round_trip rcr lib rc cert generate_for TEST_ECDSA_P384_SHA384;
     assert_round_trip rcr lib rc cert generate_for TEST_ED25519 }"

definition rsa_keys_outside_the_supported_size_range_are_refused ::
  "rust_crypto_crates \<Rightarrow> (nat \<Rightarrow> bytes may_panic) \<Rightarrow> unit may_panic" where
  "rsa_keys_outside_the_supported_size_range_are_refused rcr rsa_spki_of_size = do {
     small \<leftarrow> rsa_spki_of_size 512;
     rust_assert (is_invalid_key (rsa_public_key rcr small));
     legacy \<leftarrow> rsa_spki_of_size 1024;
     rust_assert (is_invalid_key (rsa_public_key rcr legacy));
     smallest \<leftarrow> rsa_spki_of_size 2048;
     rust_assert (\<not> isl (rsa_public_key rcr smallest)) }"

subsection \<open>What is relied on\<close>

text \<open>
  The reader of PSS parameters: the parameters of the tests decode to the hash algorithm they name, and
  a NULL is not such parameters.
\<close>

definition reads_pss :: "(bytes \<Rightarrow> asn1_any option) \<Rightarrow> bool" where
  "reads_pss any_from_der \<longleftrightarrow>
     map_option any_pss_hash_algorithm_oid (any_from_der [0x05, 0x00]) = Some None \<and>
     (\<forall>(oid_der, oid) \<in> {(sha2_oid_der 1, OID_NIST_HASH_SHA256), (sha2_oid_der 2, OID_NIST_HASH_SHA384),
         (sha2_oid_der 3, OID_NIST_HASH_SHA512), (sha1_oid_der, [1, 3, 14, 3, 2, 26])}.
        map_option any_pss_hash_algorithm_oid (any_from_der (pss_params_der oid_der)) = Some (Some oid))"

text \<open>
  The certificate the generator signs with a key states the signature algorithm of that key, and the key itself.
\<close>

definition self_signs_with ::
  "('dn, 'ext, 'key) rcgen \<Rightarrow> (bytes \<Rightarrow> nom_err + bytes \<times> certificate) \<Rightarrow> 'key \<Rightarrow> VerificationAlgorithm \<Rightarrow> certificate \<Rightarrow> bool" where
  "self_signs_with rc from_der key v c \<longleftrightarrow>
     (\<exists>der rest. rc_self_signed rc (rc_default rc) key = Some der \<and> from_der der = Ok (rest, c)) \<and>
     selected_by v (cert_signature_algorithm c) (tbs_subject_pki c)"

subsection \<open>The tests pass\<close>

text \<open>The unit tests of the provider interface and of the reading of PSS parameters pass.\<close>

theorem digest_unit_tests_pass:
  assumes reader: "reads_pss any_from_der"
    and certificate: "fresh = Some key" "rc_self_signed rc (rc_default rc) key = Some der" "cert der = Some c"
  shows "verify_signature_receives_the_signature_algorithm lib (algorithm_and_spki rc cert fresh) = Some () \<and>
    verify_signature_propagates_verification_failure (algorithm_and_spki rc cert fresh) = Some () \<and>
    absent_parameters_yield_no_digest = Some () \<and> undecodable_parameters_yield_no_digest any_from_der = Some () \<and>
    sha2_hash_algorithms_yield_their_digest_size any_from_der = Some () \<and>
    non_sha2_hash_algorithm_yields_no_digest any_from_der = Some () \<and>
    rsa_pss_parameters_select_the_matching_digest any_from_der = Some ()"
proof -
  obtain n where n: "any_from_der [0x05, 0x00] = Some n" "any_pss_hash_algorithm_oid n = None"
    using reader by (auto simp: reads_pss_def)
  obtain a b c' d where named: "any_from_der (pss_params_der (sha2_oid_der 1)) = Some a"
      "any_pss_hash_algorithm_oid a = Some OID_NIST_HASH_SHA256"
      "any_from_der (pss_params_der (sha2_oid_der 2)) = Some b" "any_pss_hash_algorithm_oid b = Some OID_NIST_HASH_SHA384"
      "any_from_der (pss_params_der (sha2_oid_der 3)) = Some c'" "any_pss_hash_algorithm_oid c' = Some OID_NIST_HASH_SHA512"
      "any_from_der (pss_params_der sha1_oid_der) = Some d" "any_pss_hash_algorithm_oid d = Some [1, 3, 14, 3, 2, 26]"
    using reader by (auto simp: reads_pss_def)
  have same: "pss_params b = pss_params_der (sha2_oid_der b)" for b
    by (simp add: pss_params_def pss_params_der_def sha2_oid_der_def Let_def)
  have bits: "rsa_pss_digest_bits None = None" "rsa_pss_digest_bits (Some n) = None" "rsa_pss_digest_bits (Some a) = Some 256"
      "rsa_pss_digest_bits (Some b) = Some 384" "rsa_pss_digest_bits (Some c') = Some 512" "rsa_pss_digest_bits (Some d) = None"
    using n named by (simp_all add: rsa_pss_digest_bits_def oid_defs)
  show ?thesis
    by (simp add: verify_signature_receives_the_signature_algorithm_def verify_signature_propagates_verification_failure_def
        algorithm_and_spki_def certificate TaggedVerifier_def FailureVerifier_def absent_parameters_yield_no_digest_def
        undecodable_parameters_yield_no_digest_def sha2_hash_algorithms_yield_their_digest_size_def
        non_sha2_hash_algorithm_yields_no_digest_def rsa_pss_parameters_select_the_matching_digest_def same
        n(1) named(1,3,5,7) bits rsa_pss_algorithm_def)
qed

lemma selected_algorithm: "selected_by v a k \<Longrightarrow> verification_algorithm a k = Some v"
  by (cases v) (auto simp: verification_algorithm_def Let_def rsa_pss_algorithm_iff ecdsa_algorithm_iff names_pss_hash_def oid_defs)

lemma unknown_algorithm:
  "verification_algorithm \<lparr>alg_algorithm = OID_SIG_ED448, alg_parameters = None\<rparr> k = None"
  by (simp add: verification_algorithm_def oid_defs OID_SIG_ED448_def)

lemma ecdsa_sha512_algorithm:
  "verification_algorithm \<lparr>alg_algorithm = OID_SIG_ECDSA_WITH_SHA512, alg_parameters = None\<rparr> k = Some v \<Longrightarrow> ecdsa_sha512 v"
  by (auto simp: verification_algorithm_def oid_defs ecdsa_algorithm_def ecdsa_sha512_def split: Option.bind_splits if_splits)

lemma self_signed_test_certificate:
  assumes "self_signs_with rc from_der key v c"
  shows "\<exists>der. free_self_signed rc key = Some der \<and> testkit_cert from_der invalid der = Some c"
    and "verification_algorithm (cert_signature_algorithm c) (tbs_subject_pki c) = Some v"
  using assms selected_algorithm
  by (auto simp: self_signs_with_def free_self_signed_def testkit_cert_def parse_def)

text \<open>The shared tests, for a backend that keeps the contract of \<open>crypto_backend\<close>.\<close>

context crypto_backend
begin

lemma round_trip_passes:
  assumes "self_signs_with rc from_der key v c" "supports v"
    "check v (tbs_subject_pki c) (tbs_raw c) (cert_signature_value c)"
  shows "round_trip_verifies verify rc (testkit_cert from_der invalid) (Some key) = Some ()"
proof -
  have "verify (cert_signature_algorithm c) (tbs_subject_pki c) (tbs_raw c) (cert_signature_value c) = Some (Ok ())"
    using verify_Ok_iff self_signed_test_certificate(2) [OF assms(1)] assms(2,3) by blast
  then show ?thesis
    using self_signed_test_certificate(1) [OF assms(1), of invalid] by (auto simp: round_trip_verifies_def)
qed

lemma unselected_rejected:
  assumes "self_signs_with rc from_der key v c" "\<And>a. is_invalid_key (Inl (describe a) :: CryptoError + unit)"
    and "\<And>k w. verification_algorithm \<lparr>alg_algorithm = oid, alg_parameters = None\<rparr> k = Some w \<Longrightarrow> \<not> supports w"
  shows "algorithm_is_rejected oid verify rc (testkit_cert from_der invalid) (Some key) = Some ()"
proof -
  let ?a = "\<lparr>alg_algorithm = oid, alg_parameters = None\<rparr>"
  have "verify ?a k m s = Some (Err (describe ?a))" for k m s
    using unselected [of ?a k] unsupported [of ?a k] assms(3) by (cases "verification_algorithm ?a k") auto
  then show ?thesis
    using self_signed_test_certificate(1) [OF assms(1), of invalid] assms(2) by (auto simp: algorithm_is_rejected_def)
qed

end

lemma unsupported_is_invalid_key [simp]: "is_invalid_key (Inl (unsupported_algorithm lib a) :: CryptoError + unit)"
  by (simp add: is_invalid_key_def unsupported_algorithm_def)

lemma ring_shaped_tampered:
  assumes "self_signs_with rc from_der key EcdsaP256Sha256 c"
    and "\<not> unparsed_public_key_verify krate ECDSA_P256_SHA256_ASN1 (spki_subject_public_key (tbs_subject_pki c))
      (ascii ''tampered message'') (cert_signature_value c)"
  shows "tampered_message_fails (AwsLc krate lib) rc (testkit_cert from_der invalid) (Some key) = Some ()"
    and "tampered_message_fails (Ring krate lib) rc (testkit_cert from_der invalid) (Some key) = Some ()"
  using self_signed_test_certificate(1) [OF assms(1), of invalid] self_signed_test_certificate(2) [OF assms(1)] assms(2)
  by (auto simp: tampered_message_fails_def AwsLc_def Ring_def backend_verify_signature_def aws_lc_algorithm ring_algorithm
      ecdsa_sha512_def)

lemma rust_crypto_tampered:
  assumes "self_signs_with rc from_der key EcdsaP256Sha256 c"
    and "p256_from_sec1_bytes rcr (spki_subject_public_key (tbs_subject_pki c)) = Inr vk"
    and "p256_signature_from_der rcr (cert_signature_value c) = Some sig" "\<not> p256_verify rcr vk (ascii ''tampered message'') sig"
  shows "tampered_message_fails (RustCrypto rcr lib) rc (testkit_cert from_der invalid) (Some key) = Some ()"
  using self_signed_test_certificate(1) [OF assms(1), of invalid] self_signed_test_certificate(2) [OF assms(1)] assms(2-)
  by (auto simp: tampered_message_fails_def RustCrypto_def verify_ecdsa_p256_sha256_def)

text \<open>
  The unit tests of the three backends pass, for every generator and every crate whose P-256 primitive accepts the
  certificate a key signed for itself and refuses the test's other message: each backend sends the certificate to that
  primitive, reports the failed check as such, and refuses Ed448, and all but aws-lc ECDSA with
  SHA-512, as an unusable key before any primitive is asked.
\<close>

theorem backend_unit_tests_pass:
  assumes p256: "self_signs_with rc from_der key EcdsaP256Sha256 c"
    and krate: "unparsed_public_key_verify krate ECDSA_P256_SHA256_ASN1 (spki_subject_public_key (tbs_subject_pki c))
        (tbs_raw c) (cert_signature_value c)"
      "\<not> unparsed_public_key_verify krate ECDSA_P256_SHA256_ASN1 (spki_subject_public_key (tbs_subject_pki c))
        (ascii ''tampered message'') (cert_signature_value c)"
    and rcr: "p256_from_sec1_bytes rcr (spki_subject_public_key (tbs_subject_pki c)) = Inr vk"
      "p256_signature_from_der rcr (cert_signature_value c) = Some sig"
      "p256_verify rcr vk (tbs_raw c) sig" "\<not> p256_verify rcr vk (ascii ''tampered message'') sig"
  shows "aws_lc_tests krate lib rc (testkit_cert from_der invalid) (Some key) = Some () \<and>
    ring_tests krate lib rc (testkit_cert from_der invalid) (Some key) = Some () \<and>
    rust_crypto_tests rcr lib rc (testkit_cert from_der invalid) (Some key) = Some ()"
proof -
  note not_ed448 = unknown_algorithm and not_sha512 = ecdsa_sha512_algorithm
  have "rust_crypto_check rcr EcdsaP256Sha256 (tbs_subject_pki c) (tbs_raw c) (cert_signature_value c)"
    using rcr(1-3) by (auto simp: key_check_def)
  then have "round_trip_verifies (RustCrypto rcr lib) rc (testkit_cert from_der invalid) (Some key) = Some ()"
    by (intro rust_crypto_backend.round_trip_passes [OF p256]) (simp_all add: ecdsa_sha512_def del: rust_crypto_check.simps)
  moreover have "round_trip_verifies (AwsLc krate lib) rc (testkit_cert from_der invalid) (Some key) = Some ()"
    by (rule aws_lc_backend.round_trip_passes [OF p256]) (simp_all add: krate(1))
  moreover have "round_trip_verifies (Ring krate lib) rc (testkit_cert from_der invalid) (Some key) = Some ()"
    by (rule ring_backend.round_trip_passes [OF p256]) (simp_all add: krate(1) ecdsa_sha512_def)
  moreover have "algorithm_is_rejected OID_SIG_ED448 (AwsLc krate lib) rc (testkit_cert from_der invalid) (Some key) = Some ()"
      "algorithm_is_rejected OID_SIG_ED448 (Ring krate lib) rc (testkit_cert from_der invalid) (Some key) = Some ()"
      "algorithm_is_rejected OID_SIG_ED448 (RustCrypto rcr lib) rc (testkit_cert from_der invalid) (Some key) = Some ()"
    by (rule aws_lc_backend.unselected_rejected [OF p256] ring_backend.unselected_rejected [OF p256]
        rust_crypto_backend.unselected_rejected [OF p256]; simp add: not_ed448)+
  moreover have "algorithm_is_rejected OID_SIG_ECDSA_WITH_SHA512 (Ring krate lib) rc (testkit_cert from_der invalid) (Some key) = Some ()"
      "algorithm_is_rejected OID_SIG_ECDSA_WITH_SHA512 (RustCrypto rcr lib) rc (testkit_cert from_der invalid) (Some key) = Some ()"
    by (rule ring_backend.unselected_rejected [OF p256] rust_crypto_backend.unselected_rejected [OF p256];
        simp add: not_sha512)+
  ultimately show ?thesis
    using ring_shaped_tampered [OF p256 krate(2)] rust_crypto_tampered [OF p256 rcr(1,2,4)]
    by (simp add: aws_lc_tests_def ring_tests_def rust_crypto_tests_def)
qed

text \<open>
  The further round trips of the RustCrypto backend pass when its primitives accept what was signed, and a key
  is refused for its size exactly below the smallest supported one.
\<close>

fun test_algorithm :: "TestAlgorithm \<Rightarrow> VerificationAlgorithm" where
  "test_algorithm PKCS_RSA_SHA256 = RsaPkcs1Sha256"
| "test_algorithm PKCS_RSA_SHA384 = RsaPkcs1Sha384"
| "test_algorithm PKCS_RSA_SHA512 = RsaPkcs1Sha512"
| "test_algorithm TEST_ECDSA_P384_SHA384 = EcdsaP384Sha384"
| "test_algorithm TEST_ED25519 = Ed25519"

theorem rust_crypto_unit_tests_pass:
  assumes keys: "pkcs8_der = Some pkcs8" "\<And>alg. from_pkcs8 pkcs8 alg = Some (k alg)" "\<And>alg. generate_for alg = Some (k alg)"
    and certs: "\<And>alg. self_signs_with rc from_der (k alg) (test_algorithm alg) (c alg)"
    and accepted: "\<And>alg. rust_crypto_check rcr (test_algorithm alg) (tbs_subject_pki (c alg)) (tbs_raw (c alg))
      (cert_signature_value (c alg))"
    and sizes: "\<And>bits. bits \<in> {512, 1024, 2048} \<Longrightarrow> \<exists>der rsa. spki_of_size bits = Some der \<and>
      rsa_from_public_key_der rcr der = Inr rsa \<and> 8 * rsa_size rsa = bits"
  shows "rust_crypto_round_trips rcr lib rc (testkit_cert from_der invalid) generate_for pkcs8_der from_pkcs8 = Some () \<and>
    rsa_keys_outside_the_supported_size_range_are_refused rcr spki_of_size = Some ()"
proof
  have "round_trip_verifies (RustCrypto rcr lib) rc (testkit_cert from_der invalid) (Some (k alg)) = Some ()" for alg
    by (rule rust_crypto_backend.round_trip_passes [OF certs _ accepted]) (cases alg; simp add: ecdsa_sha512_def)
  then show "rust_crypto_round_trips rcr lib rc (testkit_cert from_der invalid) generate_for pkcs8_der from_pkcs8 = Some ()"
    by (simp add: rust_crypto_round_trips_def assert_round_trip_def test_rsa_key_pair_def keys)
  show "rsa_keys_outside_the_supported_size_range_are_refused rcr spki_of_size = Some ()"
    using sizes [of 512] sizes [of 1024] sizes [of 2048]
    by (auto simp: rsa_keys_outside_the_supported_size_range_are_refused_def rsa_public_key_def is_invalid_key_def Let_def
        MIN_RSA_MODULUS_BYTES_def MAX_RSA_MODULUS_BYTES_def)
qed

text \<open>A certificate with a P-256 key, and crates that refuse the tampered message.\<close>

definition p256_test_certificate :: certificate where
  "p256_test_certificate =
     (sample_certificate ''self'' ''self'')
       \<lparr>cert_signature_algorithm := \<lparr>alg_algorithm = OID_SIG_ECDSA_WITH_SHA256, alg_parameters = None\<rparr>,
        tbs_subject_pki := \<lparr>spki_algorithm = \<lparr>alg_algorithm = [1, 2, 840, 10045, 2, 1], alg_parameters =
            Some \<lparr>any_raw = [], any_as_oid = Some OID_EC_P256, any_pss_hash_algorithm_oid = None\<rparr>\<rparr>,
          spki_subject_public_key = [4], spki_raw = [4]\<rparr>\<rparr>"

definition test_krate :: signature_crate where
  "test_krate = \<lparr>unparsed_public_key_verify = (\<lambda>alg _ m _. alg = ECDSA_P256_SHA256_ASN1 \<and> m = ascii ''self'')\<rparr>"

definition test_rust_crypto :: rust_crypto_crates where
  "test_rust_crypto = permissive_rsa\<lparr>p256_verify := (\<lambda>_ m _. m = ascii ''self'')\<rparr>"

theorem backend_unit_tests_pass_witness:
  "aws_lc_tests test_krate sample_library sample_rcgen
     (testkit_cert (\<lambda>_. Ok ([], p256_test_certificate)) (X509Error [])) (Some 0) = Some () \<and>
   rust_crypto_tests test_rust_crypto sample_library sample_rcgen
     (testkit_cert (\<lambda>_. Ok ([], p256_test_certificate)) (X509Error [])) (Some 0) = Some ()"
proof -
  note parts = p256_test_certificate_def sample_certificate_def
  have signs: "self_signs_with sample_rcgen (\<lambda>_. Ok ([], p256_test_certificate)) 0 EcdsaP256Sha256 p256_test_certificate"
    by (simp add: self_signs_with_def sample_rcgen_def Let_def names_curve_def parts oid_defs)
  have apart: "ascii ''tampered message'' \<noteq> ascii ''self''" by (simp add: ascii_inject)
  have krate: "unparsed_public_key_verify test_krate ECDSA_P256_SHA256_ASN1
        (spki_subject_public_key (tbs_subject_pki p256_test_certificate)) (tbs_raw p256_test_certificate)
        (cert_signature_value p256_test_certificate)"
      "\<not> unparsed_public_key_verify test_krate ECDSA_P256_SHA256_ASN1
        (spki_subject_public_key (tbs_subject_pki p256_test_certificate)) (ascii ''tampered message'')
        (cert_signature_value p256_test_certificate)"
    using apart by (simp_all add: test_krate_def parts)
  have rcr: "p256_from_sec1_bytes test_rust_crypto (spki_subject_public_key (tbs_subject_pki p256_test_certificate)) = Inr [4]"
      "p256_signature_from_der test_rust_crypto (cert_signature_value p256_test_certificate) = Some (ascii ''self'')"
      "p256_verify test_rust_crypto [4] (tbs_raw p256_test_certificate) (ascii ''self'')"
      "\<not> p256_verify test_rust_crypto [4] (ascii ''tampered message'') (ascii ''self'')"
    using apart by (simp_all add: test_rust_crypto_def permissive_rsa_def parts)
  show ?thesis
    using backend_unit_tests_pass [OF signs krate rcr, of sample_library "X509Error []"] by blast
qed

end
