(* ===== verification/Testkit_Tests.thy ===== *)
theory Testkit_Tests
  imports Chain_Tests
begin

text \<open>
  The unit tests of the test kit itself (\<^verbatim>\<open>ca.rs\<close>, \<^verbatim>\<open>leaf.rs\<close>, \<^verbatim>\<open>bench_fixtures.rs\<close>), in the manner of \<open>Chain_Tests\<close>. That the
  fixtures are built only once (\<open>core::ptr::eq\<close>) is a property of \<open>OnceLock\<close> and is left out.
\<close>

subsection \<open>ca.rs and leaf.rs\<close>

definition ca_spec_honours_key_algorithm_and_validity ::
  "('dn, 'ext, 'key) rcgen \<Rightarrow> (bytes \<Rightarrow> certificate may_panic) \<Rightarrow> (KeyAlg \<Rightarrow> 'key may_panic) \<Rightarrow> unit may_panic" where
  "ca_spec_honours_key_algorithm_and_validity rc cert fresh = do {
     let not_before = days 1;
     let not_after = days 365;
     key_pair \<leftarrow> fresh P384;
     ca \<leftarrow> CaSpec_self_signed rc
       (ca_with_validity (ca_with_key_pair (CaSpec_new ''spec root'') key_pair) not_before not_after) panic;
     parsed \<leftarrow> cert (ca_der ca);
     rust_assert (tbs_not_before parsed = not_before);
     rust_assert (tbs_not_after parsed = not_after);
     parameters \<leftarrow> alg_parameters (spki_algorithm (tbs_subject_pki parsed));
     curve \<leftarrow> any_as_oid parameters;
     rust_assert (curve = OID_NIST_EC_P384) }"

definition ca_spec_signed_by_chains_to_issuer ::
  "('dn, 'ext, 'key) rcgen \<Rightarrow> (bytes \<Rightarrow> certificate may_panic) \<Rightarrow> (nat \<Rightarrow> 'key may_panic) \<Rightarrow> unit may_panic" where
  "ca_spec_signed_by_chains_to_issuer rc cert fresh = do {
     root \<leftarrow> CaSpec_self_signed rc (CaSpec_new ''spec issuer'') (fresh 0);
     intermediate \<leftarrow> CaSpec_signed_by rc (ca_with_path_len (CaSpec_new ''spec intermediate'') (Some 1)) root (fresh 1);
     parsed \<leftarrow> cert (ca_der intermediate);
     parsed_root \<leftarrow> cert (ca_der root);
     rust_assert (name_raw (tbs_issuer parsed) = name_raw (tbs_subject parsed_root)) }"

definition leaf_spec_honours_validity_and_sans ::
  "('dn, 'ext, 'key) rcgen \<Rightarrow> (bytes \<Rightarrow> certificate may_panic) \<Rightarrow> (nat \<Rightarrow> 'key may_panic) \<Rightarrow> unit may_panic" where
  "leaf_spec_honours_validity_and_sans rc cert fresh = do {
     root \<leftarrow> CaSpec_self_signed rc (CaSpec_new ''leaf spec root'') (fresh 0);
     let not_before = days 2;
     let not_after = days 200;
     der \<leftarrow> LeafSpec_signed_by rc
       (leaf_with_validity (leaf_with_dns_sans (LeafSpec_new ''localhost'') [''localhost'']) not_before not_after)
       root (fresh 1);
     parsed \<leftarrow> cert der;
     rust_assert (tbs_not_before parsed = not_before);
     rust_assert (tbs_not_after parsed = not_after) }"

text \<open>\<open>to_id_string\<close> is the ASN.1 library's.\<close>

definition leaf_spec_carries_critical_extension ::
  "asn1_library \<Rightarrow> ('dn, 'ext, 'key) rcgen \<Rightarrow> (bytes \<Rightarrow> certificate may_panic) \<Rightarrow> (nat \<Rightarrow> 'key may_panic) \<Rightarrow>
   unit may_panic" where
  "leaf_spec_carries_critical_extension lib rc cert fresh = do {
     root \<leftarrow> CaSpec_self_signed rc (CaSpec_new ''ext spec root'') (fresh 0);
     der \<leftarrow> LeafSpec_signed_by rc
       (leaf_with_critical_extension (LeafSpec_new ''weird'') [1, 2, 3, 4, 5] [1, 2, 3, 4, 5]) root (fresh 1);
     parsed \<leftarrow> cert der;
     rust_assert (list_ex (\<lambda>e. ext_critical e \<and> lib_to_id_string lib (ext_oid e) = ''1.2.3.4.5'') (tbs_extensions parsed)) }"

subsection \<open>bench\_fixtures.rs\<close>

definition parity_set_chains_correctly :: "Parity may_panic \<Rightarrow> unit may_panic" where
  "parity_set_chains_correctly parity = do {
     a \<leftarrow> parity;
     rust_assert (name_raw (tbs_issuer (parity_localhost_leaf a)) = name_raw (tbs_subject (parity_intermediate1 a)));
     rust_assert (name_raw (tbs_issuer (parity_intermediate1 a)) = name_raw (tbs_subject (parity_ca1 a))) }"

text \<open>\<open>slice::windows\<close>.\<close>

definition windows :: "nat \<Rightarrow> 'a list \<Rightarrow> 'a list list" where
  "windows n xs = map (\<lambda>i. take n (drop i xs)) [0..<Suc (length xs) - n]"

definition PRIME256V1_OID_DER :: bytes where
  "PRIME256V1_OID_DER = [0x2a, 0x86, 0x48, 0xce, 0x3d, 0x03, 0x01, 0x07]"

definition p256_chain_links_up_and_is_entirely_p256 :: "CurveChain may_panic \<Rightarrow> unit may_panic" where
  "p256_chain_links_up_and_is_entirely_p256 p256_chain = do {
     c \<leftarrow> p256_chain;
     rust_assert (name_raw (tbs_issuer (curve_leaf c)) = name_raw (tbs_subject (curve_intermediate c)));
     rust_assert (name_raw (tbs_issuer (curve_intermediate c)) = name_raw (tbs_subject (curve_root c)));
     rust_assert (list_all (\<lambda>cert. list_ex (\<lambda>w. w = PRIME256V1_OID_DER)
         (windows (length PRIME256V1_OID_DER) (spki_raw (tbs_subject_pki cert))))
       [curve_root c, curve_intermediate c, curve_leaf c]) }"

definition reference_time_falls_inside_every_validity_window :: "Parity may_panic \<Rightarrow> unit may_panic" where
  "reference_time_falls_inside_every_validity_window parity = do {
     p \<leftarrow> parity;
     rust_assert (list_all (\<lambda>cert. REFERENCE_TIME \<ge> tbs_not_before cert \<and> REFERENCE_TIME \<le> tbs_not_after cert)
       [parity_ca1 p, parity_ca1_cross_signed_by_ca2 p, parity_ca1_with_alternative_private_key p, parity_ca2 p,
        parity_ca2_cross_signed_by_ca1 p, parity_intermediate1 p, parity_intermediate1_without_ski_aki p,
        parity_intermediate1_with_incorrect_ski_aki p, parity_localhost_leaf p, parity_isolated_self_signed p,
        parity_isolated_self_signed_weird_critical p]) }"

subsection \<open>The tests of the test kit\<close>

lemma CaSpec_built_name:
  assumes "CaSpec_build rc spec fresh = Some (params, key)"
  shows "named_params rc params"
  using CaSpec_build_Some(1) [OF assms] by (auto simp: named_params_def)

lemma CaSpec_build_total: "ca_spec_key_pair spec \<noteq> None \<or> fresh \<noteq> None \<Longrightarrow> \<exists>params key. CaSpec_build rc spec fresh = Some (params, key)"
  by (auto simp: CaSpec_build_def Let_def split: option.splits)

lemma CaSpec_self_signed_cert:
  assumes "testkit_setting rc from_der rd" "CaSpec_self_signed rc spec fresh = Some auth"
  obtains c where "testkit_cert from_der invalid (ca_der auth) = Some c"
    "reads_base rd (ca_params auth) (ca_key_pair auth) (distinguished_name (ca_params auth)) c"
  using self_signed_read [OF settingD(1) [OF assms(1)] CaSpec_built_name CaSpec_self_signed_Some(2) [OF assms(2)], where invalid = invalid]
    CaSpec_self_signed_Some(1) [OF assms(2)] by blast

lemma CaSpec_signed_by_cert:
  assumes "testkit_setting rc from_der rd" "CaSpec_signed_by rc spec issuer fresh = Some auth"
  obtains c where "testkit_cert from_der invalid (ca_der auth) = Some c"
    "reads_base rd (ca_params auth) (ca_key_pair auth) (distinguished_name (ca_params issuer)) c"
  using signed_by_read [OF settingD(1) [OF assms(1)] CaSpec_built_name CaSpec_signed_by_Some(2) [OF assms(2)], where invalid = invalid]
    CaSpec_signed_by_Some(1) [OF assms(2)] unfolding ca_issuer_def fst_conv by blast

lemma CaSpec_self_signed_total:
  assumes "testkit_setting rc from_der rd" "ca_spec_key_pair spec \<noteq> None \<or> fresh \<noteq> None"
  shows "\<exists>auth. CaSpec_self_signed rc spec fresh = Some auth"
proof -
  obtain params key where b: "CaSpec_build rc spec fresh = Some (params, key)" using CaSpec_build_total [OF assms(2)] by blast
  then show ?thesis using settingD(3) [OF assms(1) CaSpec_built_name [OF b], of key] by (auto simp: CaSpec_self_signed_def)
qed

lemma CaSpec_signed_by_total:
  assumes "testkit_setting rc from_der rd" "ca_spec_key_pair spec \<noteq> None \<or> fresh \<noteq> None"
  shows "\<exists>auth. CaSpec_signed_by rc spec issuer fresh = Some auth"
proof -
  obtain params key where b: "CaSpec_build rc spec fresh = Some (params, key)" using CaSpec_build_total [OF assms(2)] by blast
  then show ?thesis
    using settingD(4) [OF assms(1) CaSpec_built_name [OF b], of key "ca_issuer issuer"] by (auto simp: CaSpec_signed_by_def)
qed

text \<open>The parameters of a leaf, whether it is signed by itself or by an authority.\<close>

lemma LeafSpec_build_base:
  assumes "LeafSpec_build rc spec for_ca fresh = Some (params, key)"
  shows "named_params rc params"
    and "params_not_before params = (case leaf_not_before spec of Some t \<Rightarrow> t | None \<Rightarrow> 1000)"
    and "params_not_after params = (case leaf_not_after spec of Some t \<Rightarrow> t | None \<Rightarrow> 2000)"
proof -
  have "distinguished_name params = rc_dn_push_common_name rc (rc_dn_new rc) (leaf_subject_cn spec) \<and>
      params_not_before params = (case leaf_not_before spec of Some t \<Rightarrow> t | None \<Rightarrow> 1000) \<and>
      params_not_after params = (case leaf_not_after spec of Some t \<Rightarrow> t | None \<Rightarrow> 2000)"
    using assms
    by (cases for_ca; cases "leaf_not_before spec"; cases "leaf_not_after spec"; cases "leaf_critical_extension spec")
      (auto simp: LeafSpec_build_def base_params_def Let_def bind_eq_Some_conv)
  then show "named_params rc params"
    "params_not_before params = (case leaf_not_before spec of Some t \<Rightarrow> t | None \<Rightarrow> 1000)"
    "params_not_after params = (case leaf_not_after spec of Some t \<Rightarrow> t | None \<Rightarrow> 2000)"
    by (auto simp: named_params_def)
qed

lemma LeafSpec_build_extension:
  assumes "LeafSpec_build rc spec for_ca fresh = Some (params, key)" "leaf_critical_extension spec = Some (oid, v)"
  shows "set_criticality (rc_extensions rc) (from_oid_content (rc_extensions rc) oid v) True \<in> set (custom_extensions params)"
  using assms by (auto simp: LeafSpec_build_def Let_def bind_eq_Some_conv)

lemma LeafSpec_signed_by_cert:
  assumes "testkit_setting rc from_der rd" "LeafSpec_signed_by rc spec issuer fresh = Some der"
  obtains params key c where "LeafSpec_build rc spec False fresh = Some (params, key)"
    "rc_signed_by rc params key (ca_issuer issuer) = Some der" "testkit_cert from_der invalid der = Some c"
    "reads_base rd params key (distinguished_name (ca_params issuer)) c"
proof -
  obtain params key where b: "LeafSpec_build rc spec False fresh = Some (params, key)"
      "rc_signed_by rc params key (ca_issuer issuer) = Some der"
    using assms(2) by (auto simp: LeafSpec_signed_by_def split: Option.bind_splits)
  show thesis
    by (rule signed_by_read [OF settingD(1) [OF assms(1)] LeafSpec_build_base(1) [OF b(1)] b(2), of invalid])
      (simp add: that [OF b] ca_issuer_def)
qed

lemma LeafSpec_self_signed_cert:
  assumes "testkit_setting rc from_der rd" "LeafSpec_self_signed rc spec fresh = Some der"
  obtains params key c where "LeafSpec_build rc spec True fresh = Some (params, key)" "testkit_cert from_der invalid der = Some c"
    "reads_base rd params key (distinguished_name params) c"
proof -
  obtain params key where b: "LeafSpec_build rc spec True fresh = Some (params, key)" "rc_self_signed rc params key = Some der"
    using assms(2) by (auto simp: LeafSpec_self_signed_def split: Option.bind_splits)
  show thesis
    by (rule self_signed_read [OF settingD(1) [OF assms(1)] LeafSpec_build_base(1) [OF b(1)] b(2), of invalid])
      (rule that [OF b(1)])
qed

lemma LeafSpec_signed_by_total:
  assumes "testkit_setting rc from_der rd" "list_all (list_all (\<lambda>b. \<not> digit7 b)) (leaf_dns_sans spec)" "fresh \<noteq> None"
  shows "\<exists>der. LeafSpec_signed_by rc spec issuer fresh = Some der"
proof -
  have "those (map (\<lambda>name. if rc_is_ia5 rc name then Some (SanDnsName name) else None) xs) \<noteq> None"
    if "list_all (list_all (\<lambda>b. \<not> digit7 b)) xs" for xs
    using that settingD(6) [OF assms(1)] by (induction xs) auto
  then obtain sans where "ia5_names rc SanDnsName (leaf_dns_sans spec) = Some sans"
    using assms(2) by (fastforce simp: ia5_names_def)
  moreover obtain key where "(case leaf_spec_key_pair spec of Some k \<Rightarrow> Some k | None \<Rightarrow> fresh) = Some key"
    using assms(3) by (cases "leaf_spec_key_pair spec") auto
  ultimately obtain params where b: "LeafSpec_build rc spec False fresh = Some (params, key)"
    by (simp add: LeafSpec_build_def Let_def)
  then show ?thesis
    using settingD(4) [OF assms(1) LeafSpec_build_base(1) [OF b], of key "ca_issuer issuer"] by (auto simp: LeafSpec_signed_by_def)
qed

text \<open>An extension attached by hand is there, with its criticality, when the certificate is parsed.\<close>

definition custom_extensions_read ::
  "('dn, 'ext, 'key) rcgen \<Rightarrow> (bytes \<Rightarrow> nom_err + bytes \<times> certificate) \<Rightarrow> bool" where
  "custom_extensions_read rc from_der \<longleftrightarrow>
     (\<forall>params key issuer der rest c oid v. rc_signed_by rc params key issuer = Some der \<longrightarrow> from_der der = Ok (rest, c) \<longrightarrow>
        set_criticality (rc_extensions rc) (from_oid_content (rc_extensions rc) oid v) True \<in> set (custom_extensions params) \<longrightarrow>
        oid \<in> critical_oids c)"

lemma ca_spec_honours_passes:
  assumes set: "testkit_setting rc from_der rd"
    and p384: "fresh_for P384 = Some k" "alg_parameters (spki_algorithm (read_key rd k)) = Some curve"
      "any_as_oid curve = Some OID_NIST_EC_P384"
  shows "ca_spec_honours_key_algorithm_and_validity rc (testkit_cert from_der invalid) fresh_for = Some ()"
proof -
  let ?ca = "ca_with_validity (ca_with_key_pair (CaSpec_new ''spec root'') k) (days 1) (days 365)"
  obtain auth where auth: "CaSpec_self_signed rc ?ca panic = Some auth"
    using CaSpec_self_signed_total [OF set, of ?ca panic] by (auto simp: parity_spec_defs)
  obtain c where c: "testkit_cert from_der invalid (ca_der auth) = Some c"
      "reads_base rd (ca_params auth) (ca_key_pair auth) (distinguished_name (ca_params auth)) c"
    by (rule CaSpec_self_signed_cert [OF set auth])
  note cb = CaSpec_build_Some [OF CaSpec_self_signed_Some(1) [OF auth]]
  show "ca_spec_honours_key_algorithm_and_validity rc (testkit_cert from_der invalid) fresh_for = Some ()"
    using c(2) cb(2,3,8) p384(2,3) unfolding reads_base_def
    by (simp add: ca_spec_honours_key_algorithm_and_validity_def p384(1) auth c(1))
      (simp add: parity_spec_defs)
qed

lemma ca_spec_chains_passes:
  assumes set: "testkit_setting rc from_der rd" and f: "\<And>n. fresh n \<noteq> None"
  shows "ca_spec_signed_by_chains_to_issuer rc (testkit_cert from_der invalid) fresh = Some ()"
proof -
  obtain r where r: "CaSpec_self_signed rc (CaSpec_new ''spec issuer'') (fresh 0) = Some r"
    using CaSpec_self_signed_total [OF set] f by blast
  obtain m where m: "CaSpec_signed_by rc (ca_with_path_len (CaSpec_new ''spec intermediate'') (Some 1)) r (fresh (Suc 0)) = Some m"
    using CaSpec_signed_by_total [OF set] f by blast
  obtain rc' mc where certs: "testkit_cert from_der invalid (ca_der r) = Some rc'"
      "tbs_subject rc' = read_name rd (distinguished_name (ca_params r))"
      "testkit_cert from_der invalid (ca_der m) = Some mc" "tbs_issuer mc = read_name rd (distinguished_name (ca_params r))"
    using CaSpec_self_signed_cert [OF set r] CaSpec_signed_by_cert [OF set m] unfolding reads_base_def by metis
  show "ca_spec_signed_by_chains_to_issuer rc (testkit_cert from_der invalid) fresh = Some ()"
    by (simp add: ca_spec_signed_by_chains_to_issuer_def r m certs)
qed

lemma leaf_spec_validity_passes:
  assumes set: "testkit_setting rc from_der rd" and f: "\<And>n. fresh n \<noteq> None"
  shows "leaf_spec_honours_validity_and_sans rc (testkit_cert from_der invalid) fresh = Some ()"
proof -
  let ?leaf = "leaf_with_validity (leaf_with_dns_sans (LeafSpec_new ''localhost'') [''localhost'']) (days 2) (days 200)"
  obtain lr where lr: "CaSpec_self_signed rc (CaSpec_new ''leaf spec root'') (fresh 0) = Some lr"
    using CaSpec_self_signed_total [OF set] f by blast
  have sans: "leaf_dns_sans ?leaf = [''localhost'']" by (simp add: leaf_with_validity_def leaf_with_dns_sans_def)
  obtain ld where ld: "LeafSpec_signed_by rc ?leaf lr (fresh (Suc 0)) = Some ld"
    using LeafSpec_signed_by_total [OF set _ f, of ?leaf] unfolding sans by auto
  obtain lp lk lc where leaf: "LeafSpec_build rc ?leaf False (fresh (Suc 0)) = Some (lp, lk)"
      "testkit_cert from_der invalid ld = Some lc" "reads_base rd lp lk (distinguished_name (ca_params lr)) lc"
    by (rule LeafSpec_signed_by_cert [OF set ld])
  show "leaf_spec_honours_validity_and_sans rc (testkit_cert from_der invalid) fresh = Some ()"
    using leaf(3) LeafSpec_build_base(2,3) [OF leaf(1)] unfolding reads_base_def
    by (simp add: leaf_spec_honours_validity_and_sans_def lr ld leaf(2))
      (simp add: leaf_with_validity_def)
qed

lemma leaf_spec_extension_passes:
  assumes set: "testkit_setting rc from_der rd" and f: "\<And>n. fresh n \<noteq> None"
    and custom: "custom_extensions_read rc from_der" "lib_to_id_string lib [1, 2, 3, 4, 5] = ''1.2.3.4.5''"
  shows "leaf_spec_carries_critical_extension lib rc (testkit_cert from_der invalid) fresh = Some ()"
proof -
  let ?weird = "leaf_with_critical_extension (LeafSpec_new ''weird'') [1, 2, 3, 4, 5] [1, 2, 3, 4, 5]"
  obtain wr where wr: "CaSpec_self_signed rc (CaSpec_new ''ext spec root'') (fresh 0) = Some wr"
    using CaSpec_self_signed_total [OF set] f by blast
  have none: "leaf_dns_sans ?weird = []" by (simp add: leaf_with_critical_extension_def LeafSpec_new_def)
  obtain wd where wd: "LeafSpec_signed_by rc ?weird wr (fresh (Suc 0)) = Some wd"
    using LeafSpec_signed_by_total [OF set _ f, of ?weird] unfolding none by auto
  obtain wp wk wc where weird: "LeafSpec_build rc ?weird False (fresh (Suc 0)) = Some (wp, wk)"
      "rc_signed_by rc wp wk (ca_issuer wr) = Some wd" "testkit_cert from_der invalid wd = Some wc"
    by (rule LeafSpec_signed_by_cert [OF set wd])
  have "set_criticality (rc_extensions rc) (from_oid_content (rc_extensions rc) [1, 2, 3, 4, 5] [1, 2, 3, 4, 5]) True \<in>
      set (custom_extensions wp)"
    by (rule LeafSpec_build_extension [OF weird(1)]) (simp add: leaf_with_critical_extension_def)
  then have "[1, 2, 3, 4, 5] \<in> critical_oids wc"
    using custom(1) weird(2) testkit_cert_Some [OF weird(3)] unfolding custom_extensions_read_def by blast
  then show "leaf_spec_carries_critical_extension lib rc (testkit_cert from_der invalid) fresh = Some ()"
    using custom(2) by (auto simp: leaf_spec_carries_critical_extension_def wr wd weird(3) critical_oids_def list_ex_iff)
qed

text \<open>
  The unit tests of the certificate builders pass: a certificate has the validity, the key, the issuer and the critical
  extension its specification asked for.
\<close>

theorem builder_unit_tests_pass:
  assumes set: "testkit_setting rc from_der rd" and fresh: "\<forall>n. fresh n \<noteq> None"
    and p384: "fresh_for P384 = Some k" "alg_parameters (spki_algorithm (read_key rd k)) = Some curve"
      "any_as_oid curve = Some OID_NIST_EC_P384"
    and custom: "custom_extensions_read rc from_der" "lib_to_id_string lib [1, 2, 3, 4, 5] = ''1.2.3.4.5''"
  shows "ca_spec_honours_key_algorithm_and_validity rc (testkit_cert from_der invalid) fresh_for = Some () \<and>
    ca_spec_signed_by_chains_to_issuer rc (testkit_cert from_der invalid) fresh = Some () \<and>
    leaf_spec_honours_validity_and_sans rc (testkit_cert from_der invalid) fresh = Some () \<and>
    leaf_spec_carries_critical_extension lib rc (testkit_cert from_der invalid) fresh = Some ()"
  using ca_spec_honours_passes [where fresh_for = fresh_for, OF set p384] ca_spec_chains_passes [OF set] leaf_spec_validity_passes [OF set]
    leaf_spec_extension_passes [OF set _ custom] fresh by blast

text \<open>The certificates of the fixtures are valid when their specifications are.\<close>

definition within :: "int \<Rightarrow> certificate \<Rightarrow> bool" where
  "within t c \<longleftrightarrow> tbs_not_before c \<le> t \<and> t \<le> tbs_not_after c"

lemma self_signed_within:
  assumes "testkit_setting rc from_der rd" "CaSpec_self_signed rc spec fresh = Some auth" "covers t spec"
    and "testkit_cert from_der invalid (ca_der auth) = Some c"
  shows "within t c"
  using CaSpec_self_signed_cert [OF assms(1,2)] CaSpec_self_signed_valid [OF assms(2,3)] assms(4)
  unfolding within_def reads_base_def valid_at_def by (metis option.inject)

lemma signed_by_within:
  assumes "testkit_setting rc from_der rd" "CaSpec_signed_by rc spec issuer fresh = Some auth" "covers t spec"
    and "testkit_cert from_der invalid (ca_der auth) = Some c"
  shows "within t c"
  using CaSpec_signed_by_cert [OF assms(1,2)] CaSpec_signed_by_valid [OF assms(2,3)] assms(4)
  unfolding within_def reads_base_def valid_at_def by (metis option.inject)

definition leaf_covers :: "int \<Rightarrow> 'key LeafSpec \<Rightarrow> bool" where
  "leaf_covers t spec \<longleftrightarrow>
     (case (leaf_not_before spec, leaf_not_after spec) of (Some b, Some e) \<Rightarrow> b \<le> t \<and> t \<le> e | _ \<Rightarrow> False)"

lemma built_leaf_within:
  assumes "LeafSpec_build rc spec for_ca fresh = Some (params, key)" "leaf_covers t spec" "reads_base rd params key dn c"
  shows "within t c"
  using assms(2,3) LeafSpec_build_base(2,3) [OF assms(1)]
  by (auto simp: within_def reads_base_def leaf_covers_def split: option.splits)

lemma leaf_signed_within:
  assumes "testkit_setting rc from_der rd" "LeafSpec_signed_by rc spec issuer fresh = Some der" "leaf_covers t spec"
    and "testkit_cert from_der invalid der = Some c"
  shows "within t c"
  using LeafSpec_signed_by_cert [OF assms(1,2)] built_leaf_within [OF _ assms(3)] assms(4) by (metis option.inject)

lemma leaf_self_signed_within:
  assumes "testkit_setting rc from_der rd" "LeafSpec_self_signed rc spec fresh = Some der" "leaf_covers t spec"
    and "testkit_cert from_der invalid der = Some c"
  shows "within t c"
  using LeafSpec_self_signed_cert [OF assms(1,2)] built_leaf_within [OF _ assms(3)] assms(4) by (metis option.inject)

lemma parity_leaf_specs_cover:
  "leaf_covers REFERENCE_TIME (leaf_with_aki (leaf_with_dns_sans (parity_leaf_spec cn) hosts) b)"
  "leaf_covers REFERENCE_TIME (parity_leaf_spec cn)"
  "leaf_covers REFERENCE_TIME (leaf_with_critical_extension (parity_leaf_spec cn) oid v)"
  by (simp_all add: leaf_covers_def parity_leaf_spec_def leaf_with_aki_def leaf_with_dns_sans_def leaf_with_validity_def
      leaf_with_critical_extension_def days_def)

lemma windows_sublist:
  assumes "sublist ys xs"
  shows "list_ex (\<lambda>w. w = ys) (windows (length ys) xs)"
proof -
  obtain us vs where xs: "xs = us @ ys @ vs" using assms by (auto simp: sublist_def)
  have "take (length ys) (drop (length us) xs) = ys" "length us < Suc (length xs) - length ys" by (simp_all add: xs)
  then show ?thesis unfolding windows_def list_ex_iff by force
qed

lemma issue_parity_leaves:
  assumes "issue_parity rc fresh = Some s"
  shows "LeafSpec_signed_by rc (leaf_with_aki (leaf_with_dns_sans (parity_leaf_spec ''localhost'') [''localhost'']) True)
      (intermediate1 s) (fresh P256 1) = Some (localhost_leaf s)"
    and "LeafSpec_self_signed rc (parity_leaf_spec ''Isolated Self-Signed Cert'') (fresh P256 2) = Some (isolated_self_signed s)"
    and "LeafSpec_self_signed rc
      (leaf_with_critical_extension (parity_leaf_spec ''Isolated Self-Signed Cert'') [1, 2, 3, 4, 5] [1, 2, 3, 4, 5])
      (fresh P256 3) = Some (isolated_self_signed_weird_critical s)"
  using assms by (auto simp: issue_parity_def bind_eq_Some_conv)

lemma issue_parity_within:
  assumes set: "testkit_setting rc from_der rd" and s: "issue_parity rc fresh = Some s"
  shows "testkit_cert from_der invalid (ca_der (ca1 s)) = Some c \<Longrightarrow> within REFERENCE_TIME c"
    "testkit_cert from_der invalid (ca_der (ca2 s)) = Some c \<Longrightarrow> within REFERENCE_TIME c"
    "testkit_cert from_der invalid (ca_der (ca1_alternative s)) = Some c \<Longrightarrow> within REFERENCE_TIME c"
    "testkit_cert from_der invalid (ca_der (ca1_cross s)) = Some c \<Longrightarrow> within REFERENCE_TIME c"
    "testkit_cert from_der invalid (ca_der (ca2_cross s)) = Some c \<Longrightarrow> within REFERENCE_TIME c"
    "testkit_cert from_der invalid (ca_der (intermediate1 s)) = Some c \<Longrightarrow> within REFERENCE_TIME c"
    "testkit_cert from_der invalid (ca_der (intermediate1_without_ski_aki s)) = Some c \<Longrightarrow> within REFERENCE_TIME c"
    "testkit_cert from_der invalid (ca_der (intermediate1_with_incorrect_ski_aki s)) = Some c \<Longrightarrow> within REFERENCE_TIME c"
  by (rule issue_parity_steps [OF s],
      ((rule self_signed_within [OF set], assumption, simp, assumption; fail) |
       (rule signed_by_within [OF set], assumption, simp, assumption; fail)))+

lemma issued_names:
  assumes set: "testkit_setting rc from_der rd" and c: "testkit_cert from_der invalid (ca_der auth) = Some c"
  shows "CaSpec_self_signed rc spec fresh = Some auth \<Longrightarrow>
      tbs_subject c = read_name rd (distinguished_name (ca_params auth)) \<and> tbs_subject_pki c = read_key rd (ca_key_pair auth)"
    and "CaSpec_signed_by rc spec issuer fresh = Some auth \<Longrightarrow>
      tbs_subject c = read_name rd (distinguished_name (ca_params auth)) \<and> tbs_subject_pki c = read_key rd (ca_key_pair auth) \<and>
      tbs_issuer c = read_name rd (distinguished_name (ca_params issuer))"
  using CaSpec_self_signed_cert [OF set] CaSpec_signed_by_cert [OF set] c unfolding reads_base_def by (metis option.inject)+

lemma issued_leaf_name:
  assumes "testkit_setting rc from_der rd" "testkit_cert from_der invalid der = Some c"
    and "LeafSpec_signed_by rc spec issuer fresh = Some der" "leaf_spec_key_pair spec = None" "fresh = Some key"
  shows "tbs_issuer c = read_name rd (distinguished_name (ca_params issuer))" "tbs_subject_pki c = read_key rd key"
proof -
  obtain params k c' where c': "LeafSpec_build rc spec False fresh = Some (params, k)" "testkit_cert from_der invalid der = Some c'"
      "reads_base rd params k (distinguished_name (ca_params issuer)) c'"
    by (rule LeafSpec_signed_by_cert [OF assms(1,3)])
  have "k = key" using c'(1) assms(4,5) by (auto simp: LeafSpec_build_def Let_def bind_eq_Some_conv)
  then show "tbs_issuer c = read_name rd (distinguished_name (ca_params issuer))" "tbs_subject_pki c = read_key rd key"
    using c'(2,3) assms(2) by (auto simp: reads_base_def)
qed

lemma parity_chain_passes:
  assumes set: "testkit_setting rc from_der rd" and parity: "build_parity rc (testkit_cert from_der invalid) fresh = Some p"
  shows "parity_set_chains_correctly (Some p) = Some ()" "reference_time_falls_inside_every_validity_window (Some p) = Some ()"
proof -
  obtain s where s: "issue_parity rc fresh = Some s"
    and cs: "testkit_cert from_der invalid (ca_der (ca1 s)) = Some (parity_ca1 p)"
      "testkit_cert from_der invalid (ca_der (ca2 s)) = Some (parity_ca2 p)"
      "testkit_cert from_der invalid (ca_der (ca1_alternative s)) = Some (parity_ca1_with_alternative_private_key p)"
      "testkit_cert from_der invalid (ca_der (ca1_cross s)) = Some (parity_ca1_cross_signed_by_ca2 p)"
      "testkit_cert from_der invalid (ca_der (ca2_cross s)) = Some (parity_ca2_cross_signed_by_ca1 p)"
      "testkit_cert from_der invalid (ca_der (intermediate1 s)) = Some (parity_intermediate1 p)"
      "testkit_cert from_der invalid (ca_der (intermediate1_without_ski_aki s)) = Some (parity_intermediate1_without_ski_aki p)"
      "testkit_cert from_der invalid (ca_der (intermediate1_with_incorrect_ski_aki s)) =
        Some (parity_intermediate1_with_incorrect_ski_aki p)"
    and ls: "testkit_cert from_der invalid (localhost_leaf s) = Some (parity_localhost_leaf p)"
      "testkit_cert from_der invalid (isolated_self_signed s) = Some (parity_isolated_self_signed p)"
      "testkit_cert from_der invalid (isolated_self_signed_weird_critical s) = Some (parity_isolated_self_signed_weird_critical p)"
    using parity by (auto simp: build_parity_def bind_eq_Some_conv)
  note leaves = issue_parity_leaves [OF s] and w = issue_parity_within [OF set s]
  have "within REFERENCE_TIME (parity_localhost_leaf p)" "within REFERENCE_TIME (parity_isolated_self_signed p)"
      "within REFERENCE_TIME (parity_isolated_self_signed_weird_critical p)"
    using leaf_signed_within [OF set leaves(1) parity_leaf_specs_cover(1) ls(1)]
      leaf_self_signed_within [OF set leaves(2) parity_leaf_specs_cover(2) ls(2)]
      leaf_self_signed_within [OF set leaves(3) parity_leaf_specs_cover(3) ls(3)] by simp_all
  then show "reference_time_falls_inside_every_validity_window (Some p) = Some ()"
    using w(1) [OF cs(1)] w(2) [OF cs(2)] w(3) [OF cs(3)] w(4) [OF cs(4)] w(5) [OF cs(5)] w(6) [OF cs(6)] w(7) [OF cs(7)]
      w(8) [OF cs(8)]
    by (simp add: reference_time_falls_inside_every_validity_window_def within_def)
  have "tbs_subject (parity_ca1 p) = read_name rd (distinguished_name (ca_params (ca1 s)))"
      "tbs_subject (parity_intermediate1 p) = read_name rd (distinguished_name (ca_params (intermediate1 s)))"
      "tbs_issuer (parity_intermediate1 p) = read_name rd (distinguished_name (ca_params (ca1 s)))"
    using issue_parity_steps [OF s] issued_names(1) [OF set cs(1)] issued_names(2) [OF set cs(6)] by metis+
  moreover have "tbs_issuer (parity_localhost_leaf p) = read_name rd (distinguished_name (ca_params (intermediate1 s)))"
    using LeafSpec_signed_by_cert [OF set leaves(1)] ls(1) unfolding reads_base_def by (metis option.inject)
  ultimately show "parity_set_chains_correctly (Some p) = Some ()" by (simp add: parity_set_chains_correctly_def)
qed

text \<open>
  The benchmark fixtures are what their unit tests say, whatever keys are drawn: the sets link up from
  leaf to root, the P-256 chain is on that curve throughout, and the reference time lies within
  the validity of every one of the eleven certificates of the parity set, those with extensions attached by hand included.
\<close>

theorem fixture_unit_tests_pass:
  assumes set: "testkit_setting rc from_der rd"
    and p256: "\<And>n k. fresh P256 n = Some k \<Longrightarrow> sublist PRIME256V1_OID_DER (spki_raw (read_key rd k))"
    and parity: "build_parity rc (testkit_cert from_der invalid) fresh = Some p"
    and curve: "build_p256_chain rc (testkit_cert from_der invalid) fresh = Some c"
  shows "parity_set_chains_correctly (Some p) = Some () \<and>
    reference_time_falls_inside_every_validity_window (Some p) = Some () \<and>
    p256_chain_links_up_and_is_entirely_p256 (Some c) = Some ()"
proof -
  obtain k1 k2 k3 root mid leaf where k: "fresh P256 0 = Some k1" "fresh P256 1 = Some k2"
    and issued: "CaSpec_self_signed rc
        (ca_with_validity (ca_with_key_pair (CaSpec_new ''Benchmark P-256 Root CA'') k1)
          (REFERENCE_TIME - days 365) (REFERENCE_TIME + days 3650)) panic = Some root"
      "CaSpec_signed_by rc
        (ca_with_aki (ca_with_path_len
          (ca_with_validity (ca_with_key_pair (CaSpec_new ''Benchmark P-256 Intermediate CA'') k2)
            (REFERENCE_TIME - days 365) (REFERENCE_TIME + days (5 * 365))) (Some 0)) True) root panic = Some mid"
      "LeafSpec_signed_by rc
        (leaf_with_aki (leaf_with_validity
          (leaf_with_dns_sans (LeafSpec_new ''p256.example'') [''p256.example''])
          (REFERENCE_TIME - days 365) (REFERENCE_TIME + days 365)) True) mid (fresh P256 2) = Some leaf"
    and parsed: "testkit_cert from_der invalid (ca_der root) = Some (curve_root c)"
      "testkit_cert from_der invalid (ca_der mid) = Some (curve_intermediate c)"
      "testkit_cert from_der invalid leaf = Some (curve_leaf c)"
    using curve by (auto simp: build_p256_chain_def issue_p256_chain_def bind_eq_Some_conv)
  obtain k3 where k3: "fresh P256 2 = Some k3"
    using issued(3) by (auto simp: LeafSpec_signed_by_def LeafSpec_build_def leaf_with_aki_def leaf_with_validity_def
        leaf_with_dns_sans_def LeafSpec_new_def Let_def bind_eq_Some_conv)
  have keys: "ca_key_pair root = k1" "ca_key_pair mid = k2"
    using CaSpec_build_Some(8) [OF CaSpec_self_signed_Some(1) [OF issued(1)]]
      CaSpec_build_Some(8) [OF CaSpec_signed_by_Some(1) [OF issued(2)]] by (simp_all add: parity_spec_defs)
  note leaf = issued_leaf_name [OF set parsed(3) issued(3) _ k3]
  note on_curve = windows_sublist [OF p256 [OF k(1)]] windows_sublist [OF p256 [OF k(2)]] windows_sublist [OF p256 [OF k3]]
  have "p256_chain_links_up_and_is_entirely_p256 (Some c) = Some ()"
    using issued_names(1) [OF set parsed(1) issued(1)] issued_names(2) [OF set parsed(2) issued(2)] leaf on_curve keys
    by (simp add: p256_chain_links_up_and_is_entirely_p256_def leaf_with_aki_def leaf_with_validity_def leaf_with_dns_sans_def
        LeafSpec_new_def)
  then show ?thesis using parity_chain_passes [OF set parity] by blast
qed

subsection \<open>The promises can be kept\<close>

lemma total_builds:
  "\<exists>p. build_parity total_rcgen (testkit_cert total_from_der e) sample_fresh = Some p"
  "\<exists>c. build_p256_chain total_rcgen (testkit_cert total_from_der e) sample_fresh = Some c"
proof -
  note parts = total_rcgen_def register_rcgen_def sample_rcgen_def Let_def sample_fresh_def ca_key_def
    CaSpec_self_signed_def CaSpec_signed_by_def CaSpec_build_def LeafSpec_signed_by_def LeafSpec_self_signed_def
    LeafSpec_build_def ia5_names_def copy_of_key_pair_def testkit_cert_def parse_def total_from_der_def
  show "\<exists>p. build_parity total_rcgen (testkit_cert total_from_der e) sample_fresh = Some p"
    by (simp add: build_parity_def issue_parity_def parts parity_spec_defs parity_leaf_spec_def leaf_with_aki_def
        leaf_with_dns_sans_def leaf_with_validity_def leaf_with_critical_extension_def LeafSpec_new_def)
  show "\<exists>c. build_p256_chain total_rcgen (testkit_cert total_from_der e) sample_fresh = Some c"
    by (simp add: build_p256_chain_def issue_p256_chain_def parts parity_spec_defs leaf_with_aki_def leaf_with_dns_sans_def
        leaf_with_validity_def LeafSpec_new_def)
qed

theorem fixture_unit_tests_pass_witness:
  "\<exists>p. reference_time_falls_inside_every_validity_window (Some p) = Some () \<and> parity_set_chains_correctly (Some p) = Some ()"
proof -
  obtain p c where built: "build_parity total_rcgen (testkit_cert total_from_der (X509Error [])) sample_fresh = Some p"
      "build_p256_chain total_rcgen (testkit_cert total_from_der (X509Error [])) sample_fresh = Some c"
    using total_builds by blast
  have "sublist PRIME256V1_OID_DER (spki_raw (read_key total_readings k))" for k
    by (simp add: total_readings_def PRIME256V1_OID_DER_def sublist_code)
  from fixture_unit_tests_pass [OF total_setting this built] show ?thesis by blast
qed

theorem builder_unit_tests_pass_witness:
  "leaf_spec_carries_critical_extension \<lparr>lib_oid2sn = Map.empty, lib_to_id_string = (\<lambda>_. ''1.2.3.4.5''),
       lib_oid_to_string = (\<lambda>_. [])\<rparr> total_rcgen (testkit_cert total_from_der (X509Error [])) Some = Some ()"
proof -
  have "custom_extensions_read total_rcgen total_from_der"
    by (auto simp: custom_extensions_read_def total_rcgen_def register_rcgen_def sample_rcgen_def Let_def total_from_der_def
        extension_triples_def total_certificate_def critical_oids_def flag_extension_def image_iff)
  then show ?thesis
    using builder_unit_tests_pass [OF total_setting, of Some "\<lambda>_. Some 0" 0 curve_parameters] 
    by (simp add: total_readings_def curve_parameters_def)
qed

end
