(* ===== verification/Parity_Certificates.thy ===== *)
theory Parity_Certificates
  imports Testkit_Tests
begin

text \<open>
  The certificates of the parity set, \<^verbatim>\<open>bench_fixtures.rs\<close>, as the parser presents them: who is named as whose issuer,
  what each is good for, and which signatures a backend that accepts what the generator signs accepts. This is
  all the benchmark scenarios need to know about the set.
\<close>

subsection \<open>What is relied on\<close>

text \<open>
  Beside the conditions of \<open>Generated_Chains\<close>: the default parameters carry no key usage and no extension attached by hand; a key
  pair read back from its PEM has the public key it was written with; a CA's basicConstraints attached by hand reads as the
  generator's own; a critical extension attached to a self-signed certificate is there when it is parsed; and a
  parsed certificate keeps the bytes it was read from.
\<close>

definition copies_keep_key :: "('dn, 'ext, 'key) rcgen \<Rightarrow> ('dn, 'key) readings \<Rightarrow> bool" where
  "copies_keep_key rc rd \<longleftrightarrow>
     (\<forall>k k'. rc_from_pem rc (rc_serialize_pem rc k) = Some k' \<longrightarrow> read_key rd k' = read_key rd k)"

definition manual_constraints_read ::
  "('dn, 'ext, 'key) rcgen \<Rightarrow> (bytes \<Rightarrow> nom_err + bytes \<times> certificate) \<Rightarrow> bool" where
  "manual_constraints_read rc from_der \<longleftrightarrow>
     (\<forall>params key issuer der rest c. rc_signed_by rc params key issuer = Some der \<longrightarrow> from_der der = Ok (rest, c) \<longrightarrow>
        Testkit_Certificates.is_ca params = NoCa \<longrightarrow>
        custom_extensions params = [manual_basic_constraints_ca (rc_extensions rc)] \<longrightarrow>
        reads_extensions (params\<lparr>is_ca := IsCa Unconstrained, custom_extensions := []\<rparr>) c)"

definition critical_extensions_read ::
  "('dn, 'ext, 'key) rcgen \<Rightarrow> (bytes \<Rightarrow> nom_err + bytes \<times> certificate) \<Rightarrow> bool" where
  "critical_extensions_read rc from_der \<longleftrightarrow>
     (\<forall>params key der rest c oid v. rc_self_signed rc params key = Some der \<longrightarrow> from_der der = Ok (rest, c) \<longrightarrow>
        set_criticality (rc_extensions rc) (from_oid_content (rc_extensions rc) oid v) True \<in> set (custom_extensions params) \<longrightarrow>
        oid \<in> critical_oids c)"

definition keeps_bytes ::
  "('dn, 'ext, 'key) rcgen \<Rightarrow> (bytes \<Rightarrow> nom_err + bytes \<times> certificate) \<Rightarrow> (certificate \<Rightarrow> bytes) \<Rightarrow> bool" where
  "keeps_bytes rc from_der as_raw \<longleftrightarrow>
     (\<forall>params key der rest c. rc_self_signed rc params key = Some der \<longrightarrow> from_der der = Ok (rest, c) \<longrightarrow> as_raw c = der) \<and>
     (\<forall>params key issuer der rest c. rc_signed_by rc params key issuer = Some der \<longrightarrow> from_der der = Ok (rest, c) \<longrightarrow>
        as_raw c = der)"

definition parity_setting ::
  "('dn, 'ext, 'key) rcgen \<Rightarrow> (bytes \<Rightarrow> nom_err + bytes \<times> certificate) \<Rightarrow> ('dn, 'key) readings \<Rightarrow>
   (certificate \<Rightarrow> bytes) \<Rightarrow> bool" where
  "parity_setting rc from_der rd as_raw \<longleftrightarrow>
     parser_reads_back rc from_der rd \<and> names_tell_apart rc rd \<and>
     custom_extensions (rc_default rc) = [] \<and> key_usages (rc_default rc) = [] \<and>
     copies_keep_key rc rd \<and> manual_constraints_read rc from_der \<and> critical_extensions_read rc from_der \<and>
     keeps_bytes rc from_der as_raw"

lemma parity_settingD:
  assumes "parity_setting rc from_der rd as_raw"
  shows "parser_reads_back rc from_der rd" "names_tell_apart rc rd"
    and "custom_extensions (rc_default rc) = []" "key_usages (rc_default rc) = []"
    and "copies_keep_key rc rd" "manual_constraints_read rc from_der" "critical_extensions_read rc from_der"
    and "keeps_bytes rc from_der as_raw"
  using assms unfolding parity_setting_def by blast+

lemma copy_keeps_key:
  "copies_keep_key rc rd \<Longrightarrow> copy_of_key_pair rc auth = Some k \<Longrightarrow> read_key rd k = read_key rd (ca_key_pair auth)"
  unfolding copies_keep_key_def copy_of_key_pair_def by blast

lemma manual_constraints_cert:
  assumes "manual_constraints_read rc from_der" "rc_signed_by rc params key issuer = Some der"
    "testkit_cert from_der invalid der = Some c" "Testkit_Certificates.is_ca params = NoCa"
    "custom_extensions params = [manual_basic_constraints_ca (rc_extensions rc)]"
  shows "reads_extensions (params\<lparr>is_ca := IsCa Unconstrained, custom_extensions := []\<rparr>) c"
  using assms testkit_cert_Some [OF assms(3)] unfolding manual_constraints_read_def by metis

lemma critical_extension_cert:
  assumes "critical_extensions_read rc from_der" "rc_self_signed rc params key = Some der"
    "testkit_cert from_der invalid der = Some c"
    "set_criticality (rc_extensions rc) (from_oid_content (rc_extensions rc) oid v) True \<in> set (custom_extensions params)"
  shows "oid \<in> critical_oids c"
  using assms testkit_cert_Some [OF assms(3)] unfolding critical_extensions_read_def by metis

lemma keeps_bytes_cert:
  assumes "keeps_bytes rc from_der as_raw" "testkit_cert from_der invalid der = Some c"
  shows "rc_self_signed rc params key = Some der \<Longrightarrow> as_raw c = der"
    and "rc_signed_by rc params key issuer = Some der \<Longrightarrow> as_raw c = der"
  using assms testkit_cert_Some [OF assms(2)] unfolding keeps_bytes_def by metis+

subsection \<open>One certificate\<close>

text \<open>The facts about a certificate that chain building and RFC 5280 look at.\<close>

definition sound_cert :: "bytes \<Rightarrow> bytes \<Rightarrow> certificate \<Rightarrow> bool" where
  "sound_cert subject issuer c \<longleftrightarrow>
     subject_key c = subject \<and> issuer_key c = issuer \<and> tbs_version c = V3 \<and> tbs_name_constraints c = Ok None \<and>
     critical_oids c \<subseteq> {basic_constraints_oid} \<and> within REFERENCE_TIME c"

definition authority_cert :: "certificate \<Rightarrow> bool" where
  "authority_cert c \<longleftrightarrow> Rfc5280_Basic.is_ca c \<and> path_length_at_least c 0"

definition free_authority_cert :: "certificate \<Rightarrow> bool" where
  "free_authority_cert c \<longleftrightarrow> Rfc5280_Basic.is_ca c \<and> (\<forall>n. path_length_at_least c n)"

lemma reads_as_sound:
  assumes "reads_as rd params key dn c" "key_usages params = []" "within REFERENCE_TIME c"
  shows "sound_cert (name_raw (read_name rd (distinguished_name params))) (name_raw (read_name rd dn)) c"
  using assms reads_as_keys [OF assms(1)] by (simp add: sound_cert_def reads_as_defs)

lemma reads_as_authority_cert:
  assumes "reads_as rd params key dn c" "Testkit_Certificates.is_ca params = IsCa n"
  shows "authority_cert c" "n = Unconstrained \<Longrightarrow> free_authority_cert c"
  using reads_as_authority [OF assms] by (simp_all add: authority_cert_def free_authority_cert_def)

text \<open>A certificate accepted as the issuer of another.\<close>

definition vouches :: "signature_verifier \<Rightarrow> certificate \<Rightarrow> certificate \<Rightarrow> bool" where
  "vouches verify issuer c \<longleftrightarrow>
     verify (cert_signature_algorithm c) (tbs_subject_pki issuer) (tbs_raw c) (cert_signature_value c) = Some (Ok ())"

lemma signed_by_vouches: "signed_by V c issuer \<longleftrightarrow> vouches (crypto V) issuer c"
  by (simp add: signed_by_def vouches_def)

lemma signed_vouches:
  assumes "backend_accepts_signed rc from_der rd verify" "rc_signed_by rc params key issuer = Some der"
    "testkit_cert from_der invalid der = Some c" "tbs_subject_pki signer = read_key rd (snd issuer)"
  shows "vouches verify signer c"
  using assms testkit_cert_Some [OF assms(3)] unfolding backend_accepts_signed_def vouches_def by metis

subsection \<open>Authorities and leaves from their specifications\<close>

lemma built_key_usages:
  "CaSpec_build rc spec fresh = Some (params, key) \<Longrightarrow> key_usages params = key_usages (rc_default rc)"
  "LeafSpec_build rc lspec for_ca fresh = Some (params, key) \<Longrightarrow> key_usages params = key_usages (rc_default rc)"
  by (auto simp: CaSpec_build_def LeafSpec_build_def base_params_def apply_ski_def Let_def
      split: Option.bind_splits option.splits Ski.splits if_splits prod.splits)

lemma LeafSpec_built:
  assumes "LeafSpec_build rc spec for_ca fresh = Some (params, key)"
  shows "distinguished_name params = rc_dn_push_common_name rc (rc_dn_new rc) (leaf_subject_cn spec)"
    and "leaf_critical_extension spec = None \<Longrightarrow> custom_extensions params = custom_extensions (rc_default rc)"
    and "for_ca \<Longrightarrow> Testkit_Certificates.is_ca params = IsCa Unconstrained"
    and "ia5_names rc SanDnsName (leaf_dns_sans spec) = Some (subject_alt_names params)"
  using assms
  by (auto simp: LeafSpec_build_def base_params_def Let_def
      split: Option.bind_splits option.splits if_splits prod.splits)

definition common_name_key :: "('dn, 'ext, 'key) rcgen \<Rightarrow> ('dn, 'key) readings \<Rightarrow> string \<Rightarrow> bytes" where
  "common_name_key rc rd cn = name_raw (kit_name rc rd cn)"

lemma common_name_key_eq: "names_tell_apart rc rd \<Longrightarrow> common_name_key rc rd cn = common_name_key rc rd cn' \<longleftrightarrow> cn = cn'"
  by (simp add: common_name_key_def kit_name_apart)

lemma self_signed_authority:
  assumes set: "parity_setting rc from_der rd as_raw" and auth: "CaSpec_self_signed rc spec fresh = Some auth"
    and c: "testkit_cert from_der invalid (ca_der auth) = Some c"
    and spec: "covers REFERENCE_TIME spec" "ca_ski spec \<noteq> Absent"
  shows "sound_cert (common_name_key rc rd (ca_subject_cn spec)) (common_name_key rc rd (ca_subject_cn spec)) c"
    and "ca_path_len spec = None \<Longrightarrow> free_authority_cert c"
    and "tbs_subject_pki c = read_key rd (ca_key_pair auth)" "as_raw c = ca_der auth"
proof -
  note S = parity_settingD [OF set] and b = CaSpec_self_signed_Some [OF auth]
  note bs = CaSpec_build_Some [OF b(1)]
  have plain: "plain_params rc (ca_params auth)"
    using bs(1,7) spec(2) S(3) by (auto simp: plain_params_def named_params_def)
  note r = self_signed_reads [OF S(1) plain b(2) c]
  have "within REFERENCE_TIME c"
    using r CaSpec_self_signed_valid [OF auth spec(1)] by (simp add: within_def reads_as_defs valid_at_def)
  from reads_as_sound [OF r _ this]
  show "sound_cert (common_name_key rc rd (ca_subject_cn spec)) (common_name_key rc rd (ca_subject_cn spec)) c"
    using S(4) built_key_usages(1) [OF b(1)] bs(1) by (simp add: common_name_key_def kit_name_def)
  show "ca_path_len spec = None \<Longrightarrow> free_authority_cert c"
    using reads_as_authority_cert(2) [OF r] bs(4) spec(2) by (simp add: is_ca_with_def)
  show "tbs_subject_pki c = read_key rd (ca_key_pair auth)" using r by (simp add: reads_as_defs)
  show "as_raw c = ca_der auth" by (rule keeps_bytes_cert(1) [OF S(8) c b(2)])
qed

lemma signed_authority:
  assumes set: "parity_setting rc from_der rd as_raw" and auth: "CaSpec_signed_by rc spec issuer fresh = Some auth"
    and c: "testkit_cert from_der invalid (ca_der auth) = Some c"
    and spec: "covers REFERENCE_TIME spec"
    and issuer: "distinguished_name (ca_params issuer) = rc_dn_push_common_name rc (rc_dn_new rc) cn"
  shows "sound_cert (common_name_key rc rd (ca_subject_cn spec)) (common_name_key rc rd cn) c"
    and "authority_cert c" and "ca_path_len spec = None \<Longrightarrow> free_authority_cert c"
    and "tbs_subject_pki c = read_key rd (ca_key_pair auth)" "as_raw c = ca_der auth"
proof -
  note S = parity_settingD [OF set] and b = CaSpec_signed_by_Some [OF auth]
  note bs = CaSpec_build_Some [OF b(1)]
  define params where "params =
    (if ca_ski spec = Absent then (ca_params auth)\<lparr>is_ca := IsCa Unconstrained, custom_extensions := []\<rparr> else ca_params auth)"
  have named: "named_params rc (ca_params auth)" using bs(1) by (auto simp: named_params_def)
  have base: "reads_base rd (ca_params auth) (ca_key_pair auth) (distinguished_name (ca_params issuer)) c"
    using signed_by_read [OF S(1) named b(2), of invalid] c by (auto simp: ca_issuer_def)
  have "reads_extensions params c"
  proof (cases "ca_ski spec = Absent")
    case True
    then show ?thesis using manual_constraints_cert [OF S(6) b(2) c] bs(4,7) S(3) by (simp add: params_def)
  next
    case False
    then have "plain_params rc (ca_params auth)" using bs(7) S(3) named by (simp add: plain_params_def)
    then show ?thesis using signed_by_reads [OF S(1) _ b(2) c] False by (simp add: params_def reads_as_def)
  qed
  moreover have "reads_base rd params (ca_key_pair auth) (distinguished_name (ca_params issuer)) c"
    using base by (simp add: params_def reads_base_def)
  ultimately have r: "reads_as rd params (ca_key_pair auth) (distinguished_name (ca_params issuer)) c"
    by (simp add: reads_as_def)
  have dn: "distinguished_name params = distinguished_name (ca_params auth)" "key_usages params = key_usages (ca_params auth)"
    by (simp_all add: params_def)
  have "within REFERENCE_TIME c"
    using base CaSpec_signed_by_valid [OF auth spec] by (simp add: within_def reads_base_def valid_at_def)
  from reads_as_sound [OF r _ this]
  show "sound_cert (common_name_key rc rd (ca_subject_cn spec)) (common_name_key rc rd cn) c"
    using S(4) built_key_usages(1) [OF b(1)] bs(1) issuer dn by (simp add: common_name_key_def kit_name_def)
  have ca: "Testkit_Certificates.is_ca params = (if ca_ski spec = Absent then IsCa Unconstrained else is_ca_with (ca_path_len spec))"
    using bs(4) by (simp add: params_def)
  show "authority_cert c" "ca_path_len spec = None \<Longrightarrow> free_authority_cert c"
    using reads_as_authority_cert [OF r] ca by (auto simp: is_ca_with_def split: if_splits)
  show "tbs_subject_pki c = read_key rd (ca_key_pair auth)" using base by (simp add: reads_base_def)
  show "as_raw c = ca_der auth" by (rule keeps_bytes_cert(2) [OF S(8) c b(2)])
qed

lemma signed_leaf:
  assumes set: "parity_setting rc from_der rd as_raw" and leaf: "LeafSpec_signed_by rc spec issuer fresh = Some der"
    and c: "testkit_cert from_der invalid der = Some c"
    and spec: "leaf_covers REFERENCE_TIME spec" "leaf_critical_extension spec = None"
    and issuer: "distinguished_name (ca_params issuer) = rc_dn_push_common_name rc (rc_dn_new rc) cn"
  shows "sound_cert (common_name_key rc rd (leaf_subject_cn spec)) (common_name_key rc rd cn) c"
    and "leaf_dns_sans spec = [host] \<Longrightarrow> tbs_subject_alternative_name c = Ok (Some [DNSName (ascii host)])"
    and "as_raw c = der"
proof -
  note S = parity_settingD [OF set]
  obtain params key where b: "LeafSpec_build rc spec False fresh = Some (params, key)"
      "rc_signed_by rc params key (ca_issuer issuer) = Some der"
    using leaf by (auto simp: LeafSpec_signed_by_def split: Option.bind_splits)
  note bs = LeafSpec_built [OF b(1)]
  have plain: "plain_params rc params" using bs(1,2) spec(2) S(3) by (auto simp: plain_params_def named_params_def)
  have r: "reads_as rd params key (distinguished_name (ca_params issuer)) c"
    using signed_by_reads [OF S(1) plain b(2) c] by (simp add: ca_issuer_def)
  have "within REFERENCE_TIME c" using r unfolding reads_as_def by (blast intro: built_leaf_within [OF b(1) spec(1)])
  from reads_as_sound [OF r _ this]
  show "sound_cert (common_name_key rc rd (leaf_subject_cn spec)) (common_name_key rc rd cn) c"
    using S(4) built_key_usages(2) [OF b(1)] bs(1) issuer by (simp add: common_name_key_def kit_name_def)
  show "tbs_subject_alternative_name c = Ok (Some [DNSName (ascii host)])" if "leaf_dns_sans spec = [host]"
  proof -
    have "subject_alt_names params = [SanDnsName host]"
      using bs(4) unfolding that by (simp add: ia5_names_def split: if_splits)
    then show ?thesis using r unfolding reads_as_def reads_extensions_def by (simp add: read_san_def)
  qed
  show "as_raw c = der" by (rule keeps_bytes_cert(2) [OF S(8) c b(2)])
qed

lemma self_signed_leaf:
  assumes set: "parity_setting rc from_der rd as_raw" and leaf: "LeafSpec_self_signed rc spec fresh = Some der"
    and c: "testkit_cert from_der invalid der = Some c" and spec: "leaf_covers REFERENCE_TIME spec"
  shows "leaf_critical_extension spec = None \<Longrightarrow>
      sound_cert (common_name_key rc rd (leaf_subject_cn spec)) (common_name_key rc rd (leaf_subject_cn spec)) c"
    and "leaf_critical_extension spec = None \<Longrightarrow> free_authority_cert c"
    and "leaf_critical_extension spec = Some (oid, v) \<Longrightarrow> oid \<in> critical_oids c"
proof -
  note S = parity_settingD [OF set]
  obtain params key where b: "LeafSpec_build rc spec True fresh = Some (params, key)" "rc_self_signed rc params key = Some der"
    using leaf by (auto simp: LeafSpec_self_signed_def split: Option.bind_splits)
  note bs = LeafSpec_built [OF b(1)]
  have r: "reads_as rd params key (distinguished_name params) c" if "leaf_critical_extension spec = None"
    by (rule self_signed_reads [OF S(1) _ b(2) c])
      (use bs(1,2) that S(3) in \<open>auto simp: plain_params_def named_params_def\<close>)
  show "sound_cert (common_name_key rc rd (leaf_subject_cn spec)) (common_name_key rc rd (leaf_subject_cn spec)) c"
    if none: "leaf_critical_extension spec = None"
  proof -
    have "within REFERENCE_TIME c" using r [OF none] unfolding reads_as_def by (blast intro: built_leaf_within [OF b(1) spec])
    from reads_as_sound [OF r [OF none] _ this] show ?thesis
      using S(4) built_key_usages(2) [OF b(1)] bs(1) by (simp add: common_name_key_def kit_name_def)
  qed
  show "leaf_critical_extension spec = None \<Longrightarrow> free_authority_cert c"
    using reads_as_authority_cert(2) [OF r] bs(3) by blast
  show "leaf_critical_extension spec = Some (oid, v) \<Longrightarrow> oid \<in> critical_oids c"
    by (rule critical_extension_cert [OF S(7) b(2) c LeafSpec_build_extension [OF b(1)]])
qed

subsection \<open>The set\<close>

lemma issue_parity_copies:
  assumes "issue_parity rc fresh = Some s" "copies_keep_key rc rd"
  shows "read_key rd (ca_key_pair (ca1_cross s)) = read_key rd (ca_key_pair (ca1 s))"
    and "read_key rd (ca_key_pair (intermediate1_without_ski_aki s)) = read_key rd (ca_key_pair (intermediate1 s))"
proof -
  obtain c1 where c1: "copy_of_key_pair rc (ca1 s) = Some c1"
      "CaSpec_signed_by rc (parity_cross_spec ''Benchmark Test CA 1'' c1) (ca2 s) panic = Some (ca1_cross s)"
    using assms(1) by (auto simp: issue_parity_def bind_eq_Some_conv)
  obtain d1 where d1: "copy_of_key_pair rc (intermediate1 s) = Some d1"
      "CaSpec_signed_by rc (ca_with_aki (ca_with_ski (parity_intermediate_spec d1) Absent) False) (ca1 s) panic =
         Some (intermediate1_without_ski_aki s)"
    using assms(1) by (auto simp: issue_parity_def bind_eq_Some_conv)
  note keys = CaSpec_build_Some(8) [OF CaSpec_signed_by_Some(1)]
  show "read_key rd (ca_key_pair (ca1_cross s)) = read_key rd (ca_key_pair (ca1 s))"
    using keys [OF c1(2)] copy_keeps_key [OF assms(2) c1(1)] by (simp add: parity_spec_defs)
  show "read_key rd (ca_key_pair (intermediate1_without_ski_aki s)) = read_key rd (ca_key_pair (intermediate1 s))"
    using keys [OF d1(2)] copy_keeps_key [OF assms(2) d1(1)] by (simp add: parity_spec_defs)
qed

text \<open>
  The set as the scenarios see it, for the byte strings its five subject names are compared by. The issuer of the
  intermediate with ``incorrect'' identifiers is the second root.
\<close>

definition parity_names :: "bytes \<Rightarrow> bytes \<Rightarrow> bytes \<Rightarrow> bytes \<Rightarrow> bytes \<Rightarrow> Parity \<Rightarrow> bool" where
  "parity_names n0 ni n1 n2 ns p \<longleftrightarrow>
     distinct [n0, ni, n1, n2, ns] \<and>
     sound_cert n0 ni (parity_localhost_leaf p) \<and>
     sound_cert ni n1 (parity_intermediate1 p) \<and>
     sound_cert ni n1 (parity_intermediate1_without_ski_aki p) \<and>
     sound_cert ni n2 (parity_intermediate1_with_incorrect_ski_aki p) \<and>
     sound_cert n1 n1 (parity_ca1 p) \<and>
     sound_cert n1 n1 (parity_ca1_with_alternative_private_key p) \<and>
     sound_cert n1 n2 (parity_ca1_cross_signed_by_ca2 p) \<and>
     sound_cert n2 n2 (parity_ca2 p) \<and>
     sound_cert n2 n1 (parity_ca2_cross_signed_by_ca1 p) \<and>
     sound_cert ns ns (parity_isolated_self_signed p)"

definition parity_authority :: "Parity \<Rightarrow> bool" where
  "parity_authority p \<longleftrightarrow>
     authority_cert (parity_intermediate1 p) \<and> authority_cert (parity_intermediate1_without_ski_aki p) \<and>
     free_authority_cert (parity_ca1 p) \<and> free_authority_cert (parity_ca2 p) \<and>
     free_authority_cert (parity_ca1_cross_signed_by_ca2 p) \<and> free_authority_cert (parity_isolated_self_signed p)"

definition parity_leaves :: "Parity \<Rightarrow> bool" where
  "parity_leaves p \<longleftrightarrow>
     tbs_subject_alternative_name (parity_localhost_leaf p) = Ok (Some [DNSName (ascii ''localhost'')]) \<and>
     [1, 2, 3, 4, 5] \<in> critical_oids (parity_isolated_self_signed_weird_critical p)"

definition parity_signatures :: "signature_verifier \<Rightarrow> Parity \<Rightarrow> bool" where
  "parity_signatures verify p \<longleftrightarrow>
     vouches verify (parity_intermediate1 p) (parity_localhost_leaf p) \<and>
     vouches verify (parity_intermediate1_without_ski_aki p) (parity_localhost_leaf p) \<and>
     vouches verify (parity_ca1 p) (parity_intermediate1 p) \<and>
     vouches verify (parity_ca1_cross_signed_by_ca2 p) (parity_intermediate1 p) \<and>
     vouches verify (parity_ca1 p) (parity_intermediate1_without_ski_aki p) \<and>
     vouches verify (parity_ca2 p) (parity_ca1_cross_signed_by_ca2 p)"

definition parity_bytes :: "(certificate \<Rightarrow> bytes) \<Rightarrow> Parity \<Rightarrow> bool" where
  "parity_bytes as_raw p \<longleftrightarrow>
     (\<forall>c \<in> {parity_localhost_leaf p, parity_intermediate1 p, parity_ca1_cross_signed_by_ca2 p, parity_ca2 p}.
        as_raw c \<noteq> as_raw (parity_ca1 p))"

lemma parity_spec_simps:
  "ca_subject_cn (parity_root_spec cn k) = cn" "ca_ski (parity_root_spec cn k) \<noteq> Absent" "ca_path_len (parity_root_spec cn k) = None"
  "ca_subject_cn (parity_cross_spec cn k) = cn" "ca_path_len (parity_cross_spec cn k) = None"
  "ca_subject_cn (parity_intermediate_spec k) = ''Benchmark Test Intermediate CA 1''"
  "ca_subject_cn (ca_with_aki spec b) = ca_subject_cn spec" "ca_subject_cn (ca_with_ski spec ski) = ca_subject_cn spec"
  by (simp_all add: parity_spec_defs)

lemma parity_leaf_spec_simps:
  "leaf_subject_cn (leaf_with_aki (leaf_with_dns_sans (parity_leaf_spec cn) hosts) b) = cn"
  "leaf_critical_extension (leaf_with_aki (leaf_with_dns_sans (parity_leaf_spec cn) hosts) b) = None"
  "leaf_dns_sans (leaf_with_aki (leaf_with_dns_sans (parity_leaf_spec cn) hosts) b) = hosts"
  "leaf_subject_cn (parity_leaf_spec cn) = cn" "leaf_critical_extension (parity_leaf_spec cn) = None"
  "leaf_critical_extension (leaf_with_critical_extension (parity_leaf_spec cn) oid v) = Some (oid, v)"
  by (simp_all add: parity_leaf_spec_def leaf_with_aki_def leaf_with_dns_sans_def leaf_with_validity_def
      leaf_with_critical_extension_def LeafSpec_new_def)

lemma self_signed_dn:
  "CaSpec_self_signed rc spec fresh = Some auth \<Longrightarrow>
     distinguished_name (ca_params auth) = rc_dn_push_common_name rc (rc_dn_new rc) (ca_subject_cn spec)"
  by (rule CaSpec_build_Some(1) [OF CaSpec_self_signed_Some(1)])

lemma signed_by_dn:
  "CaSpec_signed_by rc spec issuer fresh = Some auth \<Longrightarrow>
     distinguished_name (ca_params auth) = rc_dn_push_common_name rc (rc_dn_new rc) (ca_subject_cn spec)"
  by (rule CaSpec_build_Some(1) [OF CaSpec_signed_by_Some(1)])

text \<open>The names, as byte strings, of the subjects of the set.\<close>

abbreviation leaf_key :: "('dn, 'ext, 'key) rcgen \<Rightarrow> ('dn, 'key) readings \<Rightarrow> bytes" where
  "leaf_key rc rd \<equiv> common_name_key rc rd ''localhost''"

abbreviation intermediate_key :: "('dn, 'ext, 'key) rcgen \<Rightarrow> ('dn, 'key) readings \<Rightarrow> bytes" where
  "intermediate_key rc rd \<equiv> common_name_key rc rd ''Benchmark Test Intermediate CA 1''"

abbreviation ca1_name :: "('dn, 'ext, 'key) rcgen \<Rightarrow> ('dn, 'key) readings \<Rightarrow> bytes" where
  "ca1_name rc rd \<equiv> common_name_key rc rd ''Benchmark Test CA 1''"

abbreviation ca2_name :: "('dn, 'ext, 'key) rcgen \<Rightarrow> ('dn, 'key) readings \<Rightarrow> bytes" where
  "ca2_name rc rd \<equiv> common_name_key rc rd ''Benchmark Test CA 2''"

abbreviation isolated_key :: "('dn, 'ext, 'key) rcgen \<Rightarrow> ('dn, 'key) readings \<Rightarrow> bytes" where
  "isolated_key rc rd \<equiv> common_name_key rc rd ''Isolated Self-Signed Cert''"

text \<open>What is known of an authority of the set: its certificate is sound, holds its key and keeps its bytes.\<close>

definition known_authority ::
  "('dn, 'key) readings \<Rightarrow> (certificate \<Rightarrow> bytes) \<Rightarrow> bytes \<Rightarrow> bytes \<Rightarrow> ('dn, 'ext, 'key) Ca \<Rightarrow> certificate \<Rightarrow> bool" where
  "known_authority rd as_raw subject issuer auth c \<longleftrightarrow>
     sound_cert subject issuer c \<and> tbs_subject_pki c = read_key rd (ca_key_pair auth) \<and> as_raw c = ca_der auth"

lemma parity_root_certs:
  assumes set: "parity_setting rc from_der rd as_raw" and s: "issue_parity rc fresh = Some s"
  shows "testkit_cert from_der invalid (ca_der (ca1 s)) = Some c \<Longrightarrow>
      known_authority rd as_raw (ca1_name rc rd) (ca1_name rc rd) (ca1 s) c \<and> free_authority_cert c"
    and "testkit_cert from_der invalid (ca_der (ca2 s)) = Some c \<Longrightarrow>
      known_authority rd as_raw (ca2_name rc rd) (ca2_name rc rd) (ca2 s) c \<and> free_authority_cert c"
    and "testkit_cert from_der invalid (ca_der (ca1_alternative s)) = Some c \<Longrightarrow>
      known_authority rd as_raw (ca1_name rc rd) (ca1_name rc rd) (ca1_alternative s) c \<and> free_authority_cert c"
proof -
  have root: "known_authority rd as_raw (common_name_key rc rd cn) (common_name_key rc rd cn) auth c \<and> free_authority_cert c"
    if "CaSpec_self_signed rc (parity_root_spec cn k) panic = Some auth" "testkit_cert from_der invalid (ca_der auth) = Some c"
    for cn k auth c
    using self_signed_authority [OF set that] by (simp add: known_authority_def parity_spec_simps)
  show "testkit_cert from_der invalid (ca_der (ca1 s)) = Some c \<Longrightarrow>
      known_authority rd as_raw (ca1_name rc rd) (ca1_name rc rd) (ca1 s) c \<and> free_authority_cert c"
    "testkit_cert from_der invalid (ca_der (ca2 s)) = Some c \<Longrightarrow>
      known_authority rd as_raw (ca2_name rc rd) (ca2_name rc rd) (ca2 s) c \<and> free_authority_cert c"
    "testkit_cert from_der invalid (ca_der (ca1_alternative s)) = Some c \<Longrightarrow>
      known_authority rd as_raw (ca1_name rc rd) (ca1_name rc rd) (ca1_alternative s) c \<and> free_authority_cert c"
    by (rule issue_parity_steps [OF s], erule root, assumption)+
qed

lemma parity_dns:
  assumes s: "issue_parity rc fresh = Some s"
  shows "distinguished_name (ca_params (ca1 s)) = rc_dn_push_common_name rc (rc_dn_new rc) ''Benchmark Test CA 1''"
    and "distinguished_name (ca_params (ca2 s)) = rc_dn_push_common_name rc (rc_dn_new rc) ''Benchmark Test CA 2''"
    and "distinguished_name (ca_params (intermediate1 s)) = rc_dn_push_common_name rc (rc_dn_new rc) ''Benchmark Test Intermediate CA 1''"
proof -
  obtain k1 k2 k4 where i: "CaSpec_self_signed rc (parity_root_spec ''Benchmark Test CA 1'' k1) panic = Some (ca1 s)"
      "CaSpec_self_signed rc (parity_root_spec ''Benchmark Test CA 2'' k2) panic = Some (ca2 s)"
      "CaSpec_signed_by rc (ca_with_aki (parity_intermediate_spec k4) True) (ca1 s) panic = Some (intermediate1 s)"
    by (rule issue_parity_steps [OF s])
  show "distinguished_name (ca_params (ca1 s)) = rc_dn_push_common_name rc (rc_dn_new rc) ''Benchmark Test CA 1''"
    "distinguished_name (ca_params (ca2 s)) = rc_dn_push_common_name rc (rc_dn_new rc) ''Benchmark Test CA 2''"
    "distinguished_name (ca_params (intermediate1 s)) = rc_dn_push_common_name rc (rc_dn_new rc) ''Benchmark Test Intermediate CA 1''"
    using self_signed_dn [OF i(1)] self_signed_dn [OF i(2)] signed_by_dn [OF i(3)] by (simp_all add: parity_spec_simps)
qed

lemma parity_subordinate_certs:
  assumes set: "parity_setting rc from_der rd as_raw" and s: "issue_parity rc fresh = Some s"
  shows "testkit_cert from_der invalid (ca_der (ca1_cross s)) = Some c \<Longrightarrow>
      known_authority rd as_raw (ca1_name rc rd) (ca2_name rc rd) (ca1_cross s) c \<and> free_authority_cert c"
    and "testkit_cert from_der invalid (ca_der (ca2_cross s)) = Some c \<Longrightarrow>
      known_authority rd as_raw (ca2_name rc rd) (ca1_name rc rd) (ca2_cross s) c \<and> free_authority_cert c"
    and "testkit_cert from_der invalid (ca_der (intermediate1 s)) = Some c \<Longrightarrow>
      known_authority rd as_raw (intermediate_key rc rd) (ca1_name rc rd) (intermediate1 s) c \<and> authority_cert c"
    and "testkit_cert from_der invalid (ca_der (intermediate1_without_ski_aki s)) = Some c \<Longrightarrow>
      known_authority rd as_raw (intermediate_key rc rd) (ca1_name rc rd) (intermediate1_without_ski_aki s) c \<and> authority_cert c"
    and "testkit_cert from_der invalid (ca_der (intermediate1_with_incorrect_ski_aki s)) = Some c \<Longrightarrow>
      known_authority rd as_raw (intermediate_key rc rd) (ca2_name rc rd) (intermediate1_with_incorrect_ski_aki s) c"
proof -
  have sub: "known_authority rd as_raw (common_name_key rc rd (ca_subject_cn spec)) (common_name_key rc rd cn) auth c \<and>
      authority_cert c \<and> (ca_path_len spec = None \<longrightarrow> free_authority_cert c)"
    if "CaSpec_signed_by rc spec issuer panic = Some auth" "testkit_cert from_der invalid (ca_der auth) = Some c"
      "covers REFERENCE_TIME spec" "distinguished_name (ca_params issuer) = rc_dn_push_common_name rc (rc_dn_new rc) cn"
    for spec issuer auth c cn
    using signed_authority [OF set that] by (simp add: known_authority_def)
  show "testkit_cert from_der invalid (ca_der (ca1_cross s)) = Some c \<Longrightarrow>
      known_authority rd as_raw (ca1_name rc rd) (ca2_name rc rd) (ca1_cross s) c \<and> free_authority_cert c"
    "testkit_cert from_der invalid (ca_der (ca2_cross s)) = Some c \<Longrightarrow>
      known_authority rd as_raw (ca2_name rc rd) (ca1_name rc rd) (ca2_cross s) c \<and> free_authority_cert c"
    "testkit_cert from_der invalid (ca_der (intermediate1 s)) = Some c \<Longrightarrow>
      known_authority rd as_raw (intermediate_key rc rd) (ca1_name rc rd) (intermediate1 s) c \<and> authority_cert c"
    "testkit_cert from_der invalid (ca_der (intermediate1_without_ski_aki s)) = Some c \<Longrightarrow>
      known_authority rd as_raw (intermediate_key rc rd) (ca1_name rc rd) (intermediate1_without_ski_aki s) c \<and> authority_cert c"
    "testkit_cert from_der invalid (ca_der (intermediate1_with_incorrect_ski_aki s)) = Some c \<Longrightarrow>
      known_authority rd as_raw (intermediate_key rc rd) (ca2_name rc rd) (intermediate1_with_incorrect_ski_aki s) c"
    by (rule issue_parity_steps [OF s], drule (1) sub, simp,
        (rule parity_dns(1) [OF s] | rule parity_dns(2) [OF s]), simp add: parity_spec_simps; fail)+
qed

text \<open>The parsed set, with the authorities it was made from.\<close>

definition parity_parsed ::
  "(bytes \<Rightarrow> certificate may_panic) \<Rightarrow> ('dn, 'ext, 'key) parity_authorities \<Rightarrow> Parity \<Rightarrow> bool" where
  "parity_parsed cert s p \<longleftrightarrow>
     cert (ca_der (ca1 s)) = Some (parity_ca1 p) \<and> cert (ca_der (ca2 s)) = Some (parity_ca2 p) \<and>
     cert (ca_der (ca1_alternative s)) = Some (parity_ca1_with_alternative_private_key p) \<and>
     cert (ca_der (ca1_cross s)) = Some (parity_ca1_cross_signed_by_ca2 p) \<and>
     cert (ca_der (ca2_cross s)) = Some (parity_ca2_cross_signed_by_ca1 p) \<and>
     cert (ca_der (intermediate1 s)) = Some (parity_intermediate1 p) \<and>
     cert (ca_der (intermediate1_without_ski_aki s)) = Some (parity_intermediate1_without_ski_aki p) \<and>
     cert (ca_der (intermediate1_with_incorrect_ski_aki s)) = Some (parity_intermediate1_with_incorrect_ski_aki p) \<and>
     cert (localhost_leaf s) = Some (parity_localhost_leaf p) \<and>
     cert (isolated_self_signed s) = Some (parity_isolated_self_signed p) \<and>
     cert (isolated_self_signed_weird_critical s) = Some (parity_isolated_self_signed_weird_critical p)"

lemma build_parity_parsed:
  "build_parity rc cert fresh = Some p \<Longrightarrow> \<exists>s. issue_parity rc fresh = Some s \<and> parity_parsed cert s p"
  by (auto simp: build_parity_def parity_parsed_def bind_eq_Some_conv)

lemma parity_certs:
  assumes set: "parity_setting rc from_der rd as_raw" and s: "issue_parity rc fresh = Some s"
    and parsed: "parity_parsed (testkit_cert from_der invalid) s p"
  shows "known_authority rd as_raw (ca1_name rc rd) (ca1_name rc rd) (ca1 s) (parity_ca1 p) \<and> free_authority_cert (parity_ca1 p)"
    and "known_authority rd as_raw (ca2_name rc rd) (ca2_name rc rd) (ca2 s) (parity_ca2 p) \<and> free_authority_cert (parity_ca2 p)"
    and "known_authority rd as_raw (ca1_name rc rd) (ca1_name rc rd) (ca1_alternative s) (parity_ca1_with_alternative_private_key p)"
    and "known_authority rd as_raw (ca1_name rc rd) (ca2_name rc rd) (ca1_cross s) (parity_ca1_cross_signed_by_ca2 p) \<and>
      free_authority_cert (parity_ca1_cross_signed_by_ca2 p)"
    and "known_authority rd as_raw (ca2_name rc rd) (ca1_name rc rd) (ca2_cross s) (parity_ca2_cross_signed_by_ca1 p)"
    and "known_authority rd as_raw (intermediate_key rc rd) (ca1_name rc rd) (intermediate1 s) (parity_intermediate1 p) \<and>
      authority_cert (parity_intermediate1 p)"
    and "known_authority rd as_raw (intermediate_key rc rd) (ca1_name rc rd) (intermediate1_without_ski_aki s)
      (parity_intermediate1_without_ski_aki p) \<and> authority_cert (parity_intermediate1_without_ski_aki p)"
    and "known_authority rd as_raw (intermediate_key rc rd) (ca2_name rc rd) (intermediate1_with_incorrect_ski_aki s)
      (parity_intermediate1_with_incorrect_ski_aki p)"
  using parsed parity_root_certs [OF set s] parity_subordinate_certs [OF set s] unfolding parity_parsed_def by blast+

lemma parity_leaf_certs:
  assumes set: "parity_setting rc from_der rd as_raw" and s: "issue_parity rc fresh = Some s"
    and parsed: "parity_parsed (testkit_cert from_der invalid) s p"
  shows "sound_cert (leaf_key rc rd) (intermediate_key rc rd) (parity_localhost_leaf p)"
    and "parity_leaves p" and "as_raw (parity_localhost_leaf p) = localhost_leaf s"
    and "sound_cert (isolated_key rc rd) (isolated_key rc rd) (parity_isolated_self_signed p)"
    and "free_authority_cert (parity_isolated_self_signed p)"
proof -
  have cs: "testkit_cert from_der invalid (localhost_leaf s) = Some (parity_localhost_leaf p)"
    "testkit_cert from_der invalid (isolated_self_signed s) = Some (parity_isolated_self_signed p)"
    "testkit_cert from_der invalid (isolated_self_signed_weird_critical s) = Some (parity_isolated_self_signed_weird_critical p)"
    using parsed by (simp_all add: parity_parsed_def)
  note lv = issue_parity_leaves [OF s] and specs = parity_leaf_spec_simps parity_leaf_specs_cover
  note leaf = signed_leaf [OF set lv(1) cs(1) _ _ parity_dns(3) [OF s]]
    and isolated = self_signed_leaf [OF set lv(2) cs(2)] and weird = self_signed_leaf [OF set lv(3) cs(3)]
  show "sound_cert (leaf_key rc rd) (intermediate_key rc rd) (parity_localhost_leaf p)"
    "parity_leaves p" "as_raw (parity_localhost_leaf p) = localhost_leaf s"
    "sound_cert (isolated_key rc rd) (isolated_key rc rd) (parity_isolated_self_signed p)"
    "free_authority_cert (parity_isolated_self_signed p)"
    using leaf isolated weird by (simp_all add: parity_leaves_def specs)
qed

lemma parity_set_facts:
  assumes set: "parity_setting rc from_der rd as_raw"
    and built: "build_parity rc (testkit_cert from_der invalid) fresh = Some p"
  shows "parity_names (leaf_key rc rd) (intermediate_key rc rd) (ca1_name rc rd) (ca2_name rc rd) (isolated_key rc rd) p"
    and "parity_authority p" and "parity_leaves p" and "parity_bytes as_raw p"
    and "backend_accepts_signed rc from_der rd verify \<Longrightarrow> parity_signatures verify p"
proof -
  obtain s where s: "issue_parity rc fresh = Some s" and parsed: "parity_parsed (testkit_cert from_der invalid) s p"
    using build_parity_parsed [OF built] by blast
  note S = parity_settingD [OF set] and auths = parity_certs [OF set s parsed] and leaves = parity_leaf_certs [OF set s parsed]
  note cs = parsed [unfolded parity_parsed_def] and signers = issue_parity_issuers [OF s, unfolded issued_by_def ca_issuer_def]
  show "parity_names (leaf_key rc rd) (intermediate_key rc rd) (ca1_name rc rd) (ca2_name rc rd) (isolated_key rc rd) p"
    using auths leaves by (simp add: parity_names_def known_authority_def common_name_key_eq [OF S(2)])
  show "parity_authority p" "parity_leaves p" using auths leaves by (simp_all add: parity_authority_def)
  have "parity_ca1 p \<notin> {parity_localhost_leaf p, parity_intermediate1 p, parity_ca1_cross_signed_by_ca2 p, parity_ca2 p}"
    using auths(1,2,4,6) leaves(1) by (auto simp: known_authority_def sound_cert_def common_name_key_eq [OF S(2)])
  then show "parity_bytes as_raw p"
    unfolding parity_bytes_def using cs auths(1,2,4,6) leaves(3) by (auto simp: known_authority_def)
  show "parity_signatures verify p" if backend: "backend_accepts_signed rc from_der rd verify"
  proof -
    obtain params key where leaf: "rc_signed_by rc params key (ca_params (intermediate1 s), ca_key_pair (intermediate1 s)) = Some (localhost_leaf s)"
      using issue_parity_leaves(1) [OF s] by (auto simp: LeafSpec_signed_by_def ca_issuer_def split: Option.bind_splits)
    note vouched = signed_vouches [OF backend, where invalid = invalid]
    note v = vouched [OF leaf] vouched [OF signers(1)] vouched [OF signers(3)] vouched [OF signers(4)]
    show ?thesis
      using v cs auths issue_parity_copies [OF s S(5)] by (simp add: parity_signatures_def known_authority_def)
  qed
qed

end
