(* ===== verification/Bench_Parsers.thy ===== *)
theory Bench_Parsers
  imports Bench_Support
begin

text \<open>
  The vendored roots of \<^verbatim>\<open>x509-validator-testkit/src/roots.rs\<close> and the parsing benchmarks over them,
  \<^verbatim>\<open>x509-validator-bench/compare/benches/parsers.rs\<close> and \<^verbatim>\<open>measure/benches/parse.rs\<close>. \<open>include_bytes\<close> reads a file when the
  crate is compiled and is an argument, as are the parsers under comparison. A benchmark harness calls the closure it is
  given and drops the results: it is a function from the closure's outcome, \<open>None\<close> for a panic, to the row's.
\<close>

subsection \<open>The corpus\<close>

type_synonym 'a bencher = "'a may_panic \<Rightarrow> unit may_panic"

definition root_names :: "string list" where
  "root_names =
       [''ACCVRAIZ1'', ''AC_RAIZ_FNMT-RCM'', ''AC_RAIZ_FNMT-RCM_SERVIDORES_SEGUROS'', ''ANF_Secure_Server_Root_CA'',
        ''Actalis_Authentication_Root_CA'', ''AffirmTrust_Commercial'', ''AffirmTrust_Networking'',
        ''AffirmTrust_Premium'', ''AffirmTrust_Premium_ECC'', ''Amazon_Root_CA_1'', ''Amazon_Root_CA_2'',
        ''Amazon_Root_CA_3'', ''Amazon_Root_CA_4'', ''Atos_TrustedRoot_2011'',
        ''Autoridad_de_Certificacion_Firmaprofesional_CIF_A62634068'',
        ''Autoridad_de_Certificacion_Firmaprofesional_CIF_A62634068_2'', ''Baltimore_CyberTrust_Root'',
        ''Buypass_Class_2_Root_CA'', ''Buypass_Class_3_Root_CA'', ''CA_Disig_Root_R2'', ''CFCA_EV_ROOT'',
        ''COMODO_Certification_Authority'', ''COMODO_ECC_Certification_Authority'',
        ''COMODO_RSA_Certification_Authority'', ''Certainly_Root_E1'', ''Certainly_Root_R1'', ''Certigna'',
        ''Certigna_Root_CA'', ''Certum_EC-384_CA'', ''Certum_Trusted_Network_CA'', ''Certum_Trusted_Network_CA_2'',
        ''Certum_Trusted_Root_CA'', ''Comodo_AAA_Services_root'', ''D-TRUST_BR_Root_CA_1_2020'',
        ''D-TRUST_EV_Root_CA_1_2020'', ''D-TRUST_Root_Class_3_CA_2_2009'', ''D-TRUST_Root_Class_3_CA_2_EV_2009'',
        ''DigiCert_Assured_ID_Root_CA'', ''DigiCert_Assured_ID_Root_G2'', ''DigiCert_Assured_ID_Root_G3'',
        ''DigiCert_Global_Root_CA'', ''DigiCert_Global_Root_G2'', ''DigiCert_Global_Root_G3'',
        ''DigiCert_High_Assurance_EV_Root_CA'', ''DigiCert_TLS_ECC_P384_Root_G5'', ''DigiCert_TLS_RSA4096_Root_G5'',
        ''DigiCert_Trusted_Root_G4'', ''E-Tugra_Certification_Authority'', ''E-Tugra_Global_Root_CA_ECC_v3'',
        ''E-Tugra_Global_Root_CA_RSA_v3'', ''Entrust.net_Premium_2048_Secure_Server_CA'',
        ''Entrust_Root_Certification_Authority'', ''Entrust_Root_Certification_Authority_-_EC1'',
        ''Entrust_Root_Certification_Authority_-_G2'', ''Entrust_Root_Certification_Authority_-_G4'',
        ''GDCA_TrustAUTH_R5_ROOT'', ''GLOBALTRUST_2020'', ''GTS_Root_R1'', ''GTS_Root_R2'', ''GTS_Root_R3'',
        ''GTS_Root_R4'', ''GlobalSign_ECC_Root_CA_-_R4'', ''GlobalSign_ECC_Root_CA_-_R5'', ''GlobalSign_Root_CA'',
        ''GlobalSign_Root_CA_-_R3'', ''GlobalSign_Root_CA_-_R6'', ''GlobalSign_Root_E46'', ''GlobalSign_Root_R46'',
        ''Go_Daddy_Class_2_CA'', ''Go_Daddy_Root_Certificate_Authority_-_G2'', ''HARICA_TLS_ECC_Root_CA_2021'',
        ''HARICA_TLS_RSA_Root_CA_2021'', ''Hellenic_Academic_and_Research_Institutions_ECC_RootCA_2015'',
        ''Hellenic_Academic_and_Research_Institutions_RootCA_2015'', ''HiPKI_Root_CA_-_G1'',
        ''Hongkong_Post_Root_CA_1'', ''Hongkong_Post_Root_CA_3'', ''ISRG_Root_X1'', ''ISRG_Root_X2'',
        ''IdenTrust_Commercial_Root_CA_1'', ''IdenTrust_Public_Sector_Root_CA_1'', ''Izenpe.com'',
        ''Microsec_e-Szigno_Root_CA_2009'', ''Microsoft_ECC_Root_Certificate_Authority_2017'',
        ''Microsoft_RSA_Root_Certificate_Authority_2017'', ''NAVER_Global_Root_Certification_Authority'',
        ''NetLock_Arany_=Class_Gold=_Fotanusitvany'', ''OISTE_WISeKey_Global_Root_GB_CA'',
        ''OISTE_WISeKey_Global_Root_GC_CA'', ''QuoVadis_Root_CA_1_G3'', ''QuoVadis_Root_CA_2'',
        ''QuoVadis_Root_CA_2_G3'', ''QuoVadis_Root_CA_3'', ''QuoVadis_Root_CA_3_G3'',
        ''SSL.com_EV_Root_Certification_Authority_ECC'', ''SSL.com_EV_Root_Certification_Authority_RSA_R2'',
        ''SSL.com_Root_Certification_Authority_ECC'', ''SSL.com_Root_Certification_Authority_RSA'',
        ''SZAFIR_ROOT_CA2'', ''SecureSign_RootCA11'', ''SecureTrust_CA'', ''Secure_Global_CA'',
        ''Security_Communication_ECC_RootCA1'', ''Security_Communication_RootCA2'',
        ''Security_Communication_RootCA3'', ''Security_Communication_Root_CA'', ''Starfield_Class_2_CA'',
        ''Starfield_Root_Certificate_Authority_-_G2'', ''Starfield_Services_Root_Certificate_Authority_-_G2'',
        ''SwissSign_Gold_CA_-_G2'', ''SwissSign_Silver_CA_-_G2'', ''T-TeleSec_GlobalRoot_Class_2'',
        ''T-TeleSec_GlobalRoot_Class_3'', ''TUBITAK_Kamu_SM_SSL_Kok_Sertifikasi_-_Surum_1'', ''TWCA_Global_Root_CA'',
        ''TWCA_Root_Certification_Authority'', ''TeliaSonera_Root_CA_v1'', ''Telia_Root_CA_v2'',
        ''Trustwave_Global_Certification_Authority'', ''Trustwave_Global_ECC_P256_Certification_Authority'',
        ''Trustwave_Global_ECC_P384_Certification_Authority'', ''TunTrust_Root_CA'',
        ''UCA_Extended_Validation_Root'', ''UCA_Global_G2_Root'', ''USERTrust_ECC_Certification_Authority'',
        ''USERTrust_RSA_Certification_Authority'', ''XRamp_Global_CA_Root'', ''certSIGN_ROOT_CA'',
        ''certSIGN_Root_CA_G2'', ''e-Szigno_Root_CA_2017'', ''ePKI_Root_Certification_Authority'',
        ''emSign_ECC_Root_CA_-_C3'', ''emSign_ECC_Root_CA_-_G3'', ''emSign_Root_CA_-_C1'', ''emSign_Root_CA_-_G1'',
        ''vTrus_ECC_Root_CA'', ''vTrus_Root_CA'']"

definition ROOTS :: "(string \<Rightarrow> bytes) \<Rightarrow> bytes list" where
  "ROOTS include_bytes = map (\<lambda>file. include_bytes (''../data/mozilla/'' @ file @ ''.der'')) root_names"

record Corpus =
  corpus_name :: string
  ders :: "bytes list"

definition Corpus_fmt :: "Corpus \<Rightarrow> string" where
  "Corpus_fmt self = corpus_name self"

definition CORPORA :: "(string \<Rightarrow> bytes) \<Rightarrow> bytes \<Rightarrow> Corpus list may_panic" where
  "CORPORA include_bytes LEAF_DER = do {
     first \<leftarrow> slice_first (ROOTS include_bytes);
     Some
       [\<lparr>corpus_name = ''webpki_roots'', ders = ROOTS include_bytes\<rparr>,
        \<lparr>corpus_name = ''single_root'', ders = [first]\<rparr>,
        \<lparr>corpus_name = ''apple_leaf'', ders = [LEAF_DER]\<rparr>] }"

subsection \<open>The rows\<close>

text \<open>The loop every row times: parse each certificate, and count something in it.\<close>

fun parse_each :: "(bytes \<Rightarrow> 'c may_panic) \<Rightarrow> ('c \<Rightarrow> nat) \<Rightarrow> bytes list \<Rightarrow> nat list may_panic" where
  "parse_each from_der tally [] = Some []"
| "parse_each from_der tally (der # rest) = do {
     certificate \<leftarrow> from_der der;
     counts \<leftarrow> parse_each from_der tally rest;
     Some (tally certificate # counts) }"

definition full_parse_x509_parser ::
  "(bytes \<Rightarrow> nom_err + bytes \<times> certificate) \<Rightarrow> nat list bencher \<Rightarrow> Corpus \<Rightarrow> unit may_panic" where
  "full_parse_x509_parser from_der bench corpus =
     bench (parse_each (parse_static from_der) (\<lambda>c. length (tbs_extensions c)) (ders corpus))"

definition full_parse_x509_cert ::
  "(bytes \<Rightarrow> 'c may_panic) \<Rightarrow> ('c \<Rightarrow> 'e list option) \<Rightarrow> nat list bencher \<Rightarrow> Corpus \<Rightarrow> unit may_panic" where
  "full_parse_x509_cert from_der extensions bench corpus =
     bench (parse_each from_der
       (\<lambda>c. case extensions c of Some exts \<Rightarrow> length exts | None \<Rightarrow> 0) (ders corpus))"

text \<open>The alternative names of a certificate; a reading error and an absent extension count nothing.\<close>

definition san_count :: "certificate \<Rightarrow> nat" where
  "san_count c =
     (case tbs_subject_alternative_name c of
        Inr (Some general_names) \<Rightarrow> length general_names
      | _ \<Rightarrow> 0)"

definition read_san_x509_parser ::
  "(bytes \<Rightarrow> nom_err + bytes \<times> certificate) \<Rightarrow> nat list bencher \<Rightarrow> Corpus \<Rightarrow> unit may_panic" where
  "read_san_x509_parser from_der bench corpus =
     bench (parse_each (parse_static from_der) san_count (ders corpus))"

definition read_san_x509_cert ::
  "(bytes \<Rightarrow> 'c may_panic) \<Rightarrow> ('c \<Rightarrow> 'e list option) \<Rightarrow> ('e \<Rightarrow> oid) \<Rightarrow> ('e \<Rightarrow> 'n list option) \<Rightarrow>
   nat list bencher \<Rightarrow> Corpus \<Rightarrow> unit may_panic" where
  "read_san_x509_cert from_der extensions extn_id decode_san bench corpus =
     bench (parse_each from_der
       (\<lambda>c. case Option.bind (Option.bind (extensions c) (List.find (\<lambda>e. extn_id e = subject_alt_name_oid))) decode_san of
          Some general_names \<Rightarrow> length general_names
        | None \<Rightarrow> 0) (ders corpus))"

definition read_san_openssl ::
  "(bytes \<Rightarrow> 'c may_panic) \<Rightarrow> ('c \<Rightarrow> 'n list option) \<Rightarrow> nat list bencher \<Rightarrow> Corpus \<Rightarrow> unit may_panic" where
  "read_san_openssl from_der alt_names bench corpus =
     bench (parse_each from_der
       (\<lambda>c. case alt_names c of Some general_names \<Rightarrow> length general_names | None \<Rightarrow> 0) (ders corpus))"

text \<open>The two rows of \<^verbatim>\<open>measure/benches/parse.rs\<close>.\<close>

definition measure_parse ::
  "(string \<Rightarrow> bytes) \<Rightarrow> (bytes \<Rightarrow> nom_err + bytes \<times> certificate) \<Rightarrow> nat list bencher \<Rightarrow> unit may_panic" where
  "measure_parse include_bytes from_der bench = do {
     bench (parse_each (parse_static from_der) (\<lambda>c. length (tbs_extensions c)) (ROOTS include_bytes));
     der \<leftarrow> slice_first (ROOTS include_bytes);
     bench (parse_each (parse_static from_der) (\<lambda>c. length (tbs_extensions c)) [der]) }"

subsection \<open>Properties\<close>

text \<open>The corpus holds the 137 certificates the repository's test counts.\<close>

lemma ROOTS_length: "length (ROOTS include_bytes) = 137"
  by (simp add: ROOTS_def root_names_def)

lemma parse_each_Some_iff:
  "(\<exists>counts. parse_each from_der tally ds = Some counts) \<longleftrightarrow> (\<forall>der \<in> set ds. from_der der \<noteq> None)"
  by (induction ds) (auto simp: bind_eq_Some_conv)

lemma parse_each_counts:
  "parse_each from_der tally ds = Some counts \<Longrightarrow> counts = map (\<lambda>der. tally (the (from_der der))) ds"
  by (induction ds arbitrary: counts) (auto simp: bind_eq_Some_conv)

text \<open>
  The parsing rows of the crate's own parser report a time exactly when the parser accepts every certificate of the
  corpus: a harness that times what returns, and passes on a panic, panics for every other corpus.
\<close>

theorem parse_rows_return:
  assumes times: "\<forall>x. bench (Some x) = Some ()" "bench None = None"
  shows "(full_parse_x509_parser from_der bench corpus = Some () \<longleftrightarrow> (\<forall>der \<in> set (ders corpus). \<exists>rest c. from_der der = Ok (rest, c))) \<and>
    (read_san_x509_parser from_der bench corpus = Some () \<longleftrightarrow> (\<forall>der \<in> set (ders corpus). \<exists>rest c. from_der der = Ok (rest, c))) \<and>
    (measure_parse include_bytes from_der bench = Some () \<longleftrightarrow>
       (\<forall>der \<in> set (ROOTS include_bytes). \<exists>rest c. from_der der = Ok (rest, c)))"
proof -
  have timed: "bench r = Some () \<longleftrightarrow> r \<noteq> None" for r using times by (cases r) auto
  have parsed: "parse_static from_der der \<noteq> None \<longleftrightarrow> (\<exists>rest c. from_der der = Ok (rest, c))" for der
    by (auto simp: parse_static_def split: sum.splits)
  have row: "bench (parse_each (parse_static from_der) tally ds) = Some () \<longleftrightarrow>
      (\<forall>der \<in> set ds. \<exists>rest c. from_der der = Ok (rest, c))" for tally ds
    using parse_each_Some_iff [of "parse_static from_der" tally ds] unfolding timed parsed by auto
  obtain first others where roots: "ROOTS include_bytes = first # others"
    using ROOTS_length [of include_bytes] by (cases "ROOTS include_bytes") auto
  have "measure_parse include_bytes from_der bench = Some () \<longleftrightarrow>
      (\<forall>der \<in> set (ROOTS include_bytes). \<exists>rest c. from_der der = Ok (rest, c))"
    using row [of _ "ROOTS include_bytes"] row [of _ "[first]"] unfolding measure_parse_def roots slice_first_def
    by (auto simp: bind_eq_Some_conv)
  then show ?thesis by (simp only: full_parse_x509_parser_def read_san_x509_parser_def row simp_thms)
qed

end
