(* ===== verification/Bench_Scenarios.thy ===== *)
theory Bench_Scenarios
  imports Parity_Certificates Bench_Parsers
begin

text \<open>
  The validation benchmarks: the sixteen scenarios of \<^verbatim>\<open>compare/benches/rust_vs_swift.rs\<close>, each of which asserts its verdict
  before it is timed, and \<^verbatim>\<open>measure/benches/validator.rs\<close>, which runs the same scenarios and adds up the lengths of the
  chains found. What they validate is the parity set of \<open>Bench_Fixtures\<close>; that every assertion holds, and what the
  sum is, are proved from what \<open>Parity_Certificates\<close> says of it.
\<close>

subsection \<open>The rows of the comparison\<close>

text \<open>Validation with a callback that drops the events.\<close>

definition validate_quietly :: "Validator \<Rightarrow> certificate \<Rightarrow> CertificateStore \<Rightarrow> ChainValidationResult may_panic" where
  "validate_quietly V leaf intermediates = map_option fst (validate_with_diagnostics V leaf intermediates)"

definition scenario_row ::
  "signature_verifier \<Rightarrow> ChainValidationResult bencher \<Rightarrow> certificate list \<Rightarrow> certificate list \<Rightarrow> certificate \<Rightarrow>
   ValidationPolicy \<Rightarrow> bool \<Rightarrow> unit may_panic" where
  "scenario_row verify bench roots intermediates leaf policy expect_valid = do {
     let validate =
       validate_quietly (Validator_with_policy_and_backend (store_from_iter roots) policy verify) leaf
         (store_from_iter intermediates);
     verdict \<leftarrow> validate;
     rust_assert ((\<not> isl verdict) = expect_valid);
     bench validate }"

definition plain_rfc5280 :: ValidationPolicy where
  "plain_rfc5280 = RFC5280Policy_policy (RFC5280Policy_new REFERENCE_TIME)"

definition trivial_chain_building ::
  "signature_verifier \<Rightarrow> ChainValidationResult bencher \<Rightarrow> Parity \<Rightarrow> unit may_panic" where
  "trivial_chain_building verify bench p =
     scenario_row verify bench [parity_ca1 p] [parity_intermediate1 p] (parity_localhost_leaf p) plain_rfc5280 True"

definition extra_roots_are_ignored ::
  "signature_verifier \<Rightarrow> ChainValidationResult bencher \<Rightarrow> Parity \<Rightarrow> unit may_panic" where
  "extra_roots_are_ignored verify bench p =
     scenario_row verify bench [parity_ca1 p, parity_ca2 p] [parity_intermediate1 p] (parity_localhost_leaf p)
       plain_rfc5280 True"

definition roots_in_the_intermediate_store_are_not_a_problem ::
  "signature_verifier \<Rightarrow> ChainValidationResult bencher \<Rightarrow> Parity \<Rightarrow> unit may_panic" where
  "roots_in_the_intermediate_store_are_not_a_problem verify bench p =
     scenario_row verify bench [parity_ca1 p, parity_ca2 p] [parity_intermediate1 p, parity_ca1 p, parity_ca2 p]
       (parity_localhost_leaf p) plain_rfc5280 True"

definition cross_signed_root ::
  "signature_verifier \<Rightarrow> ChainValidationResult bencher \<Rightarrow> Parity \<Rightarrow> unit may_panic" where
  "cross_signed_root verify bench p =
     scenario_row verify bench [parity_ca2 p] [parity_intermediate1 p, parity_ca1_cross_signed_by_ca2 p]
       (parity_localhost_leaf p) plain_rfc5280 True"

definition builds_the_shorter_path_when_both_cross_signed_roots_are_present ::
  "signature_verifier \<Rightarrow> ChainValidationResult bencher \<Rightarrow> Parity \<Rightarrow> unit may_panic" where
  "builds_the_shorter_path_when_both_cross_signed_roots_are_present verify bench p =
     scenario_row verify bench [parity_ca1 p, parity_ca2 p]
       [parity_intermediate1 p, parity_ca2_cross_signed_by_ca1 p, parity_ca1_cross_signed_by_ca2 p]
       (parity_localhost_leaf p) plain_rfc5280 True"

definition prefers_an_intermediate_whose_ski_matches ::
  "signature_verifier \<Rightarrow> ChainValidationResult bencher \<Rightarrow> Parity \<Rightarrow> unit may_panic" where
  "prefers_an_intermediate_whose_ski_matches verify bench p =
     scenario_row verify bench [parity_ca1 p] [parity_intermediate1 p, parity_intermediate1_without_ski_aki p]
       (parity_localhost_leaf p) plain_rfc5280 True"

definition prefers_no_ski_over_a_non_matching_one ::
  "signature_verifier \<Rightarrow> ChainValidationResult bencher \<Rightarrow> Parity \<Rightarrow> unit may_panic" where
  "prefers_no_ski_over_a_non_matching_one verify bench p =
     scenario_row verify bench [parity_ca1 p]
       [parity_intermediate1_with_incorrect_ski_aki p, parity_intermediate1_without_ski_aki p]
       (parity_localhost_leaf p) plain_rfc5280 True"

definition rejects_a_root_that_did_not_sign_the_certificate_below_it ::
  "signature_verifier \<Rightarrow> ChainValidationResult bencher \<Rightarrow> Parity \<Rightarrow> unit may_panic" where
  "rejects_a_root_that_did_not_sign_the_certificate_below_it verify bench p =
     scenario_row verify bench [parity_ca1_with_alternative_private_key p, parity_ca2 p]
       [parity_ca1_cross_signed_by_ca2 p, parity_ca2_cross_signed_by_ca1 p, parity_intermediate1 p]
       (parity_localhost_leaf p) plain_rfc5280 True"

definition a_policy_failure_sends_the_search_down_a_longer_path ::
  "(certificate \<Rightarrow> bytes) \<Rightarrow> signature_verifier \<Rightarrow> ChainValidationResult bencher \<Rightarrow> Parity \<Rightarrow> unit may_panic" where
  "a_policy_failure_sends_the_search_down_a_longer_path as_raw verify bench p =
     scenario_row verify bench [parity_ca1 p, parity_ca2 p]
       [parity_intermediate1 p, parity_ca2_cross_signed_by_ca1 p, parity_ca1_cross_signed_by_ca2 p]
       (parity_localhost_leaf p)
       (FailIfCertInChain_policy as_raw (FailIfCertInChain_new (as_raw (parity_ca1 p)) REFERENCE_TIME)) True"

definition a_self_signed_certificate_in_the_trust_store_validates ::
  "signature_verifier \<Rightarrow> ChainValidationResult bencher \<Rightarrow> Parity \<Rightarrow> unit may_panic" where
  "a_self_signed_certificate_in_the_trust_store_validates verify bench p =
     scenario_row verify bench [parity_ca1 p, parity_isolated_self_signed p] [parity_intermediate1 p]
       (parity_isolated_self_signed p) plain_rfc5280 True"

definition a_trust_root_may_be_a_non_self_signed_leaf ::
  "signature_verifier \<Rightarrow> ChainValidationResult bencher \<Rightarrow> Parity \<Rightarrow> unit may_panic" where
  "a_trust_root_may_be_a_non_self_signed_leaf verify bench p =
     scenario_row verify bench [parity_localhost_leaf p] [parity_intermediate1 p] (parity_localhost_leaf p)
       IgnoreBasicConstraints True"

definition a_trust_root_may_be_a_non_self_signed_intermediate ::
  "signature_verifier \<Rightarrow> ChainValidationResult bencher \<Rightarrow> Parity \<Rightarrow> unit may_panic" where
  "a_trust_root_may_be_a_non_self_signed_intermediate verify bench p =
     scenario_row verify bench [parity_intermediate1 p] [parity_intermediate1 p] (parity_localhost_leaf p)
       plain_rfc5280 True"

definition an_unhandled_critical_extension_on_the_leaf_is_policed ::
  "signature_verifier \<Rightarrow> ChainValidationResult bencher \<Rightarrow> Parity \<Rightarrow> unit may_panic" where
  "an_unhandled_critical_extension_on_the_leaf_is_policed verify bench p =
     scenario_row verify bench [parity_ca1 p, parity_isolated_self_signed_weird_critical p] [parity_intermediate1 p]
       (parity_isolated_self_signed_weird_critical p) plain_rfc5280 False"

definition a_missing_intermediate_cannot_build ::
  "signature_verifier \<Rightarrow> ChainValidationResult bencher \<Rightarrow> Parity \<Rightarrow> unit may_panic" where
  "a_missing_intermediate_cannot_build verify bench p =
     scenario_row verify bench [parity_ca1 p] [] (parity_localhost_leaf p) plain_rfc5280 False"

definition a_self_signed_certificate_outside_the_trust_store_is_rejected ::
  "signature_verifier \<Rightarrow> ChainValidationResult bencher \<Rightarrow> Parity \<Rightarrow> unit may_panic" where
  "a_self_signed_certificate_outside_the_trust_store_is_rejected verify bench p =
     scenario_row verify bench [parity_ca1 p] [parity_intermediate1 p] (parity_isolated_self_signed p) plain_rfc5280 False"

definition a_missing_root_cannot_build ::
  "signature_verifier \<Rightarrow> ChainValidationResult bencher \<Rightarrow> Parity \<Rightarrow> unit may_panic" where
  "a_missing_root_cannot_build verify bench p =
     scenario_row verify bench [] [parity_intermediate1 p] (parity_localhost_leaf p) plain_rfc5280 False"

subsection \<open>The measured scenarios\<close>

record FailIfCertInChainPolicy =
  measured_forbidden :: bytes
  measured_inner :: RFC5280Policy

definition FailIfCertInChainPolicy_policy ::
  "(certificate \<Rightarrow> bytes) \<Rightarrow> FailIfCertInChainPolicy \<Rightarrow> ValidationPolicy" where
  "FailIfCertInChainPolicy_policy as_ref self =
     \<lparr>verifying_critical_extensions = [basic_constraints_oid],
      chain_meets_policy_requirements = (\<lambda>chain.
        if list_ex (\<lambda>cert. as_ref cert = measured_forbidden self) (chain_iter chain)
        then Some (Err (PolicyFailureReason_new ''chain contains forbidden certificate''))
        else chain_meets_policy_requirements (RFC5280Policy_policy (measured_inner self)) chain)\<rparr>"

definition IgnoreBasicConstraintsPolicy :: ValidationPolicy where
  "IgnoreBasicConstraintsPolicy =
     \<lparr>verifying_critical_extensions = [basic_constraints_oid],
      chain_meets_policy_requirements = (\<lambda>_. Some (Ok ()))\<rparr>"

record Scenario =
  scenario_roots :: "certificate list"
  scenario_intermediates :: "certificate list"
  scenario_leaf :: certificate

definition chain_length_or_failure_count :: "ChainValidationResult \<Rightarrow> nat" where
  "chain_length_or_failure_count result =
     (case result of Inr chain \<Rightarrow> length (validated_iter chain) | Inl reasons \<Rightarrow> length reasons)"

definition validate_under ::
  "ValidationPolicy \<Rightarrow> signature_verifier \<Rightarrow> CertificateStore \<Rightarrow> CertificateStore \<Rightarrow> certificate \<Rightarrow> nat may_panic" where
  "validate_under policy verify roots intermediates leaf = do {
     result \<leftarrow> validate_quietly (Validator_with_policy_and_backend roots policy verify) leaf intermediates;
     Some (chain_length_or_failure_count result) }"

definition measured_validate ::
  "signature_verifier \<Rightarrow> CertificateStore \<Rightarrow> CertificateStore \<Rightarrow> certificate \<Rightarrow> nat may_panic" where
  "measured_validate verify roots intermediates leaf =
     validate_under (RFC5280Policy_policy (RFC5280Policy_new REFERENCE_TIME)) verify roots intermediates leaf"

text \<open>Criterion's \<open>bench_function\<close>: a name, and the outcome of the closure it calls.\<close>

type_synonym 'a criterion = "string \<Rightarrow> 'a may_panic \<Rightarrow> unit may_panic"

definition bench_scenario :: "signature_verifier \<Rightarrow> nat criterion \<Rightarrow> string \<Rightarrow> Scenario \<Rightarrow> unit may_panic" where
  "bench_scenario verify c name s =
     c name (measured_validate verify (store_from_iter (scenario_roots s)) (store_from_iter (scenario_intermediates s))
       (scenario_leaf s))"

text \<open>The two scenarios that run under a policy of their own.\<close>

definition longer_path_count :: "(certificate \<Rightarrow> bytes) \<Rightarrow> signature_verifier \<Rightarrow> Parity \<Rightarrow> nat may_panic" where
  "longer_path_count as_ref verify p =
     validate_under
       (FailIfCertInChainPolicy_policy as_ref
         \<lparr>measured_forbidden = as_ref (parity_ca1 p), measured_inner = RFC5280Policy_new REFERENCE_TIME\<rparr>)
       verify (store_from_iter [parity_ca1 p, parity_ca2 p])
       (store_from_iter [parity_intermediate1 p, parity_ca2_cross_signed_by_ca1 p, parity_ca1_cross_signed_by_ca2 p])
       (parity_localhost_leaf p)"

definition leaf_root_count :: "signature_verifier \<Rightarrow> Parity \<Rightarrow> nat may_panic" where
  "leaf_root_count verify p =
     validate_under IgnoreBasicConstraintsPolicy verify (store_from_iter [parity_localhost_leaf p])
       (store_from_iter [parity_intermediate1 p]) (parity_localhost_leaf p)"

definition successful ::
  "(certificate \<Rightarrow> bytes) \<Rightarrow> signature_verifier \<Rightarrow> nat criterion \<Rightarrow> Parity \<Rightarrow> unit may_panic" where
  "successful as_ref verify c p = do {
     bench_scenario verify c ''validator/trivial_chain_building''
       \<lparr>scenario_roots = [parity_ca1 p],
        scenario_intermediates = [parity_intermediate1 p],
        scenario_leaf = parity_localhost_leaf p\<rparr>;
     bench_scenario verify c ''validator/extra_roots_are_ignored''
       \<lparr>scenario_roots = [parity_ca1 p, parity_ca2 p],
        scenario_intermediates = [parity_intermediate1 p],
        scenario_leaf = parity_localhost_leaf p\<rparr>;
     bench_scenario verify c ''validator/roots_in_intermediate_store_are_not_a_problem''
       \<lparr>scenario_roots = [parity_ca1 p, parity_ca2 p],
        scenario_intermediates = [parity_intermediate1 p, parity_ca1 p, parity_ca2 p],
        scenario_leaf = parity_localhost_leaf p\<rparr>;
     bench_scenario verify c ''validator/cross_signed_root''
       \<lparr>scenario_roots = [parity_ca2 p],
        scenario_intermediates = [parity_intermediate1 p, parity_ca1_cross_signed_by_ca2 p],
        scenario_leaf = parity_localhost_leaf p\<rparr>;
     bench_scenario verify c ''validator/builds_shorter_path_when_both_cross_signed_roots_present''
       \<lparr>scenario_roots = [parity_ca1 p, parity_ca2 p],
        scenario_intermediates = [parity_intermediate1 p, parity_ca2_cross_signed_by_ca1 p, parity_ca1_cross_signed_by_ca2 p],
        scenario_leaf = parity_localhost_leaf p\<rparr>;
     bench_scenario verify c ''validator/prefers_intermediate_whose_ski_matches''
       \<lparr>scenario_roots = [parity_ca1 p],
        scenario_intermediates = [parity_intermediate1 p, parity_intermediate1_without_ski_aki p],
        scenario_leaf = parity_localhost_leaf p\<rparr>;
     bench_scenario verify c ''validator/prefers_no_ski_over_non_matching_ski''
       \<lparr>scenario_roots = [parity_ca1 p],
        scenario_intermediates = [parity_intermediate1_with_incorrect_ski_aki p, parity_intermediate1_without_ski_aki p],
        scenario_leaf = parity_localhost_leaf p\<rparr>;
     bench_scenario verify c ''validator/rejects_root_that_did_not_sign''
       \<lparr>scenario_roots = [parity_ca1_with_alternative_private_key p, parity_ca2 p],
        scenario_intermediates = [parity_ca1_cross_signed_by_ca2 p, parity_ca2_cross_signed_by_ca1 p, parity_intermediate1 p],
        scenario_leaf = parity_localhost_leaf p\<rparr>;
     c ''validator/policy_failure_sends_search_down_longer_path'' (longer_path_count as_ref verify p);
     bench_scenario verify c ''validator/self_signed_certificate_in_trust_store_validates''
       \<lparr>scenario_roots = [parity_ca1 p, parity_isolated_self_signed p],
        scenario_intermediates = [parity_intermediate1 p],
        scenario_leaf = parity_isolated_self_signed p\<rparr>;
     c ''validator/trust_root_may_be_non_self_signed_leaf'' (leaf_root_count verify p);
     bench_scenario verify c ''validator/trust_root_may_be_non_self_signed_intermediate''
       \<lparr>scenario_roots = [parity_intermediate1 p],
        scenario_intermediates = [parity_intermediate1 p],
        scenario_leaf = parity_localhost_leaf p\<rparr> }"

definition unsuccessful :: "signature_verifier \<Rightarrow> nat criterion \<Rightarrow> Parity \<Rightarrow> unit may_panic" where
  "unsuccessful verify c p = do {
     bench_scenario verify c ''validator/unhandled_critical_extension_on_leaf_is_policed''
       \<lparr>scenario_roots = [parity_ca1 p, parity_isolated_self_signed_weird_critical p],
        scenario_intermediates = [parity_intermediate1 p],
        scenario_leaf = parity_isolated_self_signed_weird_critical p\<rparr>;
     bench_scenario verify c ''validator/missing_intermediate_cannot_build''
       \<lparr>scenario_roots = [parity_ca1 p],
        scenario_intermediates = [],
        scenario_leaf = parity_localhost_leaf p\<rparr>;
     bench_scenario verify c ''validator/self_signed_certificate_outside_trust_store_is_rejected''
       \<lparr>scenario_roots = [parity_ca1 p],
        scenario_intermediates = [parity_intermediate1 p],
        scenario_leaf = parity_isolated_self_signed p\<rparr>;
     bench_scenario verify c ''validator/missing_root_cannot_build''
       \<lparr>scenario_roots = [],
        scenario_intermediates = [parity_intermediate1 p],
        scenario_leaf = parity_localhost_leaf p\<rparr> }"

text \<open>All of them in one closure, which builds its stores and adds up the counts.\<close>

fun add_counts :: "nat \<Rightarrow> nat may_panic list \<Rightarrow> nat may_panic" where
  "add_counts sum_so_far [] = Some sum_so_far"
| "add_counts sum_so_far (outcome # rest) = do {
     n \<leftarrow> outcome;
     add_counts (sum_so_far + n) rest }"

definition counted :: "signature_verifier \<Rightarrow> certificate list \<Rightarrow> certificate list \<Rightarrow> certificate \<Rightarrow> nat may_panic" where
  "counted verify roots intermediates leaf =
     measured_validate verify (store_from_iter roots) (store_from_iter intermediates) leaf"

definition all_scenarios_rows :: "(certificate \<Rightarrow> bytes) \<Rightarrow> signature_verifier \<Rightarrow> Parity \<Rightarrow> nat may_panic list" where
  "all_scenarios_rows as_ref verify p =
       [counted verify [parity_ca1 p] [parity_intermediate1 p] (parity_localhost_leaf p),
        counted verify [parity_ca1 p, parity_ca2 p] [parity_intermediate1 p] (parity_localhost_leaf p),
        counted verify [parity_ca1 p, parity_ca2 p]
          [parity_intermediate1 p, parity_ca1 p, parity_ca2 p]
          (parity_localhost_leaf p),
        counted verify [parity_ca2 p]
          [parity_intermediate1 p, parity_ca1_cross_signed_by_ca2 p]
          (parity_localhost_leaf p),
        counted verify [parity_ca1 p, parity_ca2 p]
          [parity_intermediate1 p, parity_ca2_cross_signed_by_ca1 p, parity_ca1_cross_signed_by_ca2 p]
          (parity_localhost_leaf p),
        counted verify [parity_ca1 p]
          [parity_intermediate1 p, parity_intermediate1_without_ski_aki p]
          (parity_localhost_leaf p),
        counted verify [parity_ca1 p]
          [parity_intermediate1_with_incorrect_ski_aki p, parity_intermediate1_without_ski_aki p]
          (parity_localhost_leaf p),
        counted verify [parity_ca1_with_alternative_private_key p, parity_ca2 p]
          [parity_ca1_cross_signed_by_ca2 p, parity_ca2_cross_signed_by_ca1 p, parity_intermediate1 p]
          (parity_localhost_leaf p),
        longer_path_count as_ref verify p,
        counted verify [parity_ca1 p, parity_isolated_self_signed p]
          [parity_intermediate1 p]
          (parity_isolated_self_signed p),
        leaf_root_count verify p,
        counted verify [parity_intermediate1 p] [parity_intermediate1 p] (parity_localhost_leaf p),
        counted verify [parity_ca1 p, parity_isolated_self_signed_weird_critical p]
          [parity_intermediate1 p]
          (parity_isolated_self_signed_weird_critical p),
        counted verify [parity_ca1 p] [] (parity_localhost_leaf p),
        counted verify [parity_ca1 p] [parity_intermediate1 p] (parity_isolated_self_signed p),
        counted verify [] [parity_intermediate1 p] (parity_localhost_leaf p)]"

definition all_scenarios_count :: "(certificate \<Rightarrow> bytes) \<Rightarrow> signature_verifier \<Rightarrow> Parity \<Rightarrow> nat may_panic" where
  "all_scenarios_count as_ref verify p = add_counts 0 (all_scenarios_rows as_ref verify p)"

definition all_scenarios ::
  "(certificate \<Rightarrow> bytes) \<Rightarrow> signature_verifier \<Rightarrow> nat criterion \<Rightarrow> Parity \<Rightarrow> unit may_panic" where
  "all_scenarios as_ref verify c p = c ''validator/all_scenarios'' (all_scenarios_count as_ref verify p)"

subsection \<open>The search, step by step\<close>

lemma validate_quietly_eq: "validate_quietly V leaf ints = validate V leaf ints"
  using validate_inner_silent [of V leaf ints "Some []"]
  by (cases "validate_inner V leaf ints (Some [])")
    (auto simp: validate_quietly_def validate_def validate_with_diagnostics_def)

lemma suitability_of_one: "sort_by_suitability_for_issuing [] s = []" "sort_by_suitability_for_issuing [c] s = [c]"
  by (simp_all add: sort_by_suitability_for_issuing_def)

definition named :: "bytes \<Rightarrow> certificate list \<Rightarrow> certificate list" where
  "named n cs = filter (\<lambda>c. subject_key c = n) cs"

lemma named_simps [simp]:
  "named n [] = []"
  "named n (c # cs) = (if subject_key c = n then c # named n cs else named n cs)"
  by (simp_all add: named_def)

lemma issuers_none: "named (issuer_key (last p)) cs = [] \<Longrightarrow> issuers_in V (store_from_iter cs) p = []"
  by (simp add: issuers_in_def find_by_subject_from_iter named_def suitability_of_one)

lemma issuers_one:
  "named (issuer_key (last p)) cs = [c] \<Longrightarrow> issuers_in V (store_from_iter cs) p = (if usable V p c then [c] else [])"
  by (simp add: issuers_in_def find_by_subject_from_iter named_def suitability_of_one)

text \<open>A partial chain whose next certificate the root store, the intermediate store, or each of them has one of.\<close>

lemma chains_to_root:
  assumes "root_certificates V = store_from_iter roots" "named (issuer_key (last p)) roots = [root]" "usable V p root"
  shows "\<exists>rest. chains_from V ints p = (p @ [root]) # rest"
  using assms by (simp add: chains_from.simps [of V ints p] issuers_one)

lemma chains_through:
  assumes "root_certificates V = store_from_iter roots" "issuers_in V (store_from_iter roots) p = []"
    and "named (issuer_key (last p)) ints = [mid]" "usable V p mid"
  shows "chains_from V (store_from_iter ints) p = chains_from V (store_from_iter ints) (p @ [mid])"
  using assms by (simp add: chains_from.simps [of V "store_from_iter ints" p] issuers_one)

lemma chains_to_root_and_through:
  assumes "root_certificates V = store_from_iter roots" "named (issuer_key (last p)) roots = [root]" "usable V p root"
    and "named (issuer_key (last p)) ints = [mid]" "usable V p mid"
  shows "chains_from V (store_from_iter ints) p = (p @ [root]) # chains_from V (store_from_iter ints) (p @ [mid])"
  using assms by (simp add: chains_from.simps [of V "store_from_iter ints" p] issuers_one)

lemma candidates_of_untrusted:
  assumes "root_certificates V = store_from_iter roots" "named (subject_key leaf) roots = []"
  shows "candidate_chains V ints leaf = chains_from V ints [leaf]"
  using assms by (simp add: candidate_chains_def find_by_subject_from_iter flip: named_def)

lemma candidates_of_trusted:
  assumes "root_certificates V = store_from_iter roots" "leaf \<in> set (named (subject_key leaf) roots)"
  shows "candidate_chains V ints leaf = [leaf] # chains_from V ints [leaf]"
  using assms by (simp add: candidate_chains_def find_by_subject_from_iter named_def)

lemma first_candidate_validates:
  assumes "validator_contract V" "handled_critical V leaf" "candidate_chains V ints leaf = cs # rest"
    and "accepts (validator_policy V) \<lparr>uc_certificates = cs\<rparr>"
  shows "validate V leaf ints = Some (Ok \<lparr>vc_certificates = cs\<rparr>)"
  using assms validator_contract.scan [OF assms(1), of leaf ints] by (simp add: accepts_def)

lemma second_candidate_validates:
  assumes "validator_contract V" "handled_critical V leaf" "candidate_chains V ints leaf = no # cs # rest"
    and "\<not> accepts (validator_policy V) \<lparr>uc_certificates = no\<rparr>" "accepts (validator_policy V) \<lparr>uc_certificates = cs\<rparr>"
  shows "validate V leaf ints = Some (Ok \<lparr>vc_certificates = cs\<rparr>)"
proof -
  obtain r where r: "validate V leaf ints = Some r"
    using validator_contract.returns_inner [OF assms(1)] by (fastforce simp: validate_def)
  then have "chain_meets_policy_requirements (validator_policy V) \<lparr>uc_certificates = no\<rparr> \<noteq> None"
    using validator_contract.scan [OF assms(1), of leaf ints] assms(2,3) by (auto split: option.splits)
  then obtain reason where "chain_meets_policy_requirements (validator_policy V) \<lparr>uc_certificates = no\<rparr> = Some (Err reason)"
    using assms(4) by (auto simp: accepts_def) (metis (full_types) old.sum.exhaust old.unit.exhaust)
  then show ?thesis
    using assms validator_contract.scan [OF assms(1), of leaf ints] by (simp add: accepts_def)
qed

lemma no_candidate_rejects:
  assumes "validator_contract V" "handled_critical V leaf" "candidate_chains V ints leaf = []"
  shows "validate V leaf ints = Some (Err [])"
  using assms validator_contract.scan [OF assms(1), of leaf ints] by simp

subsection \<open>What the policies say of the chains\<close>

lemma sound_chain_ok:
  assumes "cs \<noteq> []" "\<forall>c \<in> set cs. \<exists>n m. sound_cert n m c"
  shows "version_ok cs" "name_constraints_ok cs" "expiry_ok REFERENCE_TIME cs"
proof -
  have r: "tbs_version c = V3 \<and> tbs_name_constraints c = Ok None \<and> within REFERENCE_TIME c" if "c \<in> set cs" for c
    using assms(2) that unfolding sound_cert_def by blast
  show "version_ok cs" "expiry_ok REFERENCE_TIME cs"
    using r by (simp_all add: version_ok_def expiry_ok_def within_def)
  have "issuer_constrains (cs ! i) ds" if "i < length cs" for i ds
    using r [OF nth_mem [OF that]] unfolding issuer_constrains_def by (simp only: sum.case option.case)
  then show "name_constraints_ok cs"
    unfolding name_constraints_ok_def using assms(1) by (metis atLeastLessThan_iff hd_conv_nth length_greater_0_conv)
qed

lemma authority_chains_ok:
  "free_authority_cert c \<Longrightarrow> basic_constraints_ok [c]"
  "authority_cert i \<Longrightarrow> basic_constraints_ok [l, i]"
  "authority_cert i \<Longrightarrow> free_authority_cert a \<Longrightarrow> basic_constraints_ok [l, i, a]"
  "authority_cert i \<Longrightarrow> free_authority_cert a \<Longrightarrow> free_authority_cert b \<Longrightarrow> basic_constraints_ok [l, i, a, b]"
  by (auto simp: basic_constraints_ok_def authority_cert_def free_authority_cert_def sub_cas_def less_Suc_eq)

lemma plain_accepts:
  assumes "cs \<noteq> []" "\<forall>c \<in> set cs. \<exists>n m. sound_cert n m c" "basic_constraints_ok cs"
  shows "accepts plain_rfc5280 \<lparr>uc_certificates = cs\<rparr>"
  unfolding plain_rfc5280_def rfc5280_accepts(1) [OF assms(1)] rfc5280_ok_def
  using sound_chain_ok [OF assms(1,2)] assms(3) by simp

lemma scenario_policies:
  "policy_total plain_rfc5280" "handles plain_rfc5280 basic_constraints_oid"
  "policy_total (FailIfCertInChain_policy as_raw (FailIfCertInChain_new forbid t))"
  "handles (FailIfCertInChain_policy as_raw (FailIfCertInChain_new forbid t)) basic_constraints_oid"
  "policy_total IgnoreBasicConstraints" "handles IgnoreBasicConstraints basic_constraints_oid"
  using rfc5280.total fail_if.total ignore.total rfc5280_handles(1)
  by (simp_all add: plain_rfc5280_def) (simp_all add: handles_def FailIfCertInChain_policy_def IgnoreBasicConstraints_def)

text \<open>The policies of the measured scenarios are those of the comparison.\<close>

lemma measured_policies:
  "FailIfCertInChainPolicy_policy as_ref \<lparr>measured_forbidden = forbid, measured_inner = RFC5280Policy_new t\<rparr> =
     FailIfCertInChain_policy as_ref (FailIfCertInChain_new forbid t)"
  "IgnoreBasicConstraintsPolicy = IgnoreBasicConstraints"
  by (simp_all add: FailIfCertInChainPolicy_policy_def FailIfCertInChain_policy_def FailIfCertInChain_new_def
      IgnoreBasicConstraintsPolicy_def IgnoreBasicConstraints_def cong: if_cong)

subsection \<open>The results\<close>

abbreviation on_stores :: "signature_verifier \<Rightarrow> ValidationPolicy \<Rightarrow> certificate list \<Rightarrow> certificate list \<Rightarrow> certificate \<Rightarrow>
    ChainValidationResult may_panic" where
  "on_stores verify policy roots ints leaf \<equiv>
     validate (Validator_with_policy_and_backend (store_from_iter roots) policy verify) leaf (store_from_iter ints)"

lemma sound_handled:
  "sound_cert n m c \<Longrightarrow> handles (validator_policy V) basic_constraints_oid \<Longrightarrow> handled_critical V c"
  by (auto simp: sound_cert_def handled_critical_def critical_oids_def)

lemma sound_keys: "sound_cert n m c \<Longrightarrow> subject_key c = n" "sound_cert n m c \<Longrightarrow> issuer_key c = m"
  by (simp_all add: sound_cert_def)

lemma sound_usable:
  assumes "sound_cert n m c" "handles (validator_policy V) basic_constraints_oid"
    and "\<forall>e \<in> set p. subject_key e \<noteq> n" "vouches (crypto V) c (last p)"
  shows "usable V p c"
  using assms sound_handled [OF assms(1,2)] sound_keys(1) [OF assms(1)]
  by (auto simp: usable_def signed_by_vouches has_same_identity_as_def subject_key_def)

lemma returning_contract:
  assumes "\<forall>a k m s. verify a k m s \<noteq> None" "policy_total policy"
  shows "validator_contract (Validator_with_policy_and_backend roots policy verify)"
  using assms by unfold_locales (simp_all add: Validator_with_policy_and_backend_def del: not_None_eq)

text \<open>The leaf under the intermediate and the first root, or, where no root of that name is any use, under its cross-signed twin.\<close>

lemma chains_at_intermediate:
  assumes V: "V = Validator_with_policy_and_backend (store_from_iter roots) policy verify"
      "handles policy basic_constraints_oid"
    and p: "parity_names n0 ni n1 n2 ns p" "parity_signatures verify p"
    and stores: "named n0 roots = []" "named ni roots = []" "named ni ints = [parity_intermediate1 p]"
  shows "candidate_chains V (store_from_iter ints) (parity_localhost_leaf p) =
    chains_from V (store_from_iter ints) [parity_localhost_leaf p, parity_intermediate1 p]"
proof -
  have leaf: "subject_key (parity_localhost_leaf p) = n0" "issuer_key (parity_localhost_leaf p) = ni"
    using p(1) by (auto simp: parity_names_def sound_cert_def)
  have "usable V [parity_localhost_leaf p] (parity_intermediate1 p)"
    by (rule sound_usable [of ni n1]) (use p V leaf in \<open>auto simp: parity_names_def parity_signatures_def\<close>)
  then show ?thesis
    using chains_through [of V roots "[parity_localhost_leaf p]" ints "parity_intermediate1 p"]
      issuers_none [of "[parity_localhost_leaf p]" roots] candidates_of_untrusted [of V roots] stores
    by (simp add: V leaf)
qed

lemma intermediate_step:
  assumes V: "V = Validator_with_policy_and_backend (store_from_iter roots) policy verify"
      "handles policy basic_constraints_oid"
    and p: "parity_names n0 ni n1 n2 ns p" "parity_signatures verify p"
  shows "issuer_key (last [parity_localhost_leaf p, parity_intermediate1 p]) = n1"
    and "usable V [parity_localhost_leaf p, parity_intermediate1 p] (parity_ca1 p)"
    and "usable V [parity_localhost_leaf p, parity_intermediate1 p] (parity_ca1_cross_signed_by_ca2 p)"
    and "issuer_key (last [parity_localhost_leaf p, parity_intermediate1 p, parity_ca1_cross_signed_by_ca2 p]) = n2"
    and "usable V [parity_localhost_leaf p, parity_intermediate1 p, parity_ca1_cross_signed_by_ca2 p] (parity_ca2 p)"
proof -
  note n = p(1) [unfolded parity_names_def] and v = p(2) [unfolded parity_signatures_def]
  have keys: "subject_key (parity_localhost_leaf p) = n0" "subject_key (parity_intermediate1 p) = ni"
    "subject_key (parity_ca1_cross_signed_by_ca2 p) = n1"
    "issuer_key (parity_intermediate1 p) = n1" "issuer_key (parity_ca1_cross_signed_by_ca2 p) = n2"
    using n by (auto simp: sound_cert_def)
  show "issuer_key (last [parity_localhost_leaf p, parity_intermediate1 p]) = n1"
    "issuer_key (last [parity_localhost_leaf p, parity_intermediate1 p, parity_ca1_cross_signed_by_ca2 p]) = n2"
    using keys by simp_all
  show "usable V [parity_localhost_leaf p, parity_intermediate1 p] (parity_ca1 p)"
    by (rule sound_usable [of n1 n1]) (use n v V keys in auto)
  show "usable V [parity_localhost_leaf p, parity_intermediate1 p] (parity_ca1_cross_signed_by_ca2 p)"
    by (rule sound_usable [of n1 n2]) (use n v V keys in auto)
  show "usable V [parity_localhost_leaf p, parity_intermediate1 p, parity_ca1_cross_signed_by_ca2 p] (parity_ca2 p)"
    by (rule sound_usable [of n2 n2]) (use n v V keys in auto)
qed

lemma parity_chains_accepted:
  assumes "parity_names n0 ni n1 n2 ns p" "parity_authority p"
  shows "accepts plain_rfc5280 \<lparr>uc_certificates = [parity_localhost_leaf p, parity_intermediate1 p, parity_ca1 p]\<rparr>"
    and "accepts plain_rfc5280 \<lparr>uc_certificates = [parity_localhost_leaf p, parity_intermediate1 p,
      parity_ca1_cross_signed_by_ca2 p, parity_ca2 p]\<rparr>"
    and "accepts plain_rfc5280 \<lparr>uc_certificates = [parity_localhost_leaf p, parity_intermediate1_without_ski_aki p, parity_ca1 p]\<rparr>"
    and "accepts plain_rfc5280 \<lparr>uc_certificates = [parity_localhost_leaf p, parity_intermediate1 p]\<rparr>"
    and "accepts plain_rfc5280 \<lparr>uc_certificates = [parity_isolated_self_signed p]\<rparr>"
  by (rule plain_accepts; use assms in \<open>auto simp: parity_names_def parity_authority_def intro: authority_chains_ok\<close>)+

lemma leaves_handled:
  assumes "parity_names n0 ni n1 n2 ns p" "handles (validator_policy V) basic_constraints_oid"
  shows "handled_critical V (parity_localhost_leaf p)" "handled_critical V (parity_isolated_self_signed p)"
  using assms sound_handled unfolding parity_names_def by blast+

lemma direct_result_under:
  assumes p: "parity_names n0 ni n1 n2 ns p" "parity_signatures verify p"
    and total: "\<forall>a k m s. verify a k m s \<noteq> None"
    and policy: "policy_total policy" "handles policy basic_constraints_oid"
      "accepts policy \<lparr>uc_certificates = [parity_localhost_leaf p, parity_intermediate1 p, parity_ca1 p]\<rparr>"
    and stores: "named n0 roots = []" "named ni roots = []" "named n1 roots = [parity_ca1 p]"
      "named ni ints = [parity_intermediate1 p]"
  shows "on_stores verify policy roots ints (parity_localhost_leaf p) =
    Some (Ok \<lparr>vc_certificates = [parity_localhost_leaf p, parity_intermediate1 p, parity_ca1 p]\<rparr>)"
proof -
  let ?V = "Validator_with_policy_and_backend (store_from_iter roots) policy verify"
  note step = intermediate_step [where roots = roots, OF refl policy(2) p]
  obtain rest where "candidate_chains ?V (store_from_iter ints) (parity_localhost_leaf p) =
      [parity_localhost_leaf p, parity_intermediate1 p, parity_ca1 p] # rest"
    using chains_at_intermediate [OF refl policy(2) p stores(1,2,4)]
      chains_to_root [OF _ _ step(2)] stores(3) step(1) by fastforce
  from first_candidate_validates [OF returning_contract [OF total policy(1)] leaves_handled(1) [OF p(1)] this]
  show ?thesis using policy(2,3) by simp
qed

lemma direct_result:
  assumes p: "parity_names n0 ni n1 n2 ns p" "parity_authority p" "parity_signatures verify p"
    and total: "\<forall>a k m s. verify a k m s \<noteq> None"
    and stores: "named n0 roots = []" "named ni roots = []" "named n1 roots = [parity_ca1 p]"
      "named ni ints = [parity_intermediate1 p]"
  shows "on_stores verify plain_rfc5280 roots ints (parity_localhost_leaf p) =
    Some (Ok \<lparr>vc_certificates = [parity_localhost_leaf p, parity_intermediate1 p, parity_ca1 p]\<rparr>)"
  by (rule direct_result_under [OF p(1,3) total scenario_policies(1,2) parity_chains_accepted(1) [OF p(1,2)] stores])

lemma cross_result:
  assumes p: "parity_names n0 ni n1 n2 ns p" "parity_authority p" "parity_signatures verify p"
    and total: "\<forall>a k m s. verify a k m s \<noteq> None"
    and stores: "named n0 roots = []" "named ni roots = []" "named n2 roots = [parity_ca2 p]"
      "named ni ints = [parity_intermediate1 p]" "named n1 ints = [parity_ca1_cross_signed_by_ca2 p]"
    and useless: "\<forall>c \<in> set (named n1 roots). \<not> vouches verify c (parity_intermediate1 p)"
  shows "on_stores verify plain_rfc5280 roots ints (parity_localhost_leaf p) =
    Some (Ok \<lparr>vc_certificates =
      [parity_localhost_leaf p, parity_intermediate1 p, parity_ca1_cross_signed_by_ca2 p, parity_ca2 p]\<rparr>)"
proof -
  let ?V = "Validator_with_policy_and_backend (store_from_iter roots) plain_rfc5280 verify"
  note step = intermediate_step [where roots = roots, OF refl scenario_policies(2) p(1,3)]
  have "issuers_in ?V (store_from_iter roots) [parity_localhost_leaf p, parity_intermediate1 p] = []"
    using useless step(1)
    by (auto simp: issuers_in_def filter_empty_conv usable_def signed_by_vouches find_by_subject_from_iter named_def)
  then obtain rest where "candidate_chains ?V (store_from_iter ints) (parity_localhost_leaf p) =
      [parity_localhost_leaf p, parity_intermediate1 p, parity_ca1_cross_signed_by_ca2 p, parity_ca2 p] # rest"
    using chains_at_intermediate [OF refl scenario_policies(2) p(1,3) stores(1,2,4)]
      chains_through [OF _ _ _ step(3)] chains_to_root [OF _ _ step(5)] stores(3,5) step(1,4) by fastforce
  from first_candidate_validates [OF returning_contract [OF total scenario_policies(1)] leaves_handled(1) [OF p(1)] this]
  show ?thesis using parity_chains_accepted(2) [OF p(1,2)] scenario_policies(2) by simp
qed

lemma longer_path_result:
  assumes p: "parity_names n0 ni n1 n2 ns p" "parity_authority p" "parity_signatures verify p" "parity_bytes as_raw p"
    and total: "\<forall>a k m s. verify a k m s \<noteq> None"
    and stores: "named n0 roots = []" "named ni roots = []" "named n1 roots = [parity_ca1 p]" "named n2 roots = [parity_ca2 p]"
      "named ni ints = [parity_intermediate1 p]" "named n1 ints = [parity_ca1_cross_signed_by_ca2 p]"
  shows "on_stores verify (FailIfCertInChain_policy as_raw (FailIfCertInChain_new (as_raw (parity_ca1 p)) REFERENCE_TIME))
      roots ints (parity_localhost_leaf p) =
    Some (Ok \<lparr>vc_certificates =
      [parity_localhost_leaf p, parity_intermediate1 p, parity_ca1_cross_signed_by_ca2 p, parity_ca2 p]\<rparr>)"
proof -
  let ?policy = "FailIfCertInChain_policy as_raw (FailIfCertInChain_new (as_raw (parity_ca1 p)) REFERENCE_TIME)"
  let ?V = "Validator_with_policy_and_backend (store_from_iter roots) ?policy verify"
  note step = intermediate_step [where roots = roots, OF refl scenario_policies(4) p(1,3)]
  obtain rest where cand: "candidate_chains ?V (store_from_iter ints) (parity_localhost_leaf p) =
      [parity_localhost_leaf p, parity_intermediate1 p, parity_ca1 p] #
      [parity_localhost_leaf p, parity_intermediate1 p, parity_ca1_cross_signed_by_ca2 p, parity_ca2 p] # rest"
    using chains_at_intermediate [OF refl scenario_policies(4) p(1,3) stores(1,2,5)]
      chains_to_root_and_through [OF _ _ step(2) _ step(3)] chains_to_root [OF _ _ step(5)] stores(3,4,6) step(1,4) by fastforce
  have "rfc5280_ok [parity_localhost_leaf p, parity_intermediate1 p, parity_ca1_cross_signed_by_ca2 p, parity_ca2 p] \<and>
      expiry_ok REFERENCE_TIME [parity_localhost_leaf p, parity_intermediate1 p, parity_ca1_cross_signed_by_ca2 p, parity_ca2 p]"
    using parity_chains_accepted(2) [OF p(1,2)] unfolding plain_rfc5280_def by (simp add: rfc5280_accepts)
  then have "accepts ?policy \<lparr>uc_certificates =
      [parity_localhost_leaf p, parity_intermediate1 p, parity_ca1_cross_signed_by_ca2 p, parity_ca2 p]\<rparr>"
    using p(4) by (simp add: fail_if.verdict parity_bytes_def)
  moreover have "\<not> accepts ?policy \<lparr>uc_certificates = [parity_localhost_leaf p, parity_intermediate1 p, parity_ca1 p]\<rparr>"
    by (simp add: fail_if.verdict)
  ultimately show ?thesis
    using second_candidate_validates [OF returning_contract [OF total scenario_policies(3)] leaves_handled(1) [OF p(1)] cand]
      scenario_policies(4) by simp
qed

text \<open>With several intermediates of one name and one root, every path of trust has one of them.\<close>

lemma one_tier_length:
  assumes roots: "root_certificates V = store_from_iter [root]"
    and leaf: "issuer_key leaf = ni" "subject_key leaf \<noteq> subject_key root" "subject_key root \<noteq> ni"
    and ints: "\<forall>c \<in> set ints. subject_key c = ni \<and> issuer_key c \<noteq> ni"
    and path: "trust_path V (store_from_iter ints) leaf cs"
  shows "length cs = 3"
proof -
  have "leaf \<notin> set (find_by_subject (root_certificates V) (subject_key leaf))"
    using leaf(2) unfolding roots find_in_singleton by auto
  with path obtain q r where q: "cs = leaf # q @ [r]" "linked V (store_from_iter ints) (leaf # q)"
    "r \<in> set (find_by_subject (root_certificates V) (issuer_key (last (leaf # q))))"
    by (rule trust_path_ends)
  have "q \<noteq> []" using q(3) leaf unfolding roots find_in_singleton by auto
  then obtain x xs where x: "q = x # xs" by (cases q) auto
  then have "x \<in> set ints" using q(2) by (auto simp: linked_Cons2 find_by_subject_from_iter)
  moreover have "xs = []"
    using q(2) \<open>x \<in> set ints\<close> ints unfolding x by (cases xs) (auto simp: linked_Cons2 find_by_subject_from_iter)
  ultimately show ?thesis using q(1) x by simp
qed

lemma preference_result:
  assumes p: "parity_names n0 ni n1 n2 ns p" "parity_authority p" "parity_signatures verify p"
    and total: "\<forall>a k m s. verify a k m s \<noteq> None"
    and ints: "set ints \<subseteq> {parity_intermediate1 p, parity_intermediate1_without_ski_aki p, parity_intermediate1_with_incorrect_ski_aki p}"
      "parity_intermediate1_without_ski_aki p \<in> set ints"
  shows "\<exists>v. on_stores verify plain_rfc5280 [parity_ca1 p] ints (parity_localhost_leaf p) = Some (Ok v) \<and>
    length (vc_certificates v) = 3"
proof -
  let ?V = "Validator_with_policy_and_backend (store_from_iter [parity_ca1 p]) plain_rfc5280 verify"
  let ?path = "parity_localhost_leaf p # [parity_intermediate1_without_ski_aki p] @ [parity_ca1 p]"
  note n = p(1) [unfolded parity_names_def] and v = p(3) [unfolded parity_signatures_def]
  have keys: "subject_key (parity_localhost_leaf p) = n0" "issuer_key (parity_localhost_leaf p) = ni"
      "subject_key (parity_intermediate1_without_ski_aki p) = ni" "issuer_key (parity_intermediate1_without_ski_aki p) = n1"
      "subject_key (parity_ca1 p) = n1" "\<forall>c \<in> set ints. subject_key c = ni \<and> issuer_key c \<noteq> ni"
    using n ints(1) by (auto simp: sound_cert_def)
  have handled: "handled_critical ?V (parity_intermediate1_without_ski_aki p)" "handled_critical ?V (parity_ca1 p)"
    using n by (auto intro: sound_handled simp: scenario_policies)
  have "trust_path ?V (store_from_iter ints) (parity_localhost_leaf p) ?path"
    by (rule trust_path_build)
      (use n keys v handled ints(2) in \<open>auto simp: no_repeated_identity_def not_same_identity linked_Cons2 find_in_singleton
        find_by_subject_from_iter signed_by_vouches\<close>)
  then obtain r where r: "on_stores verify plain_rfc5280 [parity_ca1 p] ints (parity_localhost_leaf p) = Some (Ok r)"
    using success_iff [OF returning_contract [OF total scenario_policies(1)]] leaves_handled(1) [OF p(1)]
      parity_chains_accepted(3) [OF p(1,2)] scenario_policies(2) by fastforce
  moreover have "length (vc_certificates r) = 3"
    by (rule one_tier_length [OF _ keys(2) _ _ keys(6) validate_Ok_path(2) [OF r]]) (use n keys in auto)
  ultimately show ?thesis by blast
qed

lemma other_key_result:
  assumes p: "parity_names n0 ni n1 n2 ns p" "parity_authority p" "parity_signatures verify p"
    and total: "\<forall>a k m s. verify a k m s \<noteq> None"
  shows "\<exists>v. on_stores verify plain_rfc5280 [parity_ca1_with_alternative_private_key p, parity_ca2 p]
      [parity_ca1_cross_signed_by_ca2 p, parity_ca2_cross_signed_by_ca1 p, parity_intermediate1 p] (parity_localhost_leaf p) = Some (Ok v)"
proof -
  let ?roots = "[parity_ca1_with_alternative_private_key p, parity_ca2 p]"
  let ?ints = "[parity_ca1_cross_signed_by_ca2 p, parity_ca2_cross_signed_by_ca1 p, parity_intermediate1 p]"
  let ?V = "Validator_with_policy_and_backend (store_from_iter ?roots) plain_rfc5280 verify"
  let ?path = "parity_localhost_leaf p # [parity_intermediate1 p, parity_ca1_cross_signed_by_ca2 p] @ [parity_ca2 p]"
  note n = p(1) [unfolded parity_names_def] and v = p(3) [unfolded parity_signatures_def]
  have keys: "subject_key (parity_localhost_leaf p) = n0" "issuer_key (parity_localhost_leaf p) = ni"
      "subject_key (parity_intermediate1 p) = ni" "issuer_key (parity_intermediate1 p) = n1"
      "subject_key (parity_ca1_cross_signed_by_ca2 p) = n1" "issuer_key (parity_ca1_cross_signed_by_ca2 p) = n2"
      "subject_key (parity_ca2 p) = n2"
    using n by (auto simp: sound_cert_def)
  have handled: "handled_critical ?V (parity_intermediate1 p)" "handled_critical ?V (parity_ca1_cross_signed_by_ca2 p)"
      "handled_critical ?V (parity_ca2 p)"
    using n by (auto intro: sound_handled simp: scenario_policies)
  have "trust_path ?V (store_from_iter ?ints) (parity_localhost_leaf p) ?path"
    by (rule trust_path_build)
      (use n keys v handled in \<open>auto simp: no_repeated_identity_def not_same_identity linked_Cons2 find_by_subject_from_iter
        signed_by_vouches\<close>)
  then show ?thesis
    using success_iff [OF returning_contract [OF total scenario_policies(1)]] leaves_handled(1) [OF p(1)]
      parity_chains_accepted(2) [OF p(1,2)] scenario_policies(2) by fastforce
qed

lemma trusted_results:
  assumes p: "parity_names n0 ni n1 n2 ns p" "parity_authority p" "parity_signatures verify p"
    and total: "\<forall>a k m s. verify a k m s \<noteq> None"
  shows "on_stores verify plain_rfc5280 [parity_ca1 p, parity_isolated_self_signed p] ints (parity_isolated_self_signed p) =
      Some (Ok \<lparr>vc_certificates = [parity_isolated_self_signed p]\<rparr>)"
    and "on_stores verify IgnoreBasicConstraints [parity_localhost_leaf p] ints (parity_localhost_leaf p) =
      Some (Ok \<lparr>vc_certificates = [parity_localhost_leaf p]\<rparr>)"
    and "on_stores verify plain_rfc5280 [parity_intermediate1 p] ints (parity_localhost_leaf p) =
      Some (Ok \<lparr>vc_certificates = [parity_localhost_leaf p, parity_intermediate1 p]\<rparr>)"
proof -
  note n = p(1) [unfolded parity_names_def]
  have keys: "subject_key (parity_localhost_leaf p) = n0" "issuer_key (parity_localhost_leaf p) = ni"
      "subject_key (parity_intermediate1 p) = ni"
    using n by (auto simp: sound_cert_def)
  show "on_stores verify plain_rfc5280 [parity_ca1 p, parity_isolated_self_signed p] ints (parity_isolated_self_signed p) =
      Some (Ok \<lparr>vc_certificates = [parity_isolated_self_signed p]\<rparr>)"
    by (rule first_candidate_validates [OF returning_contract [OF total scenario_policies(1)] leaves_handled(2) [OF p(1)]
          candidates_of_trusted [where roots = "[parity_ca1 p, parity_isolated_self_signed p]"]])
      (use parity_chains_accepted(5) [OF p(1,2)] in \<open>simp_all add: scenario_policies named_def\<close>)
  show "on_stores verify IgnoreBasicConstraints [parity_localhost_leaf p] ints (parity_localhost_leaf p) =
      Some (Ok \<lparr>vc_certificates = [parity_localhost_leaf p]\<rparr>)"
    by (rule first_candidate_validates [OF returning_contract [OF total scenario_policies(5)] leaves_handled(1) [OF p(1)]
          candidates_of_trusted [where roots = "[parity_localhost_leaf p]"]])
      (simp_all add: scenario_policies ignore.verdict)
  let ?V = "Validator_with_policy_and_backend (store_from_iter [parity_intermediate1 p]) plain_rfc5280 verify"
  have "usable ?V [parity_localhost_leaf p] (parity_intermediate1 p)"
    by (rule sound_usable [of ni n1])
      (use n p(3) keys in \<open>auto simp: scenario_policies parity_signatures_def\<close>)
  then obtain rest where "candidate_chains ?V (store_from_iter ints) (parity_localhost_leaf p) =
      [parity_localhost_leaf p, parity_intermediate1 p] # rest"
    using chains_to_root [of ?V "[parity_intermediate1 p]" "[parity_localhost_leaf p]" "parity_intermediate1 p" "store_from_iter ints"]
      candidates_of_untrusted [of ?V "[parity_intermediate1 p]" "parity_localhost_leaf p" "store_from_iter ints"] keys n by auto
  from first_candidate_validates [OF returning_contract [OF total scenario_policies(1)] leaves_handled(1) [OF p(1)] this]
  show "on_stores verify plain_rfc5280 [parity_intermediate1 p] ints (parity_localhost_leaf p) =
      Some (Ok \<lparr>vc_certificates = [parity_localhost_leaf p, parity_intermediate1 p]\<rparr>)"
    using parity_chains_accepted(4) [OF p(1,2)] scenario_policies(2) by simp
qed

lemma chains_nowhere:
  assumes "root_certificates V = store_from_iter roots" "named (issuer_key (last p)) roots = []" "named (issuer_key (last p)) ints = []"
  shows "chains_from V (store_from_iter ints) p = []"
  using assms issuers_none by (simp add: chains_from.simps [of V "store_from_iter ints" p])

lemma refused_results:
  assumes p: "parity_names n0 ni n1 n2 ns p" "parity_leaves p" "parity_signatures verify p"
    and total: "\<forall>a k m s. verify a k m s \<noteq> None"
  shows "\<exists>reason. on_stores verify plain_rfc5280 roots ints (parity_isolated_self_signed_weird_critical p) = Some (Err [reason])"
    and "on_stores verify plain_rfc5280 [parity_ca1 p] [] (parity_localhost_leaf p) = Some (Err [])"
    and "on_stores verify plain_rfc5280 [parity_ca1 p] [parity_intermediate1 p] (parity_isolated_self_signed p) = Some (Err [])"
    and "on_stores verify plain_rfc5280 [] [parity_intermediate1 p] (parity_localhost_leaf p) = Some (Err [])"
proof -
  note n = p(1) [unfolded parity_names_def]
    and refuse = no_candidate_rejects [OF returning_contract [OF total scenario_policies(1)]]
  have keys: "subject_key (parity_localhost_leaf p) = n0" "issuer_key (parity_localhost_leaf p) = ni"
      "subject_key (parity_intermediate1 p) = ni" "issuer_key (parity_intermediate1 p) = n1" "subject_key (parity_ca1 p) = n1"
      "subject_key (parity_isolated_self_signed p) = ns" "issuer_key (parity_isolated_self_signed p) = ns"
    using n by (auto simp: sound_cert_def)
  let ?V = "\<lambda>roots. Validator_with_policy_and_backend (store_from_iter roots) plain_rfc5280 verify"
  have "\<not> handles plain_rfc5280 [1, 2, 3, 4, 5]" by code_simp
  then have "\<not> handled_critical (?V roots) (parity_isolated_self_signed_weird_critical p)"
    using p(2) by (auto simp: parity_leaves_def critical_oids_def handled_critical_def)
  then show "\<exists>reason. on_stores verify plain_rfc5280 roots ints (parity_isolated_self_signed_weird_critical p) = Some (Err [reason])"
    using validator_contract.scan [OF returning_contract [OF total scenario_policies(1)]] by simp
  show "on_stores verify plain_rfc5280 [parity_ca1 p] [] (parity_localhost_leaf p) = Some (Err [])"
    by (rule refuse)
      (use n keys in \<open>auto simp: leaves_handled(1) [OF p(1)] scenario_policies chains_nowhere
        candidates_of_untrusted [where roots = "[parity_ca1 p]"] intro!: chains_nowhere [where roots = "[parity_ca1 p]"]\<close>)
  show "on_stores verify plain_rfc5280 [parity_ca1 p] [parity_intermediate1 p] (parity_isolated_self_signed p) = Some (Err [])"
    by (rule refuse)
      (use n keys in \<open>auto simp: leaves_handled(2) [OF p(1)] scenario_policies
        candidates_of_untrusted [where roots = "[parity_ca1 p]"] intro!: chains_nowhere [where roots = "[parity_ca1 p]"]\<close>)
  have "candidate_chains (?V []) (store_from_iter [parity_intermediate1 p]) (parity_localhost_leaf p) = []"
    using chains_at_intermediate [OF refl scenario_policies(2) p(1,3), of "[]" "[parity_intermediate1 p]"]
      chains_nowhere [of "?V []" "[]" "[parity_localhost_leaf p, parity_intermediate1 p]" "[parity_intermediate1 p]"] keys n by simp
  then show "on_stores verify plain_rfc5280 [] [parity_intermediate1 p] (parity_localhost_leaf p) = Some (Err [])"
    by (intro refuse) (simp_all add: leaves_handled(1) [OF p(1)] scenario_policies)
qed

subsection \<open>Properties\<close>

lemma row_passes:
  assumes "\<forall>r. bench (Some r) = Some ()"
  shows "on_stores verify policy roots ints leaf = Some (Ok v) \<Longrightarrow> scenario_row verify bench roots ints leaf policy True = Some ()"
    and "on_stores verify policy roots ints leaf = Some (Err fs) \<Longrightarrow> scenario_row verify bench roots ints leaf policy False = Some ()"
  using assms by (simp_all add: scenario_row_def validate_quietly_eq rust_assert_def)

lemmas scenario_defs =
  trivial_chain_building_def extra_roots_are_ignored_def roots_in_the_intermediate_store_are_not_a_problem_def
  cross_signed_root_def builds_the_shorter_path_when_both_cross_signed_roots_are_present_def
  prefers_an_intermediate_whose_ski_matches_def prefers_no_ski_over_a_non_matching_one_def
  rejects_a_root_that_did_not_sign_the_certificate_below_it_def a_policy_failure_sends_the_search_down_a_longer_path_def
  a_self_signed_certificate_in_the_trust_store_validates_def a_trust_root_may_be_a_non_self_signed_leaf_def
  a_trust_root_may_be_a_non_self_signed_intermediate_def an_unhandled_critical_extension_on_the_leaf_is_policed_def
  a_missing_intermediate_cannot_build_def a_self_signed_certificate_outside_the_trust_store_is_rejected_def
  a_missing_root_cannot_build_def

lemma parity_keys:
  assumes "parity_names n0 ni n1 n2 ns p"
  shows "distinct [n0, ni, n1, n2, ns]" "subject_key (parity_localhost_leaf p) = n0"
    "subject_key (parity_intermediate1 p) = ni"
    "subject_key (parity_ca1 p) = n1" "subject_key (parity_ca1_with_alternative_private_key p) = n1"
    "subject_key (parity_ca1_cross_signed_by_ca2 p) = n1" "subject_key (parity_ca2 p) = n2"
    "subject_key (parity_ca2_cross_signed_by_ca1 p) = n2"
  using assms unfolding parity_names_def sound_cert_def by blast+

lemma scenario_rows_pass:
  assumes p: "parity_names n0 ni n1 n2 ns p" "parity_authority p" "parity_leaves p" "parity_bytes as_raw p" "parity_signatures verify p"
    and total: "\<forall>a k m s. verify a k m s \<noteq> None" and bench: "\<forall>r. bench (Some r) = Some ()"
  shows "trivial_chain_building verify bench p = Some ()"
    and "extra_roots_are_ignored verify bench p = Some ()"
    and "roots_in_the_intermediate_store_are_not_a_problem verify bench p = Some ()"
    and "cross_signed_root verify bench p = Some ()"
    and "builds_the_shorter_path_when_both_cross_signed_roots_are_present verify bench p = Some ()"
    and "prefers_an_intermediate_whose_ski_matches verify bench p = Some ()"
    and "prefers_no_ski_over_a_non_matching_one verify bench p = Some ()"
    and "rejects_a_root_that_did_not_sign_the_certificate_below_it verify bench p = Some ()"
    and "a_policy_failure_sends_the_search_down_a_longer_path as_raw verify bench p = Some ()"
    and "a_self_signed_certificate_in_the_trust_store_validates verify bench p = Some ()"
    and "a_trust_root_may_be_a_non_self_signed_leaf verify bench p = Some ()"
    and "a_trust_root_may_be_a_non_self_signed_intermediate verify bench p = Some ()"
    and "an_unhandled_critical_extension_on_the_leaf_is_policed verify bench p = Some ()"
    and "a_missing_intermediate_cannot_build verify bench p = Some ()"
    and "a_self_signed_certificate_outside_the_trust_store_is_rejected verify bench p = Some ()"
    and "a_missing_root_cannot_build verify bench p = Some ()"
proof -
  note keys = parity_keys [OF p(1)] and pass = row_passes [OF bench]
  note direct = pass(1) [OF direct_result [OF p(1,2,5) total]] and preference = preference_result [OF p(1,2,5) total]
    and trusted = trusted_results [OF p(1,2,5) total] and refused = refused_results [OF p(1,3,5) total]
  show "trivial_chain_building verify bench p = Some ()" "extra_roots_are_ignored verify bench p = Some ()"
    "roots_in_the_intermediate_store_are_not_a_problem verify bench p = Some ()"
    "builds_the_shorter_path_when_both_cross_signed_roots_are_present verify bench p = Some ()"
    unfolding scenario_defs by (rule direct; use keys in auto)+
  show "cross_signed_root verify bench p = Some ()"
    unfolding scenario_defs by (rule pass(1) [OF cross_result [OF p(1,2,5) total]]; use keys in auto)
  show "prefers_an_intermediate_whose_ski_matches verify bench p = Some ()"
    using preference [of "[parity_intermediate1 p, parity_intermediate1_without_ski_aki p]"] pass(1) unfolding scenario_defs by auto
  show "prefers_no_ski_over_a_non_matching_one verify bench p = Some ()"
    using preference [of "[parity_intermediate1_with_incorrect_ski_aki p, parity_intermediate1_without_ski_aki p]"] pass(1)
    unfolding scenario_defs by auto
  show "rejects_a_root_that_did_not_sign_the_certificate_below_it verify bench p = Some ()"
    using other_key_result [OF p(1,2,5) total] pass(1) unfolding scenario_defs by blast
  show "a_policy_failure_sends_the_search_down_a_longer_path as_raw verify bench p = Some ()"
    unfolding scenario_defs by (rule pass(1) [OF longer_path_result [OF p(1,2,5,4) total]]; use keys in auto)
  show "a_self_signed_certificate_in_the_trust_store_validates verify bench p = Some ()"
    "a_trust_root_may_be_a_non_self_signed_leaf verify bench p = Some ()"
    "a_trust_root_may_be_a_non_self_signed_intermediate verify bench p = Some ()"
    unfolding scenario_defs by (rule pass(1) [OF trusted(1)], rule pass(1) [OF trusted(2)], rule pass(1) [OF trusted(3)])
  show "an_unhandled_critical_extension_on_the_leaf_is_policed verify bench p = Some ()"
    using refused(1) pass(2) unfolding scenario_defs by blast
  show "a_missing_intermediate_cannot_build verify bench p = Some ()"
    "a_self_signed_certificate_outside_the_trust_store_is_rejected verify bench p = Some ()"
    "a_missing_root_cannot_build verify bench p = Some ()"
    unfolding scenario_defs by (rule pass(2) [OF refused(2)], rule pass(2) [OF refused(3)], rule pass(2) [OF refused(4)])
qed

lemma default_backend_returns:
  assumes "DEFAULT_BACKEND f aws_lc_rs ring_krate rcr lib = Some b"
  shows "\<forall>a k m s. provider b a k m s \<noteq> None"
proof -
  have "b \<in> set (BACKENDS f aws_lc_rs ring_krate rcr lib)"
    using assms unfolding default_backend_is_first slice_first_def by (auto split: list.splits)
  then show ?thesis using backends_return by blast
qed

text \<open>
  C18. The sixteen scenarios of the comparison reach the verdict they assert before they are timed, whatever keys are
  drawn, on the default backend of any feature selection. Relied on: what the parser and the generator promise
  (\<open>parity_setting\<close>), that the backend accepts what the generator signs, and that the harness returns for a closure
  that does. The acceptances include the two cross-signed paths, the detour around a forbidden
  root, the roots that are a leaf or an intermediate, and the root whose key signed nothing; the refusals are
  the unknown critical extension, the missing intermediate, the missing root and the self-signed stranger.
\<close>

theorem scenarios_reach_their_verdicts:
  assumes set: "parity_setting rc from_der rd as_raw"
    and backend: "DEFAULT_BACKEND f aws_lc_rs ring_krate rcr lib = Some b" "backend_accepts_signed rc from_der rd (provider b)"
    and built: "build_parity rc (testkit_cert from_der invalid) fresh = Some p"
    and bench: "\<forall>r. bench (Some r) = Some ()"
  shows "trivial_chain_building (provider b) bench p = Some () \<and>
    extra_roots_are_ignored (provider b) bench p = Some () \<and>
    roots_in_the_intermediate_store_are_not_a_problem (provider b) bench p = Some () \<and>
    cross_signed_root (provider b) bench p = Some () \<and>
    builds_the_shorter_path_when_both_cross_signed_roots_are_present (provider b) bench p = Some () \<and>
    prefers_an_intermediate_whose_ski_matches (provider b) bench p = Some () \<and>
    prefers_no_ski_over_a_non_matching_one (provider b) bench p = Some () \<and>
    rejects_a_root_that_did_not_sign_the_certificate_below_it (provider b) bench p = Some () \<and>
    a_policy_failure_sends_the_search_down_a_longer_path as_raw (provider b) bench p = Some () \<and>
    a_self_signed_certificate_in_the_trust_store_validates (provider b) bench p = Some () \<and>
    a_trust_root_may_be_a_non_self_signed_leaf (provider b) bench p = Some () \<and>
    a_trust_root_may_be_a_non_self_signed_intermediate (provider b) bench p = Some () \<and>
    an_unhandled_critical_extension_on_the_leaf_is_policed (provider b) bench p = Some () \<and>
    a_missing_intermediate_cannot_build (provider b) bench p = Some () \<and>
    a_self_signed_certificate_outside_the_trust_store_is_rejected (provider b) bench p = Some () \<and>
    a_missing_root_cannot_build (provider b) bench p = Some ()"
proof -
  note facts = parity_set_facts [OF set built]
  note rows = scenario_rows_pass [OF facts(1-4) facts(5) [OF backend(2)] default_backend_returns [OF backend(1)] bench]
  show ?thesis by (intro conjI; rule rows)
qed

text \<open>The validation behind each row of the closure, and what its result is: accepted or refused, and how long.\<close>

definition scenario_results ::
  "(certificate \<Rightarrow> bytes) \<Rightarrow> signature_verifier \<Rightarrow> Parity \<Rightarrow> ChainValidationResult may_panic list" where
  "scenario_results as_raw verify p =
     (let leaf = parity_localhost_leaf p; ca1 = parity_ca1 p; ca2 = parity_ca2 p; int1 = parity_intermediate1 p;
          on = on_stores verify plain_rfc5280
      in [on [ca1] [int1] leaf,
          on [ca1, ca2] [int1] leaf,
          on [ca1, ca2] [int1, ca1, ca2] leaf,
          on [ca2] [int1, parity_ca1_cross_signed_by_ca2 p] leaf,
          on [ca1, ca2] [int1, parity_ca2_cross_signed_by_ca1 p, parity_ca1_cross_signed_by_ca2 p] leaf,
          on [ca1] [int1, parity_intermediate1_without_ski_aki p] leaf,
          on [ca1] [parity_intermediate1_with_incorrect_ski_aki p, parity_intermediate1_without_ski_aki p] leaf,
          on [parity_ca1_with_alternative_private_key p, ca2]
            [parity_ca1_cross_signed_by_ca2 p, parity_ca2_cross_signed_by_ca1 p, int1] leaf,
          on_stores verify (FailIfCertInChain_policy as_raw (FailIfCertInChain_new (as_raw ca1) REFERENCE_TIME)) [ca1, ca2]
            [int1, parity_ca2_cross_signed_by_ca1 p, parity_ca1_cross_signed_by_ca2 p] leaf,
          on [ca1, parity_isolated_self_signed p] [int1] (parity_isolated_self_signed p),
          on_stores verify IgnoreBasicConstraints [leaf] [int1] leaf,
          on [int1] [int1] leaf,
          on [ca1, parity_isolated_self_signed_weird_critical p] [int1] (parity_isolated_self_signed_weird_critical p),
          on [ca1] [] leaf,
          on [ca1] [int1] (parity_isolated_self_signed p),
          on [] [int1] leaf])"

definition outcome_shape :: "ChainValidationResult \<Rightarrow> bool \<times> nat" where
  "outcome_shape result = (case result of Inr chain \<Rightarrow> (True, length (vc_certificates chain)) | Inl reasons \<Rightarrow> (False, length reasons))"

lemma outcome_shapes [simp]: "outcome_shape (Ok v) = (True, length (vc_certificates v))" "outcome_shape (Err fs) = (False, length fs)"
  by (simp_all add: outcome_shape_def)

lemma measured_result:
  "validate_under policy verify (store_from_iter roots) (store_from_iter ints) leaf =
     map_option chain_length_or_failure_count (on_stores verify policy roots ints leaf)"
  by (cases "on_stores verify policy roots ints leaf") (simp_all add: validate_under_def validate_quietly_eq)

lemma rows_count_results:
  "all_scenarios_rows as_raw verify p = map (map_option chain_length_or_failure_count) (scenario_results as_raw verify p)"
  by (simp add: all_scenarios_rows_def scenario_results_def counted_def measured_validate_def longer_path_count_def leaf_root_count_def
      measured_policies measured_result plain_rfc5280_def Let_def)

lemma shape_count: "map_option chain_length_or_failure_count r = map_option snd (map_option outcome_shape r)"
  by (cases r) (simp_all add: chain_length_or_failure_count_def validated_iter_def outcome_shape_def split: sum.split)

lemma scenario_shapes:
  assumes p: "parity_names n0 ni n1 n2 ns p" "parity_authority p" "parity_leaves p" "parity_bytes as_raw p" "parity_signatures verify p"
    and total: "\<forall>a k m s. verify a k m s \<noteq> None"
    and other: "\<not> vouches verify (parity_ca1_with_alternative_private_key p) (parity_intermediate1 p)"
  shows "map (map_option outcome_shape) (scenario_results as_raw verify p) =
    map Some ([(True, 3), (True, 3), (True, 3), (True, 4), (True, 3), (True, 3), (True, 3), (True, 4), (True, 4), (True, 1),
      (True, 1), (True, 2), (False, 1), (False, 0), (False, 0), (False, 0)])"
proof -
  note keys = parity_keys [OF p(1)]
  note direct = direct_result [OF p(1,2,5) total] and cross = cross_result [OF p(1,2,5) total]
    and preference = preference_result [OF p(1,2,5) total]
    and trusted = trusted_results [OF p(1,2,5) total] and refused = refused_results [OF p(1,3,5) total]
  let ?on = "\<lambda>roots ints. map_option outcome_shape (on_stores verify plain_rfc5280 roots ints (parity_localhost_leaf p))"
  have rows1: "?on [parity_ca1 p] [parity_intermediate1 p] = Some (True, 3)"
    "?on [parity_ca1 p, parity_ca2 p] [parity_intermediate1 p] = Some (True, 3)"
    "?on [parity_ca1 p, parity_ca2 p] [parity_intermediate1 p, parity_ca1 p, parity_ca2 p] = Some (True, 3)"
    "?on [parity_ca1 p, parity_ca2 p]
       [parity_intermediate1 p, parity_ca2_cross_signed_by_ca1 p, parity_ca1_cross_signed_by_ca2 p] = Some (True, 3)"
    by (subst direct; use keys in auto)+
  have rows2: "?on [parity_ca2 p] [parity_intermediate1 p, parity_ca1_cross_signed_by_ca2 p] = Some (True, 4)"
    "?on [parity_ca1_with_alternative_private_key p, parity_ca2 p]
       [parity_ca1_cross_signed_by_ca2 p, parity_ca2_cross_signed_by_ca1 p, parity_intermediate1 p] = Some (True, 4)"
    by (subst cross; use keys other in auto)+
  have rows3: "?on [parity_ca1 p] [parity_intermediate1 p, parity_intermediate1_without_ski_aki p] = Some (True, 3)"
    "?on [parity_ca1 p] [parity_intermediate1_with_incorrect_ski_aki p, parity_intermediate1_without_ski_aki p] = Some (True, 3)"
    using preference [of "[parity_intermediate1 p, parity_intermediate1_without_ski_aki p]"]
      preference [of "[parity_intermediate1_with_incorrect_ski_aki p, parity_intermediate1_without_ski_aki p]"] by auto
  have row4: "map_option outcome_shape (on_stores verify
      (FailIfCertInChain_policy as_raw (FailIfCertInChain_new (as_raw (parity_ca1 p)) REFERENCE_TIME)) [parity_ca1 p, parity_ca2 p]
      [parity_intermediate1 p, parity_ca2_cross_signed_by_ca1 p, parity_ca1_cross_signed_by_ca2 p] (parity_localhost_leaf p)) = Some (True, 4)"
    by (subst longer_path_result [OF p(1,2,5,4) total]; use keys in auto)
  obtain reason where weird: "on_stores verify plain_rfc5280 [parity_ca1 p, parity_isolated_self_signed_weird_critical p] [parity_intermediate1 p]
      (parity_isolated_self_signed_weird_critical p) = Some (Err [reason])" using refused(1) by blast
  show ?thesis by (simp add: scenario_results_def Let_def rows1 rows2 rows3 row4 weird trusted refused(2-4))
qed

text \<open>
  C19. The measured scenarios do the work their number stands for. Of the sixteen validations the closure runs, the first twelve
  succeed, with chains of 3, 3, 3, 4, 3, 3, 3, 4, 4, 1, 1 and 2 certificates; the leaf with the unhandled critical extension
  is refused with one failure, and the last three with none, because no chain was found. The row of each is the
  length of that chain or error list, and they add up to 35; and the rows that run one scenario each return. Beside what
  the comparison relies on, the backend must refuse the intermediate's signature under the root key that did not make it.
\<close>

theorem all_scenarios_count_35:
  assumes set: "parity_setting rc from_der rd as_raw"
    and backend: "BACKEND f aws_lc_rs ring_krate rcr lib = Some verify" "backend_accepts_signed rc from_der rd verify"
      "\<not> vouches verify (parity_ca1_with_alternative_private_key p) (parity_intermediate1 p)"
    and built: "build_parity rc (testkit_cert from_der invalid) fresh = Some p"
    and criterion: "\<forall>name r. c name (Some r) = Some ()"
  shows "map (map_option outcome_shape) (scenario_results as_raw verify p) =
      map Some ([(True, 3), (True, 3), (True, 3), (True, 4), (True, 3), (True, 3), (True, 3), (True, 4), (True, 4), (True, 1),
        (True, 1), (True, 2), (False, 1), (False, 0), (False, 0), (False, 0)]) \<and>
    all_scenarios_rows as_raw verify p = map (map_option chain_length_or_failure_count) (scenario_results as_raw verify p) \<and>
    all_scenarios_count as_raw verify p = Some 35 \<and> all_scenarios as_raw verify c p = Some () \<and>
    successful as_raw verify c p = Some () \<and> unsuccessful verify c p = Some ()"
proof -
  note facts = parity_set_facts [OF set built]
  obtain b where b: "DEFAULT_BACKEND f aws_lc_rs ring_krate rcr lib = Some b" "verify = provider b"
    using backend(1) unfolding default_backend_is_first by auto
  note total = default_backend_returns [OF b(1), folded b(2)]
  note shapes = scenario_shapes [OF facts(1-4) facts(5) [OF backend(2)] total backend(3)]
  have "all_scenarios_rows as_raw verify p = map (map_option snd) (map (map_option outcome_shape) (scenario_results as_raw verify p))"
    by (simp add: rows_count_results shape_count)
  then have sum: "all_scenarios_count as_raw verify p = Some 35" by (simp add: shapes all_scenarios_count_def)
  have ran: "c name (validate_under policy verify roots ints leaf) = Some ()" if pol: "policy_total policy" for name policy roots ints leaf
  proof -
    obtain r where "validate (Validator_with_policy_and_backend roots policy verify) leaf ints = Some r"
      using validator_contract.returns_inner [OF returning_contract [OF total pol]] by (fastforce simp: validate_def)
    then show ?thesis using criterion by (simp add: validate_under_def validate_quietly_eq)
  qed
  note rows = ran [OF scenario_policies(1), unfolded plain_rfc5280_def] ran [OF scenario_policies(3)] ran [OF scenario_policies(5)]
  have "all_scenarios as_raw verify c p = Some ()" "successful as_raw verify c p = Some ()" "unsuccessful verify c p = Some ()"
    using sum criterion rows
    by (simp_all add: all_scenarios_def successful_def unsuccessful_def bench_scenario_def measured_validate_def
        longer_path_count_def leaf_root_count_def measured_policies)
  with shapes rows_count_results sum show ?thesis by blast
qed

subsection \<open>The promises can be kept\<close>

text \<open>
  The generator of \<open>Chain_Tests\<close>, and a parser that reads a hand-attached basicConstraints as one and keeps the bytes it is
  given; a backend that looks up who signed.
\<close>

definition manual_as_own :: "sample_params \<Rightarrow> sample_params" where
  "manual_as_own params =
     (if Testkit_Certificates.is_ca params = NoCa \<and>
         custom_extensions params = [manual_basic_constraints_ca (rc_extensions total_rcgen)]
      then params\<lparr>is_ca := IsCa Unconstrained, custom_extensions := []\<rparr> else params)"

definition parity_certificate :: "sample_entry \<Rightarrow> certificate" where
  "parity_certificate entry =
     (total_certificate (manual_as_own (fst entry), snd entry))\<lparr>tbs_raw := entry_der entry\<rparr>"

definition parity_from_der :: "bytes \<Rightarrow> nom_err + bytes \<times> certificate" where
  "parity_from_der der = Ok ([], parity_certificate (der_entry der))"

lemma parity_certificate_reads:
  "reads_base total_readings params key
     (case issuer of None \<Rightarrow> distinguished_name params | Some (q, _) \<Rightarrow> distinguished_name q) (parity_certificate (params, key, issuer))"
  "custom_extensions (manual_as_own params) = [] \<Longrightarrow>
     reads_extensions (manual_as_own params) (parity_certificate (params, key, issuer))"
  using total_certificate_base [of "manual_as_own params" key issuer] total_certificate_extensions [of "manual_as_own params" key issuer]
  by (auto simp: parity_certificate_def reads_base_def reads_extensions_def reads_purposes_def critical_oids_def manual_as_own_def
      split: option.splits if_splits)

lemma plain_certificate_reads:
  "custom_extensions params = [] \<Longrightarrow> reads_extensions params (parity_certificate (params, key, issuer))"
  using parity_certificate_reads(2) [of params key issuer] by (simp add: manual_as_own_def)

lemma total_extensions: "rc_extensions total_rcgen = extension_triples"
  by (simp add: total_rcgen_def register_rcgen_def sample_rcgen_def Let_def)

lemma manual_certificate_reads:
  assumes "Testkit_Certificates.is_ca params = NoCa" "custom_extensions params = [manual_basic_constraints_ca extension_triples]"
  shows "reads_extensions (params\<lparr>is_ca := IsCa Unconstrained, custom_extensions := []\<rparr>) (parity_certificate (params, key, issuer))"
proof -
  have "manual_as_own params = params\<lparr>is_ca := IsCa Unconstrained, custom_extensions := []\<rparr>"
    using assms by (simp add: manual_as_own_def total_extensions)
  then show ?thesis using parity_certificate_reads(2) [of params key issuer] by simp
qed

lemma total_critical:
  assumes "(oid, v, True) \<in> set (custom_extensions params)"
  shows "oid \<in> critical_oids (total_certificate (params, key, issuer))"
proof -
  have "flag_extension oid True \<in> set (tbs_extensions (total_certificate (params, key, issuer)))"
    using assms by (force simp: total_certificate_def Let_def)
  then show ?thesis by (force simp: critical_oids_def flag_extension_def)
qed

lemma parity_certificate_critical:
  assumes e: "set_criticality extension_triples (from_oid_content extension_triples oid v) True \<in> set (custom_extensions params)"
  shows "oid \<in> critical_oids (parity_certificate (params, key, issuer))"
proof -
  have same: "critical_oids (parity_certificate (params, key, issuer)) = critical_oids (total_certificate (manual_as_own params, key, issuer))"
    by (simp add: parity_certificate_def critical_oids_def)
  show ?thesis
  proof (cases "manual_as_own params = params")
    case True
    show ?thesis unfolding same True by (rule total_critical [of _ v]) (use e in \<open>simp add: extension_triples_def\<close>)
  next
    case False
    then have m: "Testkit_Certificates.is_ca params = NoCa" "custom_extensions params = [manual_basic_constraints_ca extension_triples]"
      by (auto simp: manual_as_own_def total_extensions split: if_splits)
    have "oid = basic_constraints_oid"
      using e unfolding m(2) by (simp add: extension_triples_def manual_basic_constraints_ca_def BASIC_CONSTRAINTS_OID_def
          basic_constraints_oid_def oid_defs Let_def)
    then show ?thesis using manual_certificate_reads [OF m, of key issuer] by (simp add: reads_extensions_def)
  qed
qed

lemma parity_setting_total: "parity_setting total_rcgen parity_from_der total_readings tbs_raw"
proof -
  have "parser_reads_back total_rcgen parity_from_der total_readings"
    unfolding parser_reads_back_def
    using parity_certificate_reads(1) [where issuer = None] parity_certificate_reads(1) [where issuer = "Some (_, _)"]
      plain_certificate_reads
    by (auto simp: total_rcgen_def parity_from_der_def)
  moreover have "names_tell_apart total_rcgen total_readings" by (rule settingD(2) [OF total_setting])
  moreover have "custom_extensions (rc_default total_rcgen) = []" "key_usages (rc_default total_rcgen) = []"
      "copies_keep_key total_rcgen total_readings"
    by (simp_all add: total_rcgen_def register_rcgen_def sample_rcgen_def Let_def copies_keep_key_def)
  moreover have "manual_constraints_read total_rcgen parity_from_der"
    unfolding manual_constraints_read_def total_extensions
    using manual_certificate_reads by (auto simp: parity_from_der_def total_rcgen_def)
  moreover have "critical_extensions_read total_rcgen parity_from_der"
    unfolding critical_extensions_read_def total_extensions
    using parity_certificate_critical by (auto simp: parity_from_der_def total_rcgen_def)
  moreover have "keeps_bytes total_rcgen parity_from_der tbs_raw"
    by (auto simp: keeps_bytes_def total_rcgen_def parity_from_der_def parity_certificate_def)
  ultimately show ?thesis by (simp add: parity_setting_def)
qed

definition honest_crate :: signature_crate where
  "honest_crate =
     \<lparr>unparsed_public_key_verify = (\<lambda>_ key msg _.
        case snd (snd (der_entry msg)) of Some (_, signer) \<Rightarrow> key = [of_nat signer] | None \<Rightarrow> False)\<rparr>"

definition honest_backend :: Backend where
  "honest_backend = \<lparr>backend_name = ''aws_lc'', provider = AwsLc honest_crate sample_library\<rparr>"

lemma honest_verify:
  "provider honest_backend sample_algorithm key msg sig = Some (Ok ()) \<longleftrightarrow>
     (\<exists>q signer. snd (snd (der_entry msg)) = Some (q, signer) \<and> spki_subject_public_key key = [of_nat signer])"
  by (auto simp: honest_backend_def honest_crate_def AwsLc_def backend_verify_signature_def sample_algorithm_def
      verification_algorithm_def oid_defs backend_algorithm_def split: option.splits)

lemma parity_certificate_parts:
  "cert_signature_algorithm (parity_certificate entry) = sample_algorithm" "tbs_raw (parity_certificate entry) = entry_der entry"
  by (simp_all add: parity_certificate_def total_certificate_def register_algorithm Let_def)

lemma honest_accepts: "backend_accepts_signed total_rcgen parity_from_der total_readings (provider honest_backend)"
  by (auto simp: backend_accepts_signed_def parity_from_der_def parity_certificate_parts honest_verify total_rcgen_def total_readings_def)

lemma honest_default:
  "DEFAULT_BACKEND \<lparr>feature_aws_lc = True, feature_ring = False, feature_rust_crypto = False\<rparr> honest_crate k rcr sample_library =
     Some honest_backend"
  by (simp add: DEFAULT_BACKEND_def honest_backend_def)

lemma honest_refuses:
  assumes "build_parity total_rcgen (testkit_cert parity_from_der e) sample_fresh = Some p"
  shows "\<not> vouches (provider honest_backend) (parity_ca1_with_alternative_private_key p) (parity_intermediate1 p)"
proof -
  obtain s where s: "issue_parity total_rcgen sample_fresh = Some s" and parsed: "parity_parsed (testkit_cert parity_from_der e) s p"
    using build_parity_parsed [OF assms] by blast
  have issued: "CaSpec_self_signed total_rcgen (parity_root_spec ''Benchmark Test CA 1'' 0) panic = Some (ca1 s)"
      "CaSpec_self_signed total_rcgen (parity_root_spec ''Benchmark Test CA 1'' 2) panic = Some (ca1_alternative s)"
    using s by (auto simp: issue_parity_def bind_eq_Some_conv ca_key_def sample_fresh_def)
  have keys: "ca_key_pair (ca1 s) = 0" "ca_key_pair (ca1_alternative s) = 2"
    using CaSpec_build_Some(8) [OF CaSpec_self_signed_Some(1) [OF issued(1)]]
      CaSpec_build_Some(8) [OF CaSpec_self_signed_Some(1) [OF issued(2)]] by (simp_all add: parity_spec_defs)
  have "ca_der (intermediate1 s) = entry_der (ca_params (intermediate1 s), ca_key_pair (intermediate1 s), Some (ca_params (ca1 s), 0))"
    using issue_parity_issuers(3) [OF s] keys(1) by (simp add: issued_by_def ca_issuer_def total_rcgen_def)
  then have "parity_intermediate1 p =
      parity_certificate (ca_params (intermediate1 s), ca_key_pair (intermediate1 s), Some (ca_params (ca1 s), 0))"
    using parsed by (simp add: parity_parsed_def testkit_cert_def parse_def parity_from_der_def)
  moreover have "tbs_subject_pki (parity_ca1_with_alternative_private_key p) = read_key total_readings 2"
    using parity_certs(3) [OF parity_setting_total s parsed] keys(2) by (simp add: known_authority_def)
  ultimately show ?thesis by (simp add: vouches_def parity_certificate_parts honest_verify total_readings_def)
qed

lemma parity_builds: "\<exists>p. build_parity total_rcgen (testkit_cert parity_from_der e) sample_fresh = Some p"
  by (simp add: build_parity_def issue_parity_def parity_spec_defs parity_leaf_spec_def leaf_with_aki_def
      leaf_with_dns_sans_def leaf_with_validity_def leaf_with_critical_extension_def LeafSpec_new_def
      total_rcgen_def register_rcgen_def sample_rcgen_def Let_def sample_fresh_def ca_key_def
      CaSpec_self_signed_def CaSpec_signed_by_def CaSpec_build_def LeafSpec_signed_by_def LeafSpec_self_signed_def
      LeafSpec_build_def ia5_names_def copy_of_key_pair_def testkit_cert_def parse_def parity_from_der_def)

theorem scenarios_reach_their_verdicts_witness:
  "\<exists>p. trivial_chain_building (provider honest_backend) (map_option (\<lambda>_. ())) p = Some () \<and>
     a_missing_root_cannot_build (provider honest_backend) (map_option (\<lambda>_. ())) p = Some ()"
proof -
  obtain p where "build_parity total_rcgen (testkit_cert parity_from_der (X509Error [])) sample_fresh = Some p"
    using parity_builds by blast
  from scenarios_reach_their_verdicts [OF parity_setting_total honest_default honest_accepts this, of "map_option (\<lambda>_. ())"]
  show ?thesis by auto
qed

theorem all_scenarios_count_35_witness:
  "\<exists>p. all_scenarios_count tbs_raw (provider honest_backend) p = Some 35 \<and>
     map_option outcome_shape (scenario_results tbs_raw (provider honest_backend) p ! 12) = Some (False, 1)"
proof -
  obtain p where p: "build_parity total_rcgen (testkit_cert parity_from_der (X509Error [])) sample_fresh = Some p"
    using parity_builds by blast
  have "BACKEND \<lparr>feature_aws_lc = True, feature_ring = False, feature_rust_crypto = False\<rparr> honest_crate permissive_crate permissive_rsa
      sample_library = Some (provider honest_backend)"
    by (simp add: BACKEND_def honest_backend_def)
  note result = all_scenarios_count_35 [OF parity_setting_total this honest_accepts honest_refuses [OF p] p, of "\<lambda>_. map_option (\<lambda>_. ())"]
  have "length (scenario_results tbs_raw (provider honest_backend) p) = 16" by (simp add: scenario_results_def Let_def)
  then have "map_option outcome_shape (scenario_results tbs_raw (provider honest_backend) p ! 12) =
      map (map_option outcome_shape) (scenario_results tbs_raw (provider honest_backend) p) ! 12" by simp
  then show ?thesis using result by auto
qed

end
