(* ===== verification/Bench_Rows.thy ===== *)
theory Bench_Rows
  imports Bench_Scenarios
begin

text \<open>
  The remaining benchmarks of the crate's own code: policy evaluation (\<^verbatim>\<open>measure/benches/policies.rs\<close>), the crate's rows
  of the comparison with other verifiers (\<^verbatim>\<open>compare/benches/verifiers.rs\<close>) and the comparison of its backends
  (\<^verbatim>\<open>compare/benches/internals.rs\<close>). A row that exists only when a feature is enabled is run for the
  backends \<open>BACKENDS\<close> lists.
\<close>

subsection \<open>Policy evaluation\<close>

definition policy_chain :: "Parity \<Rightarrow> UnverifiedCertificateChain may_panic" where
  "policy_chain p = UnverifiedCertificateChain_new [parity_localhost_leaf p, parity_intermediate1 p, parity_ca1 p]"

definition policy_verdict :: "Parity \<Rightarrow> ValidationPolicy \<Rightarrow> bool may_panic" where
  "policy_verdict p policy = do {
     chain \<leftarrow> policy_chain p;
     result \<leftarrow> chain_meets_policy_requirements policy chain;
     Some (\<not> isl result) }"

definition bench_policy :: "bool criterion \<Rightarrow> Parity \<Rightarrow> string \<Rightarrow> ValidationPolicy \<Rightarrow> unit may_panic" where
  "bench_policy c p name policy = do {
     chain \<leftarrow> policy_chain p;
     c name (policy_verdict p policy) }"

fun bench_policies :: "bool criterion \<Rightarrow> Parity \<Rightarrow> (string \<times> ValidationPolicy) list \<Rightarrow> unit may_panic" where
  "bench_policies c p [] = Some ()"
| "bench_policies c p ((name, policy) # rows) = do {
     bench_policy c p name policy;
     bench_policies c p rows }"

definition policy_rows :: "(string \<times> ValidationPolicy) list" where
  "policy_rows =
     (let rfc5280 = RFC5280Policy_policy (RFC5280Policy_new REFERENCE_TIME) in
      [(''policy/version'', VersionPolicy),
       (''policy/expiry'', ExpiryPolicy_policy (ExpiryPolicy_new REFERENCE_TIME)),
       (''policy/basic_constraints'', BasicConstraintsPolicy),
       (''policy/name_constraints'', NameConstraintsPolicy),
       (''policy/rfc5280'', rfc5280),
       (''policy/all_of'', AllOfPolicies rfc5280),
       (''policy/any'', AnyPolicy rfc5280),
       (''policy/one_of'', OneOfPolicies (OneOfTuple2 VersionPolicy BasicConstraintsPolicy))])"

definition policies :: "bool criterion \<Rightarrow> Parity \<Rightarrow> unit may_panic" where
  "policies c p = bench_policies c p policy_rows"

definition server_identity_rows :: "(string \<times> ValidationPolicy) list" where
  "server_identity_rows =
     [(''policy/server_identity_dns'',
        ServerIdentityPolicy_policy (ServerIdentityPolicy_new (Some (ascii ''localhost'')) None)),
      (''policy/server_identity_wildcard'',
        ServerIdentityPolicy_policy (ServerIdentityPolicy_new (Some (ascii ''host.example.com'')) None)),
      (''policy/server_identity_ip'',
        ServerIdentityPolicy_policy (ServerIdentityPolicy_new None (Some (ascii ''192.0.2.1''))))]"

definition server_identity_benches :: "bool criterion \<Rightarrow> Parity \<Rightarrow> unit may_panic" where
  "server_identity_benches c p = bench_policies c p server_identity_rows"

subsection \<open>The rows that must accept before they are timed\<close>

fun each_backend :: "(signature_verifier \<Rightarrow> unit may_panic) \<Rightarrow> Backend list \<Rightarrow> unit may_panic" where
  "each_backend row [] = Some ()"
| "each_backend row (b # backends) = do {
     row (provider b);
     each_backend row backends }"

definition HOST :: string where "HOST = ''localhost''"

definition tls_fixture_ours :: "Parity \<Rightarrow> ChainValidationResult bencher \<Rightarrow> signature_verifier \<Rightarrow> unit may_panic" where
  "tls_fixture_ours p bench verify = do {
     let roots = [parity_ca1 p];
     let intermediates = [parity_intermediate1 p];
     let validate =
       validate_quietly
         (Validator_with_policy_and_backend (store_from_iter roots)
           (AllOfPolicies (Tuple2
             (RFC5280Policy_policy (RFC5280Policy_new REFERENCE_TIME))
             (ServerIdentityPolicy_policy (ServerIdentityPolicy_new (Some (ascii HOST)) None))))
           verify)
         (parity_localhost_leaf p) (store_from_iter intermediates);
     result \<leftarrow> validate;
     rust_assert (\<not> isl result);
     bench validate }"

definition tls_fixture_rows :: "Parity \<Rightarrow> ChainValidationResult bencher \<Rightarrow> Backend list \<Rightarrow> unit may_panic" where
  "tls_fixture_rows p bench backends = each_backend (tls_fixture_ours p bench) backends"

definition apple_chain_ours :: "apple_chain \<Rightarrow> ChainValidationResult bencher \<Rightarrow> signature_verifier \<Rightarrow> unit may_panic" where
  "apple_chain_ours chain bench verify = do {
     let roots = [apple_root chain];
     let intermediates = [apple_intermediate chain];
     let validate =
       validate_quietly
         (Validator_with_policy_and_backend (store_from_iter roots)
           (RFC5280Policy_policy (RFC5280Policy_new APPLE_SIGNED_DATE)) verify)
         (apple_leaf chain) (store_from_iter intermediates);
     result \<leftarrow> validate;
     rust_assert (\<not> isl result);
     bench validate }"

definition apple_chain_rows :: "apple_chain \<Rightarrow> ChainValidationResult bencher \<Rightarrow> Backend list \<Rightarrow> unit may_panic" where
  "apple_chain_rows chain bench backends = each_backend (apple_chain_ours chain bench) backends"

subsection \<open>Backend against backend\<close>

record bench_chain =
  bc_name :: string
  bc_roots :: "certificate list"
  bc_intermediates :: "certificate list"
  bc_leaf :: certificate
  bc_at :: int

definition bench_chain_fmt :: "bench_chain \<Rightarrow> string" where
  "bench_chain_fmt self = bc_name self"

definition bench_chains :: "CurveChain \<Rightarrow> apple_chain \<Rightarrow> bench_chain list" where
  "bench_chains p256 apple =
     [\<lparr>bc_name = ''p256_chain'', bc_roots = [curve_root p256], bc_intermediates = [curve_intermediate p256],
       bc_leaf = curve_leaf p256, bc_at = REFERENCE_TIME\<rparr>,
      \<lparr>bc_name = ''apple_receipt_p384'', bc_roots = [apple_root apple], bc_intermediates = [apple_intermediate apple],
       bc_leaf = apple_leaf apple, bc_at = APPLE_SIGNED_DATE\<rparr>]"

definition backend_validate ::
  "ChainValidationResult bencher \<Rightarrow> bench_chain \<Rightarrow> signature_verifier \<Rightarrow> unit may_panic" where
  "backend_validate bench chain verify = do {
     let validator =
       Validator_with_policy_and_backend (store_from_iter (bc_roots chain))
         (RFC5280Policy_policy (RFC5280Policy_new (bc_at chain))) verify;
     let intermediates = store_from_iter (bc_intermediates chain);
     result \<leftarrow> validate_quietly validator (bc_leaf chain) intermediates;
     rust_assert (\<not> isl result);
     bench (validate_quietly validator (bc_leaf chain) intermediates) }"

fun each_argument :: "('a \<Rightarrow> unit may_panic) \<Rightarrow> 'a list \<Rightarrow> unit may_panic" where
  "each_argument row [] = Some ()"
| "each_argument row (x # xs) = do {
     row x;
     each_argument row xs }"

definition backend_rows :: "ChainValidationResult bencher \<Rightarrow> bench_chain list \<Rightarrow> Backend list \<Rightarrow> unit may_panic" where
  "backend_rows bench listed backends =
     each_backend (\<lambda>verify. each_argument (\<lambda>chain. backend_validate bench chain verify) listed) backends"

text \<open>A sample the backend does not verify is passed over, and not timed.\<close>

definition atomic_verify ::
  "(CryptoError + unit) bencher \<Rightarrow> SignedSample \<Rightarrow> signature_verifier \<Rightarrow> unit may_panic" where
  "atomic_verify bench sample verify = do {
     let outcome = verify (sample_alg sample) (spki sample) (message sample) (signature sample);
     result \<leftarrow> outcome;
     if isl result then Some () else bench outcome }"

definition atomic_rows :: "(CryptoError + unit) bencher \<Rightarrow> SignedSample list \<Rightarrow> Backend list \<Rightarrow> unit may_panic" where
  "atomic_rows bench corpus backends =
     each_backend (\<lambda>verify. each_argument (\<lambda>sample. atomic_verify bench sample verify) corpus) backends"

definition apple_validate_row :: "apple_chain \<Rightarrow> ChainValidationResult bencher \<Rightarrow> signature_verifier \<Rightarrow> unit may_panic" where
  "apple_validate_row chain bench aws_lc =
     bench (validate
       (Validator_with_policy_and_backend (store_from_iter [apple_root chain])
         (RFC5280Policy_policy (RFC5280Policy_new APPLE_SIGNED_DATE)) aws_lc)
       (apple_leaf chain) (store_from_iter [apple_intermediate chain]))"

definition apple_diagnostics_row :: "apple_chain \<Rightarrow> ChainValidationResult bencher \<Rightarrow> signature_verifier \<Rightarrow> unit may_panic" where
  "apple_diagnostics_row chain bench aws_lc =
     bench (validate_quietly
       (Validator_with_policy_and_backend (store_from_iter [apple_root chain])
         (RFC5280Policy_policy (RFC5280Policy_new APPLE_SIGNED_DATE)) aws_lc)
       (apple_leaf chain) (store_from_iter [apple_intermediate chain]))"

subsection \<open>Properties\<close>

lemma policy_verdict_iff:
  assumes "policy_total policy"
  shows "policy_verdict p policy =
    Some (accepts policy \<lparr>uc_certificates = [parity_localhost_leaf p, parity_intermediate1 p, parity_ca1 p]\<rparr>)"
proof -
  let ?chain = "\<lparr>uc_certificates = [parity_localhost_leaf p, parity_intermediate1 p, parity_ca1 p]\<rparr>"
  have "chain_ok ?chain" by (simp add: chain_ok_def)
  then obtain r where "chain_meets_policy_requirements policy ?chain = Some r"
    using assms unfolding policy_total_def by blast
  then show ?thesis
    by (cases r) (auto simp: policy_verdict_def policy_chain_def UnverifiedCertificateChain_new_def accepts_def)
qed

lemma localhost_identity:
  assumes "tbs_subject_alternative_name c = Ok (Some [DNSName (ascii ''localhost'')])"
  shows "leaf_identity_ok (Some (ascii ''localhost'')) None c"
    and "\<not> leaf_identity_ok (Some (ascii ''host.example.com'')) None c"
    and "\<not> leaf_identity_ok None (Some ip) c"
proof -
  have "match_hostname (PreparedServerHostname_new (ascii ''localhost'')) (ascii ''localhost'') = Some True"
    "match_hostname (PreparedServerHostname_new (ascii ''host.example.com'')) (ascii ''localhost'') = Some False"
    by code_simp+
  then have "host_matches (ascii ''localhost'') (ascii ''localhost'')" "\<not> host_matches (ascii ''localhost'') (ascii ''host.example.com'')"
    by (simp_all add: match_hostname_new)
  then show "leaf_identity_ok (Some (ascii ''localhost'')) None c" "\<not> leaf_identity_ok (Some (ascii ''host.example.com'')) None c"
    "\<not> leaf_identity_ok None (Some ip) c"
    by (simp_all add: leaf_identity_ok_def assms)
qed

text \<open>
  C38. What the policy benchmarks time: each of the eight rows of the RFC 5280 policies and their wrappers evaluates to
  acceptance of the fixture chain, and of the three server-identity rows only the first does. The rows named for
  the wildcard and the address path are mismatches: the fixture leaf has the one name \<open>localhost\<close>, so no wildcard
  and no address is ever compared.
\<close>

theorem policy_rows_verdicts:
  assumes "parity_setting rc from_der rd as_raw" "build_parity rc (testkit_cert from_der invalid) fresh = Some p"
  shows "map (\<lambda>(name, policy). policy_verdict p policy) policy_rows = replicate 8 (Some True) \<and>
    map (\<lambda>(name, policy). policy_verdict p policy) server_identity_rows = [Some True, Some False, Some False]"
proof -
  note facts = parity_set_facts [OF assms]
  let ?cs = "[parity_localhost_leaf p, parity_intermediate1 p, parity_ca1 p]"
  have "accepts plain_rfc5280 \<lparr>uc_certificates = ?cs\<rparr>" by (rule parity_chains_accepted(1) [OF facts(1,2)])
  then have ok: "version_ok ?cs" "basic_constraints_ok ?cs" "name_constraints_ok ?cs" "expiry_ok REFERENCE_TIME ?cs"
    unfolding plain_rfc5280_def by (simp_all add: rfc5280_accepts rfc5280_ok_def)
  note identity = localhost_identity [OF conjunct1 [OF facts(3) [unfolded parity_leaves_def]]]
  note totals = version.total expiry.total basic_constraints.total name_constraints.total rfc5280.total server_identity.total
    policy_total_OneOfTuple2
  show ?thesis
    using ok identity
    by (simp add: policy_rows_def server_identity_rows_def policy_verdict_iff totals version.verdict expiry.verdict
        basic_constraints.verdict name_constraints.verdict rfc5280_accepts rfc5280_ok_def server_identity.verdict
        accepts_OneOfTuple2 numeral_eq_Suc Let_def)
qed

theorem policy_rows_verdicts_witness:
  "\<exists>p. map (\<lambda>(name, policy). policy_verdict p policy) server_identity_rows = [Some True, Some False, Some False]"
proof -
  obtain p where "build_parity total_rcgen (testkit_cert parity_from_der (X509Error [])) sample_fresh = Some p"
    using parity_builds by blast
  from conjunct2 [OF policy_rows_verdicts [OF parity_setting_total this]] show ?thesis by (rule exI)
qed

lemma each_backend_passes: "\<forall>b \<in> set bs. row (provider b) = Some () \<Longrightarrow> each_backend row bs = Some ()"
  by (induction bs) auto

lemma tls_fixture_passes:
  assumes set: "parity_setting rc from_der rd as_raw" and built: "build_parity rc (testkit_cert from_der invalid) fresh = Some p"
    and b: "b \<in> set (BACKENDS f aws_lc_rs ring_krate rcr lib)" "backend_accepts_signed rc from_der rd (provider b)"
    and bench: "\<forall>v. bench (Some (Ok v)) = Some ()"
  shows "tls_fixture_ours p bench (provider b) = Some ()"
proof -
  note facts = parity_set_facts [OF set built] and keys = parity_keys [OF parity_set_facts(1) [OF set built]]
  let ?identity = "ServerIdentityPolicy_policy (ServerIdentityPolicy_new (Some (ascii HOST)) None)"
  let ?policy = "Tuple2 plain_rfc5280 ?identity"
  have total: "\<forall>a k m s. provider b a k m s \<noteq> None" using backends_return [OF b(1)] by blast
  have policy: "policy_total ?policy" "handles ?policy basic_constraints_oid"
    using policy_total_Tuple2 [OF scenario_policies(1) server_identity.total] scenario_policies(2)
    by (simp_all add: handles_def Tuple2_def)
  have accepted: "accepts ?policy \<lparr>uc_certificates = [parity_localhost_leaf p, parity_intermediate1 p, parity_ca1 p]\<rparr>"
    using parity_chains_accepted(1) [OF facts(1,2)] localhost_identity(1) [OF conjunct1 [OF facts(3) [unfolded parity_leaves_def]]]
    by (simp add: server_identity.verdict HOST_def)
  have "on_stores (provider b) ?policy [parity_ca1 p] [parity_intermediate1 p] (parity_localhost_leaf p) =
      Some (Ok \<lparr>vc_certificates = [parity_localhost_leaf p, parity_intermediate1 p, parity_ca1 p]\<rparr>)"
    by (rule direct_result_under [OF facts(1) facts(5) [OF b(2)] total policy accepted]) (use keys in auto)
  then show ?thesis using bench by (simp add: tls_fixture_ours_def validate_quietly_eq rust_assert_def plain_rfc5280_def)
qed

lemma each_argument_passes: "\<forall>x \<in> set xs. row x = Some () \<Longrightarrow> each_argument row xs = Some ()"
  by (induction xs) auto

text \<open>A backend that returns never stops the atomic rows: what it does not verify is passed over.\<close>

lemma atomic_rows_pass:
  assumes "\<forall>v. bench (Some (Ok v)) = Some ()"
  shows "atomic_rows bench corpus (BACKENDS f aws_lc_rs ring_krate rcr lib) = Some ()"
  unfolding atomic_rows_def
proof (intro each_backend_passes each_argument_passes ballI)
  fix b and sample :: SignedSample
  assume "b \<in> set (BACKENDS f aws_lc_rs ring_krate rcr lib)"
  then obtain r where "provider b (sample_alg sample) (spki sample) (message sample) (signature sample) = Some r"
    using backends_return by blast
  then show "atomic_verify bench sample (provider b) = Some ()" using assms by (cases r) (simp_all add: atomic_verify_def)
qed

lemma p256_row_passes:
  assumes set: "parity_setting rc from_der rd as_raw" and built: "build_p256_chain rc (testkit_cert from_der invalid) fresh = Some c"
    and b: "b \<in> set (BACKENDS f aws_lc_rs ring_krate rcr lib)" "backend_accepts_signed rc from_der rd (provider b)"
    and bench: "\<forall>v. bench (Some (Ok v)) = Some ()"
  shows "backend_validate bench (bench_chains c apple ! 0) (provider b) = Some ()"
proof -
  note S = parity_settingD [OF set]
  have "\<exists>v. validate (Validator_with_policy_and_backend (store_from_iter [curve_root c])
      (RFC5280Policy_policy (RFC5280Policy_new REFERENCE_TIME)) (provider b)) (curve_leaf c) (store_from_iter [curve_intermediate c]) =
      Some (Ok v)"
    using p256_fixture_validates [OF S(1-3) b built refl, of REFERENCE_TIME] by (simp add: days_def)
  then show ?thesis
    using bench by (auto simp: backend_validate_def bench_chains_def validate_quietly_eq rust_assert_def)
qed

subsection \<open>The vendored chain\<close>

text \<open>
  What a parser reads in the three vendored files, \<^verbatim>\<open>receipt_signing_leaf.der\<close>, \<^verbatim>\<open>wwdr_g6_intermediate.der\<close> and
  \<^verbatim>\<open>apple_root_ca_g3.der\<close>: version 3; the leaf issued in the name of the intermediate and the intermediate in that of the
  root, three different names; the leaf no authority, the intermediate one with path length 0, the root one without a
  limit; no name constraints; basicConstraints and keyUsage the critical extensions; and the validity periods.
\<close>

definition apple_reads :: "apple_chain \<Rightarrow> bool" where
  "apple_reads a \<longleftrightarrow>
     (\<forall>c \<in> {apple_leaf a, apple_intermediate a, apple_root a}.
        tbs_version c = V3 \<and> tbs_name_constraints c = Ok None \<and> critical_oids c \<subseteq> {basic_constraints_oid, key_usage_oid}) \<and>
     distinct (map subject_key [apple_leaf a, apple_intermediate a, apple_root a]) \<and>
     issuer_key (apple_leaf a) = subject_key (apple_intermediate a) \<and>
     issuer_key (apple_intermediate a) = subject_key (apple_root a) \<and>
     tbs_basic_constraints (apple_leaf a) = Ok (Some \<lparr>ca = False, path_len_constraint = None\<rparr>) \<and>
     tbs_basic_constraints (apple_intermediate a) = Ok (Some \<lparr>ca = True, path_len_constraint = Some 0\<rparr>) \<and>
     tbs_basic_constraints (apple_root a) = Ok (Some \<lparr>ca = True, path_len_constraint = None\<rparr>) \<and>
     tbs_not_before (apple_leaf a) = 1758311091 \<and> tbs_not_after (apple_leaf a) = 1823449643 \<and>
     tbs_not_before (apple_intermediate a) = 1616013430 \<and> tbs_not_after (apple_intermediate a) = 2089497600 \<and>
     tbs_not_before (apple_root a) = 1398881946 \<and> tbs_not_after (apple_root a) = 2187800346"

definition apple_signed :: "signature_verifier \<Rightarrow> apple_chain \<Rightarrow> bool" where
  "apple_signed verify a \<longleftrightarrow>
     (\<forall>(subject, issuer) \<in> {(apple_leaf a, apple_intermediate a), (apple_intermediate a, apple_root a)}.
        verify (cert_signature_algorithm subject) (tbs_subject_pki issuer) (tbs_raw subject) (cert_signature_value subject) =
          Some (Ok ()))"

lemma apple_accepted:
  assumes "apple_reads a"
  shows "accepts (RFC5280Policy_policy (RFC5280Policy_new APPLE_SIGNED_DATE))
    \<lparr>uc_certificates = [apple_leaf a, apple_intermediate a, apple_root a]\<rparr>"
proof -
  let ?cs = "[apple_leaf a, apple_intermediate a, apple_root a]"
  have "basic_constraints_ok ?cs"
    using assms
    by (auto simp: apple_reads_def basic_constraints_ok_def less_Suc_eq Rfc5280_Basic.is_ca_def path_length_at_least_def sub_cas_def)
  moreover have "version_ok ?cs" "name_constraints_ok ?cs" "expiry_ok APPLE_SIGNED_DATE ?cs"
    using assms
    by (auto simp: apple_reads_def version_ok_def name_constraints_ok_def issuer_constrains_def less_Suc_eq expiry_ok_def
        APPLE_SIGNED_DATE_def)
  ultimately show ?thesis by (simp add: rfc5280_accepts rfc5280_ok_def)
qed

text \<open>The chain validates at the date of the payload it signed, on every backend that verifies its two signatures.\<close>

lemma apple_validates:
  assumes reads: "apple_reads a" and signed: "apple_signed (provider b) a"
    and b: "b \<in> set (BACKENDS f aws_lc_rs ring_krate rcr lib)"
  shows "validate (Validator_with_policy_and_backend (store_from_iter [apple_root a])
      (RFC5280Policy_policy (RFC5280Policy_new APPLE_SIGNED_DATE)) (provider b)) (apple_leaf a)
      (store_from_iter [apple_intermediate a]) =
    Some (Ok \<lparr>vc_certificates = [apple_leaf a, apple_intermediate a, apple_root a]\<rparr>)"
proof -
  let ?V = "Validator_with_policy_and_backend (store_from_iter [apple_root a])
      (RFC5280Policy_policy (RFC5280Policy_new APPLE_SIGNED_DATE)) (provider b)"
  have contract: "validator_contract ?V" by (rule backend_contract [OF b rfc5280.total])
  have handled: "handled_critical ?V c" if "c \<in> {apple_leaf a, apple_intermediate a, apple_root a}" for c
  proof -
    have "critical_oids c \<subseteq> {basic_constraints_oid, key_usage_oid}" using reads that unfolding apple_reads_def by blast
    then show ?thesis by (auto simp: handled_critical_def critical_oids_def rfc5280_handles)
  qed
  have path: "trust_path ?V (store_from_iter [apple_intermediate a]) (apple_leaf a) cs \<longleftrightarrow>
      cs = [apple_leaf a, apple_intermediate a, apple_root a]" for cs
    using reads signed handled
    by (intro three_tier_path) (auto simp: apple_reads_def apple_signed_def signed_by_def)
  obtain v where v: "validate ?V (apple_leaf a) (store_from_iter [apple_intermediate a]) = Some (Ok v)"
    using validator_contract.complete [OF contract handled [of "apple_leaf a"] path [THEN iffD2, OF refl]] apple_accepted [OF reads]
    by auto
  then have "vc_certificates v = [apple_leaf a, apple_intermediate a, apple_root a]" using validate_Ok_path(2) path by blast
  then show ?thesis using v by (cases v) simp
qed

lemma apple_rows_pass:
  assumes "apple_reads a" "apple_signed (provider b) a" "b \<in> set (BACKENDS f aws_lc_rs ring_krate rcr lib)"
    and bench: "\<forall>v. bench (Some (Ok v)) = Some ()"
  shows "apple_chain_ours a bench (provider b) = Some ()" "backend_validate bench (bench_chains c a ! 1) (provider b) = Some ()"
    "apple_validate_row a bench (provider b) = Some ()" "apple_diagnostics_row a bench (provider b) = Some ()"
  using apple_validates [OF assms(1-3)] bench
  by (simp_all add: apple_chain_ours_def backend_validate_def bench_chains_def apple_validate_row_def apple_diagnostics_row_def
      validate_quietly_eq rust_assert_def)

lemma backend_rows_pass:
  assumes set: "parity_setting rc from_der rd as_raw" and built: "build_p256_chain rc (testkit_cert from_der invalid) fresh = Some c"
    and apple: "apple_reads apple"
    and backends: "\<forall>b \<in> set (BACKENDS f aws_lc_rs ring_krate rcr lib).
      backend_accepts_signed rc from_der rd (provider b) \<and> apple_signed (provider b) apple"
    and bench: "\<forall>v. bench (Some (Ok v)) = Some ()"
  shows "backend_rows bench (bench_chains c apple) (BACKENDS f aws_lc_rs ring_krate rcr lib) = Some ()"
  unfolding backend_rows_def
proof (intro each_backend_passes each_argument_passes ballI)
  fix b chain
  assume b: "b \<in> set (BACKENDS f aws_lc_rs ring_krate rcr lib)" and "chain \<in> set (bench_chains c apple)"
  then have "chain = bench_chains c apple ! 0 \<or> chain = bench_chains c apple ! 1" by (auto simp: bench_chains_def)
  then show "backend_validate bench chain (provider b) = Some ()"
    using p256_row_passes [OF set built b _ bench] apple_rows_pass(2) [OF apple _ b bench] backends b by blast
qed

text \<open>
  C37. The rows of the crate in the comparison with other verifiers, and those that set its backends against each other,
  get past the assertion that precedes the timing, and what they time is an accepted validation. On every enabled backend,
  and with the keys of the two generated fixtures drawn independently: the TLS fixture validates for its host under RFC 5280
  and server identity together; the vendored Apple chain validates at the date it is pinned to; and both chains of the backend
  comparison, the P-256 one and the Apple one, validate. So do the two rows that time the Apple chain on aws-lc alone. The
  rows that time one signature verification return whatever the backends answer. Assumed are what the parser reads in the
  vendored files and that each enabled backend verifies their two signatures and those the generator makes.
\<close>

theorem comparison_rows_pass:
  assumes set: "parity_setting rc from_der rd as_raw"
    and apple: "apple_reads apple"
    and backends: "\<forall>b \<in> set (BACKENDS f aws_lc_rs ring_krate rcr lib).
      backend_accepts_signed rc from_der rd (provider b) \<and> apple_signed (provider b) apple"
    and built: "build_parity rc (testkit_cert from_der invalid) fresh = Some p"
      "build_p256_chain rc (testkit_cert from_der invalid) fresh' = Some c"
    and bench: "\<forall>v. bench (Some (Ok v)) = Some ()" "\<forall>v. bench_atomic (Some (Ok v)) = Some ()"
  shows "tls_fixture_rows p bench (BACKENDS f aws_lc_rs ring_krate rcr lib) = Some () \<and>
    apple_chain_rows apple bench (BACKENDS f aws_lc_rs ring_krate rcr lib) = Some () \<and>
    backend_rows bench (bench_chains c apple) (BACKENDS f aws_lc_rs ring_krate rcr lib) = Some () \<and>
    atomic_rows bench_atomic corpus (BACKENDS f aws_lc_rs ring_krate rcr lib) = Some () \<and>
    (feature_aws_lc f \<longrightarrow> apple_validate_row apple bench (AwsLc aws_lc_rs lib) = Some () \<and>
       apple_diagnostics_row apple bench (AwsLc aws_lc_rs lib) = Some ())"
proof (intro conjI impI)
  let ?backends = "BACKENDS f aws_lc_rs ring_krate rcr lib"
  show "tls_fixture_rows p bench ?backends = Some ()"
    unfolding tls_fixture_rows_def using tls_fixture_passes [OF set built(1) _ _ bench(1)] backends
    by (intro each_backend_passes) blast
  show "apple_chain_rows apple bench ?backends = Some ()"
    unfolding apple_chain_rows_def using apple_rows_pass(1) [OF apple _ _ bench(1)] backends
    by (intro each_backend_passes) blast
  show "backend_rows bench (bench_chains c apple) ?backends = Some ()"
    by (rule backend_rows_pass [OF set built(2) apple backends bench(1)])
  show "atomic_rows bench_atomic corpus ?backends = Some ()" by (rule atomic_rows_pass [OF bench(2)])
  assume "feature_aws_lc f"
  then obtain b where b: "b \<in> set ?backends" "provider b = AwsLc aws_lc_rs lib" by (force simp: BACKENDS_def)
  then show "apple_validate_row apple bench (AwsLc aws_lc_rs lib) = Some ()"
    "apple_diagnostics_row apple bench (AwsLc aws_lc_rs lib) = Some ()"
    using apple_rows_pass(3,4) [OF apple _ b(1) bench(1)] backends by auto
qed

lemma p256_builds: "\<exists>c. build_p256_chain total_rcgen (testkit_cert parity_from_der e) sample_fresh = Some c"
  by (simp add: build_p256_chain_def issue_p256_chain_def parity_spec_defs leaf_with_aki_def leaf_with_dns_sans_def
      leaf_with_validity_def LeafSpec_new_def total_rcgen_def register_rcgen_def sample_rcgen_def Let_def sample_fresh_def
      CaSpec_self_signed_def CaSpec_signed_by_def CaSpec_build_def LeafSpec_signed_by_def LeafSpec_build_def ia5_names_def
      testkit_cert_def parse_def parity_from_der_def)

text \<open>A chain with the fields of the vendored one, each certificate signed with the number of its issuer's key.\<close>

definition vendored_certificate :: "string \<Rightarrow> string \<Rightarrow> nat \<Rightarrow> nat \<Rightarrow> BasicConstraints \<Rightarrow> int \<Rightarrow> int \<Rightarrow> certificate" where
  "vendored_certificate subject issuer key signer bc not_before not_after =
     (sample_certificate subject issuer)
       \<lparr>tbs_raw := entry_der (rc_default total_rcgen, key, Some (rc_default total_rcgen, signer)),
        tbs_not_before := not_before, tbs_not_after := not_after,
        tbs_subject_pki := \<lparr>spki_algorithm = sample_algorithm, spki_subject_public_key = [of_nat key], spki_raw = []\<rparr>,
        tbs_basic_constraints := Ok (Some bc)\<rparr>"

definition vendored_chain :: apple_chain where
  "vendored_chain =
     \<lparr>apple_leaf = vendored_certificate ''leaf'' ''wwdr'' 31 32 \<lparr>ca = False, path_len_constraint = None\<rparr> 1758311091 1823449643,
      apple_intermediate =
        vendored_certificate ''wwdr'' ''apple'' 32 33 \<lparr>ca = True, path_len_constraint = Some 0\<rparr> 1616013430 2089497600,
      apple_root = vendored_certificate ''apple'' ''apple'' 33 33 \<lparr>ca = True, path_len_constraint = None\<rparr> 1398881946 2187800346\<rparr>"

lemma vendored_reads: "apple_reads vendored_chain"
  by (simp add: apple_reads_def vendored_chain_def vendored_certificate_def sample_certificate_def sample_name_def
      subject_key_def issuer_key_def critical_oids_def ascii_def)

lemma vendored_signed: "apple_signed (provider honest_backend) vendored_chain"
  by (simp add: apple_signed_def vendored_chain_def vendored_certificate_def sample_certificate_def honest_verify)

theorem comparison_rows_pass_witness:
  "\<exists>p c. tls_fixture_rows p (map_option (\<lambda>_. ())) [honest_backend] = Some () \<and>
     apple_chain_rows vendored_chain (map_option (\<lambda>_. ())) [honest_backend] = Some () \<and>
     backend_rows (map_option (\<lambda>_. ())) (bench_chains c vendored_chain) [honest_backend] = Some ()"
proof -
  obtain p where p: "build_parity total_rcgen (testkit_cert parity_from_der (X509Error [])) sample_fresh = Some p"
    using parity_builds by blast
  obtain c where c: "build_p256_chain total_rcgen (testkit_cert parity_from_der (X509Error [])) sample_fresh = Some c"
    using p256_builds by blast
  let ?backends = "BACKENDS \<lparr>feature_aws_lc = True, feature_ring = False, feature_rust_crypto = False\<rparr>
      honest_crate permissive_crate permissive_rsa sample_library"
  have listed: "?backends = [honest_backend]" by (simp add: BACKENDS_def honest_backend_def)
  have "\<forall>b \<in> set ?backends. backend_accepts_signed total_rcgen parity_from_der total_readings (provider b) \<and>
      apple_signed (provider b) vendored_chain"
    using honest_accepts vendored_signed by (simp add: listed)
  from comparison_rows_pass [OF parity_setting_total vendored_reads this p c, of "map_option (\<lambda>_. ())" "map_option (\<lambda>_. ())"]
  show ?thesis unfolding listed by auto
qed

end
