(* ===== verification/Fixture_Cells.thy ===== *)
theory Fixture_Cells
  imports Bench_Rows
begin

text \<open>
  The fixtures that are built on first use: the \<open>OnceLock\<close> statics of \<^verbatim>\<open>bench_fixtures.rs\<close> (\<open>PARITY\<close>, \<open>P256_CHAIN\<close>),
  \<^verbatim>\<open>real_chain.rs\<close> (\<open>CHAIN\<close>), \<^verbatim>\<open>signatures.rs\<close> (\<open>CORPUS\<close>) and \<^verbatim>\<open>benches/internals.rs\<close> (\<open>CHAINS\<close>, which is built from two of the
  others), and the test of the corpus. The statics are the fields of \<open>fixture_cells\<close>, and each accessor takes them and
  returns them. Keys are random, so what a build would draw is an argument of the call, and differs from call to
  call. The locale \<open>once_cell\<close> is the promise an accessor makes; \<open>fixture_step\<close> interleaves them.
\<close>

subsection \<open>The cells\<close>

text \<open>\<open>OnceLock::get_or_init\<close>: an initializer that panics leaves the cell empty.\<close>

definition get_or_init :: "'a option \<Rightarrow> 'a may_panic \<Rightarrow> 'a may_panic \<times> 'a option" where
  "get_or_init cell init = (case cell of Some v \<Rightarrow> (Some v, Some v) | None \<Rightarrow> (init, init))"

record fixture_cells =
  PARITY :: "Parity option"
  P256_CHAIN :: "CurveChain option"
  CHAIN :: "apple_chain option"
  CHAINS :: "bench_chain list option"
  CORPUS :: "SignedSample list option"

definition no_fixtures :: fixture_cells where
  "no_fixtures = \<lparr>PARITY = None, P256_CHAIN = None, CHAIN = None, CHAINS = None, CORPUS = None\<rparr>"

text \<open>What does not change between calls: the generator, the parser and the vendored bytes.\<close>

record ('dn, 'ext, 'key) fixture_sources =
  src_rcgen :: "('dn, 'ext, 'key) rcgen"
  src_from_der :: "bytes \<Rightarrow> nom_err + bytes \<times> certificate"
  src_invalid :: x509_error
  src_apple_leaf :: bytes
  src_apple_intermediate :: bytes
  src_apple_root :: bytes
  src_try_from :: "bytes \<Rightarrow> 'key may_panic"

text \<open>What a build draws: the keys of the fixture sets and those of the corpus.\<close>

record 'key drawing =
  drawn_key :: "KeyAlg \<Rightarrow> nat \<Rightarrow> 'key may_panic"
  drawn_ed25519 :: "'key may_panic"
  drawn_rsa :: "nat \<Rightarrow> bytes may_panic"

definition parity ::
  "('dn, 'ext, 'key) fixture_sources \<Rightarrow> 'key drawing \<Rightarrow> fixture_cells \<Rightarrow> Parity may_panic \<times> fixture_cells" where
  "parity w d s =
     (let (result, cell) = get_or_init (PARITY s)
        (build_parity (src_rcgen w) (testkit_cert (src_from_der w) (src_invalid w)) (drawn_key d))
      in (result, s\<lparr>PARITY := cell\<rparr>))"

definition p256_chain ::
  "('dn, 'ext, 'key) fixture_sources \<Rightarrow> 'key drawing \<Rightarrow> fixture_cells \<Rightarrow> CurveChain may_panic \<times> fixture_cells" where
  "p256_chain w d s =
     (let (result, cell) = get_or_init (P256_CHAIN s)
        (build_p256_chain (src_rcgen w) (testkit_cert (src_from_der w) (src_invalid w)) (drawn_key d))
      in (result, s\<lparr>P256_CHAIN := cell\<rparr>))"

definition apple_receipt_chain ::
  "('dn, 'ext, 'key) fixture_sources \<Rightarrow> 'key drawing \<Rightarrow> fixture_cells \<Rightarrow> apple_chain may_panic \<times> fixture_cells" where
  "apple_receipt_chain w d s =
     (let (result, cell) = get_or_init (CHAIN s)
        (apple_chain_init (src_from_der w) (src_apple_leaf w) (src_apple_intermediate w) (src_apple_root w))
      in (result, s\<lparr>CHAIN := cell\<rparr>))"

definition corpus ::
  "('dn, 'ext, 'key) fixture_sources \<Rightarrow> 'key drawing \<Rightarrow> fixture_cells \<Rightarrow> SignedSample list may_panic \<times> fixture_cells" where
  "corpus w d s =
     (let (result, cell) = get_or_init (CORPUS s)
        (build_corpus (src_rcgen w) (src_from_der w) (drawn_key d P256 0) (drawn_key d P384 1) (drawn_ed25519 d)
           (drawn_rsa d) (src_try_from w))
      in (result, s\<lparr>CORPUS := cell\<rparr>))"

text \<open>The chains of the backend comparison: the initializer of one cell fills two others, and keeps them filled where it panics.\<close>

definition comparison_chains ::
  "('dn, 'ext, 'key) fixture_sources \<Rightarrow> 'key drawing \<Rightarrow> fixture_cells \<Rightarrow> bench_chain list may_panic \<times> fixture_cells" where
  "comparison_chains w d s =
     (case CHAINS s of
        Some listed \<Rightarrow> (Some listed, s)
      | None \<Rightarrow>
          (case p256_chain w d s of
             (None, s1) \<Rightarrow> (panic, s1)
           | (Some p256, s1) \<Rightarrow>
               (case apple_receipt_chain w d s1 of
                  (None, s2) \<Rightarrow> (panic, s2)
                | (Some apple, s2) \<Rightarrow>
                    (let (result, cell) = get_or_init (CHAINS s2) (Some (bench_chains p256 apple))
                     in (result, s2\<lparr>CHAINS := cell\<rparr>)))))"

subsection \<open>The test of the corpus\<close>

text \<open>\<open>Iterator::any\<close> over the backends: it stops at the first that verifies.\<close>

fun any_verifies :: "Backend list \<Rightarrow> SignedSample \<Rightarrow> bool may_panic" where
  "any_verifies [] sample = Some False"
| "any_verifies (b # backends) sample = do {
     result \<leftarrow> provider b (sample_alg sample) (spki sample) (message sample) (signature sample);
     if isl result then any_verifies backends sample else Some True }"

definition every_sample_verifies_on_at_least_one_backend ::
  "('dn, 'ext, 'key) fixture_sources \<Rightarrow> 'key drawing \<Rightarrow> Backend list \<Rightarrow> fixture_cells \<Rightarrow> unit may_panic \<times> fixture_cells" where
  "every_sample_verifies_on_at_least_one_backend w d backends s =
     (let (samples, s') = corpus w d s
      in (samples \<bind> each_argument (\<lambda>sample. do {
            verified \<leftarrow> any_verifies backends sample;
            rust_assert verified }), s'))"

subsection \<open>The promise of an accessor\<close>

fun run_calls :: "('d \<Rightarrow> 's \<Rightarrow> 'a may_panic \<times> 's) \<Rightarrow> 'd list \<Rightarrow> 's \<Rightarrow> 'a may_panic list \<times> 's" where
  "run_calls call [] s = ([], s)"
| "run_calls call (d # ds) s =
     (let (r, s1) = call d s; (rs, s2) = run_calls call ds s1 in (r # rs, s2))"

text \<open>
  A filled cell answers from its content and changes nothing; an empty one holds afterwards what the call
  returned. So of a run of calls the results are a number of panics and then one value, over and over.
\<close>

definition answers_once :: "('s \<Rightarrow> 'a option) \<Rightarrow> ('d \<Rightarrow> 's \<Rightarrow> 'a may_panic \<times> 's) \<Rightarrow> 's \<Rightarrow> 's \<Rightarrow> bool" where
  "answers_once cell call s s' \<longleftrightarrow>
     (\<forall>v ds. cell s = Some v \<longrightarrow> run_calls call ds s' = (replicate (length ds) (Some v), s')) \<and>
     (\<forall>d. cell (snd (call d s')) = fst (call d s')) \<and>
     (\<forall>ds. \<exists>k v. k \<le> length ds \<and> fst (run_calls call ds s') = replicate k None @ replicate (length ds - k) (Some v))"

locale once_cell =
  fixes cell :: "'s \<Rightarrow> 'a option"
    and call :: "'d \<Rightarrow> 's \<Rightarrow> 'a may_panic \<times> 's"
  assumes keeps: "cell s = Some v \<Longrightarrow> call d s = (Some v, s)"
    and fills: "cell s = None \<Longrightarrow> cell (snd (call d s)) = fst (call d s)"
begin

lemma after_call: "cell (snd (call d s)) = fst (call d s)"
  using keeps [of s] fills [of s] by (cases "cell s") simp_all

lemma filled_stays: "cell s = Some v \<Longrightarrow> cell (snd (call d s)) = Some v"
  by (simp add: keeps)

lemma run_filled: "cell s = Some v \<Longrightarrow> run_calls call ds s = (replicate (length ds) (Some v), s)"
  by (induction ds) (simp_all add: keeps)

lemma run_once:
  "\<exists>k v. k \<le> length ds \<and> fst (run_calls call ds s) = replicate k None @ replicate (length ds - k) (Some v)"
proof (induction ds arbitrary: s)
  case Nil
  then show ?case by simp
next
  case (Cons d ds)
  obtain r s1 where c: "call d s = (r, s1)" by (cases "call d s")
  then have "cell s1 = r" using after_call [of d s] by simp
  show ?case
  proof (cases r)
    case None
    obtain k v where "k \<le> length ds" "fst (run_calls call ds s1) = replicate k None @ replicate (length ds - k) (Some v)"
      using Cons.IH by blast
    then show ?thesis using c None by (intro exI [of _ "Suc k"] exI [of _ v]) (simp add: split_beta)
  next
    case (Some v)
    then show ?thesis using c run_filled [of s1 v ds] \<open>cell s1 = r\<close> by (intro exI [of _ 0] exI [of _ v]) simp
  qed
qed

lemma answers: "(\<And>v. cell s = Some v \<Longrightarrow> cell s' = Some v) \<Longrightarrow> answers_once cell call s s'"
  unfolding answers_once_def using run_filled [of s'] after_call run_once by blast

end

lemmas cell_simps = get_or_init_def parity_def p256_chain_def apple_receipt_chain_def corpus_def

interpretation parity_cell: once_cell PARITY "parity w" for w :: "('dn, 'ext, 'key) fixture_sources"
  by unfold_locales (simp_all add: cell_simps)

interpretation p256_cell: once_cell P256_CHAIN "p256_chain w" for w :: "('dn, 'ext, 'key) fixture_sources"
  by unfold_locales (simp_all add: cell_simps)

interpretation apple_cell: once_cell CHAIN "apple_receipt_chain w" for w :: "('dn, 'ext, 'key) fixture_sources"
  by unfold_locales (simp_all add: cell_simps)

interpretation corpus_cell: once_cell CORPUS "corpus w" for w :: "('dn, 'ext, 'key) fixture_sources"
  by unfold_locales (simp_all add: cell_simps)

interpretation chains_cell: once_cell CHAINS "comparison_chains w" for w :: "('dn, 'ext, 'key) fixture_sources"
  by unfold_locales
    (auto simp: comparison_chains_def cell_simps Let_def split: prod.splits option.splits)

subsection \<open>Interleaved calls\<close>

inductive fixture_step :: "('dn, 'ext, 'key) fixture_sources \<Rightarrow> fixture_cells \<Rightarrow> fixture_cells \<Rightarrow> bool"
  for w :: "('dn, 'ext, 'key) fixture_sources" where
  call_parity: "parity w d s = (r, s') \<Longrightarrow> fixture_step w s s'"
| call_p256_chain: "p256_chain w d s = (r, s') \<Longrightarrow> fixture_step w s s'"
| call_apple_chain: "apple_receipt_chain w d s = (r, s') \<Longrightarrow> fixture_step w s s'"
| call_chains: "comparison_chains w d s = (r, s') \<Longrightarrow> fixture_step w s s'"
| call_corpus: "corpus w d s = (r, s') \<Longrightarrow> fixture_step w s s'"

definition kept :: "'a option \<Rightarrow> 'a option \<Rightarrow> bool" where
  "kept before after \<longleftrightarrow> before = None \<or> after = before"

lemma kept_refl [simp]: "kept x x"
  by (simp add: kept_def)

lemma kept_None [simp]: "kept None x"
  by (simp add: kept_def)

lemma kept_Some [simp]: "kept (Some v) x \<longleftrightarrow> x = Some v"
  by (simp add: kept_def)

lemma kept_trans: "kept x y \<Longrightarrow> kept y z \<Longrightarrow> kept x z"
  by (auto simp: kept_def)

definition cells_kept :: "fixture_cells \<Rightarrow> fixture_cells \<Rightarrow> bool" where
  "cells_kept s s' \<longleftrightarrow>
     kept (PARITY s) (PARITY s') \<and> kept (P256_CHAIN s) (P256_CHAIN s') \<and> kept (CHAIN s) (CHAIN s') \<and>
     kept (CHAINS s) (CHAINS s') \<and> kept (CORPUS s) (CORPUS s')"

text \<open>Every filled cell was built by one drawing, and the listed chains are those of the cells they were taken from.\<close>

definition fixtures_ok :: "('dn, 'ext, 'key) fixture_sources \<Rightarrow> fixture_cells \<Rightarrow> bool" where
  "fixtures_ok w s \<longleftrightarrow>
     (\<forall>p. PARITY s = Some p \<longrightarrow> (\<exists>d :: 'key drawing.
        build_parity (src_rcgen w) (testkit_cert (src_from_der w) (src_invalid w)) (drawn_key d) = Some p)) \<and>
     (\<forall>c. P256_CHAIN s = Some c \<longrightarrow> (\<exists>d :: 'key drawing.
        build_p256_chain (src_rcgen w) (testkit_cert (src_from_der w) (src_invalid w)) (drawn_key d) = Some c)) \<and>
     (\<forall>a. CHAIN s = Some a \<longrightarrow>
        apple_chain_init (src_from_der w) (src_apple_leaf w) (src_apple_intermediate w) (src_apple_root w) = Some a) \<and>
     (\<forall>listed. CHAINS s = Some listed \<longrightarrow>
        (\<exists>c a. P256_CHAIN s = Some c \<and> CHAIN s = Some a \<and> listed = bench_chains c a)) \<and>
     (\<forall>samples. CORPUS s = Some samples \<longrightarrow> (\<exists>d :: 'key drawing.
        build_corpus (src_rcgen w) (src_from_der w) (drawn_key d P256 0) (drawn_key d P384 1) (drawn_ed25519 d)
          (drawn_rsa d) (src_try_from w) = Some samples))"

lemma cells_kept_trans: "cells_kept s s1 \<Longrightarrow> cells_kept s1 s2 \<Longrightarrow> cells_kept s s2"
  unfolding cells_kept_def by (blast intro: kept_trans)

lemma accessors_keep:
  "cells_kept s (snd (parity w d s))" "cells_kept s (snd (p256_chain w d s))"
  "cells_kept s (snd (apple_receipt_chain w d s))" "cells_kept s (snd (corpus w d s))"
  by (simp_all add: cells_kept_def cell_simps split: option.split)

lemma accessors_ok:
  assumes "fixtures_ok w s"
  shows "fixtures_ok w (snd (parity w d s))" "fixtures_ok w (snd (p256_chain w d s))"
    "fixtures_ok w (snd (apple_receipt_chain w d s))" "fixtures_ok w (snd (corpus w d s))"
  using assms by (auto simp: fixtures_ok_def cell_simps split: option.split)

text \<open>The nested initializer is the two accessors, after which the cells they fill hold what they returned.\<close>

lemma comparison_chains_cases:
  obtains "snd (comparison_chains w d s) = s"
  | "snd (comparison_chains w d s) = snd (p256_chain w d s)"
  | "snd (comparison_chains w d s) = snd (apple_receipt_chain w d (snd (p256_chain w d s)))"
  | c a s2 where "s2 = snd (apple_receipt_chain w d (snd (p256_chain w d s)))" "P256_CHAIN s2 = Some c" "CHAIN s2 = Some a"
      "CHAINS s2 = None" "snd (comparison_chains w d s) = s2\<lparr>CHAINS := Some (bench_chains c a)\<rparr>"
proof (cases "CHAINS s")
  case (Some listed)
  then show ?thesis using that(1) by (simp add: comparison_chains_def)
next
  case None
  obtain r1 s1 where p: "p256_chain w d s = (r1, s1)" by (cases "p256_chain w d s")
  obtain r2 s2 where q: "apple_receipt_chain w d s1 = (r2, s2)" by (cases "apple_receipt_chain w d s1")
  have cells: "P256_CHAIN s1 = r1" "CHAIN s2 = r2" using p256_cell.after_call [of w d s] apple_cell.after_call [of w d s1] p q by simp_all
  have other: "P256_CHAIN s2 = P256_CHAIN s1" "CHAINS s2 = None"
    using p q None by (auto simp: p256_chain_def apple_receipt_chain_def split: prod.splits)
  show ?thesis
  proof (cases r1)
    case None
    then show ?thesis using that(2) \<open>CHAINS s = None\<close> p by (simp add: comparison_chains_def)
  next
    case r1: (Some c)
    show ?thesis
    proof (cases r2)
      case None
      then show ?thesis using that(3) \<open>CHAINS s = None\<close> p q r1 by (simp add: comparison_chains_def)
    next
      case (Some a)
      then show ?thesis using that(4) \<open>CHAINS s = None\<close> p q r1 cells other by (simp add: comparison_chains_def get_or_init_def)
    qed
  qed
qed

lemma chains_keep: "cells_kept s (snd (comparison_chains w d s))"
proof (cases rule: comparison_chains_cases [of w d s])
  case (4 c a s2)
  have "cells_kept s s2" unfolding 4(1) by (rule cells_kept_trans [OF accessors_keep(2,3)])
  then show ?thesis unfolding 4(5) using 4(4) by (auto simp: cells_kept_def kept_def)
qed (simp_all add: accessors_keep cells_kept_trans [OF accessors_keep(2,3)], simp add: cells_kept_def)

lemma chains_ok: "fixtures_ok w s \<Longrightarrow> fixtures_ok w (snd (comparison_chains w d s))"
proof (cases rule: comparison_chains_cases [of w d s])
  case (4 c a s2)
  assume "fixtures_ok w s"
  then have "fixtures_ok w s2" unfolding 4(1) by (intro accessors_ok)
  then show ?thesis unfolding 4(5) using 4(2,3) by (simp add: fixtures_ok_def)
qed (simp_all add: accessors_ok)

lemma step_keeps: "fixture_step w s s' \<Longrightarrow> cells_kept s s'"
  by (induction rule: fixture_step.induct) (metis accessors_keep chains_keep snd_conv)+

lemma step_ok: "fixture_step w s s' \<Longrightarrow> fixtures_ok w s \<Longrightarrow> fixtures_ok w s'"
  by (induction rule: fixture_step.induct) (metis accessors_ok chains_ok snd_conv)+

lemma steps_keep: "(fixture_step w)\<^sup>*\<^sup>* s s' \<Longrightarrow> cells_kept s s'"
  by (induction rule: rtranclp_induct) (simp add: cells_kept_def, blast intro: cells_kept_trans step_keeps)

lemma reachable_ok: "(fixture_step w)\<^sup>*\<^sup>* no_fixtures s \<Longrightarrow> fixtures_ok w s"
  by (induction rule: rtranclp_induct) (simp add: fixtures_ok_def no_fixtures_def, blast intro: step_ok)

subsection \<open>Properties\<close>

text \<open>A generator that returns, and two drawings: one that yields keys and one that never does.\<close>

definition sample_sources :: "(string, oid \<times> bytes \<times> bool, nat) fixture_sources" where
  "sample_sources =
     \<lparr>src_rcgen = total_rcgen, src_from_der = parity_from_der, src_invalid = X509Error [], src_apple_leaf = [],
      src_apple_intermediate = [], src_apple_root = [], src_try_from = (\<lambda>_. Some 7)\<rparr>"

definition sample_drawing :: "nat drawing" where
  "sample_drawing = \<lparr>drawn_key = sample_fresh, drawn_ed25519 = Some 5, drawn_rsa = (\<lambda>n. Some [])\<rparr>"

definition failed_drawing :: "nat drawing" where
  "failed_drawing = \<lparr>drawn_key = (\<lambda>_ _. panic), drawn_ed25519 = panic, drawn_rsa = (\<lambda>_. panic)\<rparr>"

lemma sample_parity: "\<exists>p. parity sample_sources sample_drawing no_fixtures = (Some p, no_fixtures\<lparr>PARITY := Some p\<rparr>)"
  using parity_builds [of "X509Error []"]
  by (auto simp: cell_simps no_fixtures_def sample_sources_def sample_drawing_def)

text \<open>
  C36. The shared fixtures are built once. However the accessors are interleaved, and whatever each call would draw, a filled
  cell is never changed by a later call; each was built by a single drawing, never mixed from two, and the chains
  listed for the backend comparison are those of the P-256 and Apple cells. For each of the five accessors: once its cell is
  filled, every later run of calls returns the value in it each time and changes nothing; after a call the cell
  holds what the call returned, so a build that panics leaves it empty, to be tried again; and of any run of calls the
  results are some number of panics and then one value, repeated.
\<close>

theorem fixtures_built_once:
  assumes "(fixture_step w)\<^sup>*\<^sup>* no_fixtures s" "(fixture_step w)\<^sup>*\<^sup>* s s'"
  shows "cells_kept s s' \<and> fixtures_ok w s' \<and>
    answers_once PARITY (parity w) s s' \<and> answers_once P256_CHAIN (p256_chain w) s s' \<and>
    answers_once CHAIN (apple_receipt_chain w) s s' \<and> answers_once CHAINS (comparison_chains w) s s' \<and>
    answers_once CORPUS (corpus w) s s'"
proof -
  have kept: "cells_kept s s'" by (rule steps_keep [OF assms(2)])
  then have "answers_once PARITY (parity w) s s'" "answers_once P256_CHAIN (p256_chain w) s s'"
    "answers_once CHAIN (apple_receipt_chain w) s s'" "answers_once CHAINS (comparison_chains w) s s'"
    "answers_once CORPUS (corpus w) s s'"
    by (auto simp: cells_kept_def intro!: parity_cell.answers p256_cell.answers apple_cell.answers chains_cell.answers
        corpus_cell.answers)
  moreover have "fixtures_ok w s'" by (rule reachable_ok [OF rtranclp_trans [OF assms]])
  ultimately show ?thesis using kept by blast
qed

theorem fixtures_built_once_witness:
  "\<exists>p. fst (run_calls (parity sample_sources) [sample_drawing, failed_drawing, sample_drawing] no_fixtures) =
     [Some p, Some p, Some p]"
proof -
  obtain p where p: "parity sample_sources sample_drawing no_fixtures = (Some p, no_fixtures\<lparr>PARITY := Some p\<rparr>)"
    using sample_parity by blast
  have "(fixture_step sample_sources)\<^sup>*\<^sup>* no_fixtures (no_fixtures\<lparr>PARITY := Some p\<rparr>)"
    by (rule r_into_rtranclp) (rule call_parity [OF p])
  from fixtures_built_once [OF this rtranclp.rtrancl_refl]
  have "PARITY (no_fixtures\<lparr>PARITY := Some p\<rparr>) = Some p \<longrightarrow>
      run_calls (parity sample_sources) ds (no_fixtures\<lparr>PARITY := Some p\<rparr>) =
        (replicate (length ds) (Some p), no_fixtures\<lparr>PARITY := Some p\<rparr>)" for ds
    unfolding answers_once_def by blast
  from this [of "[failed_drawing, sample_drawing]"]
  have "run_calls (parity sample_sources) [failed_drawing, sample_drawing] (no_fixtures\<lparr>PARITY := Some p\<rparr>) =
      ([Some p, Some p], no_fixtures\<lparr>PARITY := Some p\<rparr>)" by (simp del: run_calls.simps)
  with p show ?thesis by auto
qed

text \<open>
  The rows that share the fixtures pass in every state the accessors can leave behind: on every enabled backend, the TLS
  row passes on whatever the parity cell holds, and both rows of the comparison on whatever was listed for it.
\<close>

theorem shared_fixture_rows_pass:
  fixes w :: "('dn, 'ext, 'key) fixture_sources"
  assumes set: "parity_setting (src_rcgen w) (src_from_der w) rd as_raw"
    and reached: "(fixture_step w)\<^sup>*\<^sup>* no_fixtures s" "PARITY s = Some p" "CHAIN s = Some a" "CHAINS s = Some listed"
    and apple: "apple_reads a"
    and backends: "\<forall>b \<in> set (BACKENDS f aws_lc_rs ring_krate rcr lib).
      backend_accepts_signed (src_rcgen w) (src_from_der w) rd (provider b) \<and> apple_signed (provider b) a"
    and bench: "\<forall>v. bench (Some (Ok v)) = Some ()"
  shows "tls_fixture_rows p bench (BACKENDS f aws_lc_rs ring_krate rcr lib) = Some () \<and>
    backend_rows bench listed (BACKENDS f aws_lc_rs ring_krate rcr lib) = Some ()"
proof -
  have ok: "fixtures_ok w s" by (rule reachable_ok [OF reached(1)])
  then obtain d :: "'key drawing" where p: "build_parity (src_rcgen w) (testkit_cert (src_from_der w) (src_invalid w)) (drawn_key d) = Some p"
    using reached(2) unfolding fixtures_ok_def by blast
  obtain c where "P256_CHAIN s = Some c" and l: "listed = bench_chains c a"
    using ok reached(3,4) unfolding fixtures_ok_def by fastforce
  with ok obtain d' :: "'key drawing" where c: "build_p256_chain (src_rcgen w) (testkit_cert (src_from_der w) (src_invalid w)) (drawn_key d') = Some c"
    unfolding fixtures_ok_def by blast
  have "tls_fixture_rows p bench (BACKENDS f aws_lc_rs ring_krate rcr lib) = Some ()"
    unfolding tls_fixture_rows_def using tls_fixture_passes [OF set p _ _ bench] backends by (intro each_backend_passes) blast
  then show ?thesis unfolding l using backend_rows_pass [OF set c apple backends bench] by blast
qed

text \<open>What a sample of the corpus was made of.\<close>

lemma those_in: "those (map f xs) = Some ys \<Longrightarrow> y \<in> set ys \<Longrightarrow> \<exists>x \<in> set xs. f x = Some y"
  by (induction xs arbitrary: ys) (auto split: option.splits)

lemma corpus_sample:
  assumes "build_corpus rc from_der k1 k2 k3 rsa_key try_from = Some samples" "sample \<in> set samples"
  shows "\<exists>key der rest c. rc_self_signed rc (rc_default rc) key = Some der \<and> from_der der = Ok (rest, c) \<and>
    sample_alg sample = cert_signature_algorithm c \<and> spki sample = tbs_subject_pki c \<and> message sample = tbs_raw c \<and>
    signature sample = cert_signature_value c"
proof -
  obtain lbl key where "sample_from_self_signed rc from_der lbl key = Some sample"
    using those_in [OF assms [unfolded build_corpus_def]] by (auto split: Option.bind_splits)
  then show ?thesis by (fastforce simp: sample_from_self_signed_def split: Option.bind_splits sum.splits)
qed

text \<open>
  A primitive that verifies what the generator self-signs: the certificate names one of the four
  algorithms of the corpus, and the primitive of that name accepts its signature under its own key.
\<close>

definition primitive_verifies_self_signed ::
  "('dn, 'ext, 'key) fixture_sources \<Rightarrow> signature_crate \<Rightarrow> bool" where
  "primitive_verifies_self_signed w krate \<longleftrightarrow>
     (\<forall>key der rest c. rc_self_signed (src_rcgen w) (rc_default (src_rcgen w)) key = Some der \<longrightarrow>
        src_from_der w der = Ok (rest, c) \<longrightarrow>
        (\<exists>v \<in> {EcdsaP256Sha256, EcdsaP384Sha384, Ed25519, RsaPkcs1Sha256}.
           selected_by v (cert_signature_algorithm c) (tbs_subject_pki c) \<and>
           unparsed_public_key_verify krate (crate_name v) (spki_subject_public_key (tbs_subject_pki c)) (tbs_raw c)
             (cert_signature_value c)))"

lemma any_verifies_first: "provider b (sample_alg x) (spki x) (message x) (signature x) = Some (Ok ()) \<Longrightarrow> any_verifies (b # bs) x = Some True"
  by simp

lemma first_backend_verifies:
  assumes "primitive_verifies_self_signed w krate"
    and "feature_aws_lc f \<and> krate = aws_lc_rs \<or> \<not> feature_aws_lc f \<and> feature_ring f \<and> krate = ring_krate"
    and "rc_self_signed (src_rcgen w) (rc_default (src_rcgen w)) key = Some der" "src_from_der w der = Ok (rest, c)"
  shows "\<exists>b bs. BACKENDS f aws_lc_rs ring_krate rcr lib = b # bs \<and>
    provider b (cert_signature_algorithm c) (tbs_subject_pki c) (tbs_raw c) (cert_signature_value c) = Some (Ok ())"
proof -
  obtain v where v: "v \<in> {EcdsaP256Sha256, EcdsaP384Sha384, Ed25519, RsaPkcs1Sha256}"
      "verification_algorithm (cert_signature_algorithm c) (tbs_subject_pki c) = Some v"
      "unparsed_public_key_verify krate (crate_name v) (spki_subject_public_key (tbs_subject_pki c)) (tbs_raw c) (cert_signature_value c)"
    using assms(1,3,4) unfolding primitive_verifies_self_signed_def verification_algorithm_table [symmetric] by blast
  then have "\<not> ecdsa_sha512 v" by (auto simp: ecdsa_sha512_def)
  with v assms(2) show ?thesis
    by (auto simp: BACKENDS_def aws_lc_backend.verify_Ok_iff ring_backend.verify_Ok_iff)
qed

text \<open>
  The corpus test passes on whatever the corpus cell holds, drawn by this call or by an earlier one, as soon as
  aws-lc or, without it, ring is enabled and verifies what the generator self-signs: each of the five samples
  is accepted by the first backend listed.
\<close>

theorem corpus_test_passes:
  fixes w :: "('dn, 'ext, 'key) fixture_sources"
  assumes primitive: "primitive_verifies_self_signed w krate"
    and enabled: "feature_aws_lc f \<and> krate = aws_lc_rs \<or> \<not> feature_aws_lc f \<and> feature_ring f \<and> krate = ring_krate"
    and reached: "(fixture_step w)\<^sup>*\<^sup>* no_fixtures s" and built: "corpus w d s = (Some samples, s')"
  shows "every_sample_verifies_on_at_least_one_backend w d (BACKENDS f aws_lc_rs ring_krate rcr lib) s = (Some (), s')"
proof -
  have "(fixture_step w)\<^sup>*\<^sup>* no_fixtures s'" using reached call_corpus [OF built] by simp
  moreover have "CORPUS s' = Some samples" using corpus_cell.after_call [of w d s] built by simp
  ultimately obtain d' :: "'key drawing" where c: "build_corpus (src_rcgen w) (src_from_der w) (drawn_key d' P256 0) (drawn_key d' P384 1)
      (drawn_ed25519 d') (drawn_rsa d') (src_try_from w) = Some samples"
    using reachable_ok unfolding fixtures_ok_def by blast
  have "any_verifies (BACKENDS f aws_lc_rs ring_krate rcr lib) x = Some True" if "x \<in> set samples" for x
    using corpus_sample [OF c that] first_backend_verifies [OF primitive enabled, of _ _ _ _ rcr lib] any_verifies_first [of _ x] by metis
  then show ?thesis
    by (simp add: every_sample_verifies_on_at_least_one_backend_def built each_argument_passes rust_assert_def)
qed

theorem corpus_test_passes_witness:
  "fst (every_sample_verifies_on_at_least_one_backend sample_sources sample_drawing
     (BACKENDS \<lparr>feature_aws_lc = False, feature_ring = True, feature_rust_crypto = True\<rparr> permissive_crate permissive_crate
        permissive_rsa sample_library) no_fixtures) = Some ()"
proof -
  have "primitive_verifies_self_signed sample_sources permissive_crate"
    by (auto simp: primitive_verifies_self_signed_def sample_sources_def parity_from_der_def parity_certificate_parts
        sample_algorithm_def permissive_crate_def)
  moreover have "\<exists>samples s'. corpus sample_sources sample_drawing no_fixtures = (Some samples, s')"
    by (simp add: cell_simps no_fixtures_def build_corpus_def sample_from_self_signed_def sample_sources_def sample_drawing_def
        rsa_key_pair_def parity_from_der_def total_rcgen_def sample_fresh_def)
  ultimately show ?thesis
    using corpus_test_passes [of sample_sources permissive_crate
        "\<lparr>feature_aws_lc = False, feature_ring = True, feature_rust_crypto = True\<rparr>" permissive_crate permissive_crate
        no_fixtures sample_drawing]
    by auto
qed

end
