(* ===== verification/Peer_Rows.thy ===== *)
theory Peer_Rows
  imports Fixture_Cells
begin

text \<open>
  The rows of \<^verbatim>\<open>compare/benches/verifiers.rs\<close> that drive the other two verifiers over the fixtures: rustls-webpki and
  openssl. Their operations are the records \<open>webpki_crate\<close> and \<open>openssl_crate\<close>, on types of their own, and \<open>None\<close> is a
  failed \<open>expect\<close>; what the rows hand to them, in which order, and what they assert is the code's.
\<close>

subsection \<open>rustls-webpki\<close>

text \<open>
  \<open>webpki_verify\<close> is \<open>verify_for_usage\<close> with all algorithms, the usage \<open>server_auth\<close> and neither revocation nor a path
  budget: the end entity, the anchors, the intermediates and the time in seconds since the epoch.
\<close>

record ('anchor, 'ee, 'name) webpki_crate =
  server_name_try_from :: "string \<Rightarrow> 'name option"
  anchor_from_trusted_cert :: "bytes \<Rightarrow> 'anchor option"
  end_entity_try_from :: "bytes \<Rightarrow> 'ee option"
  webpki_verify :: "'ee \<Rightarrow> 'anchor list \<Rightarrow> bytes list \<Rightarrow> 64 word \<Rightarrow> bool"
  verify_is_valid_for_subject_name :: "'ee \<Rightarrow> 'name \<Rightarrow> bool"

definition webpki_tls_verify ::
  "('anchor, 'ee, 'name) webpki_crate \<Rightarrow> bytes \<Rightarrow> bytes \<Rightarrow> bytes \<Rightarrow> 64 word \<Rightarrow> 'name \<Rightarrow> bool may_panic" where
  "webpki_tls_verify webpki leaf inter_der root time name = do {
     anchor \<leftarrow> anchor_from_trusted_cert webpki root;
     ee \<leftarrow> end_entity_try_from webpki leaf;
     rust_assert (webpki_verify webpki ee [anchor] [inter_der] time);
     Some (verify_is_valid_for_subject_name webpki ee name) }"

definition tls_fixture_rustls_webpki ::
  "('anchor, 'ee, 'name) webpki_crate \<Rightarrow> (certificate \<Rightarrow> bytes) \<Rightarrow> Parity \<Rightarrow> bool bencher \<Rightarrow> unit may_panic" where
  "tls_fixture_rustls_webpki webpki as_raw p bench = do {
     let leaf = as_raw (parity_localhost_leaf p);
     let inter_der = as_raw (parity_intermediate1 p);
     let root = as_raw (parity_ca1 p);
     let time = of_int REFERENCE_TIME;
     name \<leftarrow> server_name_try_from webpki HOST;
     let verify = webpki_tls_verify webpki leaf inter_der root time name;
     verified \<leftarrow> verify;
     rust_assert verified;
     bench verify }"

definition webpki_chain_verify ::
  "('anchor, 'ee, 'name) webpki_crate \<Rightarrow> bytes \<Rightarrow> bytes \<Rightarrow> bytes \<Rightarrow> 64 word \<Rightarrow> bool may_panic" where
  "webpki_chain_verify webpki leaf inter_der root time = do {
     anchor \<leftarrow> anchor_from_trusted_cert webpki root;
     ee \<leftarrow> end_entity_try_from webpki leaf;
     Some (webpki_verify webpki ee [anchor] [inter_der] time) }"

definition apple_chain_rustls_webpki ::
  "('anchor, 'ee, 'name) webpki_crate \<Rightarrow> (certificate \<Rightarrow> bytes) \<Rightarrow> apple_chain \<Rightarrow> bool bencher \<Rightarrow> unit may_panic" where
  "apple_chain_rustls_webpki webpki as_raw chain bench = do {
     let leaf = as_raw (apple_leaf chain);
     let inter_der = as_raw (apple_intermediate chain);
     let root = as_raw (apple_root chain);
     let time = of_int APPLE_SIGNED_DATE;
     let verify = webpki_chain_verify webpki leaf inter_der root time;
     verified \<leftarrow> verify;
     rust_assert verified;
     bench verify }"

subsection \<open>openssl\<close>

text \<open>The wrapper objects are handles of the crate's own; an operation on one returns it changed.\<close>

record ('x509, 'builder, 'param, 'store, 'stack, 'ctx) openssl_crate =
  x509_from_der :: "bytes \<Rightarrow> 'x509 option"
  store_builder_new :: "'builder option"
  builder_add_cert :: "'builder \<Rightarrow> 'x509 \<Rightarrow> 'builder option"
  verify_param_new :: "'param option"
  param_set_time :: "'param \<Rightarrow> int \<Rightarrow> 'param"
  param_set_host :: "'param \<Rightarrow> string \<Rightarrow> 'param option"
  builder_set_param :: "'builder \<Rightarrow> 'param \<Rightarrow> 'builder option"
  builder_build :: "'builder \<Rightarrow> 'store"
  stack_new :: "'stack option"
  stack_push :: "'stack \<Rightarrow> 'x509 \<Rightarrow> 'stack option"
  store_context_new :: "'ctx option"
  context_verify_cert :: "'ctx \<Rightarrow> 'store \<Rightarrow> 'x509 \<Rightarrow> 'stack \<Rightarrow> bool option"

definition openssl_verify ::
  "('x509, 'builder, 'param, 'store, 'stack, 'ctx) openssl_crate \<Rightarrow> bytes \<Rightarrow> bytes \<Rightarrow> bytes \<Rightarrow> int \<Rightarrow> string option \<Rightarrow>
   bool may_panic" where
  "openssl_verify ssl leaf inter_der root at host = do {
     leaf \<leftarrow> x509_from_der ssl leaf;
     inter_der \<leftarrow> x509_from_der ssl inter_der;
     root \<leftarrow> x509_from_der ssl root;
     builder \<leftarrow> store_builder_new ssl;
     builder \<leftarrow> builder_add_cert ssl builder root;
     param \<leftarrow> verify_param_new ssl;
     let param = param_set_time ssl param at;
     param \<leftarrow> (case host of Some host \<Rightarrow> param_set_host ssl param host | None \<Rightarrow> Some param);
     builder \<leftarrow> builder_set_param ssl builder param;
     let store = builder_build ssl builder;
     chain \<leftarrow> stack_new ssl;
     chain \<leftarrow> stack_push ssl chain inter_der;
     ctx \<leftarrow> store_context_new ssl;
     context_verify_cert ssl ctx store leaf chain }"

definition tls_fixture_openssl ::
  "('x509, 'builder, 'param, 'store, 'stack, 'ctx) openssl_crate \<Rightarrow> (certificate \<Rightarrow> bytes) \<Rightarrow> Parity \<Rightarrow> bool bencher \<Rightarrow>
   unit may_panic" where
  "tls_fixture_openssl ssl as_raw p bench = do {
     let verify =
       openssl_verify ssl (as_raw (parity_localhost_leaf p)) (as_raw (parity_intermediate1 p)) (as_raw (parity_ca1 p))
         REFERENCE_TIME (Some HOST);
     verified \<leftarrow> verify;
     rust_assert verified;
     bench verify }"

subsection \<open>Properties\<close>

text \<open>The two instants are positive and fit, so the conversion to an unsigned number of seconds keeps them.\<close>

lemma peer_times: "uint (of_int REFERENCE_TIME :: 64 word) = REFERENCE_TIME" "uint (of_int APPLE_SIGNED_DATE :: 64 word) = APPLE_SIGNED_DATE"
  by (simp_all add: REFERENCE_TIME_def APPLE_SIGNED_DATE_def)

text \<open>
  A row of another verifier gets past its assertion exactly when that verifier accepts; its second
  run, the timed one, is the first again.
\<close>

lemma peer_row_iff:
  assumes "\<forall>v. bench (Some v) = Some ()"
  shows "do { verified \<leftarrow> verify; rust_assert verified; bench verify } = Some () \<longleftrightarrow> verify = Some True"
  using assms by (cases verify) (auto simp: rust_assert_def)

theorem peer_rows_pass_iff:
  assumes "\<forall>v. bench (Some v) = Some ()"
  shows "(tls_fixture_rustls_webpki webpki as_raw p bench = Some () \<longleftrightarrow>
      (\<exists>name anchor ee. server_name_try_from webpki ''localhost'' = Some name \<and>
         anchor_from_trusted_cert webpki (as_raw (parity_ca1 p)) = Some anchor \<and>
         end_entity_try_from webpki (as_raw (parity_localhost_leaf p)) = Some ee \<and>
         webpki_verify webpki ee [anchor] [as_raw (parity_intermediate1 p)] (of_int REFERENCE_TIME) \<and>
         verify_is_valid_for_subject_name webpki ee name)) \<and>
    (apple_chain_rustls_webpki webpki as_raw chain bench = Some () \<longleftrightarrow>
      (\<exists>anchor ee. anchor_from_trusted_cert webpki (as_raw (apple_root chain)) = Some anchor \<and>
         end_entity_try_from webpki (as_raw (apple_leaf chain)) = Some ee \<and>
         webpki_verify webpki ee [anchor] [as_raw (apple_intermediate chain)] (of_int APPLE_SIGNED_DATE))) \<and>
    (tls_fixture_openssl ssl as_raw p bench = Some () \<longleftrightarrow>
      openssl_verify ssl (as_raw (parity_localhost_leaf p)) (as_raw (parity_intermediate1 p)) (as_raw (parity_ca1 p))
        REFERENCE_TIME (Some ''localhost'') = Some True)"
  unfolding tls_fixture_rustls_webpki_def apple_chain_rustls_webpki_def tls_fixture_openssl_def Let_def
    peer_row_iff [OF assms] HOST_def
  using assms by (auto simp: bind_eq_Some_conv peer_row_iff [OF assms] webpki_tls_verify_def webpki_chain_verify_def rust_assert_def split: if_splits)

text \<open>The crate's own row, on a chain whose certificates were issued for other purposes.\<close>

definition with_purposes ::
  "(x509_error + ExtendedKeyUsage option) \<Rightarrow> (x509_error + X509Extension option) \<Rightarrow> certificate \<Rightarrow> certificate" where
  "with_purposes eku raw c = c\<lparr>tbs_extended_key_usage := eku, ext_extended_key_usage := raw\<rparr>"

lemma purposes_unread:
  "rfc5280_ok (map (with_purposes e x) cs) = rfc5280_ok cs" "expiry_ok t (map (with_purposes e x) cs) = expiry_ok t cs"
  "leaf_identity_ok h ip (with_purposes e x c) = leaf_identity_ok h ip c"
proof -
  let ?g = "with_purposes e x"
  have same: "tbs_version (?g d) = tbs_version d" "tbs_extensions (?g d) = tbs_extensions d" "tbs_not_before (?g d) = tbs_not_before d"
      "tbs_not_after (?g d) = tbs_not_after d" "tbs_basic_constraints (?g d) = tbs_basic_constraints d" "tbs_issuer (?g d) = tbs_issuer d"
      "tbs_subject (?g d) = tbs_subject d" "tbs_name_constraints (?g d) = tbs_name_constraints d"
      "tbs_subject_alternative_name (?g d) = tbs_subject_alternative_name d" for d
    by (simp_all add: with_purposes_def)
  have ca: "Rfc5280_Basic.is_ca (?g d) = Rfc5280_Basic.is_ca d" "path_length_at_least (?g d) n = path_length_at_least d n" for d n
    by (simp_all add: Rfc5280_Basic.is_ca_def path_length_at_least_def same)
  have san: "issuer_constrains (?g d) (map ?g ss) = issuer_constrains d ss" for d ss
    by (simp add: issuer_constrains_def same decoded_san_def split: sum.split option.split)
  have "sub_cas (map ?g cs) i = sub_cas cs i" for i
    by (simp add: sub_cas_def take_map drop_map filter_map comp_def same)
  moreover have "hd (map ?g cs) = ?g (hd cs)" if "length cs = Suc 0" using that by (cases cs) auto
  ultimately show "rfc5280_ok (map ?g cs) = rfc5280_ok cs"
    by (auto simp: rfc5280_ok_def version_ok_def basic_constraints_ok_def name_constraints_ok_def same ca san take_map)
  show "expiry_ok t (map ?g cs) = expiry_ok t cs" by (simp add: expiry_ok_def same)
  show "leaf_identity_ok h ip (?g c) = leaf_identity_ok h ip c" unfolding leaf_identity_ok_def same by (rule refl)
qed

text \<open>
  The row the crate sets against rustls-webpki does not do the work of that row: where the other verifier is
  asked for the usage \<open>server_auth\<close>, the policy of the crate's row gives the same verdict whatever extended key usage
  the certificates have.
\<close>

theorem own_row_ignores_purposes:
  "accepts (AllOfPolicies (Tuple2 (RFC5280Policy_policy (RFC5280Policy_new REFERENCE_TIME))
       (ServerIdentityPolicy_policy (ServerIdentityPolicy_new (Some (ascii HOST)) None))))
     \<lparr>uc_certificates = map (with_purposes eku raw) (c # cs)\<rparr> =
   accepts (AllOfPolicies (Tuple2 (RFC5280Policy_policy (RFC5280Policy_new REFERENCE_TIME))
       (ServerIdentityPolicy_policy (ServerIdentityPolicy_new (Some (ascii HOST)) None))))
     \<lparr>uc_certificates = c # cs\<rparr>"
  using purposes_unread(1) [of eku raw "c # cs"] purposes_unread(2) [of _ eku raw "c # cs"] purposes_unread(3) [of _ _ eku raw c]
  by (simp add: rfc5280_accepts server_identity.verdict)

end
