(* ===== verification/Format_Tests.thy ===== *)
theory Format_Tests
  imports Testkit_Tests Jws_Header
begin

text \<open>
  The unit tests of \<^verbatim>\<open>certificate.rs\<close>, which read a certificate's one-line summary back: that it is one short line with
  no byte array in it, that the serial number stands in it as it was, and that the extension list names each
  extension. The texts the parser and the OID registry hand over are theirs; what the tests need of them is
  \<open>summary_fields\<close>.
\<close>

subsection \<open>The tests\<close>

definition run_char :: "char \<Rightarrow> bool" where
  "run_char c \<longleftrightarrow> c \<in> set ''0123456789, ''"

text \<open>\<open>str::split\<close> at the characters that satisfy a predicate.\<close>

fun split_where :: "(char \<Rightarrow> bool) \<Rightarrow> string \<Rightarrow> string list" where
  "split_where p [] = [[]]"
| "split_where p (c # cs) =
     (if p c then [] # split_where p cs
      else case split_where p cs of run # runs \<Rightarrow> (c # run) # runs | [] \<Rightarrow> [[c]])"

definition commas :: "string \<Rightarrow> nat" where
  "commas s = length (filter (\<lambda>c. c = CHR '','') s)"

definition assert_no_byte_dump :: "string \<Rightarrow> unit may_panic" where
  "assert_no_byte_dump rendered = do {
     rust_assert (CHR 10 \<notin> set rendered);
     rust_assert (length rendered < 1024);
     let digit_runs = length (filter (\<lambda>run. 3 \<le> commas run) (split_where (\<lambda>c. \<not> run_char c) rendered));
     rust_assert (digit_runs = 0) }"

definition formats_self_signed_ca ::
  "asn1_library \<Rightarrow> ('dn, 'ext, 'key) rcgen \<Rightarrow> (bytes \<Rightarrow> certificate may_panic) \<Rightarrow> 'key may_panic \<Rightarrow> unit may_panic" where
  "formats_self_signed_ca lib rc cert fresh = do {
     ca \<leftarrow> self_signed_ca_with rc ''Test Root CA'' id fresh;
     c \<leftarrow> cert (ca_der ca);
     let rendered = format_certificate lib c;
     rust_assert (prefix ''Certificate(version: v3, serialNumber: '' rendered);
     rust_assert (suffix '')'' rendered);
     rust_assert (sublist ''issuer: CN=Test Root CA'' rendered);
     rust_assert (sublist ''subject: CN=Test Root CA'' rendered);
     rust_assert (sublist ''notValidBefore: '' rendered);
     rust_assert (sublist ''notValidAfter: '' rendered);
     rust_assert (sublist ''publicKey: '' rendered);
     rust_assert (sublist ''signature: '' rendered);
     rust_assert (sublist ''basicConstraints (critical)'' rendered);
     assert_no_byte_dump rendered }"

text \<open>What stands between the two markers, as the test cuts it out.\<close>

definition serial_field :: "string \<Rightarrow> string may_panic" where
  "serial_field rendered = do {
     rest \<leftarrow> index_at (split_str ''serialNumber: '' rendered) 1;
     index_at (split_str '', issuer:'' rest) 0 }"

definition serial_char :: "char \<Rightarrow> bool" where
  "serial_char c \<longleftrightarrow> c \<in> set ''0123456789abcdefABCDEF'' \<or> c = CHR '':''"

definition serial_number_is_hex_not_decimal_bytes ::
  "asn1_library \<Rightarrow> ('dn, 'ext, 'key) rcgen \<Rightarrow> (bytes \<Rightarrow> certificate may_panic) \<Rightarrow> 'key may_panic \<Rightarrow> unit may_panic" where
  "serial_number_is_hex_not_decimal_bytes lib rc cert fresh = do {
     ca \<leftarrow> self_signed_ca_with rc ''Serial Root'' id fresh;
     c \<leftarrow> cert (ca_der ca);
     let rendered = format_certificate lib c;
     serial \<leftarrow> serial_field rendered;
     rust_assert (serial \<noteq> []);
     rust_assert (list_all serial_char serial);
     rust_assert (serial = raw_serial_as_string c) }"

definition formats_leaf_with_sans ::
  "asn1_library \<Rightarrow> ('dn, 'ext, 'key) rcgen \<Rightarrow> (bytes \<Rightarrow> certificate may_panic) \<Rightarrow> (nat \<Rightarrow> 'key may_panic) \<Rightarrow> unit may_panic" where
  "formats_leaf_with_sans lib rc cert fresh = do {
     root \<leftarrow> self_signed_ca_with rc ''SAN Root'' id (fresh 0);
     leaf_der \<leftarrow> issue_leaf rc ''leaf'' [''www.example.com'', ''example.com''] root (fresh 1);
     c \<leftarrow> cert leaf_der;
     let rendered = format_certificate lib c;
     rust_assert (sublist ''subject: CN=leaf'' rendered);
     rust_assert (sublist ''issuer: CN=SAN Root'' rendered);
     rust_assert (sublist ''subjectAltName'' rendered);
     rust_assert (\<not> sublist ''www.example.com'' rendered);
     assert_no_byte_dump rendered }"

definition strip_suffix :: "string \<Rightarrow> string \<Rightarrow> string option" where
  "strip_suffix end s = (if suffix end s then Some (take (length s - length end) s) else None)"

definition extensions_field :: "string \<Rightarrow> string may_panic" where
  "extensions_field rendered = do {
     rest \<leftarrow> index_at (split_str ''extensions: ['' rendered) 1;
     strip_suffix ''])'' rest }"

text \<open>
  The parameters' field \<open>name_constraints\<close>, which nothing else that is modelled sets, is reached through
  \<open>with_name_constraints\<close>.
\<close>

definition formats_certificate_with_multiple_extensions ::
  "('dn RcNameConstraints \<Rightarrow> ('dn, 'ext) CertificateParams \<Rightarrow> ('dn, 'ext) CertificateParams) \<Rightarrow> asn1_library \<Rightarrow>
   ('dn, 'ext, 'key) rcgen \<Rightarrow> (bytes \<Rightarrow> certificate may_panic) \<Rightarrow> (nat \<Rightarrow> 'key may_panic) \<Rightarrow> unit may_panic" where
  "formats_certificate_with_multiple_extensions with_name_constraints lib rc cert fresh = do {
     root \<leftarrow> self_signed_ca_with rc ''Multi Root'' id (fresh 0);
     intermediate \<leftarrow> issue_ca rc ''Multi Intermediate'' root (Some 0)
       (\<lambda>params. with_name_constraints (name_constraints [dns_subtree ''example.com''] [])
          (params\<lparr>key_usages := [KeyCertSign, KeyCrlSign]\<rparr>)) (fresh 1);
     c \<leftarrow> cert (ca_der intermediate);
     let rendered = format_certificate lib c;
     extensions \<leftarrow> extensions_field rendered;
     rust_assert (sublist ''basicConstraints'' extensions);
     rust_assert (sublist ''keyUsage'' extensions);
     rust_assert (sublist ''nameConstraints'' extensions);
     rust_assert (3 \<le> length (split_str '', '' extensions));
     rust_assert (sublist ''(critical)'' extensions);
     assert_no_byte_dump rendered }"

subsection \<open>Scanning a summary\<close>

text \<open>Commas are apart when a character that ends a run stands between any two of them; \<open>seen\<close> says the run has one already.\<close>

fun commas_apart :: "bool \<Rightarrow> string \<Rightarrow> bool" where
  "commas_apart seen [] = True"
| "commas_apart seen (c # cs) =
     (if \<not> run_char c then commas_apart False cs
      else if c = CHR '','' then \<not> seen \<and> commas_apart True cs
      else commas_apart seen cs)"

lemma commas_apart_text:
  "CHR '','' \<notin> set s \<Longrightarrow> commas_apart seen (s @ rest) = commas_apart (seen \<and> list_all run_char s) rest"
  by (induction s arbitrary: seen) auto

lemma commas_Cons: "commas (c # s) = (if c = CHR '','' then Suc (commas s) else commas s)"
  by (simp add: commas_def)

lemma split_where_not_Nil [simp]: "split_where p s \<noteq> []"
  by (induction s) (auto split: list.splits)

lemma commas_apart_runs:
  assumes "commas_apart seen s"
  shows "commas (hd (split_where (\<lambda>c. \<not> run_char c) s)) + (if seen then 1 else 0) \<le> 1 \<and>
    (\<forall>run \<in> set (tl (split_where (\<lambda>c. \<not> run_char c) s)). commas run \<le> 1)"
  using assms
proof (induction seen s rule: commas_apart.induct)
  case (1 seen)
  then show ?case by (simp add: commas_def)
next
  case (2 seen c cs)
  obtain run runs where split: "split_where (\<lambda>c. \<not> run_char c) cs = run # runs"
    using split_where_not_Nil by (meson neq_Nil_conv)
  show ?case
  proof (cases "run_char c")
    case True
    then show ?thesis using 2 split by (auto simp: commas_Cons split: if_splits)
  next
    case False
    then show ?thesis using 2 split by (auto simp: commas_def)
  qed
qed

lemma no_byte_dump:
  assumes "CHR 10 \<notin> set s" "length s < 1024" "commas_apart False s"
  shows "assert_no_byte_dump s = Some ()"
proof -
  let ?runs = "split_where (\<lambda>c. \<not> run_char c) s"
  have "commas run \<le> 1" if "run \<in> set ?runs" for run
    using that commas_apart_runs [OF assms(3)] split_where_not_Nil [of "\<lambda>c. \<not> run_char c" s]
    by (cases ?runs) auto
  then have "filter (\<lambda>run. 3 \<le> commas run) ?runs = []" by (fastforce simp: filter_empty_conv)
  then show ?thesis using assms(1,2) by (simp add: assert_no_byte_dump_def rust_assert_def)
qed

text \<open>No two letters \<open>w\<close> in a row; \<open>seen\<close> says the character before was one.\<close>

fun ww_free :: "bool \<Rightarrow> string \<Rightarrow> bool" where
  "ww_free seen [] = True"
| "ww_free seen (c # cs) = (if c = CHR ''w'' then \<not> seen \<and> ww_free True cs else ww_free False cs)"

lemma ww_free_append:
  "c \<noteq> CHR ''w'' \<Longrightarrow> ww_free seen (s @ c # rest) \<longleftrightarrow> ww_free seen s \<and> ww_free False rest"
  by (induction s arbitrary: seen) auto

lemma ww_free_none: "CHR ''w'' \<notin> set s \<Longrightarrow> ww_free False s"
  by (induction s) auto

lemma ww_free_weaken: "ww_free True s \<Longrightarrow> ww_free False s"
  by (cases s) auto

lemma ww_free_drop: "ww_free seen (u @ v) \<Longrightarrow> ww_free False v"
  by (induction u arbitrary: seen) (auto split: if_splits dest: ww_free_weaken, metis (full_types) ww_free_weaken)

lemma ww_free_no_host: "ww_free seen s \<Longrightarrow> \<not> sublist (''www'' @ host) s"
  by (auto simp: sublist_def dest: ww_free_drop)

subsection \<open>What the tests need of the parser's texts\<close>

definition plain_text :: "string \<Rightarrow> bool" where
  "plain_text s \<longleftrightarrow>
     CHR '','' \<notin> set s \<and> CHR 10 \<notin> set s \<and> CHR ''['' \<notin> set s \<and> ww_free False s \<and> length s < 48"

text \<open>An OID's name is plain and is not a number.\<close>

definition plain_name :: "string \<Rightarrow> bool" where
  "plain_name s \<longleftrightarrow> plain_text s \<and> \<not> list_all run_char s"

definition hex_serial :: "certificate \<Rightarrow> bool" where
  "hex_serial c \<longleftrightarrow>
     raw_serial_as_string c \<noteq> [] \<and> list_all serial_char (raw_serial_as_string c) \<and> length (raw_serial_as_string c) < 64"

definition summary_fields :: "asn1_library \<Rightarrow> certificate \<Rightarrow> bool" where
  "summary_fields lib c \<longleftrightarrow>
     version_display c = ''V3'' \<and> hex_serial c \<and> plain_text (not_before_display c) \<and> plain_text (not_after_display c) \<and>
     plain_name (algorithm_name lib (alg_algorithm (spki_algorithm (tbs_subject_pki c)))) \<and>
     plain_name (algorithm_name lib (alg_algorithm (cert_signature_algorithm c))) \<and>
     (\<forall>ext \<in> set (tbs_extensions c). plain_name (algorithm_name lib (ext_oid ext))) \<and> length (tbs_extensions c) \<le> 6"

definition summary_names :: "certificate \<Rightarrow> bool" where
  "summary_names c \<longleftrightarrow> plain_text (name_display (tbs_issuer c)) \<and> plain_text (name_display (tbs_subject c))"

definition ext_text :: "asn1_library \<Rightarrow> X509Extension \<Rightarrow> string" where
  "ext_text lib ext = algorithm_name lib (ext_oid ext) @ (if ext_critical ext then '' (critical)'' else [])"

lemma format_extensions_texts: "format_extensions lib c = ''['' @ join_with '', '' (map (ext_text lib) (tbs_extensions c)) @ '']''"
proof -
  have "(\<lambda>ext. let name = algorithm_name lib (ext_oid ext) in if ext_critical ext then name @ '' (critical)'' else name) = ext_text lib"
    by (rule ext) (simp add: ext_text_def Let_def)
  then show ?thesis by (simp add: format_extensions_def)
qed

text \<open>
  The texts between the field markers, and what each way of reading a summary back needs of them. To cut out the
  extension list, no text may have an opening bracket, and to split it no extension name may have a comma. For there to
  be no run that looks like a byte array, the commas within a text are apart from each other and from the one that
  follows, and an extension is not named by a number. Commas within a name, as between its parts, are allowed.
\<close>

definition summary_texts :: "asn1_library \<Rightarrow> certificate \<Rightarrow> string list" where
  "summary_texts lib c =
     [name_display (tbs_issuer c), name_display (tbs_subject c), not_before_display c, not_after_display c,
      algorithm_name lib (alg_algorithm (spki_algorithm (tbs_subject_pki c))),
      algorithm_name lib (alg_algorithm (cert_signature_algorithm c))]"

definition extension_names :: "asn1_library \<Rightarrow> certificate \<Rightarrow> string list" where
  "extension_names lib c = map (\<lambda>ext. algorithm_name lib (ext_oid ext)) (tbs_extensions c)"

definition hex_digits :: "certificate \<Rightarrow> bool" where
  "hex_digits c \<longleftrightarrow> version_display c = ''V3'' \<and> list_all serial_char (raw_serial_as_string c)"

definition listable :: "asn1_library \<Rightarrow> certificate \<Rightarrow> bool" where
  "listable lib c \<longleftrightarrow>
     (\<forall>t \<in> set (summary_texts lib c). CHR ''['' \<notin> set t) \<and>
     (\<forall>t \<in> set (extension_names lib c). CHR ''['' \<notin> set t \<and> CHR '','' \<notin> set t)"

definition dump_free :: "asn1_library \<Rightarrow> certificate \<Rightarrow> bool" where
  "dump_free lib c \<longleftrightarrow>
     (\<forall>t \<in> set (summary_texts lib c). CHR 10 \<notin> set t \<and> commas_apart False (t @ '','')) \<and>
     (\<forall>t \<in> set (extension_names lib c). CHR 10 \<notin> set t \<and> CHR '','' \<notin> set t \<and> \<not> list_all run_char t)"

definition short_texts :: "asn1_library \<Rightarrow> certificate \<Rightarrow> bool" where
  "short_texts lib c \<longleftrightarrow>
     length (raw_serial_as_string c) < 64 \<and> length (tbs_extensions c) \<le> 6 \<and>
     (\<forall>t \<in> set (summary_texts lib c @ extension_names lib c). length t < 48)"

lemma plain_summary:
  assumes "summary_fields lib c" "summary_names c"
  shows "hex_digits c" "listable lib c" "dump_free lib c" "short_texts lib c"
  using assms
  by (auto simp: summary_fields_def summary_names_def hex_serial_def hex_digits_def listable_def dump_free_def short_texts_def
      summary_texts_def extension_names_def plain_name_def plain_text_def commas_apart_text)

lemma join_excludes: "x \<notin> set '', '' \<Longrightarrow> \<forall>t \<in> set ts. x \<notin> set t \<Longrightarrow> x \<notin> set (join_with '', '' ts)"
  by (induction "'', ''" ts rule: join_with.induct) auto

lemma join_length: "\<forall>t \<in> set ts. length t < 60 \<Longrightarrow> length (join_with '', '' ts) \<le> 62 * length ts"
  by (induction "'', ''" ts rule: join_with.induct) auto

lemma join_ww_free: "\<forall>t \<in> set ts. ww_free False t \<Longrightarrow> ww_free False (join_with '', '' ts)"
  by (induction "'', ''" ts rule: join_with.induct) (auto simp: ww_free_append)

lemma join_commas_apart:
  "\<forall>t \<in> set ts. CHR '','' \<notin> set t \<and> \<not> list_all run_char t \<Longrightarrow>
     commas_apart seen (join_with '', '' ts @ CHR '']'' # rest) = commas_apart False rest"
  by (induction "'', ''" ts arbitrary: seen rule: join_with.induct) (auto simp: commas_apart_text run_char_def)

lemma split_items:
  "ts \<noteq> [] \<Longrightarrow> \<forall>t \<in> set ts. CHR '','' \<notin> set t \<Longrightarrow> split_str '', '' (join_with '', '' ts) = ts"
proof (induction "'', ''" ts rule: join_with.induct)
  case (2 t)
  then have "CHR '','' \<notin> set t" by simp
  then have "split_once '', '' t = None" by (induction t) auto
  then show ?case by (simp add: split_str.simps)
next
  case (3 s t ss)
  then have "split_once '', '' (s @ '', '' @ join_with '', '' (t # ss)) = Some (s, join_with '', '' (t # ss))"
    by (intro split_once_found) simp
  then show ?case using 3 by (simp add: split_str.simps [of _ "s @ _"])
qed simp

text \<open>A text of its own before a comma: what it leaves to be scanned is what follows.\<close>

lemma commas_apart_before:
  "commas_apart seen (t @ [CHR '','']) \<Longrightarrow> commas_apart seen (t @ CHR '','' # rest) = commas_apart True rest"
  by (induction t arbitrary: seen) (auto simp: run_char_def)

lemma set_ext_text:
  "set (ext_text lib ext) = set (algorithm_name lib (ext_oid ext)) \<union> (if ext_critical ext then set '' (critical)'' else {})"
  by (auto simp: ext_text_def)

lemma join_contains: "t \<in> set ts \<Longrightarrow> sublist t (join_with sep ts)"
proof (induction sep ts rule: join_with.induct)
  case (3 sep s t' ss)
  then show ?case by (auto intro: sublist_appendI sublist_order.order.trans simp: sublist_append)
qed simp_all

subsection \<open>Reading a summary back\<close>

lemma lowercase_V3: "char_to_lowercase CHR ''V'' = CHR ''v''" "char_to_lowercase CHR ''3'' = CHR ''3''"
  by code_simp+

lemma serial_char_excludes: "serial_char c \<Longrightarrow> c \<notin> set '',[sw''" "serial_char c \<Longrightarrow> c \<noteq> CHR 10"
  by (auto simp: serial_char_def)

lemma hex_digits_excludes:
  "hex_digits c \<Longrightarrow> set (raw_serial_as_string c) \<inter> set '',[sw'' = {}" "hex_digits c \<Longrightarrow> CHR 10 \<notin> set (raw_serial_as_string c)"
  using serial_char_excludes by (auto simp: hex_digits_def list_all_iff)

lemma summary_no_newline:
  assumes "hex_digits c" "dump_free lib c"
  shows "CHR 10 \<notin> set (format_certificate lib c)"
proof -
  have "CHR 10 \<notin> set (join_with '', '' (map (ext_text lib) (tbs_extensions c)))"
    using assms(2) by (intro join_excludes) (auto simp: dump_free_def extension_names_def set_ext_text split: if_splits)
  then show ?thesis
    using assms hex_digits_excludes(2) [of c]
    by (simp add: format_certificate_def format_extensions_texts dump_free_def summary_texts_def hex_digits_def lowercase_V3)
qed

lemma summary_short:
  assumes "hex_digits c" "short_texts lib c"
  shows "length (format_certificate lib c) < 1024"
proof -
  have "length (ext_text lib ext) < 60" if "ext \<in> set (tbs_extensions c)" for ext
  proof -
    have "length (algorithm_name lib (ext_oid ext)) < 48" using assms(2) that by (simp add: short_texts_def extension_names_def)
    then show ?thesis by (simp add: ext_text_def)
  qed
  then have "length (join_with '', '' (map (ext_text lib) (tbs_extensions c))) \<le> 62 * length (map (ext_text lib) (tbs_extensions c))"
    by (intro join_length) simp
  then show ?thesis
    using assms by (simp add: format_certificate_def format_extensions_texts short_texts_def summary_texts_def hex_digits_def lowercase_V3)
qed

lemma summary_commas_apart:
  assumes "hex_digits c" "dump_free lib c"
  shows "commas_apart False (format_certificate lib c)"
proof -
  have "commas_apart seen (join_with '', '' (map (ext_text lib) (tbs_extensions c)) @ CHR '']'' # rest) = commas_apart False rest" for seen rest
    using assms(2) by (intro join_commas_apart) (auto simp: dump_free_def extension_names_def ext_text_def)
  then show ?thesis
    using assms hex_digits_excludes(1) [of c]
    by (simp add: format_certificate_def format_extensions_texts dump_free_def summary_texts_def hex_digits_def lowercase_V3
        commas_apart_text commas_apart_before run_char_def)
qed

lemma summary_ww_free:
  assumes "summary_fields lib c" "summary_names c"
  shows "ww_free False (format_certificate lib c)"
proof -
  have "ww_free False (join_with '', '' (map (ext_text lib) (tbs_extensions c)))"
    using assms(1)
    by (intro join_ww_free) (auto simp: summary_fields_def plain_name_def plain_text_def ext_text_def ww_free_append)
  then show ?thesis
    using assms hex_digits_excludes(1) [OF plain_summary(1) [OF assms]]
    by (simp add: format_certificate_def format_extensions_texts summary_fields_def summary_names_def plain_name_def
        plain_text_def lowercase_V3 ww_free_append ww_free_none)
qed

lemma split_once_skip:
  assumes "pat \<noteq> []" "hd pat \<notin> set u"
  shows "split_once pat (u @ v) = map_option (\<lambda>(b, a). (u @ b, a)) (split_once pat v)"
  using assms(2)
proof (induction u)
  case Nil
  then show ?case by (simp add: option.map_ident case_prod_beta)
next
  case (Cons x u)
  then have "\<not> prefix pat (x # u @ v)" using assms(1) by (cases pat) auto
  then show ?case using Cons by (simp add: option.map_comp comp_def case_prod_beta)
qed

lemma hd_split_str: "\<exists>rest. split_str pat s = (if pat = [] then s else case split_once pat s of None \<Rightarrow> s | Some (b, a) \<Rightarrow> b) # rest"
  by (auto simp: split_str.simps [of pat s] split: option.splits)

text \<open>The serial number ends at the marker of the issuer, whatever the issuer is called.\<close>

lemma serial_up_to_issuer:
  assumes "hex_digits c"
  shows "\<exists>rest pieces. split_str ''serialNumber: '' (raw_serial_as_string c @ '', issuer: '' @ v) =
    (raw_serial_as_string c @ '', issuer:'' @ rest) # pieces"
proof -
  have skip: "split_once ''serialNumber: '' (raw_serial_as_string c @ '', issuer: '' @ v) =
      map_option (\<lambda>(b, a). (raw_serial_as_string c @ b, a)) (split_once ''serialNumber: '' ('', issuer: '' @ v))"
    by (rule split_once_skip) (use hex_digits_excludes(1) [OF assms] in auto)
  have "split_once ''serialNumber: '' ('', issuer: '' @ v) =
      map_option (\<lambda>(b, a). ('', issuer: '' @ b, a)) (split_once ''serialNumber: '' v)"
    by (cases "split_once ''serialNumber: '' v") auto
  with skip hd_split_str [of "''serialNumber: ''" "raw_serial_as_string c @ '', issuer: '' @ v"] show ?thesis
    by (cases "split_once ''serialNumber: '' v") (auto simp del: split_once.simps)
qed

lemma serial_field_summary:
  assumes "hex_digits c"
  shows "serial_field (format_certificate lib c) = Some (raw_serial_as_string c)"
proof -
  define v where "v = name_display (tbs_issuer c) @ '', subject: '' @ name_display (tbs_subject c) @
    '', notValidBefore: '' @ not_before_display c @ '', notValidAfter: '' @ not_after_display c @
    '', publicKey: '' @ algorithm_name lib (alg_algorithm (spki_algorithm (tbs_subject_pki c))) @
    '', signature: '' @ algorithm_name lib (alg_algorithm (cert_signature_algorithm c)) @ '', extensions: '' @ format_extensions lib c @ '')''"
  have shape: "format_certificate lib c = ''Certificate(version: v3, '' @ ''serialNumber: '' @ raw_serial_as_string c @ '', issuer: '' @ v"
    by (simp add: v_def format_certificate_def assms [unfolded hex_digits_def] lowercase_V3)
  obtain rest pieces where "split_str ''serialNumber: '' (raw_serial_as_string c @ '', issuer: '' @ v) =
      (raw_serial_as_string c @ '', issuer:'' @ rest) # pieces"
    using serial_up_to_issuer [OF assms] by blast
  moreover have "\<not> sublist ''serialNumber: '' (''Certificate(version: v3, '' @ butlast ''serialNumber: '')" by code_simp
  ultimately have "index_at (split_str ''serialNumber: '' (format_certificate lib c)) 1 = Some (raw_serial_as_string c @ '', issuer:'' @ rest)"
    unfolding shape by (subst split_str_first) (simp_all del: append_Cons)
  moreover have "CHR '','' \<notin> set (raw_serial_as_string c)" using hex_digits_excludes(1) [OF assms] by auto
  then have "split_once '', issuer:'' (raw_serial_as_string c @ '', issuer:'' @ rest) = Some (raw_serial_as_string c, rest)"
    by (rule split_once_found)
  then have "index_at (split_str '', issuer:'' (raw_serial_as_string c @ '', issuer:'' @ rest)) 0 = Some (raw_serial_as_string c)"
    by (simp add: split_str.simps [of "'', issuer:''" "_ @ _"] del: split_once.simps append_Cons)
  ultimately show ?thesis by (simp add: serial_field_def)
qed

lemma extensions_field_summary:
  assumes "hex_digits c" "listable lib c"
  shows "extensions_field (format_certificate lib c) = Some (join_with '', '' (map (ext_text lib) (tbs_extensions c)))"
proof -
  let ?items = "join_with '', '' (map (ext_text lib) (tbs_extensions c))"
  define u where "u = ''Certificate(version: v3, serialNumber: '' @ raw_serial_as_string c @ '', issuer: '' @
    name_display (tbs_issuer c) @ '', subject: '' @ name_display (tbs_subject c) @
    '', notValidBefore: '' @ not_before_display c @ '', notValidAfter: '' @ not_after_display c @
    '', publicKey: '' @ algorithm_name lib (alg_algorithm (spki_algorithm (tbs_subject_pki c))) @
    '', signature: '' @ algorithm_name lib (alg_algorithm (cert_signature_algorithm c)) @ '', ''"
  have shape: "format_certificate lib c = u @ ''extensions: ['' @ ?items @ ''])''"
    using assms(1) by (simp add: u_def format_certificate_def format_extensions_texts hex_digits_def lowercase_V3)
  have "CHR ''['' \<notin> set u"
    using assms(2) hex_digits_excludes(1) [OF assms(1)] by (auto simp: u_def listable_def summary_texts_def)
  then have "\<not> sublist ''extensions: ['' (u @ butlast ''extensions: ['')" by (auto dest!: set_mono_sublist)
  moreover have none: "split_once ''extensions: ['' (?items @ ''])'') = None"
  proof -
    have "CHR ''['' \<notin> set ?items"
      using assms(2) by (intro join_excludes) (auto simp: listable_def extension_names_def set_ext_text split: if_splits)
    moreover have "CHR ''['' \<notin> set w \<Longrightarrow> split_once ''extensions: ['' w = None" for w
      by (induction w) (auto dest: set_mono_prefix)
    ultimately show ?thesis by simp
  qed
  ultimately have "split_str ''extensions: ['' (format_certificate lib c) = [u, ?items @ ''])'']"
    unfolding shape by (subst split_str_first) (simp_all add: split_str.simps [of _ "?items @ _"] del: append_Cons)
  then show ?thesis by (simp add: extensions_field_def strip_suffix_def suffix_def)
qed

lemma split_extensions:
  assumes "listable lib c" "tbs_extensions c \<noteq> []"
  shows "split_str '', '' (join_with '', '' (map (ext_text lib) (tbs_extensions c))) = map (ext_text lib) (tbs_extensions c)"
  using assms by (intro split_items) (auto simp: listable_def extension_names_def set_ext_text split: if_splits)

text \<open>Of a summary with no such run, the size is all that is left for the assertion to test.\<close>

lemma summary_dump_iff:
  assumes "hex_digits c" "dump_free lib c"
  shows "assert_no_byte_dump (format_certificate lib c) = Some () \<longleftrightarrow> length (format_certificate lib c) < 1024"
  using no_byte_dump [OF summary_no_newline [OF assms] _ summary_commas_apart [OF assms]]
  by (auto simp: assert_no_byte_dump_def rust_assert_def split: if_splits)

subsection \<open>The tests pass\<close>

definition lists_extensions :: "('dn, 'ext) CertificateParams \<Rightarrow> certificate \<Rightarrow> bool" where
  "lists_extensions params c \<longleftrightarrow>
     (Testkit_Certificates.is_ca params \<noteq> NoCa \<longrightarrow>
        (\<exists>ext \<in> set (tbs_extensions c). ext_oid ext = basic_constraints_oid \<and> ext_critical ext)) \<and>
     (key_usages params \<noteq> [] \<longrightarrow> (\<exists>ext \<in> set (tbs_extensions c). ext_oid ext = key_usage_oid)) \<and>
     (subject_alt_names params \<noteq> [] \<longrightarrow> (\<exists>ext \<in> set (tbs_extensions c). ext_oid ext = subject_alt_name_oid))"

text \<open>
  What the tests rely on: the OID registry has the four short names, and a certificate the generator issues
  without extensions of the caller's own has the texts of \<open>summary_fields\<close> and lists the extensions its parameters
  ask for, name constraints included.
\<close>

definition format_setting ::
  "asn1_library \<Rightarrow> ('dn, 'ext, 'key) rcgen \<Rightarrow> (bytes \<Rightarrow> nom_err + bytes \<times> certificate) \<Rightarrow> ('dn, 'key) readings \<Rightarrow>
   ('dn RcNameConstraints \<Rightarrow> ('dn, 'ext) CertificateParams \<Rightarrow> ('dn, 'ext) CertificateParams) \<Rightarrow> bool" where
  "format_setting lib rc from_der rd with_name_constraints \<longleftrightarrow>
     testkit_setting rc from_der rd \<and> custom_extensions (rc_default rc) = [] \<and>
     algorithm_name lib basic_constraints_oid = ''basicConstraints'' \<and> algorithm_name lib key_usage_oid = ''keyUsage'' \<and>
     algorithm_name lib name_constraints_oid = ''nameConstraints'' \<and> algorithm_name lib subject_alt_name_oid = ''subjectAltName'' \<and>
     (\<forall>params key der rest c. plain_params rc params \<longrightarrow>
        rc_self_signed rc params key = Some der \<or> (\<exists>issuer. rc_signed_by rc params key issuer = Some der) \<longrightarrow>
        from_der der = Ok (rest, c) \<longrightarrow> summary_fields lib c \<and> lists_extensions params c) \<and>
     (\<forall>nc params. distinguished_name (with_name_constraints nc params) = distinguished_name params) \<and>
     (\<forall>nc params key issuer der rest c. plain_params rc params \<longrightarrow>
        rc_signed_by rc (with_name_constraints nc params) key issuer = Some der \<longrightarrow> from_der der = Ok (rest, c) \<longrightarrow>
        summary_fields lib c \<and> lists_extensions params c \<and>
        (\<exists>ext \<in> set (tbs_extensions c). ext_oid ext = name_constraints_oid))"

lemma format_settingD:
  assumes "format_setting lib rc from_der rd with_nc"
  shows "testkit_setting rc from_der rd" "custom_extensions (rc_default rc) = []"
    and "algorithm_name lib basic_constraints_oid = ''basicConstraints''" "algorithm_name lib key_usage_oid = ''keyUsage''"
      "algorithm_name lib name_constraints_oid = ''nameConstraints''" "algorithm_name lib subject_alt_name_oid = ''subjectAltName''"
    and "plain_params rc params \<Longrightarrow>
      rc_self_signed rc params key = Some der \<or> (\<exists>issuer. rc_signed_by rc params key issuer = Some der) \<Longrightarrow>
      from_der der = Ok (rest, c) \<Longrightarrow> summary_fields lib c \<and> lists_extensions params c"
    and "distinguished_name (with_nc nc params) = distinguished_name params"
    and "plain_params rc params \<Longrightarrow> rc_signed_by rc (with_nc nc params) key issuer = Some der \<Longrightarrow> from_der der = Ok (rest, c) \<Longrightarrow>
      summary_fields lib c \<and> lists_extensions params c \<and> (\<exists>ext \<in> set (tbs_extensions c). ext_oid ext = name_constraints_oid)"
  using assms unfolding format_setting_def by blast+

lemma testkit_cert_from_der: "testkit_cert from_der invalid der = Some c \<Longrightarrow> \<exists>rest. from_der der = Ok (rest, c)"
  by (auto simp: testkit_cert_def parse_def split: sum.splits prod.splits)

lemma base_params_plain:
  assumes "custom_extensions (rc_default rc) = []"
  shows "plain_params rc ((base_params rc cn)\<lparr>is_ca := a\<rparr>)" "plain_params rc ((base_params rc cn)\<lparr>subject_alt_names := sans\<rparr>)"
    "plain_params rc ((base_params rc cn)\<lparr>is_ca := a, key_usages := us\<rparr>)"
  using assms by (auto simp: plain_params_def named_params_def base_params_def)

text \<open>A root of the test kit: what is issued, and what its summary is made of.\<close>

lemma summarised_root:
  assumes set: "format_setting lib rc from_der rd with_nc" and "fresh \<noteq> None"
  obtains auth c where "self_signed_ca_with rc cn id fresh = Some auth" "testkit_cert from_der invalid (ca_der auth) = Some c"
    "distinguished_name (ca_params auth) = rc_dn_push_common_name rc (rc_dn_new rc) cn"
    "name_display (tbs_subject c) = ''CN='' @ cn" "name_display (tbs_issuer c) = ''CN='' @ cn"
    "summary_fields lib c" "\<exists>ext \<in> set (tbs_extensions c). ext_oid ext = basic_constraints_oid \<and> ext_critical ext"
proof -
  note S = format_settingD [OF set]
  let ?p = "(base_params rc cn)\<lparr>is_ca := IsCa Unconstrained\<rparr>"
  obtain auth c where auth: "self_signed_ca_with rc cn id fresh = Some auth" "testkit_cert from_der invalid (ca_der auth) = Some c"
      "distinguished_name (ca_params auth) = rc_dn_push_common_name rc (rc_dn_new rc) cn"
      "tbs_subject c = kit_name rc rd cn" "tbs_issuer c = kit_name rc rd cn"
    by (rule self_signed_ca_cert [OF S(1) assms(2)])
  obtain key where "rc_self_signed rc ?p key = Some (ca_der auth)"
    using auth(1) by (auto simp: self_signed_ca_with_def Let_def split: Option.bind_splits)
  then have "summary_fields lib c \<and> lists_extensions ?p c"
    using S(7) [OF base_params_plain(1) [OF S(2)]] testkit_cert_from_der [OF auth(2)] by blast
  then show thesis using that [OF auth(1-3)] auth(4,5) settingD(5) [OF S(1)] by (simp add: kit_name_def lists_extensions_def)
qed

text \<open>What a summary contains: its fields, without the comma and the space that precede them.\<close>

lemma contains_skip: "sublist p s \<Longrightarrow> sublist p (u @ s)"
  by (meson sublist_appendI sublist_append_leftI sublist_order.order.trans)

lemma contains_field: "sublist (drop 2 field @ t) (field @ t @ rest)" "sublist (drop 2 field) (field @ rest)"
  unfolding sublist_def by (metis append.assoc append_take_drop_id)+

lemma summary_contains:
  "sublist (drop 2 '', issuer: '' @ name_display (tbs_issuer c)) (format_certificate lib c)"
  "sublist (drop 2 '', subject: '' @ name_display (tbs_subject c)) (format_certificate lib c)"
  "sublist (drop 2 '', notValidBefore: '') (format_certificate lib c)"
  "sublist (drop 2 '', notValidAfter: '') (format_certificate lib c)"
  "sublist (drop 2 '', publicKey: '') (format_certificate lib c)" "sublist (drop 2 '', signature: '') (format_certificate lib c)"
  unfolding format_certificate_def by (intro contains_field contains_skip)+

lemma summary_contains_extension:
  assumes "ext \<in> set (tbs_extensions c)"
  shows "sublist (ext_text lib ext) (join_with '', '' (map (ext_text lib) (tbs_extensions c)))"
    and "sublist (ext_text lib ext) (format_certificate lib c)"
proof -
  show items: "sublist (ext_text lib ext) (join_with '', '' (map (ext_text lib) (tbs_extensions c)))"
    using assms by (intro join_contains) simp
  have "sublist (join_with '', '' (map (ext_text lib) (tbs_extensions c))) (format_extensions lib c)"
    unfolding format_extensions_texts by (rule sublist_appendI)
  then have "sublist (join_with '', '' (map (ext_text lib) (tbs_extensions c))) (format_extensions lib c @ '')'')"
    by (meson sublist_append_rightI sublist_order.order.trans)
  then have "sublist (join_with '', '' (map (ext_text lib) (tbs_extensions c))) (format_certificate lib c)"
    unfolding format_certificate_def by - (assumption | rule contains_skip)+
  with items show "sublist (ext_text lib ext) (format_certificate lib c)" by (rule sublist_order.order.trans)
qed

lemma summary_names_extension:
  assumes "ext \<in> set (tbs_extensions c)"
  shows "sublist (algorithm_name lib (ext_oid ext)) (join_with '', '' (map (ext_text lib) (tbs_extensions c)))"
    and "sublist (algorithm_name lib (ext_oid ext)) (format_certificate lib c)"
proof -
  have "sublist (algorithm_name lib (ext_oid ext)) (ext_text lib ext)" unfolding ext_text_def by (rule sublist_append_rightI)
  then show "sublist (algorithm_name lib (ext_oid ext)) (join_with '', '' (map (ext_text lib) (tbs_extensions c)))"
    "sublist (algorithm_name lib (ext_oid ext)) (format_certificate lib c)"
    using summary_contains_extension [OF assms] sublist_order.order.trans by blast+
qed

lemma plain_cn: "summary_fields lib c \<Longrightarrow> plain_text (''CN='' @ cn) \<Longrightarrow> plain_text (''CN='' @ cn') \<Longrightarrow>
    name_display (tbs_issuer c) = ''CN='' @ cn \<Longrightarrow> name_display (tbs_subject c) = ''CN='' @ cn' \<Longrightarrow>
    assert_no_byte_dump (format_certificate lib c) = Some () \<and> summary_names c"
  using plain_summary [of lib c] summary_dump_iff [of c lib] summary_short [of c lib] by (auto simp: summary_names_def)

lemma self_signed_ca_formats:
  assumes set: "format_setting lib rc from_der rd with_nc" and "fresh \<noteq> None"
  shows "formats_self_signed_ca lib rc (testkit_cert from_der invalid) fresh = Some ()"
proof -
  note S = format_settingD [OF set]
  obtain auth c where root: "self_signed_ca_with rc ''Test Root CA'' id fresh = Some auth"
      "testkit_cert from_der invalid (ca_der auth) = Some c"
      "name_display (tbs_subject c) = ''CN='' @ ''Test Root CA''" "name_display (tbs_issuer c) = ''CN='' @ ''Test Root CA''"
      "summary_fields lib c" "\<exists>ext \<in> set (tbs_extensions c). ext_oid ext = basic_constraints_oid \<and> ext_critical ext"
    by (rule summarised_root [OF assms, where cn = "''Test Root CA''"])
  have "plain_text (''CN='' @ ''Test Root CA'')" by (simp add: plain_text_def)
  with root have dump: "assert_no_byte_dump (format_certificate lib c) = Some ()" using plain_cn by blast
  obtain ext where "ext \<in> set (tbs_extensions c)" "ext_text lib ext = ''basicConstraints (critical)''"
    using root(6) by (auto simp: ext_text_def S(3))
  then have bc: "sublist ''basicConstraints (critical)'' (format_certificate lib c)"
    using summary_contains_extension(2) by metis
  have "prefix ''Certificate(version: v3, serialNumber: '' (format_certificate lib c)" "suffix '')'' (format_certificate lib c)"
    using root(5) by (simp_all add: format_certificate_def summary_fields_def lowercase_V3 suffix_def)
  then show ?thesis
    using summary_contains [where c = c and lib = lib] root bc dump by (simp add: formats_self_signed_ca_def rust_assert_def)
qed

lemma serial_number_formats:
  assumes set: "format_setting lib rc from_der rd with_nc" and "fresh \<noteq> None"
  shows "serial_number_is_hex_not_decimal_bytes lib rc (testkit_cert from_der invalid) fresh = Some ()"
proof -
  obtain auth c where root: "self_signed_ca_with rc ''Serial Root'' id fresh = Some auth"
      "testkit_cert from_der invalid (ca_der auth) = Some c" "summary_fields lib c"
    by (rule summarised_root [OF assms, where cn = "''Serial Root''"])
  then have hex: "hex_serial c" and "hex_digits c" by (simp_all add: summary_fields_def hex_serial_def hex_digits_def)
  then have "serial_field (format_certificate lib c) = Some (raw_serial_as_string c)" by (intro serial_field_summary)
  with root(1,2) hex show ?thesis by (simp add: serial_number_is_hex_not_decimal_bytes_def hex_serial_def rust_assert_def)
qed

lemma leaf_with_sans_formats:
  assumes set: "format_setting lib rc from_der rd with_nc" and fresh: "\<And>n. fresh n \<noteq> None"
  shows "formats_leaf_with_sans lib rc (testkit_cert from_der invalid) fresh = Some ()"
proof -
  note S = format_settingD [OF set]
  obtain auth where root: "self_signed_ca_with rc ''SAN Root'' id (fresh 0) = Some auth"
      "distinguished_name (ca_params auth) = rc_dn_push_common_name rc (rc_dn_new rc) ''SAN Root''"
    by (rule summarised_root [OF set fresh, where cn = "''SAN Root''"])
  let ?sans = "map SanDnsName [''www.example.com'', ''example.com'']"
  let ?p = "(base_params rc ''leaf'')\<lparr>subject_alt_names := ?sans\<rparr>"
  obtain key where key: "fresh (Suc 0) = Some key" using fresh by fastforce
  obtain der c where issued: "rc_signed_by rc ?p key (ca_issuer auth) = Some der" "testkit_cert from_der invalid der = Some c"
      "reads_base rd ?p key (distinguished_name (ca_params auth)) c"
    by (rule issued_cert [OF S(1) base_params_named(3)])
  have ia5: "rc_is_ia5 rc ''www.example.com''" "rc_is_ia5 rc ''example.com''"
    by (rule settingD(6) [OF S(1)], simp)+
  have leaf: "issue_leaf rc ''leaf'' [''www.example.com'', ''example.com''] auth (fresh 1) = Some der"
    using issued(1) ia5 key by (simp add: issue_leaf_def issue_leaf_with_def ia5_names_def)
  have fields: "summary_fields lib c" "lists_extensions ?p c"
    using S(7) [OF base_params_plain(2) [OF S(2)]] issued(1) testkit_cert_from_der [OF issued(2)] by blast+
  have names: "name_display (tbs_issuer c) = ''CN='' @ ''SAN Root''" "name_display (tbs_subject c) = ''CN='' @ ''leaf''"
    using issued(3) settingD(5) [OF S(1)] root(2) by (simp_all add: reads_base_def)
  have "plain_text (''CN='' @ ''SAN Root'')" "plain_text (''CN='' @ ''leaf'')" by (simp_all add: plain_text_def)
  then have dump: "assert_no_byte_dump (format_certificate lib c) = Some ()" "summary_names c"
    using plain_cn [OF fields(1) _ _ names] by blast+
  obtain ext where "ext \<in> set (tbs_extensions c)" "ext_oid ext = subject_alt_name_oid"
    using fields(2) by (auto simp: lists_extensions_def)
  then have "sublist ''subjectAltName'' (format_certificate lib c)"
    using summary_names_extension(2) [of ext c lib] S(6) by simp
  moreover have "\<not> sublist ''www.example.com'' (format_certificate lib c)"
    using ww_free_no_host [OF summary_ww_free [OF fields(1) dump(2)], of "''.example.com''"] by simp
  ultimately show ?thesis
    using summary_contains(1,2) [where c = c and lib = lib] root(1) leaf issued(2) names dump(1)
    by (simp add: formats_leaf_with_sans_def rust_assert_def)
qed

lemma listed_oids_distinct:
  "basic_constraints_oid \<noteq> key_usage_oid" "basic_constraints_oid \<noteq> name_constraints_oid" "key_usage_oid \<noteq> name_constraints_oid"
  by (simp_all add: basic_constraints_oid_def key_usage_oid_def name_constraints_oid_def)

lemma multiple_extensions_format:
  assumes set: "format_setting lib rc from_der rd with_nc" and fresh: "\<And>n. fresh n \<noteq> None"
  shows "formats_certificate_with_multiple_extensions with_nc lib rc (testkit_cert from_der invalid) fresh = Some ()"
proof -
  note S = format_settingD [OF set]
  obtain auth where root: "self_signed_ca_with rc ''Multi Root'' id (fresh 0) = Some auth"
      "distinguished_name (ca_params auth) = rc_dn_push_common_name rc (rc_dn_new rc) ''Multi Root''"
    by (rule summarised_root [OF set fresh, where cn = "''Multi Root''"])
  let ?nc = "name_constraints [dns_subtree ''example.com''] []"
  let ?p = "(base_params rc ''Multi Intermediate'')\<lparr>is_ca := is_ca_with (Some 0), key_usages := [KeyCertSign, KeyCrlSign]\<rparr>"
  have named: "named_params rc (with_nc ?nc ?p)" by (auto simp: named_params_def S(8))
  obtain key where key: "fresh (Suc 0) = Some key" using fresh by fastforce
  obtain der c where issued: "rc_signed_by rc (with_nc ?nc ?p) key (ca_issuer auth) = Some der"
      "testkit_cert from_der invalid der = Some c"
      "reads_base rd (with_nc ?nc ?p) key (distinguished_name (ca_params auth)) c"
    by (rule issued_cert [OF S(1) named])
  have ca: "\<exists>i. issue_ca rc ''Multi Intermediate'' auth (Some 0)
      (\<lambda>params. with_nc ?nc (params\<lparr>key_usages := [KeyCertSign, KeyCrlSign]\<rparr>)) (fresh 1) = Some i \<and> ca_der i = der"
    using issued(1) key by (simp add: issue_ca_def Let_def)
  have fields: "summary_fields lib c" "lists_extensions ?p c" "\<exists>ext \<in> set (tbs_extensions c). ext_oid ext = name_constraints_oid"
    using S(9) [OF base_params_plain(3) [OF S(2)] issued(1)] testkit_cert_from_der [OF issued(2)] by blast+
  have names: "name_display (tbs_issuer c) = ''CN='' @ ''Multi Root''" "name_display (tbs_subject c) = ''CN='' @ ''Multi Intermediate''"
    using issued(3) settingD(5) [OF S(1)] root(2) by (simp_all add: reads_base_def S(8))
  have "plain_text (''CN='' @ ''Multi Root'')" "plain_text (''CN='' @ ''Multi Intermediate'')" by (simp_all add: plain_text_def)
  then have dump: "assert_no_byte_dump (format_certificate lib c) = Some ()" "summary_names c"
    using plain_cn [OF fields(1) _ _ names] by blast+
  obtain e1 e2 e3 where listed: "e1 \<in> set (tbs_extensions c)" "ext_oid e1 = basic_constraints_oid" "ext_critical e1"
      "e2 \<in> set (tbs_extensions c)" "ext_oid e2 = key_usage_oid" "e3 \<in> set (tbs_extensions c)" "ext_oid e3 = name_constraints_oid"
    using fields(2,3) by (auto simp: lists_extensions_def is_ca_with_def)
  let ?items = "map (ext_text lib) (tbs_extensions c)"
  have "card {e1, e2, e3} = 3" using listed listed_oids_distinct by (auto simp: card_insert_if)
  moreover have "card {e1, e2, e3} \<le> card (set (tbs_extensions c))" using listed by (intro card_mono) auto
  ultimately have "3 \<le> length (tbs_extensions c)" using card_length [of "tbs_extensions c"] by linarith
  then have count: "3 \<le> length (split_str '', '' (join_with '', '' ?items))"
    using split_extensions [OF plain_summary(2) [OF fields(1) dump(2)]] by fastforce
  have "ext_text lib e1 = (algorithm_name lib (ext_oid e1) @ '' '') @ ''(critical)''" using listed(3) by (simp add: ext_text_def)
  then have "sublist ''(critical)'' (ext_text lib e1)" by (metis sublist_append_leftI)
  then have "sublist ''(critical)'' (join_with '', '' ?items)"
    using summary_contains_extension(1) [OF listed(1), of lib] sublist_order.order.trans by blast
  then show ?thesis
    using extensions_field_summary [OF plain_summary(1,2) [OF fields(1) dump(2)]] root(1) ca issued(2) dump(1) count S(3-5) listed
      summary_names_extension(1) [OF listed(1), of lib] summary_names_extension(1) [OF listed(4), of lib]
      summary_names_extension(1) [OF listed(6), of lib]
    by (auto simp: formats_certificate_with_multiple_extensions_def rust_assert_def)
qed

subsection \<open>Properties\<close>

text \<open>A parser that also lists the alternative names, and a registry with the four short names.\<close>

definition format_certificate_of :: "sample_entry \<Rightarrow> certificate" where
  "format_certificate_of entry =
     (let c = total_certificate entry
      in c\<lparr>tbs_extensions := tbs_extensions c @
           (if subject_alt_names (fst entry) = [] then [] else [flag_extension subject_alt_name_oid False])\<rparr>)"

definition format_from_der :: "bytes \<Rightarrow> nom_err + bytes \<times> certificate" where
  "format_from_der der = Ok ([], format_certificate_of (der_entry der))"

definition format_library :: asn1_library where
  "format_library =
     \<lparr>lib_oid2sn = (\<lambda>oid. Some
        (if oid = basic_constraints_oid then ''basicConstraints'' else if oid = key_usage_oid then ''keyUsage''
         else if oid = name_constraints_oid then ''nameConstraints'' else if oid = subject_alt_name_oid then ''subjectAltName''
         else ''unregistered'')),
      lib_to_id_string = (\<lambda>_. []), lib_oid_to_string = (\<lambda>_. [])\<rparr>"

definition constrained_params :: "string RcNameConstraints \<Rightarrow> sample_params \<Rightarrow> sample_params" where
  "constrained_params nc params = params\<lparr>custom_extensions := [(name_constraints_oid, [], True)]\<rparr>"

lemma format_library_plain: "plain_name (algorithm_name format_library oid)"
  by (simp add: format_library_def algorithm_name_def plain_name_def plain_text_def run_char_def)

lemma format_certificate_of_fields:
  "length (custom_extensions params) \<le> 3 \<Longrightarrow> summary_fields format_library (format_certificate_of (params, key, issuer))"
  by (simp add: summary_fields_def format_library_plain hex_serial_def serial_char_def plain_text_def format_certificate_of_def
      total_certificate_def register_certificate_def sample_certificate_def Let_def)

lemma format_certificate_of_lists: "lists_extensions params (format_certificate_of (params, key, issuer))"
  by (auto simp: lists_extensions_def format_certificate_of_def total_certificate_def register_certificate_def flag_extension_def Let_def)

lemma format_certificate_of_reads:
  "reads_base total_readings params key
     (case issuer of None \<Rightarrow> distinguished_name params | Some (q, _) \<Rightarrow> distinguished_name q) (format_certificate_of (params, key, issuer))"
  "custom_extensions params = [] \<Longrightarrow> reads_extensions params (format_certificate_of (params, key, issuer))"
proof -
  show "reads_base total_readings params key
     (case issuer of None \<Rightarrow> distinguished_name params | Some (q, _) \<Rightarrow> distinguished_name q) (format_certificate_of (params, key, issuer))"
    using total_certificate_base [of params key issuer] by (simp add: reads_base_def format_certificate_of_def Let_def)
  have same: "critical_oids (format_certificate_of e) = critical_oids (total_certificate e)"
      "tbs_basic_constraints (format_certificate_of e) = tbs_basic_constraints (total_certificate e)"
      "tbs_name_constraints (format_certificate_of e) = tbs_name_constraints (total_certificate e)"
      "tbs_subject_alternative_name (format_certificate_of e) = tbs_subject_alternative_name (total_certificate e)"
      "ext_extended_key_usage (format_certificate_of e) = ext_extended_key_usage (total_certificate e)"
      "tbs_extended_key_usage (format_certificate_of e) = tbs_extended_key_usage (total_certificate e)" for e
    by (auto simp: critical_oids_def format_certificate_of_def flag_extension_def Let_def)
  then show "reads_extensions params (format_certificate_of (params, key, issuer))" if "custom_extensions params = []"
    using total_certificate_extensions [OF that, of key issuer] by (simp add: reads_extensions_def reads_purposes_def)
qed

lemma format_library_names:
  "algorithm_name format_library basic_constraints_oid = ''basicConstraints''" "algorithm_name format_library key_usage_oid = ''keyUsage''"
  "algorithm_name format_library name_constraints_oid = ''nameConstraints''"
  "algorithm_name format_library subject_alt_name_oid = ''subjectAltName''"
  by (simp_all add: algorithm_name_def format_library_def basic_constraints_oid_def key_usage_oid_def name_constraints_oid_def
      subject_alt_name_oid_def)

lemma format_setting_sample: "format_setting format_library total_rcgen format_from_der total_readings constrained_params"
proof -
  have "parser_reads_back total_rcgen format_from_der total_readings"
    unfolding parser_reads_back_def
    using format_certificate_of_reads(1) [where issuer = None] format_certificate_of_reads(1) [where issuer = "Some (_, _)"]
      format_certificate_of_reads(2)
    by (auto simp: total_rcgen_def format_from_der_def)
  then have "testkit_setting total_rcgen format_from_der total_readings"
    using total_setting by (simp add: testkit_setting_def)
  moreover have "custom_extensions (rc_default total_rcgen) = []"
    by (simp add: total_rcgen_def register_rcgen_def sample_rcgen_def Let_def)
  moreover have "lists_extensions params (format_certificate_of (constrained_params nc params, key, issuer))" for nc params key issuer
    using format_certificate_of_lists [of "constrained_params nc params" key issuer] by (simp add: lists_extensions_def constrained_params_def)
  moreover have "\<exists>ext \<in> set (tbs_extensions (format_certificate_of (constrained_params nc params, key, issuer))). ext_oid ext = name_constraints_oid"
    for nc params key issuer
    by (simp add: format_certificate_of_def total_certificate_def constrained_params_def flag_extension_def Let_def)
  moreover have "summary_fields format_library (format_certificate_of (constrained_params nc params, key, issuer))" for nc params key issuer
    by (rule format_certificate_of_fields) (simp add: constrained_params_def)
  moreover have "rc_self_signed total_rcgen params key = Some (entry_der (params, key, None))"
    "rc_signed_by total_rcgen params key issuer = Some (entry_der (params, key, Some issuer))" for params key issuer
    by (simp_all add: total_rcgen_def)
  ultimately show ?thesis
    by (auto simp: format_setting_def plain_params_def format_from_der_def format_certificate_of_fields
        format_certificate_of_lists format_library_names) (simp add: constrained_params_def)
qed


text \<open>
  A certificate whose issuer is named in three parts and whose subject has the marker of the serial number in its name.
\<close>

definition marked_certificate :: certificate where
  "marked_certificate =
     (sample_certificate ''serialNumber: 99'' ''root, O=Org, C=US'')
       \<lparr>tbs_extensions := [flag_extension basic_constraints_oid True, flag_extension key_usage_oid False]\<rparr>"


text \<open>
  The four unit tests of the summary pass on whatever the generator issues and the parser reads back.
\<close>

theorem summary_tests_pass:
  assumes "format_setting lib rc from_der rd with_nc" "\<forall>n. fresh n \<noteq> None"
  shows "formats_self_signed_ca lib rc (testkit_cert from_der invalid) (fresh 0) = Some () \<and>
    serial_number_is_hex_not_decimal_bytes lib rc (testkit_cert from_der invalid) (fresh 0) = Some () \<and>
    formats_leaf_with_sans lib rc (testkit_cert from_der invalid) fresh = Some () \<and>
    formats_certificate_with_multiple_extensions with_nc lib rc (testkit_cert from_der invalid) fresh = Some ()"
  using assms(2)
  by (intro conjI self_signed_ca_formats [OF assms(1)] serial_number_formats [OF assms(1)] leaf_with_sans_formats [OF assms(1)]
      multiple_extensions_format [OF assms(1)]) simp_all

theorem summary_tests_pass_witness:
  "formats_leaf_with_sans format_library total_rcgen (testkit_cert format_from_der (X509Error [])) Some = Some ()"
  using summary_tests_pass [OF format_setting_sample, of Some "X509Error []"] by simp

end
