(* ===== verification/Example_Clock.thy ===== *)
theory Example_Clock
  imports Examples
begin

text \<open>
  The clock of the example programs: \<open>now\<close>, which each of them but \<^verbatim>\<open>apple_x5c.rs\<close> defines the same way, and a run of a program
  at a reading of the system clock. A reading is the number of whole seconds since 1970, negative before it;
  \<open>duration_since\<close> fails on those, and \<open>as_secs() as i64\<close> reads an unsigned number of seconds as a signed one.
\<close>

definition example_now :: "int \<Rightarrow> int may_panic" where
  "example_now clock = (if clock < 0 then panic else Some (sint (of_int clock :: 64 word)))"

text \<open>A program that asks the clock, and validates at what it says.\<close>

definition at_clock :: "example_env \<Rightarrow> int \<Rightarrow> (example_env \<Rightarrow> string list may_panic) \<Rightarrow> string list may_panic" where
  "at_clock env clock program = do {
     now \<leftarrow> example_now clock;
     program (env\<lparr>env_now := now\<rparr>) }"

lemma example_now_signed: "0 \<le> clock \<Longrightarrow> clock < 2 ^ 64 \<Longrightarrow> example_now clock = Some (signed_take_bit 63 clock)"
  by (simp add: example_now_def sint_uint uint_word_of_int)

lemma example_now_exact: "0 \<le> clock \<Longrightarrow> clock < 2 ^ 63 \<Longrightarrow> example_now clock = Some clock"
  using example_now_signed [of clock] signed_take_bit_int_eq_self [of 63 clock] by simp

lemma example_now_wraps:
  assumes "2 ^ 63 \<le> clock" "clock < 2 ^ 64"
  shows "example_now clock = Some (clock - 2 ^ 64)"
proof -
  have "take_bit 64 (clock + 2 ^ 63) = ((clock - 2 ^ 63) + 2 ^ 64) mod 2 ^ 64" by (simp add: take_bit_eq_mod add.commute)
  also have "\<dots> = (clock - 2 ^ 63) mod 2 ^ 64" by (rule mod_add_self2)
  also have "\<dots> = clock - 2 ^ 63" using assms by (intro mod_pos_pos_trivial) simp_all
  finally have "signed_take_bit 63 clock = clock - 2 ^ 64" by (simp add: signed_take_bit_eq_take_bit_shift)
  then show ?thesis using example_now_signed [of clock] assms by simp
qed

text \<open>
  The clock of the example programs. A reading before 1970 stops every one of them, whatever the certificates; a reading up to
  the largest signed number of seconds is the instant they validate at, exactly; beyond it the instant wraps
  around to before 1970.
\<close>

theorem example_clock:
  "(clock < 0 \<longrightarrow> at_clock env clock program = None) \<and>
   (0 \<le> clock \<and> clock < 2 ^ 63 \<longrightarrow> at_clock env clock program = program (env\<lparr>env_now := clock\<rparr>)) \<and>
   (2 ^ 63 \<le> clock \<and> clock < 2 ^ 64 \<longrightarrow>
      at_clock env clock program = program (env\<lparr>env_now := clock - 2 ^ 64\<rparr>) \<and> clock - 2 ^ 64 < 0)"
  using example_now_exact [of clock] example_now_wraps [of clock]
  by (auto simp: at_clock_def) (simp add: example_now_def)

end
