(* ===== verification/Spec2Isabelle.thy ===== *)
theory Spec2Isabelle
  imports Tls_Validation Fuzz_Targets Openssl_Backend Uri_Corpus Debug_Format Example_Verdicts Crypto_Tests Peer_Rows
    Format_Tests Example_Clock
begin

text \<open>
  A verification of x509-validator: the X.509 certificate chain validator under \<^verbatim>\<open>src/x509-validator\<close>, with
  its fuzz targets, test kit and example programs.

  \<^bold>\<open>The program.\<close> A \<open>Validator\<close> holds a root store, a policy and a signature backend. Given a leaf and a
  store of intermediates it searches for chains, leaf first: a stack of partial chains is extended by
  candidate issuers found by subject in the two stores, most suitable first; a candidate is skipped when
  it carries a critical extension the policy does not handle, when its identity is already in the
  chain, or when the backend does not verify the tip's signature under its key. A chain that reaches a
  root is handed to the policy; the first that the policy accepts is the result, and the rejections met
  before are the error list. Policies are composed by two macros; the crate provides the RFC 5280
  bundle (version, expiry, basic constraints, name constraints), extended key usage and server identity.

  \<^bold>\<open>Reading the model.\<close> \<open>'a may_panic\<close> is \<open>'a option\<close> where \<open>None\<close> is a panic of the code (an index out of range,
  a failed \<open>expect\<close> or assertion), so a theorem that a result is not \<open>None\<close> is a proof of panic freedom, and
  the functions are total HOL functions, so it is also a proof of termination. \<open>Result\<close> is the sum type, with
  \<open>Ok\<close> and \<open>Err\<close> for its injections. Bytes are \<open>8 word\<close>; strings are character lists, their UTF-8 encoding where
  the code works on bytes; machine integers that may wrap are words. \<open>&mut\<close> state is passed explicitly: the diagnostic
  callback is the list of events handed to it. Third-party crates are parameters: what x509-parser
  returns for a certificate is the record \<open>certificate\<close>, OID names are \<open>asn1_library\<close>, and the operations of ring,
  aws-lc-rs, the RustCrypto crates, OpenSSL and rcgen are records of functions about which nothing is
  assumed beyond their types.

  \<^bold>\<open>Theories.\<close>
  \<^item> \<open>Prelude\<close>: result and panic types, the lemma collections, and the generic lemmas on lists, options,
    words and the stable sort. \<open>Std_Net\<close>: the parts of the Rust standard library the host and address
    code calls (UTF-8 validation, IPv4 and IPv6 parsing, \<open>split_once\<close>).
  \<^item> \<open>Certificates\<close> (\<^verbatim>\<open>certificate.rs\<close>), \<open>Chains\<close> (\<^verbatim>\<open>unverified_chain.rs\<close>, \<^verbatim>\<open>validated_chain.rs\<close>), \<open>Store\<close>
    (\<^verbatim>\<open>store.rs\<close>): data, construction with its non-empty assertion, lookup after insertion.
  \<^item> \<open>Policies\<close> (\<^verbatim>\<open>policy.rs\<close>, \<^verbatim>\<open>policy_builder.rs\<close>, \<^verbatim>\<open>all_of_policies.rs\<close>, \<^verbatim>\<open>one_of_policies.rs\<close>,
    \<^verbatim>\<open>any_policy.rs\<close>): the trait as a record of its methods; the locales \<open>policy_contract\<close> and
    \<open>policy_contract_pair\<close> say when a policy returns on every non-empty chain and what it accepts, and are
    interpreted on every policy of the crate; the macros accept what all, or one, of their items accept.
  \<^item> \<open>Dns_Names\<close>, \<open>Ip_Constraints\<close>, \<open>Uri_Constraints\<close>, \<open>Name_Constraints\<close> (\<^verbatim>\<open>rfc5280/\<close> files of those names):
    the byte-level matchers equal reference definitions on label lists, prefix lengths and URI
    hosts; the policy accepts exactly the chains whose subordinate names meet every CA's subtrees.
  \<^item> \<open>Rfc5280_Basic\<close> (\<^verbatim>\<open>version_policy.rs\<close>, \<^verbatim>\<open>expiry_policy.rs\<close>, \<^verbatim>\<open>basic_constraints_policy.rs\<close>), \<open>Rfc5280\<close>
    (\<^verbatim>\<open>rfc5280/mod.rs\<close>), \<open>Eku\<close> (\<^verbatim>\<open>eku_policy.rs\<close>), \<open>Server_Identity\<close> (\<^verbatim>\<open>server_identity_policy.rs\<close>): verdict
    theorems, one per policy, against declarative conditions on the chain.
  \<^item> \<open>Crypto\<close> (\<^verbatim>\<open>crypto/\<close>): selection of the algorithm from signature and key OIDs, the three backends, the
    feature-dependent default; each backend accepts exactly what the crate's primitive for the
    selected algorithm accepts.
  \<^item> \<open>Diagnostics\<close>, \<open>Debug_Format\<close> (\<^verbatim>\<open>diagnostic.rs\<close>): events and their three renderings; the \<open>Debug\<close> form can be read
    back to the \<open>Display\<close> text it quotes.
  \<^item> \<open>Validator\<close> (\<^verbatim>\<open>validator.rs\<close>), \<open>Validator_Correct\<close>, \<open>Validator_Properties\<close>: the search; its refinement of a
    recursive enumeration of candidate chains in order of preference; soundness, completeness, the error
    list, panic freedom, and the agreement of the diagnostics with the result, proved in the locale
    \<open>validator_contract\<close>.
  \<^item> \<open>Tls_Validation\<close>: validator, policies and backends composed the way a TLS client composes them.
  \<^item> \<open>Fuzz_Targets\<close> (\<^verbatim>\<open>src/fuzz/fuzzers\<close>): the harnesses never panic, whatever the parser returns; framing reads
    back what was framed.
  \<^item> \<open>Openssl_Backend\<close>, \<open>Example_Issuers\<close>, \<open>Jws_Header\<close>, \<open>Examples\<close> (\<^verbatim>\<open>src/examples\<close>): the custom backend, the
    certificates the programs issue, the certificates a signed message carries and the proof that they are read back,
    and every \<open>main\<close> as a function from its environment to the lines it prints; what a line \<open>accepted\<close>
    means for the chain that was found.
  \<^item> \<open>Testkit_Der\<close> (\<^verbatim>\<open>raw.rs\<close>), \<open>Testkit_Certificates\<close> (\<^verbatim>\<open>ca.rs\<close>, \<^verbatim>\<open>leaf.rs\<close>, \<^verbatim>\<open>constraints.rs\<close>), \<open>Bench_Fixtures\<close>
    (\<^verbatim>\<open>parse.rs\<close>, \<^verbatim>\<open>bench_fixtures.rs\<close>) of \<^verbatim>\<open>src/x509-validator-testkit/src\<close>: the DER writer against a reader, the
    certificate builders, and what the certificates of the benchmark set are. \<open>Bench_Support\<close>
    (\<^verbatim>\<open>src/x509-validator-bench\<close>, the two library halves, and \<^verbatim>\<open>real_chain.rs\<close>): the backends compared, and the scenario
    policies, with the proof that the search goes past a forbidden certificate.
  \<^item> \<open>Generated_Chains\<close>: what the generator, the parser and the backends promise each other, as named conditions on the
    records that stand for them, and that the chains of the benchmarks validate under them. \<open>Example_Verdicts\<close>: the
    lines three of the example programs print under these conditions. \<open>Example_Clock\<close>: the programs at a reading of the
    system clock, and where its conversion to a signed number of seconds wraps around.
  \<^item> \<open>Chain_Tests\<close>, \<open>Testkit_Tests\<close>, \<open>Crypto_Tests\<close>: the unit tests inside \<^verbatim>\<open>src/x509-validator/src\<close> and the test kit, as
    functions that may panic, and that they pass; with a generator and a parser that keep the promises. \<open>Format_Tests\<close>:
    those of \<^verbatim>\<open>certificate.rs\<close>, and that the serial number and the extension list can be read back from a summary.
  \<^item> \<open>Bench_Parsers\<close> (\<^verbatim>\<open>roots.rs\<close>, \<^verbatim>\<open>parsers.rs\<close>, \<^verbatim>\<open>parse.rs\<close>), \<open>Parity_Certificates\<close>, \<open>Bench_Scenarios\<close>
    (\<^verbatim>\<open>rust_vs_swift.rs\<close>, \<^verbatim>\<open>validator.rs\<close>), \<open>Bench_Rows\<close> (\<^verbatim>\<open>policies.rs\<close>, \<^verbatim>\<open>verifiers.rs\<close>, \<^verbatim>\<open>internals.rs\<close>): the benchmark
    runners under \<^verbatim>\<open>src/x509-validator-bench\<close>. The facts about the parity set that follow from how it is issued, the
    search over its stores step by step, the verdict of each of the sixteen scenarios and the length of the chain or
    error list it ends with, and that the rows of the comparison, the vendored Apple chain included, time accepted
    validations. \<open>Fixture_Cells\<close>: the \<open>OnceLock\<close> statics that keep the fixtures, as a state the accessors step
    through, with the locale \<open>once_cell\<close> for what an accessor promises; a fixture is built once and never mixed, however
    the accesses interleave. \<open>Peer_Rows\<close>: the rows of rustls-webpki and openssl.
  \<^item> \<open>Corpora\<close>, \<open>Uri_Corpus\<close>: the tables of the matchers' conformance tests, every row of which holds of the model,
    and the cross product of the DNS table with the shapes of URIs, which holds by lemmas on the shapes.

  \<^bold>\<open>Termination and bounds.\<close> No definition uses fuel. The search loop ends because a push replaces a partial
  chain by longer ones whose unused intermediates are fewer, a descent in the multiset order; the label
  and slice loops descend in the remaining length. The count of subordinate CAs is a \<open>u32\<close>
  (\<open>32 word\<close>) in the code and the model, and the path-length theorem assumes chains shorter than \<open>2\<^sup>3\<^sup>2\<close>; other
  lengths are \<open>usize\<close> counts of objects in memory, and natural numbers here. A frame of the fuzz input and
  a value of the DER writer have two length bytes; the round trips are stated below 65536 bytes, and what happens
  above it is a theorem of its own.

  \<^bold>\<open>Not modelled.\<close> The certificate parser, the cryptographic crates, the certificate generator rcgen, the base64
  decoders, the benchmark harnesses themselves and the verifiers they compare with, rustls-webpki and openssl: they
  are third-party, and parameters here. The two \<^verbatim>\<open>lib.rs\<close> (re-exports). Ownership and lifetimes (\<open>Rc\<close>, \<open>Box\<close>, leaked
  allocations) have no counterpart: values are immutable once built. Two threads in one \<open>OnceLock\<close> take turns, so
  its accesses are a sequence.
\<close>

end
